(* ===== verification/Go_Prelude.thy ===== *)
theory Go_Prelude
  imports Main "HOL-Library.Monad_Syntax" "HOL-Library.Multiset"
begin

text \<open>
  Shared material of the development: how Go values, errors and run-time panics are
  represented, and the generic lemmas on lists the components share.

  A Go function that returns normally is a HOL function that returns its results and the
  new state. A function that can panic (nil dereference, index out of range, integer
  division by zero, close of a closed channel) or end the process (\<open>klog.Fatal\<close>,
  \<open>os.Exit\<close>) has an \<open>option\<close> type: \<open>None\<close> is "the process is gone", and the
  sequencing of such functions is the option monad, with the state passed explicitly.
\<close>

named_theorems model_defs "definitions of handlers, unfolded to evaluate or case-split them"
named_theorems world_only_intros "operations that change nothing of the controller but the world"

text \<open>The elimination rule of that sequencing, and the splits that go with it.\<close>

lemma bind_SomeE:
  assumes "Option.bind m f = Some y"
  obtains x where "m = Some x" and "f x = Some y"
  using assms by (cases m) auto

lemma not_None_triple: "x \<noteq> None \<Longrightarrow> \<exists>a b c. x = Some (a, b, c)"
  by (cases x) auto

lemmas asm_splits = prod.split_asm option.split_asm if_split_asm

section \<open>Errors\<close>

text \<open>
  Go compares errors by identity with the package-level sentinel values, asks the API
  machinery for their reason (\<open>apierrors.IsNotFound\<close>, \<open>errors.IsConflict\<close>) or prints
  them. Errors made by code outside the repository are \<open>Ext\<close> values: no library returns
  one of the repository's sentinels.
\<close>

datatype api_reason = NotFound | Conflict | AlreadyExists | OtherReason string

datatype ext_error =
    ApiStatus api_reason string   \<comment> \<open>a Kubernetes API status error\<close>
  | GrpcStatus string string      \<comment> \<open>a gRPC status error: code, message\<close>
  | PlainError string             \<comment> \<open>any other error of a library\<close>

datatype go_error =
    ErrObjectLocked
  | ErrMoreThanOneEphemeralIP
  | ErrNoIPAvailable
  | ErrPersistentPoolNotFound
  | ErrEphemeralPoolNotFound
  | ErrAllocationNotFound
  | ErrServiceNotFound
  | ErrOperatorNotReady
  | ErrNoOperatorNodeAvailable
  | ErrFailedToDialWithOperator
  | ErrAddrNotFound
  | ErrServerNotFound
  | ErrWaitTimeout
  | Errorf string                 \<comment> \<open>fmt.Errorf or errors.New at run time\<close>
  | Ext ext_error

fun ext_message :: "ext_error \<Rightarrow> string" where
  "ext_message (ApiStatus r m) = m"
| "ext_message (GrpcStatus c m) = ''rpc error: code = '' @ c @ '' desc = '' @ m"
| "ext_message (PlainError m) = m"

text \<open>The method \<open>Error()\<close> of the error interface.\<close>

fun error_message :: "go_error \<Rightarrow> string" where
  "error_message ErrObjectLocked =
     ''Allocation object is locked, some operation is still in progress''"
| "error_message ErrMoreThanOneEphemeralIP = ''Ephemeral allocation can contains at most one address''"
| "error_message ErrNoIPAvailable = ''No ip available''"
| "error_message ErrPersistentPoolNotFound = ''No pool available''"
| "error_message ErrEphemeralPoolNotFound = ''No pool available''"
| "error_message ErrAllocationNotFound = ''Allocation not found''"
| "error_message ErrServiceNotFound = ''Service not found''"
| "error_message ErrOperatorNotReady = ''Operator not ready''"
| "error_message ErrNoOperatorNodeAvailable = ''No operator node available''"
| "error_message ErrFailedToDialWithOperator = ''Failed to dial with operator''"
| "error_message ErrAddrNotFound = ''Floating IP not found''"
| "error_message ErrServerNotFound = ''Hetzner cloud node not found''"
| "error_message ErrWaitTimeout = ''timed out waiting for the condition''"
| "error_message (Errorf m) = m"
| "error_message (Ext e) = ext_message e"

fun IsNotFound :: "go_error \<Rightarrow> bool" where
  "IsNotFound (Ext (ApiStatus NotFound _)) = True"
| "IsNotFound _ = False"

fun IsConflict :: "go_error \<Rightarrow> bool" where
  "IsConflict (Ext (ApiStatus Conflict _)) = True"
| "IsConflict _ = False"

text \<open>\<open>status.FromError(err)\<close> of gRPC: is the error a gRPC status error?\<close>

fun is_grpc_status :: "go_error \<Rightarrow> bool" where
  "is_grpc_status (Ext (GrpcStatus _ _)) = True"
| "is_grpc_status _ = False"

lemma IsNotFoundE: "IsNotFound e \<Longrightarrow> \<exists>m. e = Ext (ApiStatus NotFound m)"
  by (cases e rule: IsNotFound.cases) auto

section \<open>Decimal rendering\<close>

text \<open>The verb \<open>%d\<close> of \<open>fmt\<close> and \<open>strconv.Itoa\<close> on non-negative integers.\<close>

definition digit_char :: "nat \<Rightarrow> char" where
  "digit_char d = char_of (48 + d)"

fun itoa :: "nat \<Rightarrow> string" where
  "itoa n = (if n < 10 then [digit_char n] else itoa (n div 10) @ [digit_char (n mod 10)])"

declare itoa.simps [simp del]

definition is_digit :: "char \<Rightarrow> bool" where
  "is_digit c \<longleftrightarrow> 48 \<le> (of_char c :: nat) \<and> (of_char c :: nat) \<le> 57"

definition digit_val :: "char \<Rightarrow> nat" where
  "digit_val c = of_char c - 48"

definition dec_val :: "string \<Rightarrow> nat" where
  "dec_val s = foldl (\<lambda>n c. n * 10 + digit_val c) 0 s"

lemma of_digit_char: "d < 10 \<Longrightarrow> (of_char (digit_char d) :: nat) = 48 + d"
  by (simp add: digit_char_def)

lemma digit_char_ok [simp]: "d < 10 \<Longrightarrow> is_digit (digit_char d)" "d < 10 \<Longrightarrow> digit_val (digit_char d) = d"
  by (simp_all add: is_digit_def digit_val_def of_digit_char)

lemma dec_val_snoc [simp]: "dec_val (s @ [c]) = dec_val s * 10 + digit_val c"
  by (simp add: dec_val_def)

lemma itoa_digits: "list_all is_digit (itoa n)"
proof (induction n rule: itoa.induct)
  case (1 n)
  then show ?case by (subst itoa.simps) auto
qed

lemma dec_val_itoa: "dec_val (itoa n) = n"
proof (induction n rule: itoa.induct)
  case (1 n)
  show ?case
  proof (cases "n < 10")
    case True
    then show ?thesis by (subst itoa.simps) (simp add: dec_val_def)
  next
    case False
    with 1 have "dec_val (itoa (n div 10)) = n div 10" by simp
    with False show ?thesis by (subst itoa.simps) simp
  qed
qed

lemma itoa_not_Nil [simp]: "itoa n \<noteq> []"
  by (subst itoa.simps) simp

definition itoa_int :: "int \<Rightarrow> string" where
  "itoa_int i = (if i < 0 then CHR ''-'' # itoa (nat (- i)) else itoa (nat i))"

section \<open>Lists: first index, update, removal by swap\<close>

text \<open>The index of the first element that satisfies a predicate (a \<open>for ... range\<close> with
  \<open>break\<close> or \<open>return\<close>).\<close>

fun find_index :: "('a \<Rightarrow> bool) \<Rightarrow> 'a list \<Rightarrow> nat option" where
  "find_index P [] = None"
| "find_index P (x # xs) = (if P x then Some 0 else map_option Suc (find_index P xs))"

lemma find_index_None: "find_index P xs = None \<longleftrightarrow> (\<forall>x \<in> set xs. \<not> P x)"
  by (induction xs) auto

lemma find_index_Some:
  "find_index P xs = Some i \<Longrightarrow> i < length xs \<and> P (xs ! i) \<and> (\<forall>j < i. \<not> P (xs ! j))"
proof (induction xs arbitrary: i)
  case Nil
  then show ?case by simp
next
  case (Cons x xs)
  then show ?case
    by (auto split: if_splits simp: less_Suc_eq_0_disj)
qed

lemma find_index_lt: "find_index P xs = Some i \<Longrightarrow> i < length xs"
  using find_index_Some by blast

lemma find_index_sat: "find_index P xs = Some i \<Longrightarrow> P (xs ! i)"
  using find_index_Some by blast

lemma find_index_ex: "x \<in> set xs \<Longrightarrow> P x \<Longrightarrow> \<exists>i. find_index P xs = Some i"
  by (cases "find_index P xs") (auto simp: find_index_None)

lemma find_index_snoc:
  "find_index P (xs @ [y]) =
     (case find_index P xs of Some i \<Rightarrow> Some i | None \<Rightarrow> if P y then Some (length xs) else None)"
  by (induction xs) (auto split: option.splits)

text \<open>
  The repository removes the element at index \<open>i\<close> of a slice by copying the last element
  over it and truncating the slice.
\<close>

definition swap_remove :: "nat \<Rightarrow> 'a list \<Rightarrow> 'a list" where
  "swap_remove i xs = butlast (xs[i := last xs])"

lemma length_swap_remove [simp]: "length (swap_remove i xs) = length xs - 1"
  by (simp add: swap_remove_def)

lemma mset_swap_remove:
  assumes "i < length xs"
  shows "mset (swap_remove i xs) + {#xs ! i#} = mset xs"
proof (cases "i = length xs - 1")
  case True
  from assms have "xs \<noteq> []" by auto
  with True have last: "last xs = xs ! i" by (simp add: last_conv_nth)
  then have "xs[i := last xs] = xs" by simp
  then have "swap_remove i xs = butlast xs" by (simp add: swap_remove_def)
  moreover from \<open>xs \<noteq> []\<close> have "mset (butlast xs @ [last xs]) = mset xs"
    by simp
  ultimately show ?thesis using last by simp
next
  case False
  with assms have i: "i < length (butlast xs)" by simp
  let ?b = "butlast xs" and ?l = "last xs"
  from assms have "xs \<noteq> []" by auto
  then have xs: "xs = ?b @ [?l]" by simp
  with i have "swap_remove i xs = ?b[i := ?l]"
    by (metis swap_remove_def butlast_snoc list_update_append1)
  moreover have "xs ! i = ?b ! i" using i xs by (metis nth_append)
  moreover have "mset (?b[i := ?l]) + {#?b ! i#} = mset ?b + {#?l#}"
    using i by (simp add: mset_update nth_mem_mset)
  moreover have "mset xs = mset ?b + {#?l#}"
    using arg_cong [OF xs, of mset] by simp
  ultimately show ?thesis by simp
qed


lemma set_swap_remove:
  assumes "i < length xs"
  shows "set xs = insert (xs ! i) (set (swap_remove i xs))"
proof -
  have "set_mset (mset (swap_remove i xs) + {#xs ! i#}) = set_mset (mset xs)"
    by (simp only: mset_swap_remove [OF assms])
  then show ?thesis by auto
qed

lemma swap_remove_update [simp]:
  assumes "i < length xs"
  shows "swap_remove i (xs[i := x]) = swap_remove i xs"
proof (cases "i = length xs - 1")
  case True
  then show ?thesis by (simp add: swap_remove_def butlast_list_update)
next
  case False
  from assms have "xs \<noteq> []" by auto
  with False have "last (xs[i := x]) = last xs" by (simp add: last_list_update)
  then show ?thesis by (simp add: swap_remove_def)
qed

text \<open>Writing index \<open>i\<close> replaces that element and keeps the others, which are the elements
  that removing index \<open>i\<close> would leave.\<close>

lemma set_update_swap_remove:
  "i < length xs \<Longrightarrow> set (xs[i := x]) = insert x (set (swap_remove i xs))"
  using set_swap_remove [of i "xs[i := x]"] by simp

lemma distinct_map_swap_remove:
  assumes i: "i < length xs" and d: "distinct (map f xs)"
  shows "distinct (map f (swap_remove i xs))" and "f (xs ! i) \<notin> f ` set (swap_remove i xs)"
proof -
  have "mset (f (xs ! i) # map f (swap_remove i xs)) = mset (map f xs)"
    using arg_cong [OF mset_swap_remove [OF i], of "image_mset f"] by simp
  then have "distinct (f (xs ! i) # map f (swap_remove i xs)) = distinct (map f xs)"
    by (rule mset_eq_imp_distinct_iff)
  with d have "distinct (f (xs ! i) # map f (swap_remove i xs))" by simp
  then show "distinct (map f (swap_remove i xs))" "f (xs ! i) \<notin> f ` set (swap_remove i xs)"
    by auto
qed

text \<open>In a list with distinct keys the first element with a key is the only one.\<close>

lemma find_index_key:
  assumes "i < length xs" and "distinct (map f xs)" and "f (xs ! i) = k"
  shows "find_index (\<lambda>x. f x = k) xs = Some i"
proof -
  from assms have "xs ! i \<in> set xs" by simp
  then obtain j where j: "find_index (\<lambda>x. f x = k) xs = Some j"
    using find_index_ex [of "xs ! i" xs "\<lambda>x. f x = k"] assms(3) by blast
  then have "j < length xs" and "f (xs ! j) = k"
    by (auto dest: find_index_lt find_index_sat)
  then have "map f xs ! j = map f xs ! i" using assms by simp
  moreover have "j < length (map f xs)" "i < length (map f xs)"
    using assms(1) \<open>j < length xs\<close> by simp_all
  ultimately have "j = i" using assms(2) nth_eq_iff_index_eq by blast
  with j show ?thesis by simp
qed

end
