(* ===== verification/Api_Types.thy ===== *)
theory Api_Types
  imports Go_Prelude
begin

text \<open>
  The data of the system: the custom resources of \<open>pkg/apis/loadbalancing/v1alpha1\<close>
  (IP pools and IP allocations) and the parts of the Kubernetes core objects (services,
  pods) the controller reads or writes. A pointer field of Go that may be nil is an
  \<open>option\<close>; a string type with declared constants is a datatype with those constants,
  the empty string and any other string.
\<close>

section \<open>Object metadata\<close>

record ObjectMeta =
  Name :: string
  Namespace :: string
  Labels :: "(string \<times> string) list"
  ResourceVersion :: string

section \<open>types.go\<close>

record HostNetworkInterfaceOptions =
  AddAddressesToInterface :: bool
  InterfaceName :: string

record PoolOptions =
  HostNetworkInterface :: "HostNetworkInterfaceOptions option"

record HetznerCloud =
  Token :: string

record CloudIntegrations =
  Hetzner :: "HetznerCloud option"

record IPPoolStatus =
  PoolState :: string
  PoolMessage :: string

section \<open>persistentIPPool_types.go, ephemeralIPPool_types.go\<close>

record PersistentIPPoolSpec =
  Addresses :: "string list"
  PAllowedNamespaces :: "string list"
  PCloudIntegration :: "CloudIntegrations option"
  POptions :: "PoolOptions option"

record PersistentIPPool =
  PMeta :: ObjectMeta
  PSpec :: PersistentIPPoolSpec
  PStatus :: IPPoolStatus

record EphemeralIPPoolSpec =
  EAllowedNamespaces :: "string list"
  ECloudIntegration :: "CloudIntegrations option"
  EOptions :: "PoolOptions option"

record EphemeralIPPool =
  EMeta :: ObjectMeta
  ESpec :: EphemeralIPPoolSpec
  EStatus :: IPPoolStatus

section \<open>IPAllocation_types.go\<close>

datatype IPType = EphemeralIP | PersistentIP | IPTypeOther string

fun IPType_string :: "IPType \<Rightarrow> string" where
  "IPType_string EphemeralIP = ''ephemeral''"
| "IPType_string PersistentIP = ''persistent''"
| "IPType_string (IPTypeOther s) = s"

record IPAllocationAddresses =
  Address :: string
  NetworkInterface :: string
  NodeName :: string
  CloudProvider :: string
  Pool :: string

record IPAllocationSpec =
  AllocationType :: IPType
  Allocations :: "IPAllocationAddresses list"

datatype AllocationStatus =
    AllocationStatusEmpty
  | AllocationStatusSuccess
  | AllocationStatusError
  | AllocationStatusFailed
  | AllocationStatusNodeError
  | AllocationStatusPending
  | AllocationStatusAddrDeleted
  | AllocationStatusOther string

fun AllocationStatus_string :: "AllocationStatus \<Rightarrow> string" where
  "AllocationStatus_string AllocationStatusEmpty = ''''"
| "AllocationStatus_string AllocationStatusSuccess = ''success''"
| "AllocationStatus_string AllocationStatusError = ''error''"
| "AllocationStatus_string AllocationStatusFailed = ''failed''"
| "AllocationStatus_string AllocationStatusNodeError = ''node_error''"
| "AllocationStatus_string AllocationStatusPending = ''pending''"
| "AllocationStatus_string AllocationStatusAddrDeleted = ''address_deleted_from_pool''"
| "AllocationStatus_string (AllocationStatusOther s) = s"

record IPAllocationStatus =
  State :: AllocationStatus
  Message :: string

record IPAllocation =
  AMeta :: ObjectMeta
  ASpec :: IPAllocationSpec
  AStatus :: IPAllocationStatus

text \<open>The zero values of the structs (\<open>&IPAllocation{}\<close>, \<open>&IPAllocationAddresses{}\<close>).\<close>

definition zero_ObjectMeta :: ObjectMeta where
  "zero_ObjectMeta = \<lparr>Name = '''', Namespace = '''', Labels = [], ResourceVersion = ''''\<rparr>"

definition zero_IPAllocationAddresses :: IPAllocationAddresses where
  "zero_IPAllocationAddresses =
     \<lparr>Address = '''', NetworkInterface = '''', NodeName = '''', CloudProvider = '''', Pool = ''''\<rparr>"

definition zero_IPAllocation :: IPAllocation where
  "zero_IPAllocation =
     \<lparr>AMeta = zero_ObjectMeta,
      ASpec = \<lparr>AllocationType = IPTypeOther '''', Allocations = []\<rparr>,
      AStatus = \<lparr>State = AllocationStatusEmpty, Message = ''''\<rparr>\<rparr>"

section \<open>Accessors the code uses\<close>

abbreviation PGetName :: "PersistentIPPool \<Rightarrow> string" where
  "PGetName p \<equiv> Name (PMeta p)"

abbreviation EGetName :: "EphemeralIPPool \<Rightarrow> string" where
  "EGetName p \<equiv> Name (EMeta p)"

abbreviation AGetName :: "IPAllocation \<Rightarrow> string" where
  "AGetName a \<equiv> Name (AMeta a)"

abbreviation AGetNamespace :: "IPAllocation \<Rightarrow> string" where
  "AGetNamespace a \<equiv> Namespace (AMeta a)"

abbreviation alloc_addresses :: "IPAllocation \<Rightarrow> IPAllocationAddresses list" where
  "alloc_addresses a \<equiv> Allocations (ASpec a)"

abbreviation alloc_state :: "IPAllocation \<Rightarrow> AllocationStatus" where
  "alloc_state a \<equiv> State (AStatus a)"

abbreviation pool_addresses :: "PersistentIPPool \<Rightarrow> string list" where
  "pool_addresses p \<equiv> Addresses (PSpec p)"

text \<open>The field writes \<open>pool.Spec.Addresses = ...\<close>, \<open>allocation.Spec.Allocations = ...\<close>
  and the two writes of a status.\<close>

definition set_pool_addresses :: "string list \<Rightarrow> PersistentIPPool \<Rightarrow> PersistentIPPool" where
  "set_pool_addresses as p = p\<lparr>PSpec := (PSpec p)\<lparr>Addresses := as\<rparr>\<rparr>"

definition set_alloc_addresses :: "IPAllocationAddresses list \<Rightarrow> IPAllocation \<Rightarrow> IPAllocation" where
  "set_alloc_addresses as a = a\<lparr>ASpec := (ASpec a)\<lparr>Allocations := as\<rparr>\<rparr>"

definition set_alloc_status :: "AllocationStatus \<Rightarrow> string \<Rightarrow> IPAllocation \<Rightarrow> IPAllocation" where
  "set_alloc_status st m a = a\<lparr>AStatus := \<lparr>State = st, Message = m\<rparr>\<rparr>"

lemma set_pool_addresses_simps [simp]:
  "PMeta (set_pool_addresses as p) = PMeta p"
  "pool_addresses (set_pool_addresses as p) = as"
  "PAllowedNamespaces (PSpec (set_pool_addresses as p)) = PAllowedNamespaces (PSpec p)"
  "PCloudIntegration (PSpec (set_pool_addresses as p)) = PCloudIntegration (PSpec p)"
  "POptions (PSpec (set_pool_addresses as p)) = POptions (PSpec p)"
  "set_pool_addresses bs (set_pool_addresses as p) = set_pool_addresses bs p"
  by (simp_all add: set_pool_addresses_def)

lemma set_alloc_addresses_simps [simp]:
  "AMeta (set_alloc_addresses as a) = AMeta a"
  "AStatus (set_alloc_addresses as a) = AStatus a"
  "alloc_addresses (set_alloc_addresses as a) = as"
  "AllocationType (ASpec (set_alloc_addresses as a)) = AllocationType (ASpec a)"
  by (simp_all add: set_alloc_addresses_def)

lemma set_alloc_addresses_id: "set_alloc_addresses as a = a \<longleftrightarrow> as = alloc_addresses a"
  by (cases a, cases "ASpec a") (auto simp: set_alloc_addresses_def)

lemma set_alloc_status_simps [simp]:
  "AMeta (set_alloc_status st m a) = AMeta a"
  "ASpec (set_alloc_status st m a) = ASpec a"
  "alloc_state (set_alloc_status st m a) = st"
  "Message (AStatus (set_alloc_status st m a)) = m"
  by (simp_all add: set_alloc_status_def)

section \<open>Kubernetes core objects\<close>

datatype ServiceType =
  ServiceTypeClusterIP | ServiceTypeNodePort | ServiceTypeLoadBalancer | ServiceTypeExternalName
  | ServiceTypeOther string

record LoadBalancerIngress =
  IP :: string
  Hostname :: string

record Service =
  SMeta :: ObjectMeta
  SType :: ServiceType
  ExternalIPs :: "string list"
  Ingress :: "LoadBalancerIngress list"

abbreviation SGetName :: "Service \<Rightarrow> string" where
  "SGetName s \<equiv> Name (SMeta s)"

abbreviation SGetNamespace :: "Service \<Rightarrow> string" where
  "SGetNamespace s \<equiv> Namespace (SMeta s)"

record PodCondition =
  CondType :: string
  CondStatus :: string

record Pod =
  PodMeta :: ObjectMeta
  PodNodeName :: string
  PodIP :: string
  Conditions :: "PodCondition list"

text \<open>
  An informer store holds \<open>interface{}\<close> values; the code asserts the type of each element
  and treats an element of another type as an error.
\<close>

datatype k8s_obj =
    PersistentIPPoolObj PersistentIPPool
  | EphemeralIPPoolObj EphemeralIPPool
  | IPAllocationObj IPAllocation
  | ServiceObj Service
  | PodObj Pod
  | OtherObj string

text \<open>The namespace/name key under which locks and backoffs are kept.\<close>

definition obj_key :: "string \<Rightarrow> string \<Rightarrow> string" where
  "obj_key ns name = ns @ ''/'' @ name"

lemma obj_key_inject:
  assumes "CHR ''/'' \<notin> set ns" and "CHR ''/'' \<notin> set ns'"
    and "obj_key ns name = obj_key ns' name'"
  shows "ns = ns' \<and> name = name'"
  using assms
proof (induction ns arbitrary: ns')
  case Nil
  then show ?case by (cases ns') (auto simp: obj_key_def)
next
  case (Cons c ns)
  then obtain c' ns'' where "ns' = c' # ns''"
    by (cases ns') (auto simp: obj_key_def)
  with Cons show ?case by (auto simp: obj_key_def)
qed

end
