(* ===== verification/K8s_Workloads.thy ===== *)
theory K8s_Workloads
  imports Api_Types
begin

text \<open>
  The parts of the Kubernetes workload objects (daemon sets) and of the custom resource
  definitions that the controller fills in or reads. The types come from the Kubernetes
  API; the record fields are the ones the repository uses.
\<close>

section \<open>Daemon sets\<close>

record ContainerPort =
  PortName :: string
  Protocol :: string
  PortNumber :: int

record Probe =
  ProbePath :: string
  ProbePort :: string
  InitialDelaySeconds :: int
  PeriodSeconds :: int
  FailureThreshold :: int

datatype EnvValue = Literal string | FieldRef string

record EnvVar =
  EnvName :: string
  EnvVal :: EnvValue

record Toleration =
  TolKey :: string
  TolEffect :: string
  TolOperator :: string
  TolSeconds :: "int option"

record Container =
  ContainerName :: string
  Image :: string
  ImagePullPolicy :: string
  Privileged :: bool
  Ports :: "ContainerPort list"
  LivenessProbe :: Probe
  ReadinessProbe :: Probe
  EnvVars :: "EnvVar list"
  ResourceRequests :: "(string \<times> string) list"
  ResourceLimits :: "(string \<times> string) list"

record DaemonSet =
  DSMeta :: ObjectMeta
  SelectorMatchLabels :: "(string \<times> string) list"
  TemplateLabels :: "(string \<times> string) list"
  ImagePullSecrets :: "string list"
  HostNetwork :: bool
  Containers :: "Container list"
  Tolerations :: "Toleration list"

section \<open>Custom resource definitions\<close>

text \<open>The subset of \<open>JSONSchemaProps\<close> the validation schemas use.\<close>

datatype schema =
  Schema
    (schema_type: string)
    (schema_required: "string list")
    (schema_props: "(string \<times> schema) list")
    (schema_items: "schema option")
    (schema_enum: "string list")
    (schema_min_length: "int option")
    (schema_one_of: "schema list")
    (schema_no_additional: bool)

record PrinterColumn =
  ColName :: string
  ColType :: string
  ColPath :: string

record CRDCondition =
  CRDCondType :: string
  CRDCondStatus :: string

record CRD =
  CRDMeta :: ObjectMeta
  CRDGroupName :: string
  CRDVersionName :: string
  CRDServed :: bool
  CRDStorage :: bool
  CRDSchema :: schema
  CRDStatusSubresource :: bool
  CRDPrinterColumns :: "PrinterColumn list"
  CRDScope :: string
  CRDSingular :: string
  CRDPlural :: string
  CRDKind :: string
  CRDCategories :: "string list"
  CRDShortNames :: "string list"
  CRDPreserveUnknownFields :: bool
  CRDConditions :: "CRDCondition list"

end
