(* ===== verification/Environment.thy ===== *)
theory Environment
  imports K8s_Workloads
begin

text \<open>
  What the controller keeps itself (\<open>sys\<close>) and what it calls outside the repository
  (\<open>env\<close>). Everything outside (the API server, the informer caches, the operators behind
  gRPC, the Hetzner client, the random source, the retry loops of client-go) is a field of
  \<open>env\<close> over an abstract world \<open>'w\<close>, so every statement holds for whatever these
  parties do, unless a hypothesis of the statement says what is relied on.
\<close>

section \<open>Requests of the typed client\<close>

datatype verb = GET | POST | PUT | DELETE | PATCH string

datatype 'b rest_body = NoBody | ObjBody 'b | OptionsBody | RawBody string

record 'b rest_request =
  rq_verb :: verb
  rq_namespace :: "string option"
  rq_resource :: string
  rq_name :: "string option"
  rq_subresources :: "string list"
  rq_body :: "'b rest_body"
  rq_watch :: bool
  rq_timeout :: "int option"   \<comment> \<open>nanoseconds\<close>

section \<open>gRPC messages\<close>

record AddressInfo =
  InfoAddress :: string
  InfoInterface :: string

section \<open>Hetzner client\<close>

record HServer =
  HServerID :: int
  HServerName :: string

record HFloatingIP =
  HIPID :: int
  HIPAddress :: string        \<comment> \<open>\<open>IP.String()\<close>\<close>

record HResponse =
  StatusCode :: int
  HBody :: "ext_error + string"   \<comment> \<open>what reading the body gives\<close>
  HHeader :: "string \<Rightarrow> string"

record FloatingIPCreateOpts =
  OptType :: string
  OptServer :: HServer
  OptLabels :: "(string \<times> string) list"
  OptName :: string

section \<open>The state of the controller process\<close>

datatype chan_state = ChanNil | ChanOpen | ChanClosed

text \<open>What is pushed to the channels of \<open>pkg/controller/events\<close>. The buffer of a channel
  and the senders that wait for a place in it form one queue in the order of the sends.\<close>

datatype bus_event =
    PersistentPoolModifiedEv PersistentIPPool
  | PersistentPoolDeletedEv PersistentIPPool
  | EphemeralPoolModifiedEv EphemeralIPPool
  | EphemeralPoolDeletedEv EphemeralIPPool
  | OperatorNodeLostEv string
  | NewOperatorNodeEv string

record 'w sys =
  world :: 'w
  availablesPools :: "PersistentIPPool list"
  lockedObjects :: "string \<rightharpoonup> string"
  errorAllocationsBackoffDict :: "string list"
  deployed :: bool
  operatorNodesStoreBuilt :: bool
  stopWatch :: chan_state
  bus :: "bus_event list"

type_synonym 's attempt = "'s \<Rightarrow> (go_error option \<times> 's) option"
type_synonym 's retrier = "(go_error \<Rightarrow> bool) \<Rightarrow> 's attempt \<Rightarrow> 's attempt"

section \<open>The environment\<close>

record 'w env =
  \<comment> \<open>informer caches\<close>
  persistentPoolsStore :: "'w \<Rightarrow> k8s_obj list"
  ephemeralPoolsStore :: "'w \<Rightarrow> k8s_obj list"
  allocationStore :: "'w \<Rightarrow> k8s_obj list"
  servicesStore :: "'w \<Rightarrow> k8s_obj list"
  servicesHasSynced :: "'w \<Rightarrow> bool"
  operatorNodesStore :: "'w \<Rightarrow> k8s_obj list"
  \<comment> \<open>REST client of the loadbalancing API group\<close>
  rest_allocation :: "IPAllocation rest_request \<Rightarrow> 'w \<Rightarrow> (ext_error + IPAllocation) \<times> 'w"
  rest_allocation_list :: "IPAllocation rest_request \<Rightarrow> 'w \<Rightarrow> (ext_error + IPAllocation list) \<times> 'w"
  rest_persistent_list ::
    "PersistentIPPool rest_request \<Rightarrow> 'w \<Rightarrow> (ext_error + PersistentIPPool list) \<times> 'w"
  rest_ephemeral_list ::
    "EphemeralIPPool rest_request \<Rightarrow> 'w \<Rightarrow> (ext_error + EphemeralIPPool list) \<times> 'w"
  \<comment> \<open>core API\<close>
  services_get :: "string \<Rightarrow> string \<Rightarrow> 'w \<Rightarrow> (ext_error + Service) \<times> 'w"
  services_update_status :: "string \<Rightarrow> Service \<Rightarrow> 'w \<Rightarrow> (ext_error + Service) \<times> 'w"
  nodes_list :: "'w \<Rightarrow> (ext_error + string list) \<times> 'w"
  pods_list :: "string \<Rightarrow> (string \<times> string) list \<Rightarrow> 'w \<Rightarrow> (Pod list \<times> ext_error option) \<times> 'w"
  daemonset_get :: "string \<Rightarrow> string \<Rightarrow> 'w \<Rightarrow> (ext_error + DaemonSet) \<times> 'w"
  daemonset_create :: "string \<Rightarrow> DaemonSet \<Rightarrow> 'w \<Rightarrow> (ext_error + DaemonSet) \<times> 'w"
  daemonset_update :: "string \<Rightarrow> DaemonSet \<Rightarrow> 'w \<Rightarrow> (ext_error + DaemonSet) \<times> 'w"
  daemonset_delete :: "string \<Rightarrow> string \<Rightarrow> 'w \<Rightarrow> ext_error option \<times> 'w"
  \<comment> \<open>custom resource definitions and server version (major, minor)\<close>
  server_version :: "'w \<Rightarrow> (ext_error + string \<times> string) \<times> 'w"
  crd_get :: "string \<Rightarrow> 'w \<Rightarrow> (ext_error + CRD) \<times> 'w"
  crd_create :: "CRD \<Rightarrow> 'w \<Rightarrow> (ext_error + CRD) \<times> 'w"
  crd_update :: "CRD \<Rightarrow> 'w \<Rightarrow> (ext_error + CRD) \<times> 'w"
  \<comment> \<open>the informers: a new one, an explicit insertion in its store, starting it\<close>
  informer_new :: "string \<Rightarrow> string \<Rightarrow> (string \<times> string) list \<Rightarrow> 'w \<Rightarrow> 'w"
  informer_add :: "string \<Rightarrow> k8s_obj \<Rightarrow> 'w \<Rightarrow> 'w"
  informer_run :: "string \<Rightarrow> 'w \<Rightarrow> 'w"
  \<comment> \<open>client-go retry loops and wait.Poll, per type of the captured variables\<close>
  retry_lock :: "'w sys retrier"
  retry_allocation :: "(IPAllocation option \<times> 'w) retrier"
  retry_pod :: "(Pod option \<times> 'w) retrier"
  retry_daemonset :: "'w retrier"
  poll :: "int \<Rightarrow> ('w \<Rightarrow> (bool \<times> go_error option) \<times> 'w) \<Rightarrow> 'w \<Rightarrow> go_error option \<times> 'w"
  \<comment> \<open>process environment and randomness\<close>
  getenv :: "string \<Rightarrow> string"
  silly_name :: "'w \<Rightarrow> string \<times> 'w"
  intn :: "nat \<Rightarrow> 'w \<Rightarrow> nat \<times> 'w"
  retry_sleep :: "nat \<Rightarrow> 'w sys \<Rightarrow> 'w sys"
  jitter :: "nat \<Rightarrow> nat \<times> nat \<Rightarrow> 'w sys \<Rightarrow> nat \<times> 'w sys"
  \<comment> \<open>gRPC to the operators, addressed by host:port\<close>
  grpc_dial :: "string \<Rightarrow> 'w \<Rightarrow> ext_error option \<times> 'w"
  grpc_AddAddress :: "string \<Rightarrow> AddressInfo \<Rightarrow> 'w \<Rightarrow> ext_error option \<times> 'w"
  grpc_RemoveAddress :: "string \<Rightarrow> AddressInfo \<Rightarrow> 'w \<Rightarrow> ext_error option \<times> 'w"
  grpc_Cleanup :: "string \<Rightarrow> AddressInfo list \<Rightarrow> 'w \<Rightarrow> ext_error option \<times> 'w"
  \<comment> \<open>hcloud client, by token\<close>
  hcloud_servers :: "string \<Rightarrow> string \<Rightarrow> 'w \<Rightarrow> (ext_error + HServer list) \<times> 'w"
  hcloud_floating_ips :: "string \<Rightarrow> 'w \<Rightarrow> (ext_error + HFloatingIP list) \<times> 'w"
  hcloud_assign :: "string \<Rightarrow> HFloatingIP \<Rightarrow> HServer \<Rightarrow> 'w \<Rightarrow> (ext_error + HResponse) \<times> 'w"
  hcloud_unassign :: "string \<Rightarrow> HFloatingIP \<Rightarrow> 'w \<Rightarrow> (ext_error + HResponse) \<times> 'w"
  hcloud_create :: "string \<Rightarrow> FloatingIPCreateOpts \<Rightarrow> 'w \<Rightarrow> (ext_error + string \<times> HResponse) \<times> 'w"
  hcloud_delete :: "string \<Rightarrow> HFloatingIP \<Rightarrow> 'w \<Rightarrow> (ext_error + HResponse) \<times> 'w"

section \<open>Running an outside operation on the state\<close>

definition onw :: "('w \<Rightarrow> 'a \<times> 'w) \<Rightarrow> 'w sys \<Rightarrow> 'a \<times> 'w sys" where
  "onw f s = (let (r, w) = f (world s) in (r, s\<lparr>world := w\<rparr>))"

text \<open>The controller's own variables are the same before and after.\<close>

definition own ::
  "'w sys \<Rightarrow> PersistentIPPool list \<times> (string \<rightharpoonup> string) \<times> string list \<times> bool \<times> bool \<times>
    chan_state \<times> bus_event list" where
  "own s = (availablesPools s, lockedObjects s, errorAllocationsBackoffDict s, deployed s,
            operatorNodesStoreBuilt s, stopWatch s, bus s)"

definition world_only :: "'w sys \<Rightarrow> 'w sys \<Rightarrow> bool" where
  "world_only s s' \<longleftrightarrow> own s' = own s"

lemma own_world_update [simp]: "own (s\<lparr>world := w\<rparr>) = own s"
  by (simp add: own_def)

lemma world_only_refl [simp, intro]: "world_only s s"
  by (simp add: world_only_def)

lemma world_only_trans [trans]: "world_only s s' \<Longrightarrow> world_only s' s'' \<Longrightarrow> world_only s s''"
  by (simp add: world_only_def)

lemma world_only_update [simp, intro]: "world_only s (s\<lparr>world := w\<rparr>)"
  by (simp add: world_only_def)

lemma world_only_fields:
  assumes "world_only s s'"
  shows "availablesPools s' = availablesPools s" "lockedObjects s' = lockedObjects s"
    "errorAllocationsBackoffDict s' = errorAllocationsBackoffDict s"
    "deployed s' = deployed s" "operatorNodesStoreBuilt s' = operatorNodesStoreBuilt s"
    "stopWatch s' = stopWatch s" "bus s' = bus s"
  using assms by (simp_all add: world_only_def own_def)

lemma world_only_state: "world_only s s' \<longleftrightarrow> s' = s\<lparr>world := world s'\<rparr>"
  by (cases s; cases s') (auto simp: world_only_def own_def)

lemma onw_world_only [world_only_intros]: "onw f s = (r, s') \<Longrightarrow> world_only s s'"
  by (auto simp: onw_def split: prod.splits)

lemma onw_eq: "onw f s = (r, s') \<longleftrightarrow> (\<exists>w. f (world s) = (r, w) \<and> s' = s\<lparr>world := w\<rparr>)"
  by (auto simp: onw_def split: prod.splits)

section \<open>Retry loops\<close>

text \<open>
  \<open>retry.OnError(backoff, retriable, fn)\<close> of client-go is documented to call \<open>fn\<close> until it
  returns nil or an error that is not retriable, at most as often as the backoff has
  steps, sleeping in between, and to return the last error. \<open>retry_ok R\<close> says that
  \<open>R\<close> is such a loop for some number of steps (\<open>n + 1\<close>), where \<open>d\<close> is what the rest of
  the world does to the state during a sleep.
\<close>

fun retry_loop :: "nat \<Rightarrow> ('s \<Rightarrow> 's) \<Rightarrow> (go_error \<Rightarrow> bool) \<Rightarrow> 's attempt \<Rightarrow> 's attempt" where
  "retry_loop n d P f s =
     (case f s of
        None \<Rightarrow> None
      | Some (None, s') \<Rightarrow> Some (None, s')
      | Some (Some e, s') \<Rightarrow>
          (if P e then (case n of 0 \<Rightarrow> Some (Some e, s') | Suc m \<Rightarrow> retry_loop m d P f (d s'))
           else Some (Some e, s')))"

declare retry_loop.simps [simp del]

definition retry_ok :: "'s retrier \<Rightarrow> bool" where
  "retry_ok R \<longleftrightarrow> (\<exists>n d. \<forall>P f s. R P f s = retry_loop n d P f s)"

text \<open>
  If the loop returns nil, its last attempt did, from some state; if it returns an error,
  so did its last attempt.
\<close>

lemma retry_loop_last:
  "retry_loop n d P f s = Some (r, s') \<Longrightarrow> \<exists>s0. f s0 = Some (r, s')"
proof (induction n arbitrary: s)
  case 0
  then show ?case
    by (subst (asm) retry_loop.simps) (auto split: option.splits if_splits)
next
  case (Suc n)
  from Suc.prems show ?case
    by (subst (asm) retry_loop.simps) (auto split: option.splits if_splits dest: Suc.IH)
qed

lemma retry_loop_total:
  "(\<And>s. f s \<noteq> None) \<Longrightarrow> retry_loop n d P f s \<noteq> None"
proof (induction n arbitrary: s)
  case 0
  then show ?case by (subst retry_loop.simps) (auto split: option.splits)
next
  case (Suc n)
  then show ?case by (subst retry_loop.simps) (auto split: option.splits)
qed

lemma retry_ok_last: "retry_ok R \<Longrightarrow> R P f s = Some (r, s') \<Longrightarrow> \<exists>s0. f s0 = Some (r, s')"
  unfolding retry_ok_def by (metis retry_loop_last)

lemma retry_ok_total: "retry_ok R \<Longrightarrow> (\<And>s. f s \<noteq> None) \<Longrightarrow> R P f s \<noteq> None"
  unfolding retry_ok_def by (metis retry_loop_total)

lemma retry_ok_loop: "retry_ok (retry_loop n d)"
  unfolding retry_ok_def by blast

section \<open>Polling and random numbers\<close>

text \<open>
  \<open>wait.Poll(interval, timeout, condition)\<close> is documented to wait for the interval before
  each check, to stop when a check is true or fails, and to return the timeout error
  otherwise. \<open>Intn(n)\<close> returns a number below \<open>n\<close> and panics for \<open>n \<le> 0\<close>.
\<close>

fun poll_loop ::
  "nat \<Rightarrow> ('w \<Rightarrow> 'w) \<Rightarrow> ('w \<Rightarrow> (bool \<times> go_error option) \<times> 'w) \<Rightarrow> 'w \<Rightarrow> go_error option \<times> 'w" where
  "poll_loop 0 d c w = (Some ErrWaitTimeout, w)"
| "poll_loop (Suc n) d c w =
     (let ((ok, err), w) = c (d w)
      in if err \<noteq> None then (err, w) else if ok then (None, w) else poll_loop n d c w)"

definition poll_ok :: "'w env \<Rightarrow> bool" where
  "poll_ok E \<longleftrightarrow> (\<forall>t. \<exists>n d. \<forall>c w. poll E t c w = poll_loop n d c w)"

definition intn_ok :: "'w env \<Rightarrow> bool" where
  "intn_ok E \<longleftrightarrow> (\<forall>n w. 0 < n \<longrightarrow> fst (intn E n w) < n)"

lemma poll_loop_None: "poll_loop n d c w = (None, w') \<Longrightarrow> \<exists>w0. c w0 = ((True, None), w')"
proof (induction n arbitrary: w)
  case 0
  then show ?case by simp
next
  case (Suc n)
  from Suc.prems show ?case
    by (auto simp: Let_def split: prod.splits if_splits dest: Suc.IH)
qed

lemma poll_ok_None: "poll_ok E \<Longrightarrow> poll E t c w = (None, w') \<Longrightarrow> \<exists>w0. c w0 = ((True, None), w')"
  unfolding poll_ok_def by (metis poll_loop_None)

text \<open>The Go type names that error messages print.\<close>

fun TypeOf :: "k8s_obj \<Rightarrow> string" where
  "TypeOf (PersistentIPPoolObj _) = ''*v1alpha1.PersistentIPPool''"
| "TypeOf (EphemeralIPPoolObj _) = ''*v1alpha1.EphemeralIPPool''"
| "TypeOf (IPAllocationObj _) = ''*v1alpha1.IPAllocation''"
| "TypeOf (ServiceObj _) = ''*v1.Service''"
| "TypeOf (PodObj _) = ''*v1.Pod''"
| "TypeOf (OtherObj t) = t"

definition unexpected_type :: "k8s_obj \<Rightarrow> go_error" where
  "unexpected_type obj = Errorf (''unexpected type '' @ TypeOf obj)"

text \<open>What an informer calls its handlers with.\<close>

datatype informer_event = AddEv k8s_obj | DeleteEv k8s_obj | UpdateEv k8s_obj k8s_obj

end
