(* ===== verification/Typed_Client.thy ===== *)
theory Typed_Client
  imports Environment
begin

text \<open>
  The generated typed clients of the three custom resources
  (\<open>pkg/client/clientset/versioned/typed/loadbalancing/v1alpha1\<close>): each method as the
  REST request it builds, and the methods the controller calls as operations on the world.
  IP allocations are namespaced, the pools are not. A failed call leaves the result
  object at its zero value and returns the error, as \<open>Into\<close> does.
\<close>

text \<open>Durations are int64 nanoseconds.\<close>

definition wrap64 :: "int \<Rightarrow> int" where
  "wrap64 x = (x + 2 ^ 63) mod 2 ^ 64 - 2 ^ 63"

lemma wrap64_id: "- (2 ^ 63) \<le> x \<Longrightarrow> x < 2 ^ 63 \<Longrightarrow> wrap64 x = x"
  by (simp add: wrap64_def)

definition list_timeout :: "int option \<Rightarrow> int" where
  "list_timeout ts = (case ts of None \<Rightarrow> 0 | Some n \<Rightarrow> wrap64 (n * 1000000000))"

definition base_request :: "verb \<Rightarrow> string option \<Rightarrow> string \<Rightarrow> 'b rest_request" where
  "base_request v ns res =
     \<lparr>rq_verb = v, rq_namespace = ns, rq_resource = res, rq_name = None, rq_subresources = [],
      rq_body = NoBody, rq_watch = False, rq_timeout = None\<rparr>"

definition into :: "'a \<Rightarrow> ext_error + 'a \<Rightarrow> 'a \<times> go_error option" where
  "into z r = (case r of Inl e \<Rightarrow> (z, Some (Ext e)) | Inr x \<Rightarrow> (x, None))"

section \<open>IPAllocations(namespace)\<close>

definition IPAllocations_Get_request :: "string \<Rightarrow> string \<Rightarrow> IPAllocation rest_request" where
  "IPAllocations_Get_request ns name =
     (base_request GET (Some ns) ''ipallocations'')\<lparr>rq_name := Some name\<rparr>"

definition IPAllocations_List_request :: "string \<Rightarrow> int option \<Rightarrow> IPAllocation rest_request" where
  "IPAllocations_List_request ns ts =
     (base_request GET (Some ns) ''ipallocations'')\<lparr>rq_timeout := Some (list_timeout ts)\<rparr>"

definition IPAllocations_Watch_request :: "string \<Rightarrow> int option \<Rightarrow> IPAllocation rest_request" where
  "IPAllocations_Watch_request ns ts =
     (base_request GET (Some ns) ''ipallocations'')\<lparr>rq_timeout := Some (list_timeout ts), rq_watch := True\<rparr>"

definition IPAllocations_Create_request :: "string \<Rightarrow> IPAllocation \<Rightarrow> IPAllocation rest_request" where
  "IPAllocations_Create_request ns obj =
     (base_request POST (Some ns) ''ipallocations'')\<lparr>rq_body := ObjBody obj\<rparr>"

definition IPAllocations_Update_request :: "string \<Rightarrow> IPAllocation \<Rightarrow> IPAllocation rest_request" where
  "IPAllocations_Update_request ns obj =
     (base_request PUT (Some ns) ''ipallocations'')\<lparr>rq_name := Some (Name (AMeta obj)), rq_body := ObjBody obj\<rparr>"

definition IPAllocations_UpdateStatus_request :: "string \<Rightarrow> IPAllocation \<Rightarrow> IPAllocation rest_request" where
  "IPAllocations_UpdateStatus_request ns obj =
     (base_request PUT (Some ns) ''ipallocations'')
       \<lparr>rq_name := Some (Name (AMeta obj)), rq_subresources := [''status''], rq_body := ObjBody obj\<rparr>"

definition IPAllocations_Delete_request :: "string \<Rightarrow> string \<Rightarrow> IPAllocation rest_request" where
  "IPAllocations_Delete_request ns name =
     (base_request DELETE (Some ns) ''ipallocations'')\<lparr>rq_name := Some name, rq_body := OptionsBody\<rparr>"

definition IPAllocations_DeleteCollection_request :: "string \<Rightarrow> int option \<Rightarrow> IPAllocation rest_request" where
  "IPAllocations_DeleteCollection_request ns ts =
     (base_request DELETE (Some ns) ''ipallocations'')\<lparr>rq_timeout := Some (list_timeout ts), rq_body := OptionsBody\<rparr>"

definition IPAllocations_Patch_request :: "string \<Rightarrow> string \<Rightarrow> string \<Rightarrow> string \<Rightarrow> string list \<Rightarrow> IPAllocation rest_request" where
  "IPAllocations_Patch_request ns name pt data subresources =
     (base_request (PATCH pt) (Some ns) ''ipallocations'')
       \<lparr>rq_subresources := subresources, rq_name := Some name, rq_body := RawBody data\<rparr>"

section \<open>PersistentIPPools()\<close>

definition PersistentIPPools_Get_request :: "string \<Rightarrow> PersistentIPPool rest_request" where
  "PersistentIPPools_Get_request name =
     (base_request GET None ''persistentippools'')\<lparr>rq_name := Some name\<rparr>"

definition PersistentIPPools_List_request :: "int option \<Rightarrow> PersistentIPPool rest_request" where
  "PersistentIPPools_List_request ts =
     (base_request GET None ''persistentippools'')\<lparr>rq_timeout := Some (list_timeout ts)\<rparr>"

definition PersistentIPPools_Watch_request :: "int option \<Rightarrow> PersistentIPPool rest_request" where
  "PersistentIPPools_Watch_request ts =
     (base_request GET None ''persistentippools'')\<lparr>rq_timeout := Some (list_timeout ts), rq_watch := True\<rparr>"

definition PersistentIPPools_Create_request :: "PersistentIPPool \<Rightarrow> PersistentIPPool rest_request" where
  "PersistentIPPools_Create_request obj =
     (base_request POST None ''persistentippools'')\<lparr>rq_body := ObjBody obj\<rparr>"

definition PersistentIPPools_Update_request :: "PersistentIPPool \<Rightarrow> PersistentIPPool rest_request" where
  "PersistentIPPools_Update_request obj =
     (base_request PUT None ''persistentippools'')\<lparr>rq_name := Some (Name (PMeta obj)), rq_body := ObjBody obj\<rparr>"

definition PersistentIPPools_UpdateStatus_request :: "PersistentIPPool \<Rightarrow> PersistentIPPool rest_request" where
  "PersistentIPPools_UpdateStatus_request obj =
     (base_request PUT None ''persistentippools'')
       \<lparr>rq_name := Some (Name (PMeta obj)), rq_subresources := [''status''], rq_body := ObjBody obj\<rparr>"

definition PersistentIPPools_Delete_request :: "string \<Rightarrow> PersistentIPPool rest_request" where
  "PersistentIPPools_Delete_request name =
     (base_request DELETE None ''persistentippools'')\<lparr>rq_name := Some name, rq_body := OptionsBody\<rparr>"

definition PersistentIPPools_DeleteCollection_request :: "int option \<Rightarrow> PersistentIPPool rest_request" where
  "PersistentIPPools_DeleteCollection_request ts =
     (base_request DELETE None ''persistentippools'')\<lparr>rq_timeout := Some (list_timeout ts), rq_body := OptionsBody\<rparr>"

definition PersistentIPPools_Patch_request :: "string \<Rightarrow> string \<Rightarrow> string \<Rightarrow> string list \<Rightarrow> PersistentIPPool rest_request" where
  "PersistentIPPools_Patch_request name pt data subresources =
     (base_request (PATCH pt) None ''persistentippools'')
       \<lparr>rq_subresources := subresources, rq_name := Some name, rq_body := RawBody data\<rparr>"

section \<open>EphemeralIPPools()\<close>

definition EphemeralIPPools_Get_request :: "string \<Rightarrow> EphemeralIPPool rest_request" where
  "EphemeralIPPools_Get_request name =
     (base_request GET None ''ephemeralippools'')\<lparr>rq_name := Some name\<rparr>"

definition EphemeralIPPools_List_request :: "int option \<Rightarrow> EphemeralIPPool rest_request" where
  "EphemeralIPPools_List_request ts =
     (base_request GET None ''ephemeralippools'')\<lparr>rq_timeout := Some (list_timeout ts)\<rparr>"

definition EphemeralIPPools_Watch_request :: "int option \<Rightarrow> EphemeralIPPool rest_request" where
  "EphemeralIPPools_Watch_request ts =
     (base_request GET None ''ephemeralippools'')\<lparr>rq_timeout := Some (list_timeout ts), rq_watch := True\<rparr>"

definition EphemeralIPPools_Create_request :: "EphemeralIPPool \<Rightarrow> EphemeralIPPool rest_request" where
  "EphemeralIPPools_Create_request obj =
     (base_request POST None ''ephemeralippools'')\<lparr>rq_body := ObjBody obj\<rparr>"

definition EphemeralIPPools_Update_request :: "EphemeralIPPool \<Rightarrow> EphemeralIPPool rest_request" where
  "EphemeralIPPools_Update_request obj =
     (base_request PUT None ''ephemeralippools'')\<lparr>rq_name := Some (Name (EMeta obj)), rq_body := ObjBody obj\<rparr>"

definition EphemeralIPPools_UpdateStatus_request :: "EphemeralIPPool \<Rightarrow> EphemeralIPPool rest_request" where
  "EphemeralIPPools_UpdateStatus_request obj =
     (base_request PUT None ''ephemeralippools'')
       \<lparr>rq_name := Some (Name (EMeta obj)), rq_subresources := [''status''], rq_body := ObjBody obj\<rparr>"

definition EphemeralIPPools_Delete_request :: "string \<Rightarrow> EphemeralIPPool rest_request" where
  "EphemeralIPPools_Delete_request name =
     (base_request DELETE None ''ephemeralippools'')\<lparr>rq_name := Some name, rq_body := OptionsBody\<rparr>"

definition EphemeralIPPools_DeleteCollection_request :: "int option \<Rightarrow> EphemeralIPPool rest_request" where
  "EphemeralIPPools_DeleteCollection_request ts =
     (base_request DELETE None ''ephemeralippools'')\<lparr>rq_timeout := Some (list_timeout ts), rq_body := OptionsBody\<rparr>"

definition EphemeralIPPools_Patch_request :: "string \<Rightarrow> string \<Rightarrow> string \<Rightarrow> string list \<Rightarrow> EphemeralIPPool rest_request" where
  "EphemeralIPPools_Patch_request name pt data subresources =
     (base_request (PATCH pt) None ''ephemeralippools'')
       \<lparr>rq_subresources := subresources, rq_name := Some name, rq_body := RawBody data\<rparr>"

section \<open>The calls the controller makes\<close>

definition IPAllocations_Get ::
  "'w env \<Rightarrow> string \<Rightarrow> string \<Rightarrow> 'w \<Rightarrow> (IPAllocation \<times> go_error option) \<times> 'w" where
  "IPAllocations_Get E ns name w =
     (let (r, w') = rest_allocation E (IPAllocations_Get_request ns name) w
      in (into zero_IPAllocation r, w'))"

definition IPAllocations_List ::
  "'w env \<Rightarrow> string \<Rightarrow> 'w \<Rightarrow> (IPAllocation list \<times> go_error option) \<times> 'w" where
  "IPAllocations_List E ns w =
     (let (r, w') = rest_allocation_list E (IPAllocations_List_request ns None) w
      in (into [] r, w'))"

definition IPAllocations_Create ::
  "'w env \<Rightarrow> string \<Rightarrow> IPAllocation \<Rightarrow> 'w \<Rightarrow> (IPAllocation \<times> go_error option) \<times> 'w" where
  "IPAllocations_Create E ns a w =
     (let (r, w') = rest_allocation E (IPAllocations_Create_request ns a) w
      in (into zero_IPAllocation r, w'))"

definition IPAllocations_Update ::
  "'w env \<Rightarrow> string \<Rightarrow> IPAllocation \<Rightarrow> 'w \<Rightarrow> (IPAllocation \<times> go_error option) \<times> 'w" where
  "IPAllocations_Update E ns a w =
     (let (r, w') = rest_allocation E (IPAllocations_Update_request ns a) w
      in (into zero_IPAllocation r, w'))"

definition IPAllocations_UpdateStatus ::
  "'w env \<Rightarrow> string \<Rightarrow> IPAllocation \<Rightarrow> 'w \<Rightarrow> (IPAllocation \<times> go_error option) \<times> 'w" where
  "IPAllocations_UpdateStatus E ns a w =
     (let (r, w') = rest_allocation E (IPAllocations_UpdateStatus_request ns a) w
      in (into zero_IPAllocation r, w'))"

definition IPAllocations_Delete ::
  "'w env \<Rightarrow> string \<Rightarrow> string \<Rightarrow> 'w \<Rightarrow> go_error option \<times> 'w" where
  "IPAllocations_Delete E ns name w =
     (let (r, w') = rest_allocation E (IPAllocations_Delete_request ns name) w
      in (case r of Inl e \<Rightarrow> Some (Ext e) | Inr _ \<Rightarrow> None, w'))"

definition PersistentIPPools_List ::
  "'w env \<Rightarrow> 'w \<Rightarrow> (PersistentIPPool list \<times> go_error option) \<times> 'w" where
  "PersistentIPPools_List E w =
     (let (r, w') = rest_persistent_list E (PersistentIPPools_List_request None) w
      in (into [] r, w'))"

definition EphemeralIPPools_List ::
  "'w env \<Rightarrow> 'w \<Rightarrow> (EphemeralIPPool list \<times> go_error option) \<times> 'w" where
  "EphemeralIPPools_List E w =
     (let (r, w') = rest_ephemeral_list E (EphemeralIPPools_List_request None) w
      in (into [] r, w'))"

lemmas allocation_requests =
  IPAllocations_Get_request_def IPAllocations_List_request_def IPAllocations_Watch_request_def
  IPAllocations_Create_request_def IPAllocations_Update_request_def
  IPAllocations_UpdateStatus_request_def IPAllocations_Delete_request_def
  IPAllocations_DeleteCollection_request_def IPAllocations_Patch_request_def

lemmas client_calls =
  IPAllocations_Get_def IPAllocations_List_def IPAllocations_Create_def IPAllocations_Update_def
  IPAllocations_UpdateStatus_def IPAllocations_Delete_def

text \<open>A status write and a spec write of one object differ in the subresource only, so a
  spec write through \<open>Update\<close> never goes to the status endpoint and conversely.\<close>

lemma update_status_separate:
  "rq_subresources (IPAllocations_UpdateStatus_request ns a) = [''status'']"
  "rq_subresources (IPAllocations_Update_request ns a) = []"
  "(IPAllocations_UpdateStatus_request ns a)\<lparr>rq_subresources := []\<rparr> = IPAllocations_Update_request ns a"
  by (simp_all add: IPAllocations_UpdateStatus_request_def IPAllocations_Update_request_def
      base_request_def)

end
