(* ===== verification/Utils.thy ===== *)
theory Utils
  imports Typed_Client
begin

text \<open>
  \<open>pkg/controller/utils\<close> except its backoff loop: predicates on services, pools and pods,
  the list searches, the cluster name and the health port.
\<close>

section \<open>utils.go\<close>

definition ServiceIsLoadBalancer :: "Service option \<Rightarrow> bool" where
  "ServiceIsLoadBalancer service =
     (case service of Some s \<Rightarrow> SType s = ServiceTypeLoadBalancer | None \<Rightarrow> False)"

definition ServiceHasExternalIPs :: "Service \<Rightarrow> bool \<times> string list" where
  "ServiceHasExternalIPs service =
     (if length (ExternalIPs service) > 0 then (True, ExternalIPs service) else (False, []))"

fun ContainsString :: "string list \<Rightarrow> string \<Rightarrow> bool" where
  "ContainsString [] x = False"
| "ContainsString (n # a) x = (if x = n then True else ContainsString a x)"

lemma ContainsString_iff [simp]: "ContainsString a x \<longleftrightarrow> x \<in> set a"
  by (induction a) auto

fun any_address :: "string list \<Rightarrow> string \<Rightarrow> bool" where
  "any_address [] address = False"
| "any_address (poolAddress # as) address =
     (if poolAddress = address then True else any_address as address)"

lemma any_address_iff [simp]: "any_address as x \<longleftrightarrow> x \<in> set as"
  by (induction as) auto

definition PoolHasAddress :: "PersistentIPPool \<Rightarrow> string \<Rightarrow> bool" where
  "PoolHasAddress pool address = any_address (pool_addresses pool) address"

definition GetClusterName :: "'w env \<Rightarrow> 'w \<Rightarrow> string \<times> 'w" where
  "GetClusterName E w =
     (let clusterName = getenv E ''CLUSTER_NAME''
      in if clusterName = '''' then silly_name E w else (clusterName, w))"

text \<open>\<open>strconv.ParseInt(s, 10, bitSize)\<close>: \<open>None\<close> is its error.\<close>

definition parse_uint :: "string \<Rightarrow> nat option" where
  "parse_uint s = (if s \<noteq> [] \<and> list_all is_digit s then Some (dec_val s) else None)"

definition ParseInt :: "nat \<Rightarrow> string \<Rightarrow> int option" where
  "ParseInt bits s =
     (let (neg, ds) =
        (case s of [] \<Rightarrow> (False, [])
         | c # cs \<Rightarrow> if c = CHR ''+'' then (False, cs) else if c = CHR ''-'' then (True, cs) else (False, s))
      in case parse_uint ds of
           None \<Rightarrow> None
         | Some n \<Rightarrow>
             (if \<not> neg \<and> n \<ge> 2 ^ (bits - 1) then None
              else if neg \<and> n > 2 ^ (bits - 1) then None
              else Some (if neg then - int n else int n)))"

definition HealthPort :: "(string \<Rightarrow> string) \<Rightarrow> int option" where
  "HealthPort env_of =
     (let customPort = env_of ''HEALTH_PORT''
      in if customPort \<noteq> ''''
         then (case ParseInt 32 customPort of
                 None \<Rightarrow> None   \<comment> \<open>klog.Fatal\<close>
               | Some i64 \<Rightarrow> Some i64)
         else Some 8080)"

section \<open>pools.go\<close>

definition host_option :: "PoolOptions option \<Rightarrow> bool" where
  "host_option opts =
     (case opts of None \<Rightarrow> False
      | Some opt \<Rightarrow>
          (case HostNetworkInterface opt of None \<Rightarrow> False | Some h \<Rightarrow> AddAddressesToInterface h))"

definition PersistentPoolHasHostNetworkOption :: "PersistentIPPool \<Rightarrow> bool" where
  "PersistentPoolHasHostNetworkOption pool =
     (case POptions (PSpec pool) of None \<Rightarrow> False
      | Some opt \<Rightarrow>
          (case HostNetworkInterface opt of None \<Rightarrow> False | Some h \<Rightarrow> AddAddressesToInterface h))"

definition EphemeralPoolHasHostNetworkOption :: "EphemeralIPPool \<Rightarrow> bool" where
  "EphemeralPoolHasHostNetworkOption pool =
     (case EOptions (ESpec pool) of None \<Rightarrow> False
      | Some opt \<Rightarrow>
          (case HostNetworkInterface opt of None \<Rightarrow> False | Some h \<Rightarrow> AddAddressesToInterface h))"

definition PersistentPoolHasCloudIntegrationOption :: "PersistentIPPool \<Rightarrow> bool \<times> string" where
  "PersistentPoolHasCloudIntegrationOption pool =
     (case PCloudIntegration (PSpec pool) of
        None \<Rightarrow> (False, '''')
      | Some ci \<Rightarrow> (case Hetzner ci of Some _ \<Rightarrow> (True, ''hetzner'') | None \<Rightarrow> (False, '''')))"

definition EphemeralPoolHasCloudIntegrationOption :: "EphemeralIPPool \<Rightarrow> bool \<times> string" where
  "EphemeralPoolHasCloudIntegrationOption pool =
     (case ECloudIntegration (ESpec pool) of
        None \<Rightarrow> (False, '''')
      | Some ci \<Rightarrow> (case Hetzner ci of Some _ \<Rightarrow> (True, ''hetzner'') | None \<Rightarrow> (False, '''')))"

text \<open>\<open>pool.Spec.Options.HostNetworkInterface.InterfaceName\<close>: a nil dereference panics. The
  code reads it only where the host network option holds.\<close>

definition interface_name :: "PoolOptions option \<Rightarrow> string option" where
  "interface_name opts =
     do { opt \<leftarrow> opts; h \<leftarrow> HostNetworkInterface opt; Some (InterfaceName h) }"

lemma host_option_eqs:
  "PersistentPoolHasHostNetworkOption p = host_option (POptions (PSpec p))"
  "EphemeralPoolHasHostNetworkOption q = host_option (EOptions (ESpec q))"
  by (simp_all add: PersistentPoolHasHostNetworkOption_def EphemeralPoolHasHostNetworkOption_def
      host_option_def)

lemma interface_name_defined: "host_option opts \<Longrightarrow> \<exists>i. interface_name opts = Some i"
  by (auto simp: host_option_def interface_name_def split: option.splits)

section \<open>pods.go, allocations.go\<close>

fun ready_condition :: "PodCondition list \<Rightarrow> bool" where
  "ready_condition [] = False"
| "ready_condition (c # cs) =
     (if CondType c = ''Ready'' \<and> CondStatus c = ''True'' then True else ready_condition cs)"

definition IsPodReady :: "Pod \<Rightarrow> bool" where
  "IsPodReady pod = (if length (Conditions pod) > 0 then ready_condition (Conditions pod) else False)"

lemma IsPodReady_iff:
  "IsPodReady pod \<longleftrightarrow> (\<exists>c \<in> set (Conditions pod). CondType c = ''Ready'' \<and> CondStatus c = ''True'')"
proof -
  have "ready_condition cs \<longleftrightarrow> (\<exists>c \<in> set cs. CondType c = ''Ready'' \<and> CondStatus c = ''True'')" for cs
    by (induction cs) auto
  then show ?thesis by (auto simp: IsPodReady_def)
qed

fun ContainsAddress ::
  "IPAllocationAddresses list \<Rightarrow> string \<Rightarrow> bool \<times> IPAllocationAddresses option" where
  "ContainsAddress [] x = (False, None)"
| "ContainsAddress (n # a) x = (if x = Address n then (True, Some n) else ContainsAddress a x)"

lemma ContainsAddress_False [simp]:
  "ContainsAddress a x = (False, r) \<longleftrightarrow> x \<notin> Address ` set a \<and> r = None"
  by (induction a) auto

lemma ContainsAddress_True:
  "ContainsAddress a x = (True, r) \<Longrightarrow> \<exists>n. r = Some n \<and> n \<in> set a \<and> Address n = x"
  by (induction a) (auto split: if_splits)

lemma fst_ContainsAddress [simp]: "fst (ContainsAddress a x) \<longleftrightarrow> x \<in> Address ` set a"
  by (induction a) auto

section \<open>Health port round trip\<close>

lemma is_digit_not_sign: "is_digit c \<Longrightarrow> c \<noteq> CHR ''+'' \<and> c \<noteq> CHR ''-''"
  by (auto simp: is_digit_def)

lemma ParseInt_itoa:
  assumes "n < 2 ^ (bits - 1)"
  shows "ParseInt bits (itoa n) = Some (int n)"
proof -
  obtain c cs where s: "itoa n = c # cs" by (cases "itoa n") auto
  with itoa_digits [of n] have "is_digit c" by simp
  with s itoa_digits [of n] dec_val_itoa [of n] assms show ?thesis
    by (auto simp: ParseInt_def parse_uint_def dest: is_digit_not_sign)
qed

lemma ParseInt_itoa_int:
  assumes "- (2 ^ (bits - 1)) \<le> i" and "i < 2 ^ (bits - 1)"
  shows "ParseInt bits (itoa_int i) = Some i"
proof (cases "i < 0")
  case False
  with assms have "nat i < 2 ^ (bits - 1)" by (simp add: nat_less_iff)
  with False show ?thesis by (simp add: itoa_int_def ParseInt_itoa)
next
  case True
  with assms have "nat (- i) \<le> 2 ^ (bits - 1)" by (simp add: nat_le_iff)
  with True itoa_digits [of "nat (- i)"] show ?thesis
    by (auto simp: itoa_int_def ParseInt_def parse_uint_def dec_val_itoa)
qed

lemma HealthPort_range: "HealthPort env_of = Some p \<Longrightarrow> - (2 ^ 31) \<le> p \<and> p < 2 ^ 31"
  by (auto simp: HealthPort_def ParseInt_def Let_def split: option.splits if_splits prod.splits)

end
