(* ===== verification/Availability_Interface.thy ===== *)
theory Availability_Interface
  imports Go_Prelude
begin

text \<open>
  The contract between the pools manager and the persistent allocator: a provider keeps a
  set of free (pool, address) pairs; \<open>hand_out\<close> hands an address out, \<open>give_back\<close> gives it back.
  The clients' lemmas are proved once here, for any provider.
\<close>

datatype ('n, 'p, 'a) av_event = Take 'n 'a | Put 'p 'n 'a

text \<open>
  A session of a client: it holds the pairs that were handed out to it, and puts back only
  pairs it holds.
\<close>

fun av_step ::
  "('n \<Rightarrow> 'a \<Rightarrow> 's \<Rightarrow> 'p option \<times> 's) \<Rightarrow> ('p \<Rightarrow> 'n \<Rightarrow> 'a \<Rightarrow> 's \<Rightarrow> 's) \<Rightarrow>
   ('n, 'p, 'a) av_event \<Rightarrow> ('p \<times> 'a) set \<times> 's \<Rightarrow> ('p \<times> 'a) set \<times> 's"
where
  "av_step hand_out give_back (Take n a) (held, s) =
     (case hand_out n a s of (Some p, s') \<Rightarrow> (insert (p, a) held, s') | (None, s') \<Rightarrow> (held, s'))"
| "av_step hand_out give_back (Put p n a) (held, s) =
     (if (p, a) \<in> held then (held - {(p, a)}, give_back p n a s) else (held, s))"

definition av_run ::
  "('n \<Rightarrow> 'a \<Rightarrow> 's \<Rightarrow> 'p option \<times> 's) \<Rightarrow> ('p \<Rightarrow> 'n \<Rightarrow> 'a \<Rightarrow> 's \<Rightarrow> 's) \<Rightarrow>
   ('n, 'p, 'a) av_event list \<Rightarrow> ('p \<times> 'a) set \<times> 's \<Rightarrow> ('p \<times> 'a) set \<times> 's"
where
  "av_run hand_out give_back es st = fold (av_step hand_out give_back) es st"

fun av_event_ok :: "('p \<Rightarrow> 'n \<Rightarrow> 'a \<Rightarrow> bool) \<Rightarrow> ('n, 'p, 'a) av_event \<Rightarrow> bool" where
  "av_event_ok owns (Take n a) = True"
| "av_event_ok owns (Put p n a) = owns p n a"

locale ip_availability =
  fixes free :: "'s \<Rightarrow> ('p \<times> 'a) set"
    and inv :: "'s \<Rightarrow> bool"
    and hand_out :: "'n \<Rightarrow> 'a \<Rightarrow> 's \<Rightarrow> 'p option \<times> 's"
    and give_back :: "'p \<Rightarrow> 'n \<Rightarrow> 'a \<Rightarrow> 's \<Rightarrow> 's"
    and owns :: "'p \<Rightarrow> 'n \<Rightarrow> 'a \<Rightarrow> bool"
  assumes hand_out_Some: "\<lbrakk>inv s; hand_out n a s = (Some p, s')\<rbrakk>
      \<Longrightarrow> (p, a) \<in> free s \<and> free s' = free s - {(p, a)} \<and> inv s'"
    and hand_out_None: "hand_out n a s = (None, s') \<Longrightarrow> s' = s"
    and give_back_spec: "\<lbrakk>inv s; owns p n a\<rbrakk>
      \<Longrightarrow> free (give_back p n a s) = insert (p, a) (free s) \<and> inv (give_back p n a s)"
begin

lemma hand_out_give_back_free:
  assumes "inv s" and "hand_out n a s = (Some p, s')" and "owns p n a"
  shows "free (give_back p n a s') = free s \<and> inv (give_back p n a s')"
  using assms hand_out_Some [OF assms(1,2)] give_back_spec [of s' p n a] by auto

text \<open>An address free in one pool only is handed out once.\<close>

lemma hand_out_twice:
  assumes "inv s" and "inj_on snd (free s)"
    and "hand_out n a s = (Some p, s')"
  shows "hand_out n' a s' = (None, s')"
proof (cases "hand_out n' a s'")
  case (Pair r s'')
  show ?thesis
  proof (cases r)
    case None
    with Pair hand_out_None show ?thesis by blast
  next
    case (Some q)
    from hand_out_Some [OF assms(1,3)] have p: "(p, a) \<in> free s" "free s' = free s - {(p, a)}" "inv s'"
      by auto
    from hand_out_Some [OF p(3)] Pair Some have "(q, a) \<in> free s'" by auto
    with p have "(q, a) \<in> free s" "q \<noteq> p" by auto
    with assms(2) p(1) have False by (metis inj_onD prod.inject snd_conv)
    then show ?thesis ..
  qed
qed

lemma give_back_all:
  assumes "inv s" and "\<forall>(p, a) \<in> set xs. owns p n a"
  shows "free (fold (\<lambda>(p, a). give_back p n a) xs s) = set xs \<union> free s \<and>
    inv (fold (\<lambda>(p, a). give_back p n a) xs s)"
  using assms
proof (induction xs arbitrary: s)
  case Nil
  then show ?case by simp
next
  case (Cons x xs)
  obtain p a where x: "x = (p, a)" by (cases x)
  with Cons.prems have "owns p n a" by auto
  from give_back_spec [OF Cons.prems(1) this] Cons.IH [of "give_back p n a s"] Cons.prems(2) show ?case
    by (auto simp: x)
qed

text \<open>One step of a session neither duplicates nor loses a pair.\<close>

lemma step_conserves:
  assumes "inv s" and "held \<inter> free s = {}" and "av_event_ok owns e"
    and "av_step hand_out give_back e (held, s) = (held', s')"
  shows "inv s' \<and> held' \<inter> free s' = {} \<and> held' \<union> free s' = held \<union> free s"
proof (cases e)
  case (Take n a)
  obtain r t where t: "hand_out n a s = (r, t)" by (cases "hand_out n a s")
  show ?thesis
  proof (cases r)
    case None
    with t have "t = s" by (simp add: hand_out_None)
    with assms None Take t show ?thesis by auto
  next
    case (Some p)
    with t assms(1) hand_out_Some have "(p, a) \<in> free s \<and> free t = free s - {(p, a)} \<and> inv t" by blast
    with assms Some Take t show ?thesis by auto
  qed
next
  case (Put p n a)
  show ?thesis
  proof (cases "(p, a) \<in> held")
    case True
    from Put assms(3) have "owns p n a" by simp
    from give_back_spec [OF assms(1) this] Put True assms(2,4) show ?thesis by auto
  next
    case False
    with Put assms show ?thesis by auto
  qed
qed

lemma run_conserves:
  assumes "inv s" and "held \<inter> free s = {}" and "\<forall>e \<in> set es. av_event_ok owns e"
    and "av_run hand_out give_back es (held, s) = (held', s')"
  shows "inv s' \<and> held' \<inter> free s' = {} \<and> held' \<union> free s' = held \<union> free s"
  using assms
proof (induction es arbitrary: held s)
  case Nil
  then show ?case by (auto simp: av_run_def)
next
  case (Cons e es)
  obtain h t where st: "av_step hand_out give_back e (held, s) = (h, t)" by fastforce
  from Cons.prems have "av_event_ok owns e" by simp
  from step_conserves [OF Cons.prems(1,2) this st]
  have t: "inv t" "h \<inter> free t = {}" and u: "h \<union> free t = held \<union> free s" by auto
  from Cons.prems(3,4) st have "\<forall>e \<in> set es. av_event_ok owns e"
    and "av_run hand_out give_back es (h, t) = (held', s')" by (auto simp: av_run_def)
  from Cons.IH [OF t this] u show ?case by simp
qed

end

end
