(* ===== verification/Pools_Manager.thy ===== *)
theory Pools_Manager
  imports Utils Availability_Interface
begin

text \<open>
  \<open>pkg/controller/persistentips/poolsManager.go\<close>: the list of pools with free addresses
  (\<open>availablesPools\<close>) and its operations. The pointers of that list are pairwise distinct
  objects (each is a deep copy made when it is appended), so a pointer into the list is
  its index. \<open>store\<close> is what the pool informer's cache lists.

  The contract is stated on the set of free (pool, address) pairs, as the locale
  \<open>ip_availability\<close>, and the code's list implements it (\<open>av\<close>).
\<close>

section \<open>Operations\<close>

definition namespace_allowed :: "string list \<Rightarrow> string \<Rightarrow> bool" where
  "namespace_allowed allowedNamespaces namespace \<longleftrightarrow>
     length allowedNamespaces = 0 \<or> ContainsString allowedNamespaces namespace"

definition recreatePoolAvailability ::
  "PersistentIPPool \<Rightarrow> string list \<Rightarrow> PersistentIPPool list \<Rightarrow> PersistentIPPool list" where
  "recreatePoolAvailability originalPool addresses aps =
     (let availablePool = set_pool_addresses addresses originalPool in aps @ [availablePool])"

definition UpdatePoolAvailability ::
  "PersistentIPPool \<Rightarrow> string list \<Rightarrow> PersistentIPPool list \<Rightarrow> PersistentIPPool list" where
  "UpdatePoolAvailability pool addresses aps =
     (if length addresses = 0 then aps
      else case find_index (\<lambda>existingPool. PGetName existingPool = PGetName pool) aps of
             Some i \<Rightarrow> aps[i := set_pool_addresses addresses pool]
           | None \<Rightarrow> recreatePoolAvailability pool addresses aps)"

definition removeAvailablePool ::
  "PersistentIPPool \<Rightarrow> PersistentIPPool list \<Rightarrow> bool \<times> PersistentIPPool list" where
  "removeAvailablePool pool aps =
     (case find_index (\<lambda>existingPool. PGetName existingPool = PGetName pool) aps of
        None \<Rightarrow> (False, aps)
      | Some poolIndex \<Rightarrow> (True, swap_remove poolIndex aps))"

definition removeIPFromPool :: "nat \<Rightarrow> string \<Rightarrow> PersistentIPPool list \<Rightarrow> PersistentIPPool list" where
  "removeIPFromPool i address aps =
     (let pool = aps ! i;
          addresses = filter (\<lambda>a. a \<noteq> address) (pool_addresses pool);
          pool' = set_pool_addresses addresses pool;
          aps' = aps[i := pool']
      in if length addresses = 0 then snd (removeAvailablePool pool' aps') else aps')"

definition getAvailabilityPoolOfAddress ::
  "string \<Rightarrow> string \<Rightarrow> PersistentIPPool list \<Rightarrow> nat option" where
  "getAvailabilityPoolOfAddress namespace address aps =
     find_index (\<lambda>pool. namespace_allowed (PAllowedNamespaces (PSpec pool)) namespace \<and>
                        any_address (pool_addresses pool) address) aps"

definition UseIP ::
  "string \<Rightarrow> string \<Rightarrow> PersistentIPPool list \<Rightarrow> (go_error + PersistentIPPool) \<times> PersistentIPPool list"
where
  "UseIP namespace address aps =
     (if length aps = 0 then (Inl ErrNoIPAvailable, aps)
      else case getAvailabilityPoolOfAddress namespace address aps of
             None \<Rightarrow> (Inl ErrNoIPAvailable, aps)
           | Some i \<Rightarrow>
               (if length (pool_addresses (aps ! i)) = 0 then (Inl ErrNoIPAvailable, aps)
                else (Inr (set_pool_addresses (filter (\<lambda>a. a \<noteq> address) (pool_addresses (aps ! i)))
                             (aps ! i)),
                      removeIPFromPool i address aps)))"

definition searchAvailabilityPoolByName :: "string \<Rightarrow> PersistentIPPool list \<Rightarrow> nat option" where
  "searchAvailabilityPoolByName name aps = find_index (\<lambda>existingPool. PGetName existingPool = name) aps"

fun persistent_SearchPoolByName :: "k8s_obj list \<Rightarrow> string \<Rightarrow> PersistentIPPool option" where
  "persistent_SearchPoolByName [] name = None"
| "persistent_SearchPoolByName (obj # store) name =
     (case obj of
        PersistentIPPoolObj pool \<Rightarrow>
          (if PGetName pool = name then Some pool else persistent_SearchPoolByName store name)
      | _ \<Rightarrow> None)"

fun addresses_contain :: "IPAllocationAddresses list \<Rightarrow> string \<Rightarrow> bool" where
  "addresses_contain [] ip = False"
| "addresses_contain (addrAlloc # as) ip =
     (if Address addrAlloc = ip then True else addresses_contain as ip)"

fun checkIfIPIsAllocatedByCache :: "string \<Rightarrow> k8s_obj list \<Rightarrow> bool" where
  "checkIfIPIsAllocatedByCache ip [] = False"
| "checkIfIPIsAllocatedByCache ip (obj # allocations) =
     (case obj of
        IPAllocationObj allocation \<Rightarrow>
          (if addresses_contain (alloc_addresses allocation) ip then True
           else checkIfIPIsAllocatedByCache ip allocations)
      | _ \<Rightarrow> checkIfIPIsAllocatedByCache ip allocations)"

fun checkIfIPIsAllocated :: "string \<Rightarrow> IPAllocation list \<Rightarrow> bool" where
  "checkIfIPIsAllocated ip [] = False"
| "checkIfIPIsAllocated ip (allocation # allocations) =
     (if addresses_contain (alloc_addresses allocation) ip then True
      else checkIfIPIsAllocated ip allocations)"

definition addOrReplaceAvailabilityPool ::
  "PersistentIPPool \<Rightarrow> PersistentIPPool list \<Rightarrow> PersistentIPPool list" where
  "addOrReplaceAvailabilityPool pool aps =
     (if length (pool_addresses pool) > 0
      then (case searchAvailabilityPoolByName (PGetName pool) aps of
              Some i \<Rightarrow> aps[i := pool]
            | None \<Rightarrow> aps @ [pool])
      else aps)"

definition processIPAvailability ::
  "PersistentIPPool \<Rightarrow> IPAllocation list \<Rightarrow> PersistentIPPool list \<Rightarrow> PersistentIPPool list" where
  "processIPAvailability pool allocations aps =
     (let freePool = set_pool_addresses
            (filter (\<lambda>ip. \<not> checkIfIPIsAllocated ip allocations) (pool_addresses pool)) pool
      in addOrReplaceAvailabilityPool freePool aps)"

definition ProcessIPAvailabilityFromCacheList ::
  "PersistentIPPool \<Rightarrow> k8s_obj list \<Rightarrow> PersistentIPPool list \<Rightarrow> PersistentIPPool list" where
  "ProcessIPAvailabilityFromCacheList pool allocations aps =
     (let freePool = set_pool_addresses
            (filter (\<lambda>ip. \<not> checkIfIPIsAllocatedByCache ip allocations) (pool_addresses pool)) pool
      in addOrReplaceAvailabilityPool freePool aps)"

fun GetPoolOfAddress :: "k8s_obj list \<Rightarrow> string \<Rightarrow> string \<Rightarrow> PersistentIPPool option" where
  "GetPoolOfAddress [] namespace address = None"
| "GetPoolOfAddress (obj # store) namespace address =
     (case obj of
        PersistentIPPoolObj pool \<Rightarrow>
          (if namespace_allowed (PAllowedNamespaces (PSpec pool)) namespace \<and>
              any_address (pool_addresses pool) address
           then Some pool else GetPoolOfAddress store namespace address)
      | _ \<Rightarrow> GetPoolOfAddress store namespace address)"

definition EnsureAddressIsNotAvailable ::
  "k8s_obj list \<Rightarrow> string \<Rightarrow> string \<Rightarrow> string \<Rightarrow> PersistentIPPool list \<Rightarrow> PersistentIPPool list" where
  "EnsureAddressIsNotAvailable store poolName namespace address aps =
     (case searchAvailabilityPoolByName poolName aps of
        None \<Rightarrow>
          (case GetPoolOfAddress store namespace address of
             Some pool \<Rightarrow> (if PGetName pool \<noteq> poolName then aps else aps)
           | None \<Rightarrow> aps)   \<comment> \<open>the three branches only log\<close>
      | Some i \<Rightarrow> removeIPFromPool i address aps)"

definition ReleaseIP ::
  "k8s_obj list \<Rightarrow> string \<Rightarrow> string \<Rightarrow> string \<Rightarrow> PersistentIPPool list \<Rightarrow> PersistentIPPool list" where
  "ReleaseIP store poolName namespace address aps =
     (case searchAvailabilityPoolByName poolName aps of
        None \<Rightarrow>
          (case GetPoolOfAddress store namespace address of
             None \<Rightarrow> aps
           | Some pool \<Rightarrow> recreatePoolAvailability pool [address] aps)
      | Some i \<Rightarrow>
          (if any_address (pool_addresses (aps ! i)) address then aps
           else case GetPoolOfAddress store namespace address of
                  None \<Rightarrow> aps
                | Some pool \<Rightarrow>
                    aps[i := set_pool_addresses (pool_addresses (aps ! i) @ [address]) (aps ! i)]))"

section \<open>Abstraction and well-formedness\<close>

definition pool_entries :: "PersistentIPPool \<Rightarrow> (string \<times> string) set" where
  "pool_entries p = Pair (PGetName p) ` set (pool_addresses p)"

definition free_ips :: "PersistentIPPool list \<Rightarrow> (string \<times> string) set" where
  "free_ips aps = (\<Union>p \<in> set aps. pool_entries p)"

definition availability_wf :: "PersistentIPPool list \<Rightarrow> bool" where
  "availability_wf aps \<longleftrightarrow>
     distinct (map PGetName aps) \<and> (\<forall>p \<in> set aps. pool_addresses p \<noteq> [])"

text \<open>The pool a release finds for an address is the pool the caller names.\<close>

definition pool_owns :: "k8s_obj list \<Rightarrow> string \<Rightarrow> string \<Rightarrow> string \<Rightarrow> bool" where
  "pool_owns store poolName namespace address \<longleftrightarrow>
     (\<exists>p. GetPoolOfAddress store namespace address = Some p \<and> PGetName p = poolName)"

lemma free_ips_Nil [simp]: "free_ips [] = {}"
  by (simp add: free_ips_def)

lemma free_ips_append [simp]: "free_ips (xs @ ys) = free_ips xs \<union> free_ips ys"
  by (auto simp: free_ips_def)

lemma free_ips_single [simp]: "free_ips [p] = pool_entries p"
  by (simp add: free_ips_def)

lemma pool_entries_set [simp]:
  "pool_entries (set_pool_addresses as p) = Pair (PGetName p) ` set as"
  by (simp add: pool_entries_def)

lemma availability_wf_distinct: "availability_wf aps \<Longrightarrow> distinct (map PGetName aps)"
  by (simp add: availability_wf_def)

text \<open>One entry of a well-formed list and the rest of it.\<close>

lemma free_ips_split:
  assumes "i < length aps"
  shows "free_ips aps = pool_entries (aps ! i) \<union> free_ips (swap_remove i aps)"
  using set_swap_remove [OF assms] by (simp add: free_ips_def)

lemma free_ips_update:
  assumes "i < length aps"
  shows "free_ips (aps[i := p]) = pool_entries p \<union> free_ips (swap_remove i aps)"
  using set_update_swap_remove [OF assms] by (simp add: free_ips_def)

lemma free_ips_rest_other:
  assumes "availability_wf aps" and "i < length aps"
  shows "(PGetName (aps ! i), a) \<notin> free_ips (swap_remove i aps)"
  using distinct_map_swap_remove(2) [OF assms(2) availability_wf_distinct [OF assms(1)]]
  by (auto simp: free_ips_def pool_entries_def)

lemma availability_wf_swap_remove:
  assumes "availability_wf aps" and "i < length aps"
  shows "availability_wf (swap_remove i aps)"
  using assms distinct_map_swap_remove(1) [OF assms(2) availability_wf_distinct [OF assms(1)]]
    set_swap_remove [OF assms(2)]
  by (auto simp: availability_wf_def)

lemma map_PGetName_update:
  "i < length aps \<Longrightarrow> PGetName p = PGetName (aps ! i) \<Longrightarrow> map PGetName (aps[i := p]) = map PGetName aps"
  by (metis list_update_id map_update)

lemma availability_wf_update:
  assumes "availability_wf aps" and "i < length aps"
    and "PGetName p = PGetName (aps ! i)" and "pool_addresses p \<noteq> []"
  shows "availability_wf (aps[i := p])"
  using assms map_PGetName_update [OF assms(2,3)] set_update_subset_insert [of aps i p]
  by (auto simp: availability_wf_def)

lemma availability_wf_snoc:
  assumes "availability_wf aps" and "searchAvailabilityPoolByName (PGetName p) aps = None"
    and "pool_addresses p \<noteq> []"
  shows "availability_wf (aps @ [p])"
  using assms
  by (auto simp: availability_wf_def searchAvailabilityPoolByName_def find_index_None)

lemma searchAvailability_Some:
  "searchAvailabilityPoolByName name aps = Some i \<Longrightarrow> i < length aps \<and> PGetName (aps ! i) = name"
  unfolding searchAvailabilityPoolByName_def by (auto dest: find_index_lt find_index_sat)

section \<open>Taking an address out\<close>

lemma removeIPFromPool_spec:
  assumes wf: "availability_wf aps" and i: "i < length aps"
  shows "free_ips (removeIPFromPool i address aps) = free_ips aps - {(PGetName (aps ! i), address)}"
    and "availability_wf (removeIPFromPool i address aps)"
proof -
  let ?p = "aps ! i" and ?rem = "filter (\<lambda>a. a \<noteq> address) (pool_addresses (aps ! i))"
  let ?p' = "set_pool_addresses ?rem ?p"
  have free: "free_ips (aps[i := ?p']) = free_ips aps - {(PGetName ?p, address)}"
    using free_ips_rest_other [OF wf i]
    by (auto simp: free_ips_update [OF i] free_ips_split [OF i] pool_entries_def)
  have "free_ips (removeIPFromPool i address aps) = free_ips (aps[i := ?p']) \<and>
        availability_wf (removeIPFromPool i address aps)"
  proof (cases "?rem = []")
    case True
    have names: "map PGetName (aps[i := ?p']) = map PGetName aps"
      using i by (simp add: map_PGetName_update)
    have "find_index (\<lambda>x. PGetName x = PGetName ?p') (aps[i := ?p']) = Some i"
      by (rule find_index_key) (use i names availability_wf_distinct [OF wf] in simp_all)
    with True i have res: "removeIPFromPool i address aps = swap_remove i aps"
      by (simp add: removeIPFromPool_def removeAvailablePool_def Let_def)
    show ?thesis
      using True wf i by (auto simp: res free_ips_update [OF i] availability_wf_swap_remove)
  next
    case False
    then have "removeIPFromPool i address aps = aps[i := ?p']"
      by (simp add: removeIPFromPool_def Let_def)
    with False wf i show ?thesis by (simp add: availability_wf_update)
  qed
  with free show "free_ips (removeIPFromPool i address aps) = free_ips aps - {(PGetName ?p, address)}"
    and "availability_wf (removeIPFromPool i address aps)"
    by simp_all
qed

lemma getAvailability_Some:
  "getAvailabilityPoolOfAddress ns a aps = Some i \<Longrightarrow>
     i < length aps \<and> a \<in> set (pool_addresses (aps ! i)) \<and>
     namespace_allowed (PAllowedNamespaces (PSpec (aps ! i))) ns"
  unfolding getAvailabilityPoolOfAddress_def by (auto dest: find_index_lt find_index_sat)

lemma getAvailability_None:
  "getAvailabilityPoolOfAddress ns a aps = None \<longleftrightarrow>
     (\<forall>p \<in> set aps. namespace_allowed (PAllowedNamespaces (PSpec p)) ns \<longrightarrow> a \<notin> set (pool_addresses p))"
  by (auto simp: getAvailabilityPoolOfAddress_def find_index_None)

lemma UseIP_Inr:
  assumes "UseIP ns a aps = (Inr pool, aps')"
  obtains i where "getAvailabilityPoolOfAddress ns a aps = Some i"
    and "PMeta pool = PMeta (aps ! i)" and "PSpec pool = (PSpec (aps ! i))\<lparr>Addresses := pool_addresses pool\<rparr>"
    and "aps' = removeIPFromPool i a aps"
  using assms
  by (auto simp: UseIP_def set_pool_addresses_def split: if_splits option.splits)

lemma UseIP_Inl: "UseIP ns a aps = (Inl e, aps') \<Longrightarrow> aps' = aps \<and> e = ErrNoIPAvailable"
  by (auto simp: UseIP_def split: if_splits option.splits)

lemma UseIP_success:
  assumes wf: "availability_wf aps" and use: "UseIP ns a aps = (Inr pool, aps')"
  shows "(PGetName pool, a) \<in> free_ips aps"
    and "free_ips aps' = free_ips aps - {(PGetName pool, a)}"
    and "availability_wf aps'"
    and "namespace_allowed (PAllowedNamespaces (PSpec pool)) ns"
    and "\<exists>p \<in> set aps. PMeta p = PMeta pool \<and> a \<in> set (pool_addresses p) \<and>
           PSpec pool = (PSpec p)\<lparr>Addresses := pool_addresses pool\<rparr>"
proof -
  from use obtain i where g: "getAvailabilityPoolOfAddress ns a aps = Some i"
    and m: "PMeta pool = PMeta (aps ! i)"
    and sp: "PSpec pool = (PSpec (aps ! i))\<lparr>Addresses := pool_addresses pool\<rparr>"
    and r: "aps' = removeIPFromPool i a aps"
    by (rule UseIP_Inr)
  from getAvailability_Some [OF g] have i: "i < length aps" and a: "a \<in> set (pool_addresses (aps ! i))"
    and ns: "namespace_allowed (PAllowedNamespaces (PSpec (aps ! i))) ns" by auto
  from a i show "(PGetName pool, a) \<in> free_ips aps"
    by (auto simp: m free_ips_split [OF i] pool_entries_def)
  show "free_ips aps' = free_ips aps - {(PGetName pool, a)}" "availability_wf aps'"
    by (simp_all add: r m removeIPFromPool_spec [OF wf i])
  from ns show "namespace_allowed (PAllowedNamespaces (PSpec pool)) ns" by (subst sp) simp
  from i a m sp show "\<exists>p \<in> set aps. PMeta p = PMeta pool \<and> a \<in> set (pool_addresses p) \<and>
      PSpec pool = (PSpec p)\<lparr>Addresses := pool_addresses pool\<rparr>"
    by (intro bexI [of _ "aps ! i"]) auto
qed

text \<open>The call succeeds exactly when some pool open to the namespace has the address.\<close>

lemma UseIP_succeeds_iff:
  "(\<exists>pool. fst (UseIP ns a aps) = Inr pool) \<longleftrightarrow>
     (\<exists>p \<in> set aps. namespace_allowed (PAllowedNamespaces (PSpec p)) ns \<and> a \<in> set (pool_addresses p))"
proof (cases "getAvailabilityPoolOfAddress ns a aps")
  case None
  then have "fst (UseIP ns a aps) = Inl ErrNoIPAvailable" by (simp add: UseIP_def)
  with None show ?thesis by (auto simp: getAvailability_None)
next
  case (Some i)
  from getAvailability_Some [OF Some] have "aps \<noteq> []" "pool_addresses (aps ! i) \<noteq> []" by auto
  with Some have "\<exists>pool. fst (UseIP ns a aps) = Inr pool" by (simp add: UseIP_def)
  with getAvailability_Some [OF Some] show ?thesis by (auto intro!: bexI [of _ "aps ! i"])
qed

section \<open>Putting an address back\<close>

lemma ReleaseIP_spec:
  assumes wf: "availability_wf aps" and owns: "pool_owns store poolName ns a"
  shows "free_ips (ReleaseIP store poolName ns a aps) = insert (poolName, a) (free_ips aps)"
    and "availability_wf (ReleaseIP store poolName ns a aps)"
proof -
  from owns obtain p where p: "GetPoolOfAddress store ns a = Some p" and n: "PGetName p = poolName"
    by (auto simp: pool_owns_def)
  have "free_ips (ReleaseIP store poolName ns a aps) = insert (poolName, a) (free_ips aps) \<and>
        availability_wf (ReleaseIP store poolName ns a aps)"
  proof (cases "searchAvailabilityPoolByName poolName aps")
    case None
    then show ?thesis
      using wf p n by (auto simp: ReleaseIP_def recreatePoolAvailability_def intro!: availability_wf_snoc)
  next
    case (Some i)
    from searchAvailability_Some [OF Some] have i: "i < length aps" and pn: "PGetName (aps ! i) = poolName"
      by auto
    show ?thesis
    proof (cases "a \<in> set (pool_addresses (aps ! i))")
      case True
      with Some pn i wf show ?thesis by (auto simp: ReleaseIP_def free_ips_split [OF i] pool_entries_def)
    next
      case False
      with Some p i pn wf show ?thesis
        by (auto simp: ReleaseIP_def free_ips_update free_ips_split [OF i] pool_entries_def
            intro!: availability_wf_update)
    qed
  qed
  then show "free_ips (ReleaseIP store poolName ns a aps) = insert (poolName, a) (free_ips aps)"
    and "availability_wf (ReleaseIP store poolName ns a aps)" by auto
qed

text \<open>Where the store no longer knows the address for the namespace, nothing is put back.\<close>

lemma ReleaseIP_unknown: "GetPoolOfAddress store ns a = None \<Longrightarrow> ReleaseIP store poolName ns a aps = aps"
  by (auto simp: ReleaseIP_def split: option.splits)

lemma EnsureAddressIsNotAvailable_spec:
  assumes wf: "availability_wf aps"
  shows "free_ips (EnsureAddressIsNotAvailable store poolName ns a aps) = free_ips aps - {(poolName, a)}"
    and "availability_wf (EnsureAddressIsNotAvailable store poolName ns a aps)"
proof -
  have "free_ips (EnsureAddressIsNotAvailable store poolName ns a aps) = free_ips aps - {(poolName, a)} \<and>
        availability_wf (EnsureAddressIsNotAvailable store poolName ns a aps)"
  proof (cases "searchAvailabilityPoolByName poolName aps")
    case None
    then have "(poolName, a) \<notin> free_ips aps"
      by (auto simp: searchAvailabilityPoolByName_def find_index_None free_ips_def pool_entries_def)
    with None wf show ?thesis
      by (auto simp: EnsureAddressIsNotAvailable_def split: option.splits)
  next
    case (Some i)
    with searchAvailability_Some [OF Some] removeIPFromPool_spec [OF wf] show ?thesis
      by (simp add: EnsureAddressIsNotAvailable_def)
  qed
  then show "free_ips (EnsureAddressIsNotAvailable store poolName ns a aps) = free_ips aps - {(poolName, a)}"
    and "availability_wf (EnsureAddressIsNotAvailable store poolName ns a aps)" by auto
qed

lemma GetPoolOfAddress_allowed:
  "GetPoolOfAddress store ns a = Some p \<Longrightarrow> namespace_allowed (PAllowedNamespaces (PSpec p)) ns"
  by (induction store) (auto split: k8s_obj.split_asm if_split_asm)

section \<open>An address that has moved to another pool\<close>

text \<open>
  An address that was given out by a pool without free addresses left, and that now belongs to
  another pool: its release makes a second entry with the name of its new pool, and its next
  use removes the first entry of that name instead of the emptied second one.
\<close>

lemma release_moved:
  assumes wf: "availability_wf aps" and none: "searchAvailabilityPoolByName old aps = None"
    and own: "GetPoolOfAddress store ns a = Some b"
    and i: "i < length aps" "PGetName (aps ! i) = PGetName b"
    and nofree: "\<forall>p \<in> set aps. a \<notin> set (pool_addresses p)"
  shows "UseIP ns a (ReleaseIP store old ns a aps) =
    (Inr (set_pool_addresses [] b), aps[i := set_pool_addresses [] b])"
proof -
  let ?b = "set_pool_addresses [a] b" and ?e = "set_pool_addresses [] b"
  have rel: "ReleaseIP store old ns a aps = aps @ [?b]"
    by (simp add: ReleaseIP_def none own recreatePoolAvailability_def)
  have "getAvailabilityPoolOfAddress ns a aps = None" using nofree by (simp add: getAvailability_None)
  then have get: "getAvailabilityPoolOfAddress ns a (aps @ [?b]) = Some (length aps)"
    using GetPoolOfAddress_allowed [OF own] by (simp add: getAvailabilityPoolOfAddress_def find_index_snoc)
  have "find_index (\<lambda>p. PGetName p = PGetName b) aps = Some i"
    using i by (intro find_index_key availability_wf_distinct [OF wf])
  then have "removeIPFromPool (length aps) a (aps @ [?b]) = swap_remove i (aps @ [?e])"
    by (simp add: removeIPFromPool_def removeAvailablePool_def find_index_snoc Let_def)
  also have "swap_remove i (aps @ [?e]) = aps[i := ?e]"
    using i(1) by (simp add: swap_remove_def list_update_append1 butlast_append)
  finally show ?thesis using get by (simp add: rel UseIP_def)
qed

section \<open>Recomputing the availability of a pool\<close>

lemma addresses_contain_iff [simp]: "addresses_contain as ip \<longleftrightarrow> ip \<in> Address ` set as"
  by (induction as) auto

definition allocated_ips :: "IPAllocation list \<Rightarrow> string set" where
  "allocated_ips allocations = (\<Union>a \<in> set allocations. Address ` set (alloc_addresses a))"

definition allocations_of :: "k8s_obj list \<Rightarrow> IPAllocation list" where
  "allocations_of objs =
     concat (map (\<lambda>obj. case obj of IPAllocationObj a \<Rightarrow> [a] | _ \<Rightarrow> []) objs)"

lemma checkIfIPIsAllocated_iff [simp]: "checkIfIPIsAllocated ip as \<longleftrightarrow> ip \<in> allocated_ips as"
  by (induction as) (auto simp: allocated_ips_def)

lemma checkIfIPIsAllocatedByCache_eq:
  "checkIfIPIsAllocatedByCache ip objs = checkIfIPIsAllocated ip (allocations_of objs)"
  by (induction objs) (auto simp: allocations_of_def allocated_ips_def split: k8s_obj.splits)

text \<open>The two recomputations are one function of the allocations the cache holds.\<close>

lemma ProcessIPAvailability_cache_eq:
  "ProcessIPAvailabilityFromCacheList pool objs aps = processIPAvailability pool (allocations_of objs) aps"
  by (simp add: ProcessIPAvailabilityFromCacheList_def processIPAvailability_def
      checkIfIPIsAllocatedByCache_eq)

lemma addOrReplace_spec:
  assumes wf: "availability_wf aps" and ne: "pool_addresses pool \<noteq> []"
  shows "free_ips (addOrReplaceAvailabilityPool pool aps) =
      {e \<in> free_ips aps. fst e \<noteq> PGetName pool} \<union> pool_entries pool"
    and "availability_wf (addOrReplaceAvailabilityPool pool aps)"
proof -
  have "free_ips (addOrReplaceAvailabilityPool pool aps) =
      {e \<in> free_ips aps. fst e \<noteq> PGetName pool} \<union> pool_entries pool \<and>
      availability_wf (addOrReplaceAvailabilityPool pool aps)"
  proof (cases "searchAvailabilityPoolByName (PGetName pool) aps")
    case None
    then have "\<forall>e \<in> free_ips aps. fst e \<noteq> PGetName pool"
      by (auto simp: searchAvailabilityPoolByName_def find_index_None free_ips_def pool_entries_def)
    then have "{e \<in> free_ips aps. fst e \<noteq> PGetName pool} = free_ips aps" by auto
    with None wf ne show ?thesis
      by (simp add: addOrReplaceAvailabilityPool_def availability_wf_snoc)
  next
    case (Some i)
    from searchAvailability_Some [OF Some] have i: "i < length aps" and n: "PGetName (aps ! i) = PGetName pool"
      by auto
    have "{e \<in> free_ips aps. fst e \<noteq> PGetName pool} = free_ips (swap_remove i aps)"
      using free_ips_rest_other [OF wf i] n by (auto simp: free_ips_split [OF i] pool_entries_def)
    with Some i n wf ne show ?thesis
      by (auto simp: addOrReplaceAvailabilityPool_def free_ips_update intro!: availability_wf_update)
  qed
  then show "free_ips (addOrReplaceAvailabilityPool pool aps) =
      {e \<in> free_ips aps. fst e \<noteq> PGetName pool} \<union> pool_entries pool"
    and "availability_wf (addOrReplaceAvailabilityPool pool aps)" by auto
qed

lemma addOrReplace_empty: "pool_addresses pool = [] \<Longrightarrow> addOrReplaceAvailabilityPool pool aps = aps"
  by (simp add: addOrReplaceAvailabilityPool_def)

lemma processIPAvailability_wf:
  "availability_wf aps \<Longrightarrow> availability_wf (processIPAvailability pool allocations aps)"
  unfolding processIPAvailability_def Let_def
  by (cases "filter (\<lambda>ip. \<not> checkIfIPIsAllocated ip allocations) (pool_addresses pool) = []")
    (simp_all add: addOrReplace_empty addOrReplace_spec)

section \<open>Names and namespaces of the pools\<close>

text \<open>The operations change the addresses of the listed pools but neither their names nor the
  namespaces they admit.\<close>

definition pool_id :: "PersistentIPPool \<Rightarrow> string \<times> string list" where
  "pool_id p = (PGetName p, PAllowedNamespaces (PSpec p))"

definition pool_ids :: "PersistentIPPool list \<Rightarrow> (string \<times> string list) set" where
  "pool_ids aps = pool_id ` set aps"

definition store_ids :: "k8s_obj list \<Rightarrow> (string \<times> string list) set" where
  "store_ids store = {pool_id p |p. PersistentIPPoolObj p \<in> set store}"

text \<open>Some pool of this name admits the namespace.\<close>

definition admits :: "(string \<times> string list) set \<Rightarrow> string \<Rightarrow> string \<Rightarrow> bool" where
  "admits I ns n \<longleftrightarrow> (\<exists>al. (n, al) \<in> I \<and> namespace_allowed al ns)"

lemma admits_mono: "admits I ns n \<Longrightarrow> I \<subseteq> J \<Longrightarrow> admits J ns n"
  by (auto simp: admits_def)

lemma pool_id_set_addresses [simp]: "pool_id (set_pool_addresses as p) = pool_id p"
  by (simp add: pool_id_def set_pool_addresses_def)

lemma pool_ids_simps [simp]: "pool_ids [] = {}" "pool_ids (p # aps) = insert (pool_id p) (pool_ids aps)"
  "pool_ids (xs @ ys) = pool_ids xs \<union> pool_ids ys"
  by (auto simp: pool_ids_def)

lemma pool_ids_update: "pool_ids (aps[i := p]) \<subseteq> insert (pool_id p) (pool_ids aps)"
  unfolding pool_ids_def using set_update_subset_insert [of aps i p] by auto

lemma pool_ids_nth: "i < length aps \<Longrightarrow> pool_id (aps ! i) \<in> pool_ids aps"
  by (simp add: pool_ids_def)

lemma pool_ids_swap_remove: "i < length aps \<Longrightarrow> pool_ids (swap_remove i aps) \<subseteq> pool_ids aps"
  unfolding pool_ids_def using set_swap_remove [of i aps] by auto

lemma pool_ids_remove:
  assumes "i < length aps"
  shows "pool_ids (removeIPFromPool i a aps) \<subseteq> pool_ids aps"
proof -
  let ?p = "set_pool_addresses (filter (\<lambda>b. b \<noteq> a) (pool_addresses (aps ! i))) (aps ! i)"
  have u: "pool_ids (aps[i := ?p]) \<subseteq> pool_ids aps"
    using pool_ids_update [of aps i ?p] pool_ids_nth [OF assms] by auto
  have "pool_ids (snd (removeAvailablePool ?p (aps[i := ?p]))) \<subseteq> pool_ids (aps[i := ?p])"
    using pool_ids_swap_remove [OF find_index_lt] by (simp add: removeAvailablePool_def split: option.split)
  with u show ?thesis by (auto simp: removeIPFromPool_def Let_def)
qed

lemma UseIP_ids:
  assumes "UseIP ns a aps = (r, aps')"
  shows "pool_ids aps' \<subseteq> pool_ids aps"
    and "r = Inr pool \<Longrightarrow> admits (pool_ids aps) ns (PGetName pool)"
proof -
  have "pool_ids aps' \<subseteq> pool_ids aps \<and> (r = Inr pool \<longrightarrow> admits (pool_ids aps) ns (PGetName pool))" for pool
  proof (cases r)
    case (Inl e)
    with assms show ?thesis by (auto dest: UseIP_Inl)
  next
    case (Inr q)
    with assms obtain i where g: "getAvailabilityPoolOfAddress ns a aps = Some i"
      and m: "PMeta q = PMeta (aps ! i)" and aps': "aps' = removeIPFromPool i a aps" by (metis UseIP_Inr)
    from getAvailability_Some [OF g] have i: "i < length aps"
      and ns: "namespace_allowed (PAllowedNamespaces (PSpec (aps ! i))) ns" by auto
    from pool_ids_nth [OF i] ns m have "admits (pool_ids aps) ns (PGetName q)"
      by (auto simp: admits_def pool_id_def)
    with Inr pool_ids_remove [OF i] aps' show ?thesis by auto
  qed
  then show "pool_ids aps' \<subseteq> pool_ids aps"
    and "r = Inr pool \<Longrightarrow> admits (pool_ids aps) ns (PGetName pool)" by blast+
qed

lemma GetPoolOfAddress_in: "GetPoolOfAddress store ns a = Some p \<Longrightarrow> PersistentIPPoolObj p \<in> set store"
  by (induction store) (auto split: k8s_obj.split_asm if_split_asm)

lemma ReleaseIP_ids: "pool_ids (ReleaseIP store n ns a aps) \<subseteq> pool_ids aps \<union> store_ids store"
proof (cases "searchAvailabilityPoolByName n aps")
  case None
  then show ?thesis
    by (auto simp: ReleaseIP_def recreatePoolAvailability_def store_ids_def
        dest: GetPoolOfAddress_in split: option.split)
next
  case (Some i)
  from searchAvailability_Some [OF Some] pool_ids_update [of aps i] pool_ids_nth [of i aps]
  have "pool_ids (aps[i := set_pool_addresses as (aps ! i)]) \<subseteq> pool_ids aps" for as by fastforce
  with Some show ?thesis by (auto simp: ReleaseIP_def split: option.split)
qed

lemma EnsureAddressIsNotAvailable_ids:
  "pool_ids (EnsureAddressIsNotAvailable store n ns a aps) \<subseteq> pool_ids aps"
  using pool_ids_remove [OF conjunct1 [OF searchAvailability_Some]]
  by (simp add: EnsureAddressIsNotAvailable_def split: option.split)

lemma addOrReplace_ids: "pool_ids (addOrReplaceAvailabilityPool p aps) \<subseteq> insert (pool_id p) (pool_ids aps)"
  using pool_ids_update [of aps _ p] by (auto simp: addOrReplaceAvailabilityPool_def split: option.split)

section \<open>The contract holds of the code\<close>

definition take_ip ::
  "string \<Rightarrow> string \<Rightarrow> PersistentIPPool list \<Rightarrow> string option \<times> PersistentIPPool list" where
  "take_ip ns a aps =
     (case UseIP ns a aps of (Inr p, aps') \<Rightarrow> (Some (PGetName p), aps') | (Inl e, aps') \<Rightarrow> (None, aps'))"

lemma take_ip_Some: "take_ip ns a aps = (Some n, aps') \<longleftrightarrow> (\<exists>p. UseIP ns a aps = (Inr p, aps') \<and> n = PGetName p)"
  by (auto simp: take_ip_def split: prod.splits sum.splits)

lemma take_ip_None: "take_ip ns a aps = (None, aps') \<longleftrightarrow> (\<exists>e. UseIP ns a aps = (Inl e, aps'))"
  by (auto simp: take_ip_def split: prod.splits sum.splits)

interpretation av: ip_availability free_ips availability_wf take_ip
  "\<lambda>p ns a. ReleaseIP store p ns a" "pool_owns store" for store
  by unfold_locales
    (auto simp: take_ip_Some take_ip_None UseIP_success ReleaseIP_spec dest: UseIP_Inl)

end
