(* ===== verification/Ipallocations.thy ===== *)
theory Ipallocations
  imports Utils
begin

text \<open>
  \<open>pkg/controller/ipallocations/manager.go\<close>: creation, update, status changes and removal
  of IPAllocation objects through the API. A \<open>*IPAllocation\<close> is an \<open>IPAllocation option\<close>
  (\<open>None\<close> is nil); a Go result \<open>(*IPAllocation, error)\<close> is the pair of both options.
\<close>

type_synonym alloc_result = "IPAllocation option \<times> go_error option"

section \<open>Creation and update, with retry on conflict\<close>

definition new_allocation ::
  "string \<Rightarrow> string \<Rightarrow> IPType \<Rightarrow> IPAllocationAddresses list \<Rightarrow> IPAllocation" where
  "new_allocation namespace name allocationType allocations =
     \<lparr>AMeta = \<lparr>Name = name, Namespace = namespace,
               Labels = [(''app.kubernetes.io/managed-by'', ''plenuslb'')], ResourceVersion = ''''\<rparr>,
      ASpec = \<lparr>AllocationType = allocationType, Allocations = allocations\<rparr>,
      AStatus = \<lparr>State = AllocationStatusEmpty, Message = ''''\<rparr>\<rparr>"

definition create_attempt ::
  "'w env \<Rightarrow> string \<Rightarrow> IPAllocation \<Rightarrow> (IPAllocation option \<times> 'w) attempt" where
  "create_attempt E namespace ipAllocation = (\<lambda>(created, w).
     let ((allocation, err), w) = IPAllocations_Create E namespace ipAllocation w
     in Some (case err of Some e \<Rightarrow> (Some e, created, w) | None \<Rightarrow> (None, Some allocation, w)))"

definition CreateAllocation ::
  "'w env \<Rightarrow> string \<Rightarrow> string \<Rightarrow> IPType \<Rightarrow> IPAllocationAddresses list \<Rightarrow> 'w sys \<Rightarrow>
   (alloc_result \<times> 'w sys) option" where
  "CreateAllocation E namespace name allocationType allocations s =
     (if allocationType = EphemeralIP \<and> length allocations > 1
      then Some ((None, Some ErrMoreThanOneEphemeralIP), s)
      else do {
        let ipAllocation = new_allocation namespace name allocationType allocations;
        (retryErr, createdAllocation, w) \<leftarrow>
          retry_allocation E IsConflict (create_attempt E namespace ipAllocation) (None, world s);
        if retryErr \<noteq> None then Some ((None, retryErr), s\<lparr>world := w\<rparr>)
        else Some ((createdAllocation, None), s\<lparr>world := w\<rparr>)
      })"

definition update_attempt :: "'w env \<Rightarrow> IPAllocation \<Rightarrow> (IPAllocation option \<times> 'w) attempt" where
  "update_attempt E allocationRO = (\<lambda>(updated, w).
     let ((allocation, err), w) = IPAllocations_Update E (AGetNamespace allocationRO) allocationRO w
     in Some (case err of Some e \<Rightarrow> (Some e, updated, w) | None \<Rightarrow> (None, Some allocation, w)))"

definition UpdateAllocation ::
  "'w env \<Rightarrow> IPAllocation \<Rightarrow> 'w sys \<Rightarrow> (alloc_result \<times> 'w sys) option" where
  "UpdateAllocation E allocationRO s =
     do {
       (retryErr, updatedAllocation, w) \<leftarrow>
         retry_allocation E IsConflict (update_attempt E allocationRO) (None, world s);
       if retryErr \<noteq> None then Some ((None, retryErr), s\<lparr>world := w\<rparr>)
       else Some ((updatedAllocation, None), s\<lparr>world := w\<rparr>)
     }"

section \<open>Status changes\<close>

text \<open>Each of them copies the object (a nil pointer panics at the first write), sets the two
  status fields and sends one status update.\<close>

definition send_status ::
  "'w env \<Rightarrow> IPAllocation \<Rightarrow> 'w sys \<Rightarrow> (IPAllocation \<times> go_error option) \<times> 'w sys" where
  "send_status E allocation s =
     onw (IPAllocations_UpdateStatus E (AGetNamespace allocation) allocation) s"

definition status_result :: "IPAllocation \<times> go_error option \<Rightarrow> alloc_result" where
  "status_result r = (case r of (result, Some e) \<Rightarrow> (None, Some e) | (result, None) \<Rightarrow> (Some result, None))"

definition SetAllocationStatusSuccess ::
  "'w env \<Rightarrow> IPAllocation option \<Rightarrow> 'w sys \<Rightarrow> (alloc_result \<times> 'w sys) option" where
  "SetAllocationStatusSuccess E allocationRO s =
     do {
       allocation \<leftarrow> allocationRO;
       let ((result, err), s) = send_status E (set_alloc_status AllocationStatusSuccess ''Allocated'' allocation) s;
       Some ((Some result, err), s)
     }"

definition SetAllocationStatusError ::
  "'w env \<Rightarrow> IPAllocation option \<Rightarrow> go_error \<Rightarrow> 'w sys \<Rightarrow> (alloc_result \<times> 'w sys) option" where
  "SetAllocationStatusError E allocationRO reason s =
     do {
       allocation \<leftarrow> allocationRO;
       let (r, s) = send_status E (set_alloc_status AllocationStatusError (error_message reason) allocation) s;
       Some (status_result r, s)
     }"

definition SetAllocationStatusNodeError ::
  "'w env \<Rightarrow> IPAllocation option \<Rightarrow> go_error \<Rightarrow> 'w sys \<Rightarrow> (alloc_result \<times> 'w sys) option" where
  "SetAllocationStatusNodeError E allocationRO reason s =
     do {
       allocation \<leftarrow> allocationRO;
       let (r, s) = send_status E (set_alloc_status AllocationStatusNodeError (error_message reason) allocation) s;
       Some (status_result r, s)
     }"

definition SetAllocationStatusFailed ::
  "'w env \<Rightarrow> IPAllocation option \<Rightarrow> go_error \<Rightarrow> 'w sys \<Rightarrow> (alloc_result \<times> 'w sys) option" where
  "SetAllocationStatusFailed E allocationRO reason s =
     do {
       allocation \<leftarrow> allocationRO;
       let (r, s) = send_status E (set_alloc_status AllocationStatusFailed (error_message reason) allocation) s;
       Some (status_result r, s)
     }"

definition SetAllocationStatusAddrDeleted ::
  "'w env \<Rightarrow> IPAllocation option \<Rightarrow> string \<Rightarrow> 'w sys \<Rightarrow> (alloc_result \<times> 'w sys) option" where
  "SetAllocationStatusAddrDeleted E allocationRO addr s =
     do {
       allocation \<leftarrow> allocationRO;
       let (r, s) = send_status E
         (set_alloc_status AllocationStatusAddrDeleted (''Address '' @ addr @ '' removed from pool'') allocation) s;
       Some (status_result r, s)
     }"

definition SetAllocationStatusPending ::
  "'w env \<Rightarrow> IPAllocation option \<Rightarrow> 'w sys \<Rightarrow> (alloc_result \<times> 'w sys) option" where
  "SetAllocationStatusPending E allocationRO s =
     do {
       allocation \<leftarrow> allocationRO;
       let (r, s) = send_status E (set_alloc_status AllocationStatusPending ''Waiting for allocator'' allocation) s;
       Some (status_result r, s)
     }"

section \<open>Removal and lookup\<close>

definition RemoveAddressFromAllocation ::
  "'w env \<Rightarrow> IPAllocation option \<Rightarrow> string \<Rightarrow> 'w sys \<Rightarrow> (alloc_result \<times> 'w sys) option" where
  "RemoveAddressFromAllocation E allocationRO removedAddress s =
     do {
       allocation \<leftarrow> allocationRO;
       let addrAllocations = filter (\<lambda>a. Address a \<noteq> removedAddress) (alloc_addresses allocation);
       if length addrAllocations \<noteq> length (alloc_addresses allocation)
       then do {
         let allocation = set_alloc_addresses addrAllocations allocation;
         let ((updated, err), s) = onw (IPAllocations_Update E (AGetNamespace allocation) allocation) s;
         (case err of
            Some e \<Rightarrow> Some ((None, Some e), s)
          | None \<Rightarrow>
              do {
                ((result, err), s) \<leftarrow> SetAllocationStatusAddrDeleted E (Some updated) removedAddress s;
                if err \<noteq> None then Some ((None, err), s) else Some ((result, None), s)
              })
       }
       else Some ((Some allocation, None), s)
     }"

definition DeleteAllocationByName ::
  "'w env \<Rightarrow> string \<Rightarrow> string \<Rightarrow> 'w sys \<Rightarrow> go_error option \<times> 'w sys" where
  "DeleteAllocationByName E allocationNamespace allocationName s =
     (let (err, s) = onw (IPAllocations_Delete E allocationNamespace allocationName) s
      in case err of
           Some e \<Rightarrow> if \<not> IsNotFound e then (Some e, s) else (None, s)
         | None \<Rightarrow> (None, s))"

definition FindAllocation ::
  "'w env \<Rightarrow> string \<Rightarrow> string \<Rightarrow> 'w sys \<Rightarrow> alloc_result \<times> 'w sys" where
  "FindAllocation E allocationNamespace allocationName s =
     (let ((allocation, err), s) = onw (IPAllocations_Get E allocationNamespace allocationName) s
      in case err of
           Some e \<Rightarrow> if \<not> IsNotFound e then ((None, Some e), s) else ((None, None), s)
         | None \<Rightarrow> ((Some allocation, None), s))"

lemmas status_setters =
  SetAllocationStatusSuccess_def SetAllocationStatusError_def SetAllocationStatusNodeError_def
  SetAllocationStatusFailed_def SetAllocationStatusAddrDeleted_def SetAllocationStatusPending_def

section \<open>Frames: none of these touches the controller's own variables\<close>

lemma send_status_world_only [world_only_intros]: "send_status E a s = (r, s') \<Longrightarrow> world_only s s'"
  unfolding send_status_def by (rule onw_world_only)

lemma CreateAllocation_world_only [world_only_intros]:
  "CreateAllocation E ns n ty as s = Some (r, s') \<Longrightarrow> world_only s s'"
  by (auto simp: CreateAllocation_def elim!: bind_SomeE split: asm_splits)

lemma UpdateAllocation_world_only [world_only_intros]:
  "UpdateAllocation E a s = Some (r, s') \<Longrightarrow> world_only s s'"
  by (auto simp: UpdateAllocation_def elim!: bind_SomeE split: asm_splits)

lemma status_world_only [world_only_intros]:
  "SetAllocationStatusSuccess E a s = Some (r, s') \<Longrightarrow> world_only s s'"
  "SetAllocationStatusError E a e s = Some (r, s') \<Longrightarrow> world_only s s'"
  "SetAllocationStatusNodeError E a e s = Some (r, s') \<Longrightarrow> world_only s s'"
  "SetAllocationStatusFailed E a e s = Some (r, s') \<Longrightarrow> world_only s s'"
  "SetAllocationStatusAddrDeleted E a m s = Some (r, s') \<Longrightarrow> world_only s s'"
  "SetAllocationStatusPending E a s = Some (r, s') \<Longrightarrow> world_only s s'"
  by (auto simp: status_setters Let_def elim!: bind_SomeE split: asm_splits dest: send_status_world_only)

lemma DeleteAllocationByName_world_only [world_only_intros]:
  "DeleteAllocationByName E ns n s = (r, s') \<Longrightarrow> world_only s s'"
  by (auto simp: DeleteAllocationByName_def split: asm_splits dest: onw_world_only)

lemma FindAllocation_world_only [world_only_intros]:
  "FindAllocation E ns n s = (r, s') \<Longrightarrow> world_only s s'"
  by (auto simp: FindAllocation_def split: asm_splits dest: onw_world_only)

lemma RemoveAddressFromAllocation_world_only [world_only_intros]:
  "RemoveAddressFromAllocation E a x s = Some (r, s') \<Longrightarrow> world_only s s'"
  unfolding RemoveAddressFromAllocation_def
  by (auto simp: Let_def world_only_def elim!: bind_SomeE split: asm_splits
      dest!: onw_world_only status_world_only(5))

section \<open>Totality and panics\<close>

lemma status_setters_total:
  "SetAllocationStatusSuccess E (Some a) s \<noteq> None"
  "SetAllocationStatusError E (Some a) e s \<noteq> None"
  "SetAllocationStatusNodeError E (Some a) e s \<noteq> None"
  "SetAllocationStatusFailed E (Some a) e s \<noteq> None"
  "SetAllocationStatusAddrDeleted E (Some a) m s \<noteq> None"
  "SetAllocationStatusPending E (Some a) s \<noteq> None"
  by (auto simp: status_setters split: prod.splits)

lemma status_setters_nil:
  "SetAllocationStatusError E None e s = None"
  "SetAllocationStatusPending E None s = None"
  by (simp_all add: status_setters)

lemma create_attempt_Some: "create_attempt E ns a x \<noteq> None"
  by (auto simp: create_attempt_def split: prod.splits option.splits)

lemma update_attempt_Some: "update_attempt E a x \<noteq> None"
  by (auto simp: update_attempt_def split: prod.splits option.splits)

lemma create_attempt_ok: "create_attempt E ns a st = Some (None, c, w') \<Longrightarrow> \<exists>obj. c = Some obj"
  by (auto simp: create_attempt_def split: prod.splits option.splits)

lemma update_attempt_ok: "update_attempt E a st = Some (None, c, w') \<Longrightarrow> \<exists>obj. c = Some obj"
  by (auto simp: update_attempt_def split: prod.splits option.splits)

text \<open>Both return, with an object exactly when there is no error.\<close>

lemma CreateAllocation_cases:
  assumes R: "retry_ok (retry_allocation E)"
  obtains (created) a s' where "CreateAllocation E ns n ty as s = Some ((Some a, None), s')"
  | (failed) e s' where "CreateAllocation E ns n ty as s = Some ((None, Some e), s')"
proof -
  let ?f = "create_attempt E ns (new_allocation ns n ty as)"
  from retry_ok_total [OF R, of "?f" IsConflict "(None, world s)", OF create_attempt_Some]
  obtain r c w where res: "retry_allocation E IsConflict ?f (None, world s) = Some (r, c, w)"
    by (meson not_None_triple)
  from retry_ok_last [OF R this] obtain st where last: "?f st = Some (r, c, w)" by blast
  show ?thesis
  proof (cases "ty = EphemeralIP \<and> length as > 1")
    case True
    then show ?thesis using failed by (simp add: CreateAllocation_def)
  next
    case False
    show ?thesis
    proof (cases r)
      case None
      with last have "\<exists>obj. c = Some obj" by (auto intro: create_attempt_ok)
      then obtain obj where "c = Some obj" ..
      with None res have "CreateAllocation E ns n ty as s = Some ((Some obj, None), s\<lparr>world := w\<rparr>)"
        unfolding CreateAllocation_def if_not_P [OF False] by simp
      then show ?thesis by (rule created)
    next
      case (Some e)
      with res have "CreateAllocation E ns n ty as s = Some ((None, Some e), s\<lparr>world := w\<rparr>)"
        unfolding CreateAllocation_def if_not_P [OF False] by simp
      then show ?thesis by (rule failed)
    qed
  qed
qed

lemma UpdateAllocation_cases:
  assumes R: "retry_ok (retry_allocation E)"
  obtains (updated) a' s' where "UpdateAllocation E a s = Some ((Some a', None), s')"
  | (failed) e s' where "UpdateAllocation E a s = Some ((None, Some e), s')"
proof -
  from retry_ok_total [OF R, of "update_attempt E a" IsConflict "(None, world s)", OF update_attempt_Some]
  obtain r c w where res: "retry_allocation E IsConflict (update_attempt E a) (None, world s) = Some (r, c, w)"
    by (meson not_None_triple)
  from retry_ok_last [OF R this] obtain st where last: "update_attempt E a st = Some (r, c, w)" by blast
  show ?thesis
  proof (cases r)
    case None
    with last have "\<exists>obj. c = Some obj" by (auto intro: update_attempt_ok)
      then obtain obj where "c = Some obj" ..
    with None res have "UpdateAllocation E a s = Some ((Some obj, None), s\<lparr>world := w\<rparr>)"
      by (simp add: UpdateAllocation_def)
    then show ?thesis by (rule updated)
  next
    case (Some e)
    with res have "UpdateAllocation E a s = Some ((None, Some e), s\<lparr>world := w\<rparr>)"
      by (simp add: UpdateAllocation_def)
    then show ?thesis by (rule failed)
  qed
qed

end
