(* ===== verification/Operator_List.thy ===== *)
theory Operator_List
  imports Utils
begin

text \<open>
  \<open>pkg/controller/operator/operatorslist.go\<close>: the operator pods the controller knows. The
  store is nil until the watcher of the operator nodes has been built, and then every use
  of it panics.
\<close>

definition OperatorPort :: nat where
  "OperatorPort = 10000"

record Operator =
  OpAddress :: string
  OpPort :: string
  OpNodeName :: string

definition zero_Operator :: Operator where
  "zero_Operator = \<lparr>OpAddress = '''', OpPort = '''', OpNodeName = ''''\<rparr>"

definition GetNodeFromOperatorPod :: "Pod \<Rightarrow> Operator" where
  "GetNodeFromOperatorPod operator =
     \<lparr>OpAddress = PodIP operator, OpPort = itoa OperatorPort, OpNodeName = PodNodeName operator\<rparr>"

definition GetOperatorsList :: "'w env \<Rightarrow> 'w sys \<Rightarrow> k8s_obj list option" where
  "GetOperatorsList E s =
     (if operatorNodesStoreBuilt s then Some (operatorNodesStore E (world s)) else None)"

fun search_operator :: "string \<Rightarrow> k8s_obj list \<Rightarrow> Operator option" where
  "search_operator name [] = None"
| "search_operator name (PodObj node # objs) =
     (if PodNodeName node = name then Some (GetNodeFromOperatorPod node) else search_operator name objs)"
| "search_operator name (obj # objs) = None"

definition SearchOperatorByClusterNodeName ::
  "'w env \<Rightarrow> string \<Rightarrow> 'w sys \<Rightarrow> Operator option option" where
  "SearchOperatorByClusterNodeName E name s =
     do { objs \<leftarrow> GetOperatorsList E s; Some (search_operator name objs) }"

fun get_operator :: "string \<Rightarrow> k8s_obj list \<Rightarrow> Operator \<times> go_error option" where
  "get_operator name [] = (zero_Operator, Some ErrNoOperatorNodeAvailable)"
| "get_operator name (PodObj operatorPod # objs) =
     (if Name (PodMeta operatorPod) = name then (GetNodeFromOperatorPod operatorPod, None)
      else get_operator name objs)"
| "get_operator name (obj # objs) = (zero_Operator, Some (unexpected_type obj))"

definition GetOperatorByName ::
  "'w env \<Rightarrow> string \<Rightarrow> 'w sys \<Rightarrow> (Operator \<times> go_error option) option" where
  "GetOperatorByName E name s = do { objs \<leftarrow> GetOperatorsList E s; Some (get_operator name objs) }"

definition GetOperatorsCount :: "'w env \<Rightarrow> 'w sys \<Rightarrow> nat option" where
  "GetOperatorsCount E s = do { objs \<leftarrow> GetOperatorsList E s; Some (length objs) }"

section \<open>A random ready operator\<close>

definition random_operator_attempt :: "'w env \<Rightarrow> bool \<Rightarrow> (Pod option \<times> 'w) attempt" where
  "random_operator_attempt E built = (\<lambda>(podNode, w).
     if \<not> built then None
     else
       let storeList = operatorNodesStore E w
       in if length storeList = 0 then None   \<comment> \<open>\<open>r.Intn(0)\<close>\<close>
          else
            let (i, w) = intn E (length storeList) w
            in (case storeList ! i of
                  PodObj node \<Rightarrow>
                    if \<not> IsPodReady node then Some (Some ErrOperatorNotReady, Some node, w)
                    else Some (None, Some node, w)
                | obj \<Rightarrow> Some (Some (unexpected_type obj), podNode, w)))"

definition GetRandomOperatorNode ::
  "'w env \<Rightarrow> 'w sys \<Rightarrow> ((Operator option \<times> go_error option) \<times> 'w sys) option" where
  "GetRandomOperatorNode E s =
     do {
       (err, podNode, w) \<leftarrow>
         retry_pod E (\<lambda>err. err = ErrOperatorNotReady)
           (random_operator_attempt E (operatorNodesStoreBuilt s)) (None, world s);
       if err \<noteq> None then Some ((None, err), s\<lparr>world := w\<rparr>)
       else do {
         node \<leftarrow> podNode;
         Some ((Some (GetNodeFromOperatorPod node), None), s\<lparr>world := w\<rparr>)
       }
     }"

section \<open>gRPC connection\<close>

text \<open>A failed dial ends the process (\<open>log.Fatalf\<close>); the client is its target address.\<close>

definition GrpcClientForNode :: "'w env \<Rightarrow> Operator \<Rightarrow> 'w sys \<Rightarrow> (string \<times> 'w sys) option" where
  "GrpcClientForNode E node s =
     (let target = OpAddress node @ '':'' @ OpPort node;
          (err, s) = onw (grpc_dial E target) s
      in if err \<noteq> None then None else Some (target, s))"

section \<open>Lemmas\<close>

lemma GetRandomOperatorNode_world_only [world_only_intros]:
  "GetRandomOperatorNode E s = Some (r, s') \<Longrightarrow> world_only s s'"
  by (auto simp: GetRandomOperatorNode_def elim!: bind_SomeE split: asm_splits)

lemma GrpcClientForNode_world_only [world_only_intros]:
  "GrpcClientForNode E n s = Some (r, s') \<Longrightarrow> world_only s s'"
  by (auto simp: GrpcClientForNode_def Let_def split: asm_splits dest: onw_world_only)

text \<open>A pod found by node name runs on that node; none is found only where the store has
  no pod of that node, or has an object that is not a pod.\<close>

lemma search_operator_Some:
  "search_operator name objs = Some op \<Longrightarrow>
     OpNodeName op = name \<and> (\<exists>pod. PodObj pod \<in> set objs \<and> op = GetNodeFromOperatorPod pod)"
  by (induction name objs rule: search_operator.induct)
    (auto simp: GetNodeFromOperatorPod_def split: if_splits)

lemma search_operator_None:
  "(\<forall>obj \<in> set objs. \<exists>pod. obj = PodObj pod) \<Longrightarrow>
     search_operator name objs = None \<longleftrightarrow> (\<forall>pod. PodObj pod \<in> set objs \<longrightarrow> PodNodeName pod \<noteq> name)"
  by (induction name objs rule: search_operator.induct) auto

text \<open>The operator that is picked was in the store in an attempt, and ready.\<close>

lemma random_operator_attempt_ok:
  assumes "intn_ok E" and "random_operator_attempt E b (p, w) = Some (None, p', w')"
  shows "\<exists>pod w0. p' = Some pod \<and> PodObj pod \<in> set (operatorNodesStore E w0) \<and> IsPodReady pod"
proof -
  let ?l = "operatorNodesStore E w"
  obtain i w1 where i: "intn E (length ?l) w = (i, w1)" by (cases "intn E (length ?l) w")
  from assms(2) have ne: "length ?l \<noteq> 0"
    by (auto simp: random_operator_attempt_def split: if_splits)
  with i assms(1) have "i < length ?l" by (metis fst_conv gr0I intn_ok_def)
  with assms(2) ne i show ?thesis
    by (auto simp: random_operator_attempt_def Let_def split: if_splits k8s_obj.splits)
      (metis nth_mem)
qed

lemma GetRandomOperatorNode_ready:
  assumes R: "retry_ok (retry_pod E)" and N: "intn_ok E"
    and res: "GetRandomOperatorNode E s = Some ((Some op, err), s')"
  shows "err = None \<and> (\<exists>pod w. op = GetNodeFromOperatorPod pod \<and> IsPodReady pod \<and>
    PodObj pod \<in> set (operatorNodesStore E w))"
proof -
  from res obtain p w where
    r: "retry_pod E (\<lambda>err. err = ErrOperatorNotReady)
        (random_operator_attempt E (operatorNodesStoreBuilt s)) (None, world s) = Some (None, Some p, w)"
    and op: "op = GetNodeFromOperatorPod p" and e: "err = None"
    by (auto simp: GetRandomOperatorNode_def elim!: bind_SomeE split: asm_splits)
  from retry_ok_last [OF R r] obtain p0 w0 where
    "random_operator_attempt E (operatorNodesStoreBuilt s) (p0, w0) = Some (None, Some p, w)" by auto
  from random_operator_attempt_ok [OF N this] op e show ?thesis by auto
qed

text \<open>With no operator in the store (all nodes lost), picking one panics.\<close>

lemma GetRandomOperatorNode_empty:
  assumes R: "retry_ok (retry_pod E)" and "\<And>w. operatorNodesStore E w = []"
  shows "GetRandomOperatorNode E s = None"
proof -
  have f: "random_operator_attempt E b = (\<lambda>_. None)" for b
    by (rule ext) (auto simp: random_operator_attempt_def assms(2) split: prod.splits)
  have "retry_loop n d P (\<lambda>_. None) st = None" for n d P and st :: "Pod option \<times> 'a"
    by (subst retry_loop.simps) simp
  with R f show ?thesis unfolding GetRandomOperatorNode_def retry_ok_def by fastforce
qed

end
