(* ===== verification/Wait.thy ===== *)
theory Wait
  imports Utils
begin

text \<open>
  \<open>pkg/controller/wait/wait.go\<close>: polling until the pods of a daemon set are ready, or until
  a custom resource definition is established. The loop \<open>wait.Poll\<close> is a parameter of the
  environment; the conditions are the code's.
\<close>

text \<open>Durations of the code in nanoseconds.\<close>

definition Minute :: int where
  "Minute = 60000000000"

definition GetPodsFromDaemonset ::
  "'w env \<Rightarrow> string \<Rightarrow> (string \<times> string) list \<Rightarrow> 'w \<Rightarrow> (Pod list \<times> go_error option) \<times> 'w" where
  "GetPodsFromDaemonset E namespace selector w =
     (let ((items, err), w) = pods_list E namespace selector w in ((items, map_option Ext err), w))"

fun podsReady :: "Pod list \<Rightarrow> bool" where
  "podsReady [] = True"
| "podsReady (pod # pods) = (if \<not> IsPodReady pod then False else podsReady pods)"

definition resources_condition :: "'w env \<Rightarrow> DaemonSet \<Rightarrow> 'w \<Rightarrow> (bool \<times> go_error option) \<times> 'w" where
  "resources_condition E daemonset w =
     (let ((list, err), w) =
        GetPodsFromDaemonset E (Namespace (DSMeta daemonset)) (SelectorMatchLabels daemonset) w
      in if err \<noteq> None then ((False, err), w)
         else (let pods = [] @ list; isReady = podsReady pods in ((isReady, None), w)))"

definition ForResources :: "'w env \<Rightarrow> int \<Rightarrow> DaemonSet \<Rightarrow> 'w \<Rightarrow> go_error option \<times> 'w" where
  "ForResources E timeout daemonset w = poll E timeout (resources_condition E daemonset) w"

fun crd_conditions_ready :: "CRDCondition list \<Rightarrow> bool" where
  "crd_conditions_ready [] = False"
| "crd_conditions_ready (cond # conds) =
     (if CRDCondType cond = ''Established'' then
        (if CRDCondStatus cond = ''True'' then True else crd_conditions_ready conds)
      else if CRDCondType cond = ''NamesAccepted'' then
        (if CRDCondStatus cond = ''False'' then True else crd_conditions_ready conds)
      else crd_conditions_ready conds)"

definition crdReady :: "CRD \<Rightarrow> bool" where
  "crdReady crd = crd_conditions_ready (CRDConditions crd)"

definition crd_condition :: "'w env \<Rightarrow> CRD \<Rightarrow> 'w \<Rightarrow> (bool \<times> go_error option) \<times> 'w" where
  "crd_condition E crd w =
     (let (r, w) = crd_get E (Name (CRDMeta crd)) w
      in case r of
           Inl err \<Rightarrow> ((False, Some (Ext err)), w)
         | Inr existingResource \<Rightarrow>
             if \<not> crdReady existingResource then ((False, None), w) else ((True, None), w))"

definition ForCRD :: "'w env \<Rightarrow> int \<Rightarrow> CRD \<Rightarrow> 'w \<Rightarrow> go_error option \<times> 'w" where
  "ForCRD E timeout crd w = poll E timeout (crd_condition E crd) w"

section \<open>What a successful wait means\<close>

lemma podsReady_iff: "podsReady pods \<longleftrightarrow> (\<forall>pod \<in> set pods. IsPodReady pod)"
  by (induction pods) auto

lemma crdReady_iff:
  "crdReady crd \<longleftrightarrow> (\<exists>c \<in> set (CRDConditions crd).
     (CRDCondType c = ''Established'' \<and> CRDCondStatus c = ''True'') \<or>
     (CRDCondType c = ''NamesAccepted'' \<and> CRDCondStatus c = ''False''))"
proof -
  have "crd_conditions_ready cs \<longleftrightarrow> (\<exists>c \<in> set cs.
     (CRDCondType c = ''Established'' \<and> CRDCondStatus c = ''True'') \<or>
     (CRDCondType c = ''NamesAccepted'' \<and> CRDCondStatus c = ''False''))" for cs
    by (induction cs) auto
  then show ?thesis by (simp add: crdReady_def)
qed

text \<open>After a successful wait, some listing of the daemon set's pods was all ready. An empty
  listing counts: the code does not compare it with the number of nodes.\<close>

lemma ForResources_ready:
  assumes "poll_ok E" and "ForResources E t ds w = (None, w')"
  shows "\<exists>w0 pods. pods_list E (Namespace (DSMeta ds)) (SelectorMatchLabels ds) w0 = ((pods, None), w') \<and>
    (\<forall>pod \<in> set pods. IsPodReady pod)"
proof -
  from poll_ok_None [OF assms(1) assms(2) [unfolded ForResources_def]]
  obtain w0 where "resources_condition E ds w0 = ((True, None), w')" ..
  then show ?thesis
    by (auto simp: resources_condition_def GetPodsFromDaemonset_def Let_def podsReady_iff
        split: prod.splits if_splits)
qed

lemma ForCRD_ready:
  assumes "poll_ok E" and "ForCRD E t crd w = (None, w')"
  shows "\<exists>w0 crd'. crd_get E (Name (CRDMeta crd)) w0 = (Inr crd', w') \<and> crdReady crd'"
proof -
  from poll_ok_None [OF assms(1) assms(2) [unfolded ForCRD_def]]
  obtain w0 where "crd_condition E crd w0 = ((True, None), w')" ..
  then show ?thesis
    by (auto simp: crd_condition_def Let_def split: prod.splits sum.splits if_splits)
qed

end
