(* ===== verification/Operator_Daemonset.thy ===== *)
theory Operator_Daemonset
  imports Operator_List Wait
begin

text \<open>
  \<open>pkg/controller/operator/daemonset.go\<close>: the daemon set of the operators and its life
  cycle. The package variables \<open>deployed\<close>, \<open>stopWatch\<close> and whether the operator store has
  been built are fields of the state; \<open>myNamespace\<close>, \<open>image\<close> and \<open>imagePullSecret\<close> are the
  process environment they are read from.
\<close>

definition operatorName :: string where
  "operatorName = ''plenuslb-operator''"

definition operatorVersion :: string where
  "operatorVersion = ''v1alpha2''"

definition myNamespace :: "'w env \<Rightarrow> string" where
  "myNamespace E = getenv E ''MY_POD_NAMESPACE''"

definition operator_image :: "'w env \<Rightarrow> string" where
  "operator_image E = getenv E ''OPERATOR_IMAGE''"

definition imagePullSecret :: "'w env \<Rightarrow> string" where
  "imagePullSecret E = getenv E ''OPERATOR_PULL_SECRET''"

section \<open>The definition of the daemon set\<close>

definition health_probe :: "int \<Rightarrow> Probe" where
  "health_probe failures =
     \<lparr>ProbePath = ''/health'', ProbePort = ''health'', InitialDelaySeconds = 2, PeriodSeconds = 1,
      FailureThreshold = failures\<rparr>"

definition no_execute :: "string \<Rightarrow> Toleration" where
  "no_execute key = \<lparr>TolKey = key, TolEffect = ''NoExecute'', TolOperator = ''Exists'', TolSeconds = Some 2\<rparr>"

definition operator_labels :: "(string \<times> string) list" where
  "operator_labels =
     [(''app.kubernetes.io/instance'', ''plenuslb-operator''),
      (''app.kubernetes.io/name'', ''plenuslb-operator'')]"

definition operator_container :: "'w env \<Rightarrow> int \<Rightarrow> Container" where
  "operator_container E healthPort =
     \<lparr>ContainerName = operatorName,
      Image = operator_image E,
      ImagePullPolicy = ''Always'',
      Privileged = True,
      Ports =
        [\<lparr>PortName = ''health'', Protocol = ''TCP'', PortNumber = healthPort\<rparr>,
         \<lparr>PortName = ''grpc'', Protocol = ''TCP'', PortNumber = int OperatorPort\<rparr>],
      LivenessProbe = health_probe 10,
      ReadinessProbe = health_probe 5,
      EnvVars =
        [\<lparr>EnvName = ''MY_NODE_NAME'', EnvVal = FieldRef ''spec.nodeName''\<rparr>,
         \<lparr>EnvName = ''HEALTH_PORT'', EnvVal = Literal (itoa_int healthPort)\<rparr>],
      ResourceRequests = [(''cpu'', ''50m''), (''memory'', ''100Mi'')],
      ResourceLimits = [(''cpu'', ''50m''), (''memory'', ''100Mi'')]\<rparr>"

definition getDaemonsetSetDefinition :: "'w env \<Rightarrow> DaemonSet option" where
  "getDaemonsetSetDefinition E =
     do {
       let imagePullSecrets = (if imagePullSecret E \<noteq> '''' then [imagePullSecret E] else []);
       healthPort \<leftarrow> HealthPort (getenv E);
       Some
         \<lparr>DSMeta =
            \<lparr>Name = operatorName, Namespace = myNamespace E,
             Labels =
               [(''app.kubernetes.io/instance'', ''plenuslb-operator''),
                (''app.kubernetes.io/name'', ''plenuslb-operator''),
                (''app.kubernetes.io/managed-by'', ''plenuslb''),
                (''app.kubernetes.io/version'', operatorVersion)],
             ResourceVersion = ''''\<rparr>,
          SelectorMatchLabels = operator_labels,
          TemplateLabels = operator_labels,
          ImagePullSecrets = imagePullSecrets,
          HostNetwork = True,
          Containers = [operator_container E healthPort],
          Tolerations =
            [no_execute ''node.kubernetes.io/not-ready'', no_execute ''node.kubernetes.io/unreachable'']\<rparr>
     }"

definition mergeOperatorsDefinitions :: "'w env \<Rightarrow> DaemonSet \<Rightarrow> DaemonSet option" where
  "mergeOperatorsDefinitions E oldOperator =
     do {
       newOperator \<leftarrow> getDaemonsetSetDefinition E;
       Some (newOperator\<lparr>DSMeta := (DSMeta newOperator)
               \<lparr>ResourceVersion := ResourceVersion (DSMeta oldOperator)\<rparr>\<rparr>)
     }"

text \<open>A missing label reads as the empty string; \<open>Containers[0]\<close> of no container panics.\<close>

definition checkIfOperatorIsUpdated :: "'w env \<Rightarrow> DaemonSet \<Rightarrow> bool option" where
  "checkIfOperatorIsUpdated E daemonset =
     do {
       let isUpdated = True;
       let currentVersion = (case map_of (Labels (DSMeta daemonset)) ''app.kubernetes.io/version'' of
                               Some v \<Rightarrow> v | None \<Rightarrow> '''');
       let isUpdated = (if currentVersion \<noteq> operatorVersion then False else isUpdated);
       (case Containers daemonset of
          [] \<Rightarrow> None
        | c # _ \<Rightarrow> Some (if Image c \<noteq> operator_image E then False else isUpdated))
     }"

section \<open>Updating, deploying, deleting\<close>

definition update_operator_attempt :: "'w env \<Rightarrow> 'w attempt" where
  "update_operator_attempt E w =
     (let (r, w) = daemonset_get E (myNamespace E) operatorName w
      in case r of
           Inl err \<Rightarrow> Some (Some (Ext err), w)
         | Inr daemonset \<Rightarrow>
             do {
               merged \<leftarrow> mergeOperatorsDefinitions E daemonset;
               let (r, w) = daemonset_update E (myNamespace E) merged w;
               Some (case r of Inl updateErr \<Rightarrow> Some (Ext updateErr) | Inr _ \<Rightarrow> None, w)
             })"

definition updateOperator :: "'w env \<Rightarrow> 'w sys \<Rightarrow> (go_error option \<times> 'w sys) option" where
  "updateOperator E s =
     do {
       (retryErr, w) \<leftarrow> retry_daemonset E IsConflict (update_operator_attempt E) (world s);
       Some (retryErr, s\<lparr>world := w\<rparr>)
     }"

definition checkIfOperatorIsDeployedAndUpdatedOrDie ::
  "'w env \<Rightarrow> 'w sys \<Rightarrow> (DaemonSet option \<times> 'w sys) option" where
  "checkIfOperatorIsDeployedAndUpdatedOrDie E s =
     (let (r, s) = onw (daemonset_get E (myNamespace E) operatorName) s
      in case r of
           Inl err \<Rightarrow>
             if IsNotFound (Ext err) then Some (None, s\<lparr>deployed := False\<rparr>)
             else None   \<comment> \<open>klog.Fatal\<close>
         | Inr daemonset \<Rightarrow>
             do {
               updated \<leftarrow> checkIfOperatorIsUpdated E daemonset;
               if updated then Some (Some daemonset, s\<lparr>deployed := True\<rparr>)
               else do {
                 (err, s) \<leftarrow> updateOperator E s;
                 if err \<noteq> None then None   \<comment> \<open>klog.Fatal\<close>
                 else Some (Some daemonset, s\<lparr>deployed := True\<rparr>)
               }
             })"

definition Delete :: "'w env \<Rightarrow> 'w sys \<Rightarrow> (go_error option \<times> 'w sys) option" where
  "Delete E s =
     (let (err, s) = onw (daemonset_delete E (myNamespace E) operatorName) s
      in case err of
           Some e \<Rightarrow> Some (Some (Ext e), s)
         | None \<Rightarrow>
             if stopWatch s \<noteq> ChanOpen then None   \<comment> \<open>close of a nil or closed channel\<close>
             else Some (None, s\<lparr>deployed := False, stopWatch := ChanClosed\<rparr>))"

definition buildOperatorNodesWatcher :: "'w env \<Rightarrow> DaemonSet \<Rightarrow> 'w sys \<Rightarrow> 'w sys" where
  "buildOperatorNodesWatcher E daemonset s =
     s\<lparr>world := informer_new E ''pods'' (myNamespace E) (SelectorMatchLabels daemonset) (world s),
       operatorNodesStoreBuilt := True\<rparr>"

definition WhatchControllerNodes :: "'w env \<Rightarrow> 'w sys \<Rightarrow> 'w sys" where
  "WhatchControllerNodes E s = s\<lparr>world := informer_run E ''pods'' (world s)\<rparr>"

definition DeployOrDie :: "'w env \<Rightarrow> 'w sys \<Rightarrow> (go_error option \<times> 'w sys) option" where
  "DeployOrDie E s =
     (if deployed s then Some (None, s)
      else do {
        daemonset \<leftarrow> getDaemonsetSetDefinition E;
        let (r, s) = onw (daemonset_create E (myNamespace E) daemonset) s;
        (case r of
           Inl err \<Rightarrow> Some (Some (Ext err), s\<lparr>deployed := False\<rparr>)
         | Inr operatorDaemonset \<Rightarrow>
             (let (err, s) = onw (ForResources E (2 * Minute) operatorDaemonset) s
              in if err = None
                 then Some (None, WhatchControllerNodes E
                   ((buildOperatorNodesWatcher E operatorDaemonset (s\<lparr>deployed := True\<rparr>))
                     \<lparr>stopWatch := ChanOpen\<rparr>))
                 else do {
                   (_, s) \<leftarrow> Delete E (s\<lparr>deployed := False\<rparr>);
                   None   \<comment> \<open>klog.Fatal\<close>
                 }))
      })"

text \<open>Only a pod value that is ready is added, and it is added as a value, not as the
  pointer the handlers and the searches expect.\<close>

fun warmup_pods :: "'w env \<Rightarrow> Pod list \<Rightarrow> 'w \<Rightarrow> 'w" where
  "warmup_pods E [] w = w"
| "warmup_pods E (pod # pods) w =
     warmup_pods E pods (if IsPodReady pod then informer_add E ''pods'' (OtherObj ''v1.Pod'') w else w)"

definition warmupControllerNodesCacheOrDie ::
  "'w env \<Rightarrow> DaemonSet \<Rightarrow> 'w sys \<Rightarrow> go_error option \<times> 'w sys" where
  "warmupControllerNodesCacheOrDie E daemonset s =
     (let ((list, err), s) =
        onw (GetPodsFromDaemonset E (Namespace (DSMeta daemonset)) (SelectorMatchLabels daemonset)) s
      in if err \<noteq> None then (err, s)
         else (None, s\<lparr>world := warmup_pods E list (world s)\<rparr>))"

definition Operator_Init :: "'w env \<Rightarrow> 'w sys \<Rightarrow> 'w sys option" where
  "Operator_Init E s =
     (if myNamespace E = '''' \<or> operator_image E = '''' then None   \<comment> \<open>klog.Fatal\<close>
      else do {
        (operatorDaemonset, s) \<leftarrow> checkIfOperatorIsDeployedAndUpdatedOrDie E s;
        (case operatorDaemonset of
           Some ds \<Rightarrow>
             if deployed s then
               (let (err, s) = warmupControllerNodesCacheOrDie E ds (buildOperatorNodesWatcher E ds s)
                in if err \<noteq> None then None   \<comment> \<open>klog.Fatal\<close>
                   else Some (WhatchControllerNodes E (s\<lparr>stopWatch := ChanOpen\<rparr>)))
             else Some s
         | None \<Rightarrow> Some s)
      })"

section \<open>The watcher of the operator pods\<close>

definition newOperatorNode_pod :: "Pod \<Rightarrow> 'w sys \<Rightarrow> 'w sys" where
  "newOperatorNode_pod pod s = s\<lparr>bus := bus s @ [NewOperatorNodeEv (PodNodeName pod)]\<rparr>"

definition checkIfOperatorIsStillRequiredOrDie :: "'w env \<Rightarrow> 'w sys \<Rightarrow> 'w sys option" where
  "checkIfOperatorIsStillRequiredOrDie E s =
     do {
       count \<leftarrow> GetOperatorsCount E s;
       if count = 0 \<and> deployed s then do {
         (operator, s) \<leftarrow> checkIfOperatorIsDeployedAndUpdatedOrDie E s;
         if operator = None then do { (_, s) \<leftarrow> DeployOrDie E s; Some s } else Some s
       }
       else Some s
     }"

definition operatorNodeLost_pod :: "'w env \<Rightarrow> Pod \<Rightarrow> 'w sys \<Rightarrow> 'w sys option" where
  "operatorNodeLost_pod E pod s =
     checkIfOperatorIsStillRequiredOrDie E (s\<lparr>bus := bus s @ [OperatorNodeLostEv (PodNodeName pod)]\<rparr>)"

fun operator_nodes_handler :: "'w env \<Rightarrow> informer_event \<Rightarrow> 'w sys \<Rightarrow> 'w sys option" where
  "operator_nodes_handler E (AddEv (PodObj pod)) s =
     Some (if IsPodReady pod then newOperatorNode_pod pod s else s)"
| "operator_nodes_handler E (DeleteEv (PodObj pod)) s = operatorNodeLost_pod E pod s"
| "operator_nodes_handler E (UpdateEv (PodObj oldPod) (PodObj newPod)) s =
     (if IsPodReady newPod \<noteq> IsPodReady oldPod then
        (if IsPodReady newPod then Some (newOperatorNode_pod newPod s)
         else operatorNodeLost_pod E oldPod s)
      else Some s)"
| "operator_nodes_handler E _ s = Some s"   \<comment> \<open>unexpected type\<close>

section \<open>The definition is consistent\<close>

text \<open>A merged definition passes the code's own check for being up to date, so one update
  is enough, and it carries the resource version of the object it replaces.\<close>

lemma getDaemonset_updated:
  "getDaemonsetSetDefinition E = Some ds \<Longrightarrow> checkIfOperatorIsUpdated E ds = Some True"
  by (auto simp: getDaemonsetSetDefinition_def checkIfOperatorIsUpdated_def operator_container_def
      elim!: bind_SomeE)

lemma merge_updated:
  "mergeOperatorsDefinitions E old = Some ds \<Longrightarrow>
     checkIfOperatorIsUpdated E ds = Some True \<and> ResourceVersion (DSMeta ds) = ResourceVersion (DSMeta old)"
  by (auto simp: mergeOperatorsDefinitions_def getDaemonsetSetDefinition_def checkIfOperatorIsUpdated_def
      operator_container_def elim!: bind_SomeE)

text \<open>The health port of the container is the one its environment variable announces to the
  operator, which reads it back with the same function.\<close>

lemma getDaemonset_ports:
  assumes "getDaemonsetSetDefinition E = Some ds"
  obtains c p where "Containers ds = [c]" and "HealthPort (getenv E) = Some p"
    and "map PortNumber (Ports c) = [p, int OperatorPort]"
    and "\<lparr>EnvName = ''HEALTH_PORT'', EnvVal = Literal (itoa_int p)\<rparr> \<in> set (EnvVars c)"
    and "ParseInt 32 (itoa_int p) = Some p"
proof -
  from assms obtain p where p: "HealthPort (getenv E) = Some p"
    by (auto simp: getDaemonsetSetDefinition_def elim!: bind_SomeE)
  have "ParseInt 32 (itoa_int p) = Some p"
    using HealthPort_range [OF p] by (intro ParseInt_itoa_int) auto
  moreover from assms p have "Containers ds = [operator_container E p]"
    by (auto simp: getDaemonsetSetDefinition_def)
  ultimately show ?thesis using p by (intro that) (auto simp: operator_container_def)
qed

section \<open>The life cycle invariant\<close>

text \<open>While the operator counts as deployed, its store exists and \<open>stopWatch\<close> is open, so
  that \<open>Delete\<close> never closes a nil or closed channel.\<close>

definition operator_inv :: "'w sys \<Rightarrow> bool" where
  "operator_inv s \<longleftrightarrow> (deployed s \<longrightarrow> stopWatch s = ChanOpen \<and> operatorNodesStoreBuilt s)"

lemma operator_inv_world_only: "world_only s s' \<Longrightarrow> operator_inv s \<Longrightarrow> operator_inv s'"
  by (simp add: operator_inv_def world_only_fields)

lemma updateOperator_world_only [world_only_intros]:
  "updateOperator E s = Some (r, s') \<Longrightarrow> world_only s s'"
  by (auto simp: updateOperator_def elim!: bind_SomeE)

lemma Delete_inv:
  assumes "Delete E s = Some (r, s')" and "operator_inv s"
  shows "operator_inv s'" and "r = None \<Longrightarrow> \<not> deployed s'" and "bus s' = bus s"
    and "availablesPools s' = availablesPools s"
  using assms
  by (auto simp: Delete_def operator_inv_def onw_eq split: asm_splits)

lemma Delete_no_panic: "operator_inv s \<Longrightarrow> deployed s \<Longrightarrow> Delete E s \<noteq> None"
  by (auto simp: Delete_def operator_inv_def onw_def Let_def split: prod.splits option.splits)

lemma DeployOrDie_inv:
  assumes "DeployOrDie E s = Some (r, s')" and "operator_inv s"
  shows "operator_inv s'" and "deployed s' \<longleftrightarrow> r = None" and "bus s' = bus s"
    and "availablesPools s' = availablesPools s"
  using assms
  by (auto simp: DeployOrDie_def operator_inv_def onw_eq Let_def WhatchControllerNodes_def
      buildOperatorNodesWatcher_def elim!: bind_SomeE split: asm_splits sum.split_asm)

lemma DeployOrDie_pools: "DeployOrDie E s = Some (r, s') \<Longrightarrow> availablesPools s' = availablesPools s"
  by (auto simp: DeployOrDie_def onw_eq Let_def WhatchControllerNodes_def buildOperatorNodesWatcher_def
      elim!: bind_SomeE split: asm_splits sum.split_asm)

lemma checkDeployed_deployed:
  assumes "checkIfOperatorIsDeployedAndUpdatedOrDie E s = Some (r, s')"
  shows "deployed s' \<longleftrightarrow> r \<noteq> None" and "stopWatch s' = stopWatch s"
    and "operatorNodesStoreBuilt s' = operatorNodesStoreBuilt s" and "bus s' = bus s"
    and "availablesPools s' = availablesPools s" and "lockedObjects s' = lockedObjects s"
  using assms
  by (auto simp: checkIfOperatorIsDeployedAndUpdatedOrDie_def onw_eq Let_def elim!: bind_SomeE
      split: asm_splits sum.split_asm dest!: updateOperator_world_only simp: world_only_def own_def)

lemma checkDeployed_inv:
  assumes "checkIfOperatorIsDeployedAndUpdatedOrDie E s = Some (r, s')" and "operator_inv s" and "deployed s"
  shows "operator_inv s'"
  using checkDeployed_deployed [OF assms(1)] assms(2,3) by (simp add: operator_inv_def)

lemma stillRequired_inv:
  assumes "checkIfOperatorIsStillRequiredOrDie E s = Some s'" and "operator_inv s"
  shows "operator_inv s'" and "bus s' = bus s" and "availablesPools s' = availablesPools s"
proof -
  from assms(1) consider (same) "s' = s"
    | (present) ds where "deployed s" "checkIfOperatorIsDeployedAndUpdatedOrDie E s = Some (Some ds, s')"
    | (absent) t r where "deployed s" "checkIfOperatorIsDeployedAndUpdatedOrDie E s = Some (None, t)"
        "DeployOrDie E t = Some (r, s')"
    by (auto simp: checkIfOperatorIsStillRequiredOrDie_def elim!: bind_SomeE split: asm_splits)
  then have "operator_inv s' \<and> bus s' = bus s \<and> availablesPools s' = availablesPools s"
  proof cases
    case same
    with assms(2) show ?thesis by simp
  next
    case present
    with checkDeployed_inv [OF present(2) assms(2)] checkDeployed_deployed [OF present(2)]
    show ?thesis by simp
  next
    case absent
    from DeployOrDie_inv [OF absent(3)] checkDeployed_inv [OF absent(2) assms(2) absent(1)]
      checkDeployed_deployed [OF absent(2)] show ?thesis by simp
  qed
  then show "operator_inv s'" and "bus s' = bus s" and "availablesPools s' = availablesPools s" by auto
qed

lemma operator_inv_bus [simp]: "operator_inv (s\<lparr>bus := b\<rparr>) = operator_inv s"
  by (simp add: operator_inv_def)

lemma operator_nodes_handler_inv:
  "operator_nodes_handler E ev s = Some s' \<Longrightarrow> operator_inv s \<Longrightarrow> operator_inv s'"
  by (induction E ev s rule: operator_nodes_handler.induct)
    (auto simp: newOperatorNode_pod_def operatorNodeLost_pod_def split: if_splits dest: stillRequired_inv)

lemma Operator_Init_inv:
  assumes "Operator_Init E s = Some s'" and "operator_inv s"
  shows "operator_inv s'"
proof -
  from assms(1) obtain r t where c: "checkIfOperatorIsDeployedAndUpdatedOrDie E s = Some (r, t)"
    by (auto simp: Operator_Init_def elim!: bind_SomeE split: if_splits)
  note f = checkDeployed_deployed [OF c]
  show ?thesis
  proof (cases r)
    case None
    with assms(1) c f(1) have "s' = t" "\<not> deployed t"
      by (auto simp: Operator_Init_def split: if_splits)
    then show ?thesis by (simp add: operator_inv_def)
  next
    case (Some ds)
    with assms(1) c f(1) show ?thesis
      by (auto simp: Operator_Init_def operator_inv_def warmupControllerNodesCacheOrDie_def
          buildOperatorNodesWatcher_def WhatchControllerNodes_def onw_eq split: asm_splits)
  qed
qed

text \<open>Each change of readiness of a pod is announced once, and each loss of a pod.\<close>

lemma operator_nodes_handler_bus:
  assumes "operator_nodes_handler E ev s = Some s'" and "operator_inv s"
  shows "bus s' = bus s @
    (case ev of
       AddEv (PodObj pod) \<Rightarrow> if IsPodReady pod then [NewOperatorNodeEv (PodNodeName pod)] else []
     | DeleteEv (PodObj pod) \<Rightarrow> [OperatorNodeLostEv (PodNodeName pod)]
     | UpdateEv (PodObj old) (PodObj new) \<Rightarrow>
         if IsPodReady new \<and> \<not> IsPodReady old then [NewOperatorNodeEv (PodNodeName new)]
         else if IsPodReady old \<and> \<not> IsPodReady new then [OperatorNodeLostEv (PodNodeName old)]
         else []
     | _ \<Rightarrow> [])"
  using assms
  by (cases "(E, ev, s)" rule: operator_nodes_handler.cases)
    (auto simp: newOperatorNode_pod_def operatorNodeLost_pod_def split: if_splits k8s_obj.splits
      dest!: stillRequired_inv(2))

end
