(* ===== verification/Operator_Speaker.thy ===== *)
theory Operator_Speaker
  imports Operator_Daemonset
begin

text \<open>
  \<open>pkg/controller/operatorSpeaker/speaker.go\<close>: the calls to the operators. The deferred
  closing of connections and cancelling of contexts has no effect on the results and is
  left out.
\<close>

definition EnsureIPAllocationOnNode_pod ::
  "'w env \<Rightarrow> string \<Rightarrow> string \<Rightarrow> string \<Rightarrow> Pod \<Rightarrow> 'w sys \<Rightarrow> (go_error option \<times> 'w sys) option" where
  "EnsureIPAllocationOnNode_pod E nodeName interfaceName address podNode s =
     do {
       let isNodeReady = IsPodReady podNode;
       let node = GetNodeFromOperatorPod podNode;
       let info = \<lparr>InfoAddress = address, InfoInterface = interfaceName\<rparr>;
       (client, s) \<leftarrow> GrpcClientForNode E node s;
       if OpNodeName node = nodeName then
         if \<not> isNodeReady then Some (Some ErrFailedToDialWithOperator, s)
         else
           (let (err, s) = onw (grpc_AddAddress E client info) s
            in case err of
                 Some e \<Rightarrow>
                   if is_grpc_status (Ext e) then Some (Some ErrFailedToDialWithOperator, s)
                   else Some (Some (Ext e), s)
               | None \<Rightarrow> Some (None, s))
       else if isNodeReady then
         (let (err, s) = onw (grpc_RemoveAddress E client info) s in Some (None, s))
       else Some (None, s)
     }"

fun EnsureIPAllocationOnNode_loop ::
  "'w env \<Rightarrow> string \<Rightarrow> string \<Rightarrow> string \<Rightarrow> k8s_obj list \<Rightarrow> 'w sys \<Rightarrow> (go_error option \<times> 'w sys) option" where
  "EnsureIPAllocationOnNode_loop E nodeName interfaceName address [] s = Some (None, s)"
| "EnsureIPAllocationOnNode_loop E nodeName interfaceName address (obj # objs) s =
     (case obj of
        PodObj podNode \<Rightarrow>
          (case EnsureIPAllocationOnNode_pod E nodeName interfaceName address podNode s of
             None \<Rightarrow> None
           | Some (Some err, s) \<Rightarrow> Some (Some err, s)
           | Some (None, s) \<Rightarrow> EnsureIPAllocationOnNode_loop E nodeName interfaceName address objs s)
      | _ \<Rightarrow> EnsureIPAllocationOnNode_loop E nodeName interfaceName address objs s)"

definition EnsureIPAllocationOnNode ::
  "'w env \<Rightarrow> string \<Rightarrow> string \<Rightarrow> string \<Rightarrow> 'w sys \<Rightarrow> (go_error option \<times> 'w sys) option" where
  "EnsureIPAllocationOnNode E nodeName interfaceName address s =
     do {
       operatorsNodes \<leftarrow> GetOperatorsList E s;
       EnsureIPAllocationOnNode_loop E nodeName interfaceName address operatorsNodes s
     }"

definition RemoveAddressFromNode ::
  "'w env \<Rightarrow> string \<Rightarrow> string \<Rightarrow> string \<Rightarrow> 'w sys \<Rightarrow> (go_error option \<times> 'w sys) option" where
  "RemoveAddressFromNode E nodeName interfaceName address s =
     do {
       operatorNode \<leftarrow> SearchOperatorByClusterNodeName E nodeName s;
       (case operatorNode of
          Some node \<Rightarrow>
            do {
              (client, s) \<leftarrow> GrpcClientForNode E node s;
              let (err, s) =
                onw (grpc_RemoveAddress E client \<lparr>InfoAddress = address, InfoInterface = interfaceName\<rparr>) s;
              Some (map_option Ext err, s)
            }
        | None \<Rightarrow> Some (Some (Errorf (''Operator for node '' @ nodeName @ '' not found'')), s))
     }"

definition DoCleanup ::
  "'w env \<Rightarrow> string \<Rightarrow> AddressInfo list \<Rightarrow> 'w sys \<Rightarrow> (go_error option \<times> 'w sys) option" where
  "DoCleanup E nodeName toKeep s =
     do {
       operatorNode \<leftarrow> SearchOperatorByClusterNodeName E nodeName s;
       (case operatorNode of
          Some node \<Rightarrow>
            do {
              (client, s) \<leftarrow> GrpcClientForNode E node s;
              let (err, s) = onw (grpc_Cleanup E client toKeep) s;
              Some (map_option Ext err, s)
            }
        | None \<Rightarrow> Some (Some (Errorf (''Operator for node '' @ nodeName @ '' not found'')), s))
     }"

section \<open>Frames\<close>

lemma EnsureIPAllocationOnNode_pod_world_only:
  "EnsureIPAllocationOnNode_pod E n i a pod s = Some (r, s') \<Longrightarrow> world_only s s'"
  unfolding EnsureIPAllocationOnNode_pod_def
  by (auto simp: Let_def world_only_def elim!: bind_SomeE split: asm_splits
      dest!: onw_world_only GrpcClientForNode_world_only)

lemma EnsureIPAllocationOnNode_loop_world_only:
  "EnsureIPAllocationOnNode_loop E n i a objs s = Some (r, s') \<Longrightarrow> world_only s s'"
proof (induction objs arbitrary: s)
  case Nil
  then show ?case by simp
next
  case (Cons obj objs)
  then show ?case
    by (auto split: k8s_obj.split_asm asm_splits dest!: EnsureIPAllocationOnNode_pod_world_only
        intro: world_only_trans)
qed

lemma EnsureIPAllocationOnNode_world_only [world_only_intros]:
  "EnsureIPAllocationOnNode E n i a s = Some (r, s') \<Longrightarrow> world_only s s'"
  by (auto simp: EnsureIPAllocationOnNode_def elim!: bind_SomeE dest: EnsureIPAllocationOnNode_loop_world_only)

lemma RemoveAddressFromNode_world_only [world_only_intros]:
  "RemoveAddressFromNode E n i a s = Some (r, s') \<Longrightarrow> world_only s s'"
  by (auto simp: RemoveAddressFromNode_def Let_def world_only_def elim!: bind_SomeE split: asm_splits
      dest!: onw_world_only GrpcClientForNode_world_only)

lemma DoCleanup_world_only [world_only_intros]:
  "DoCleanup E n k s = Some (r, s') \<Longrightarrow> world_only s s'"
  by (auto simp: DoCleanup_def Let_def world_only_def elim!: bind_SomeE split: asm_splits
      dest!: onw_world_only GrpcClientForNode_world_only)

section \<open>What success means\<close>

text \<open>
  Nil means: no ready operator of the named node refused the address. In detail, every pod
  of the named node in the list was ready and its operator accepted the call. Where no pod
  of the list runs on the node this holds vacuously: nothing was added anywhere and the
  result is nil all the same.
\<close>

lemma EnsureIPAllocationOnNode_loop_ok:
  assumes "EnsureIPAllocationOnNode_loop E n i a objs s = Some (None, s')"
    and "PodObj pod \<in> set objs" and "PodNodeName pod = n"
  shows "IsPodReady pod \<and> (\<exists>w w'. grpc_AddAddress E (PodIP pod @ '':'' @ itoa OperatorPort)
    \<lparr>InfoAddress = a, InfoInterface = i\<rparr> w = (None, w'))"
  using assms
proof (induction objs arbitrary: s)
  case Nil
  then show ?case by simp
next
  case (Cons obj objs)
  show ?case
  proof (cases "obj = PodObj pod")
    case True
    with Cons.prems obtain t where "EnsureIPAllocationOnNode_pod E n i a pod s = Some (None, t)"
      by (auto split: asm_splits)
    with Cons.prems(3) show ?thesis
      by (auto simp: EnsureIPAllocationOnNode_pod_def Let_def GetNodeFromOperatorPod_def onw_eq
          GrpcClientForNode_def elim!: bind_SomeE split: asm_splits)
  next
    case False
    with Cons.prems have "PodObj pod \<in> set objs" by simp
    with Cons show ?thesis by (auto split: asm_splits k8s_obj.split_asm)
  qed
qed

lemma EnsureIPAllocationOnNode_no_operator:
  assumes "GetOperatorsList E s = Some []"
  shows "EnsureIPAllocationOnNode E n i a s = Some (None, s)"
  by (simp add: EnsureIPAllocationOnNode_def assms)

end
