(* ===== verification/Clouds.thy ===== *)
theory Clouds
  imports Utils "HOL-Library.Signed_Division"
begin

text \<open>
  \<open>pkg/clouds\<close>: the interface of a cloud (\<open>clouds.go\<close>), the Hetzner implementation over the
  hcloud client (\<open>hetzner/hetzner.go\<close>) and the implementation for tests (\<open>fake/fake.go\<close>).
  An interface value is the record of its methods; a nil interface is \<open>None\<close>. What the
  allocators rely on is the locale \<open>clouds_integration\<close>.
\<close>

section \<open>The interface\<close>

record 'w CloudAPI =
  AssignIPToServer :: "string \<Rightarrow> string \<Rightarrow> 'w sys \<Rightarrow> (go_error option \<times> 'w sys) option"
  UnassignIP :: "string \<Rightarrow> 'w sys \<Rightarrow> (go_error option \<times> 'w sys) option"
  GetAndAssignNewAddress ::
    "string \<Rightarrow> string \<Rightarrow> 'w sys \<Rightarrow> ((string \<times> go_error option) \<times> 'w sys) option"
  DeleteAddress :: "string \<Rightarrow> 'w sys \<Rightarrow> (go_error option \<times> 'w sys) option"

type_synonym 'w clouds = "CloudIntegrations \<Rightarrow> 'w CloudAPI option"

section \<open>Hetzner: rate limit report\<close>

datatype log_level = LogError | LogWarning | LogInfo

text \<open>The value of \<open>strconv.Atoi\<close> where its error is ignored: zero for a malformed number,
  the nearest int64 for one out of range.\<close>

definition Atoi_value :: "string \<Rightarrow> int" where
  "Atoi_value s =
     (let (neg, ds) =
        (case s of [] \<Rightarrow> (False, [])
         | c # cs \<Rightarrow> if c = CHR ''+'' then (False, cs) else if c = CHR ''-'' then (True, cs) else (False, s))
      in case parse_uint ds of
           None \<Rightarrow> 0
         | Some n \<Rightarrow> if neg then max (- (2 ^ 63)) (- int n) else min (2 ^ 63 - 1) (int n))"

text \<open>The result is the level the report is logged at, if it is logged.\<close>

definition printRateLimit :: "HResponse \<Rightarrow> log_level option option" where
  "printRateLimit res =
     (let limit = HHeader res ''RateLimit-Limit'';
          remaining = HHeader res ''RateLimit-Remaining'';
          reset = HHeader res ''RateLimit-Reset''
      in case ParseInt 64 reset of
           None \<Rightarrow> Some None
         | Some i \<Rightarrow>
             (let intLimit = Atoi_value limit;
                  intRemaining = Atoi_value limit
              in if intLimit = 0 then None   \<comment> \<open>integer divide by zero\<close>
                 else
                   (let remainingPercentage = wrap64 (wrap64 (intRemaining * 100) sdiv intLimit)
                    in Some (Some (if remainingPercentage < 20 then LogError
                                   else if remainingPercentage < 50 then LogWarning
                                   else LogInfo)))))"

section \<open>Hetzner: the four operations\<close>

fun find_server :: "string \<Rightarrow> HServer list \<Rightarrow> HServer option" where
  "find_server name [] = None"
| "find_server name (server # servers) =
     (if HServerName server = name then Some server else find_server name servers)"

definition getServerByName ::
  "'w env \<Rightarrow> string \<Rightarrow> string \<Rightarrow> 'w sys \<Rightarrow> (go_error + HServer) \<times> 'w sys" where
  "getServerByName E token name s =
     (let (r, s) = onw (hcloud_servers E token name) s
      in case r of
           Inl err \<Rightarrow> (Inl (Ext err), s)
         | Inr servers \<Rightarrow>
             (case find_server name servers of
                Some server \<Rightarrow> (Inr server, s) | None \<Rightarrow> (Inl ErrServerNotFound, s)))"

fun find_ip :: "string \<Rightarrow> HFloatingIP list \<Rightarrow> HFloatingIP option" where
  "find_ip address [] = None"
| "find_ip address (ip # ips) = (if HIPAddress ip = address then Some ip else find_ip address ips)"

definition getIPByAddress ::
  "'w env \<Rightarrow> string \<Rightarrow> string \<Rightarrow> 'w sys \<Rightarrow> (go_error + HFloatingIP) \<times> 'w sys" where
  "getIPByAddress E token address s =
     (let (r, s) = onw (hcloud_floating_ips E token) s
      in case r of
           Inl err \<Rightarrow> (Inl (Ext err), s)
         | Inr ips \<Rightarrow>
             (case find_ip address ips of
                Some ip \<Rightarrow> (Inr ip, s) | None \<Rightarrow> (Inl ErrAddrNotFound, s)))"

definition status_error :: "string \<Rightarrow> HResponse \<Rightarrow> go_error" where
  "status_error what res =
     Errorf (what @ '', status code: '' @ itoa_int (StatusCode res) @
       (case HBody res of
          Inl err \<Rightarrow> '', cannot decode body '' @ ext_message err
        | Inr bodystr \<Rightarrow> '', response body is: '' @ bodystr))"

definition hetzner_AssignIPToServer ::
  "'w env \<Rightarrow> string \<Rightarrow> string \<Rightarrow> string \<Rightarrow> 'w sys \<Rightarrow> (go_error option \<times> 'w sys) option" where
  "hetzner_AssignIPToServer E token address serverName s =
     (let (r, s) = getIPByAddress E token address s
      in case r of
           Inl err \<Rightarrow> Some (Some err, s)
         | Inr ip \<Rightarrow>
             (let (r, s) = getServerByName E token serverName s
              in case r of
                   Inl err \<Rightarrow> Some (Some err, s)
                 | Inr server \<Rightarrow>
                     (let (r, s) = onw (hcloud_assign E token ip server) s
                      in case r of
                           Inl err \<Rightarrow> Some (Some (Ext err), s)
                         | Inr res \<Rightarrow>
                             if StatusCode res \<noteq> 200 \<and> StatusCode res \<noteq> 201
                             then Some (Some (status_error
                               (''Something went wrong assigning ip '' @ address @ '' to server '' @ serverName) res), s)
                             else do { _ \<leftarrow> printRateLimit res; Some (None, s) })))"

definition hetzner_UnassignIP ::
  "'w env \<Rightarrow> string \<Rightarrow> string \<Rightarrow> 'w sys \<Rightarrow> (go_error option \<times> 'w sys) option" where
  "hetzner_UnassignIP E token address s =
     (let (r, s) = getIPByAddress E token address s
      in case r of
           Inl err \<Rightarrow> Some (Some err, s)
         | Inr ip \<Rightarrow>
             (let (r, s) = onw (hcloud_unassign E token ip) s
              in case r of
                   Inl err \<Rightarrow> Some (Some (Ext err), s)
                 | Inr res \<Rightarrow>
                     if StatusCode res \<noteq> 200 \<and> StatusCode res \<noteq> 201
                     then Some (Some (status_error (''Something went wrong unassigning ip '' @ address) res), s)
                     else do { _ \<leftarrow> printRateLimit res; Some (None, s) }))"

definition hetzner_GetAndAssignNewAddress ::
  "'w env \<Rightarrow> string \<Rightarrow> string \<Rightarrow> string \<Rightarrow> 'w sys \<Rightarrow> ((string \<times> go_error option) \<times> 'w sys) option" where
  "hetzner_GetAndAssignNewAddress E token serverName ipName s =
     (let (r, s) = getServerByName E token serverName s
      in case r of
           Inl err \<Rightarrow> Some (('''', Some err), s)
         | Inr server \<Rightarrow>
             (let opts = \<lparr>OptType = ''ipv4'', OptServer = server,
                          OptLabels = [(''managed-by'', ''plenuslb'')], OptName = ipName\<rparr>;
                  (r, s) = onw (hcloud_create E token opts) s
              in case r of
                   Inl err \<Rightarrow> Some (('''', Some (Ext err)), s)
                 | Inr (newIP, res) \<Rightarrow>
                     if StatusCode res \<noteq> 200 \<and> StatusCode res \<noteq> 201
                     then Some (('''', Some (status_error ''Something went wrong getting new ip'' res)), s)
                     else do { _ \<leftarrow> printRateLimit res; Some ((newIP, None), s) }))"

definition hetzner_DeleteAddress ::
  "'w env \<Rightarrow> string \<Rightarrow> string \<Rightarrow> 'w sys \<Rightarrow> (go_error option \<times> 'w sys) option" where
  "hetzner_DeleteAddress E token address s =
     (let (r, s) = getIPByAddress E token address s
      in case r of
           Inl err \<Rightarrow> Some (Some err, s)
         | Inr ip \<Rightarrow>
             (let (r, s) = onw (hcloud_delete E token ip) s
              in case r of
                   Inl err \<Rightarrow> Some (Some (Ext err), s)
                 | Inr res \<Rightarrow>
                     if StatusCode res \<noteq> 204
                     then Some (Some (status_error (''Something went wrong deleting ip '' @ address) res), s)
                     else do { _ \<leftarrow> printRateLimit res; Some (None, s) }))"

definition hetzner_API :: "'w env \<Rightarrow> string \<Rightarrow> 'w CloudAPI" where
  "hetzner_API E token =
     \<lparr>AssignIPToServer = hetzner_AssignIPToServer E token,
      UnassignIP = hetzner_UnassignIP E token,
      GetAndAssignNewAddress = hetzner_GetAndAssignNewAddress E token,
      DeleteAddress = hetzner_DeleteAddress E token\<rparr>"

section \<open>The integrations\<close>

definition Integration_GetCloudAPI :: "'w env \<Rightarrow> 'w clouds" where
  "Integration_GetCloudAPI E cloudIntegrationOpts =
     (case Hetzner cloudIntegrationOpts of
        Some h \<Rightarrow> Some (hetzner_API E (Token h))
      | None \<Rightarrow> None)"

definition fake_cloudAPI :: "'w CloudAPI" where
  "fake_cloudAPI =
     \<lparr>AssignIPToServer = (\<lambda>address serverName s. Some (None, s)),
      UnassignIP = (\<lambda>address s. Some (None, s)),
      GetAndAssignNewAddress = (\<lambda>serverName ipName s. Some ((''1.1.1.1'', None), s)),
      DeleteAddress = (\<lambda>address s. Some (None, s))\<rparr>"

definition fake_GetCloudAPI :: "'w clouds" where
  "fake_GetCloudAPI cloudIntegrationOpts =
     (case Hetzner cloudIntegrationOpts of Some h \<Rightarrow> Some fake_cloudAPI | None \<Rightarrow> None)"

section \<open>The contract\<close>

locale cloud_api =
  fixes api :: "'w CloudAPI"
  assumes Assign_frame: "AssignIPToServer api a n s = Some (r, s') \<Longrightarrow> world_only s s'"
    and Unassign_frame: "UnassignIP api a s = Some (r, s') \<Longrightarrow> world_only s s'"
    and GetNew_frame: "GetAndAssignNewAddress api n i s = Some (r', s') \<Longrightarrow> world_only s s'"
    and Delete_frame: "DeleteAddress api a s = Some (r, s') \<Longrightarrow> world_only s s'"

lemma getServerByName_world_only: "getServerByName E t n s = (r, s') \<Longrightarrow> world_only s s'"
  by (auto simp: getServerByName_def split: asm_splits sum.split_asm dest: onw_world_only)

lemma getIPByAddress_world_only: "getIPByAddress E t n s = (r, s') \<Longrightarrow> world_only s s'"
  by (auto simp: getIPByAddress_def split: asm_splits sum.split_asm dest: onw_world_only)

lemma find_server_Some: "find_server n xs = Some x \<Longrightarrow> x \<in> set xs \<and> HServerName x = n"
  by (induction xs) (auto split: if_splits)

lemma find_ip_Some: "find_ip a xs = Some x \<Longrightarrow> x \<in> set xs \<and> HIPAddress x = a"
  by (induction xs) (auto split: if_splits)

lemmas hetzner_frames = getServerByName_world_only getIPByAddress_world_only onw_world_only

interpretation hetzner: cloud_api "hetzner_API E token" for E token
proof
  show "AssignIPToServer (hetzner_API E token) a n s = Some (r, s') \<Longrightarrow> world_only s s'" for a n s r s'
    by (auto simp: hetzner_API_def hetzner_AssignIPToServer_def world_only_def elim!: bind_SomeE
        split: asm_splits sum.split_asm dest!: hetzner_frames)
  show "UnassignIP (hetzner_API E token) a s = Some (r, s') \<Longrightarrow> world_only s s'" for a s r s'
    by (auto simp: hetzner_API_def hetzner_UnassignIP_def world_only_def elim!: bind_SomeE
        split: asm_splits sum.split_asm dest!: hetzner_frames)
  show "GetAndAssignNewAddress (hetzner_API E token) n i s = Some (r, s') \<Longrightarrow> world_only s s'" for n i s r s'
    by (auto simp: hetzner_API_def hetzner_GetAndAssignNewAddress_def world_only_def Let_def
        elim!: bind_SomeE split: asm_splits sum.split_asm dest!: hetzner_frames)
  show "DeleteAddress (hetzner_API E token) a s = Some (r, s') \<Longrightarrow> world_only s s'" for a s r s'
    by (auto simp: hetzner_API_def hetzner_DeleteAddress_def world_only_def elim!: bind_SomeE
        split: asm_splits sum.split_asm dest!: hetzner_frames)
qed

interpretation fake_api: cloud_api fake_cloudAPI
  by unfold_locales (auto simp: fake_cloudAPI_def)

text \<open>What the allocators are given: any integration whose APIs are such.\<close>

locale clouds_integration =
  fixes GetCloudAPI :: "'w clouds"
  assumes api: "GetCloudAPI ci = Some api \<Longrightarrow> cloud_api api"
begin

lemma Assign: "GetCloudAPI ci = Some api \<Longrightarrow> AssignIPToServer api a n s = Some (r, s') \<Longrightarrow> world_only s s'"
  using api cloud_api.Assign_frame by blast

lemma Unassign: "GetCloudAPI ci = Some api \<Longrightarrow> UnassignIP api a s = Some (r, s') \<Longrightarrow> world_only s s'"
  using api cloud_api.Unassign_frame by blast

lemma GetNew:
  "GetCloudAPI ci = Some api \<Longrightarrow> GetAndAssignNewAddress api n i s = Some (r, s') \<Longrightarrow> world_only s s'"
  using api cloud_api.GetNew_frame by blast

lemma Delete: "GetCloudAPI ci = Some api \<Longrightarrow> DeleteAddress api a s = Some (r, s') \<Longrightarrow> world_only s s'"
  using api cloud_api.Delete_frame by blast

end

interpretation hetzner_clouds: clouds_integration "Integration_GetCloudAPI E" for E
  by unfold_locales
    (auto simp: Integration_GetCloudAPI_def hetzner.cloud_api_axioms split: option.split_asm
      intro: hetzner.Assign_frame hetzner.Unassign_frame hetzner.GetNew_frame hetzner.Delete_frame)

interpretation fake_clouds: clouds_integration fake_GetCloudAPI
  by unfold_locales (auto simp: fake_GetCloudAPI_def split: option.split_asm
      intro: fake_api.Assign_frame fake_api.Unassign_frame fake_api.GetNew_frame fake_api.Delete_frame)

section \<open>What the Hetzner operations report\<close>

text \<open>An address that is assigned is one the account has, to the server with that name.\<close>

lemma AssignIPToServer_ok:
  assumes "hetzner_AssignIPToServer E token address serverName s = Some (None, s')"
  shows "\<exists>ips servers ip server res w1 w2.
    hcloud_floating_ips E token (world s) = (Inr ips, w1) \<and> ip \<in> set ips \<and> HIPAddress ip = address \<and>
    hcloud_servers E token serverName w1 = (Inr servers, w2) \<and> server \<in> set servers \<and>
    HServerName server = serverName \<and>
    hcloud_assign E token ip server w2 = (Inr res, world s') \<and> (StatusCode res = 200 \<or> StatusCode res = 201)"
proof -
  from assms obtain ip t1 where 1: "getIPByAddress E token address s = (Inr ip, t1)"
    by (cases "getIPByAddress E token address s")
      (auto simp: hetzner_AssignIPToServer_def split: sum.split_asm)
  with assms obtain server t2 where 2: "getServerByName E token serverName t1 = (Inr server, t2)"
    by (cases "getServerByName E token serverName t1")
      (auto simp: hetzner_AssignIPToServer_def split: sum.split_asm)
  with assms 1 obtain res where
    3: "onw (hcloud_assign E token ip server) t2 = (Inr res, s')" "StatusCode res = 200 \<or> StatusCode res = 201"
    by (cases "onw (hcloud_assign E token ip server) t2")
      (auto simp: hetzner_AssignIPToServer_def elim!: bind_SomeE split: sum.split_asm if_split_asm)
  from 1 obtain ips where i: "hcloud_floating_ips E token (world s) = (Inr ips, world t1)" "find_ip address ips = Some ip"
    by (auto simp: getIPByAddress_def onw_eq split: asm_splits sum.split_asm)
  from 2 obtain servers where
    v: "hcloud_servers E token serverName (world t1) = (Inr servers, world t2)" "find_server serverName servers = Some server"
    by (auto simp: getServerByName_def onw_eq split: asm_splits sum.split_asm)
  from 3(1) have a: "hcloud_assign E token ip server (world t2) = (Inr res, world s')"
    by (auto simp: onw_eq)
  from find_ip_Some [OF i(2)] find_server_Some [OF v(2)] i(1) v(1) a 3(2) show ?thesis by blast
qed

text \<open>The remaining calls never influence the level: for a sane limit it is always \<open>Info\<close>.\<close>

lemma printRateLimit_level:
  assumes "0 < Atoi_value (HHeader res ''RateLimit-Limit'')"
    and "Atoi_value (HHeader res ''RateLimit-Limit'') * 100 < 2 ^ 63"
  shows "printRateLimit res = Some (map_option (\<lambda>_. LogInfo) (ParseInt 64 (HHeader res ''RateLimit-Reset'')))"
proof -
  let ?l = "Atoi_value (HHeader res ''RateLimit-Limit'')"
  have "wrap64 (?l * 100) = ?l * 100" using assms by (intro wrap64_id) auto
  moreover have "?l * 100 sdiv ?l = 100" using assms(1) by (simp add: signed_divide_int_def)
  moreover have "wrap64 100 = 100" by (simp add: wrap64_def)
  ultimately show ?thesis using assms(1) by (simp add: printRateLimit_def Let_def split: option.splits)
qed

text \<open>A response without a limit header, or with one that is not a number, makes it panic.\<close>

lemma printRateLimit_panic:
  "Atoi_value (HHeader res ''RateLimit-Limit'') = 0 \<Longrightarrow>
   ParseInt 64 (HHeader res ''RateLimit-Reset'') \<noteq> None \<Longrightarrow> printRateLimit res = None"
  by (auto simp: printRateLimit_def Let_def)

section \<open>Severity\<close>

text \<open>The levels in the order of their severity.\<close>

fun severity :: "log_level \<Rightarrow> nat" where
  "severity LogInfo = 0"
| "severity LogWarning = 1"
| "severity LogError = 2"

lemma severity_inject [simp]: "severity a = severity b \<longleftrightarrow> a = b"
  by (cases a; cases b) simp_all

instantiation log_level :: linorder
begin

definition less_eq_log_level :: "log_level \<Rightarrow> log_level \<Rightarrow> bool" where
  "less_eq_log_level a b \<longleftrightarrow> severity a \<le> severity b"

definition less_log_level :: "log_level \<Rightarrow> log_level \<Rightarrow> bool" where
  "less_log_level a b \<longleftrightarrow> severity a < severity b"

instance
  by standard (auto simp: less_eq_log_level_def less_log_level_def)

end

text \<open>For a sane limit no report is ever above \<open>Info\<close>, whatever remains.\<close>

lemma printRateLimit_never_warns:
  assumes "0 < Atoi_value (HHeader res ''RateLimit-Limit'')"
    and "Atoi_value (HHeader res ''RateLimit-Limit'') * 100 < 2 ^ 63"
    and "printRateLimit res = Some (Some l)"
  shows "l \<le> LogInfo"
  using printRateLimit_level [OF assms(1,2)] assms(3)
  by (cases "ParseInt 64 (HHeader res ''RateLimit-Reset'')") (auto simp: less_eq_log_level_def)

end
