(* ===== verification/Persistent_Allocator.thy ===== *)
theory Persistent_Allocator
  imports Pools_Manager Ipallocations Operator_Speaker Clouds
begin

text \<open>
  \<open>pkg/controller/persistentips/allocator.go\<close>, \<open>watcher.go\<close> and \<open>packageInit.go\<close>: allocations whose
  addresses the user lists on the service and a persistent pool holds. \<open>C\<close> is the package
  variable \<open>cloudsIntegration\<close>. The function names that exist in both allocators have the
  prefix \<open>persistent_\<close> here. A deep copy is the same value; the slice of an allocation with
  no address is \<open>[]\<close>, whether the Go slice is nil or empty.
\<close>

abbreviation persistent_store :: "'w env \<Rightarrow> 'w sys \<Rightarrow> k8s_obj list" where
  "persistent_store E s \<equiv> persistentPoolsStore E (world s)"

text \<open>\<open>UseIP\<close> and \<open>ReleaseIP\<close> on the package's own list and store.\<close>

definition use_ip :: "string \<Rightarrow> string \<Rightarrow> 'w sys \<Rightarrow> (go_error + PersistentIPPool) \<times> 'w sys" where
  "use_ip namespace address s =
     (let (r, aps) = UseIP namespace address (availablesPools s) in (r, s\<lparr>availablesPools := aps\<rparr>))"

definition release_ip :: "'w env \<Rightarrow> string \<Rightarrow> string \<Rightarrow> string \<Rightarrow> 'w sys \<Rightarrow> 'w sys" where
  "release_ip E poolName namespace address s =
     s\<lparr>availablesPools := ReleaseIP (persistent_store E s) poolName namespace address (availablesPools s)\<rparr>"

section \<open>Nodes\<close>

definition getNetworkNodesList :: "'w env \<Rightarrow> 'w sys \<Rightarrow> (go_error + string list) \<times> 'w sys" where
  "getNetworkNodesList E s =
     (let (r, s) = onw (nodes_list E) s
      in case r of Inl err \<Rightarrow> (Inl (Ext err), s) | Inr nodeList \<Rightarrow> (Inr nodeList, s))"

text \<open>The name of the node that is picked; \<open>Intn(0)\<close> panics.\<close>

definition getRandomNode :: "'w env \<Rightarrow> 'w sys \<Rightarrow> ((go_error + string) \<times> 'w sys) option" where
  "getRandomNode E s =
     (let (r, s) = getNetworkNodesList E s
      in case r of
           Inl err \<Rightarrow> Some (Inl err, s)
         | Inr nodes \<Rightarrow>
             (if length nodes = 0 then None
              else let (i, s) = onw (intn E (length nodes)) s in Some (Inr (nodes ! i), s)))"

text \<open>\<open>operator.GetRandomOperatorNode\<close> as its callers use it: the node name or the error.\<close>

definition random_operator_name :: "'w env \<Rightarrow> 'w sys \<Rightarrow> ((go_error + string) \<times> 'w sys) option" where
  "random_operator_name E s =
     do {
       ((operatorNode, err), s) \<leftarrow> GetRandomOperatorNode E s;
       (case err of
          Some e \<Rightarrow> Some (Inl e, s)
        | None \<Rightarrow> do { node \<leftarrow> operatorNode; Some (Inr (OpNodeName node), s) })
     }"

text \<open>Both ways of picking a node write the name on success and remember the error otherwise.\<close>

fun picked_node :: "go_error + string \<Rightarrow> string \<Rightarrow> string" where
  "picked_node (Inr n) old = n"
| "picked_node (Inl e) old = old"

fun picked_error :: "go_error + string \<Rightarrow> go_error option \<Rightarrow> go_error option" where
  "picked_error (Inr n) old = old"
| "picked_error (Inl e) old = Some e"

section \<open>Building and patching allocations\<close>

definition addOperatorNodeToAllocation ::
  "'w env \<Rightarrow> PersistentIPPool \<Rightarrow> IPAllocationAddresses \<Rightarrow> 'w sys \<Rightarrow>
   ((IPAllocationAddresses \<times> go_error option) \<times> 'w sys) option" where
  "addOperatorNodeToAllocation E pool allocation s =
     do {
       let hasHostNetworkOption = PersistentPoolHasHostNetworkOption pool;
       let (hasCloudIntegrationOption, cloudProvider) = PersistentPoolHasCloudIntegrationOption pool;
       ((allocation, allocationErr), s) \<leftarrow>
         (if hasHostNetworkOption \<and>
             (NodeName allocation = '''' \<or> NetworkInterface allocation = '''' \<or>
              Some (NetworkInterface allocation) \<noteq> interface_name (POptions (PSpec pool)))
          then do {
            (r, s) \<leftarrow> random_operator_name E s;
            interfaceName \<leftarrow> interface_name (POptions (PSpec pool));
            Some ((allocation\<lparr>NodeName := picked_node r (NodeName allocation),
                             NetworkInterface := interfaceName\<rparr>, picked_error r None), s)
          }
          else if hasCloudIntegrationOption \<and> NodeName allocation = '''' then do {
            (r, s) \<leftarrow> getRandomNode E s;
            Some ((allocation\<lparr>NodeName := picked_node r (NodeName allocation)\<rparr>, picked_error r None), s)
          }
          else Some ((allocation, None), s));
       Some ((allocation\<lparr>CloudProvider := cloudProvider\<rparr>, allocationErr), s)
     }"

text \<open>
  The pool and the prepared allocation of one address. An address the current allocation
  has keeps its entry; the error for one whose pool is gone is assigned to a variable that
  shadows \<open>allocationErr\<close> and is lost.
\<close>

definition persistent_pool_for_ip ::
  "'w env \<Rightarrow> string \<Rightarrow> IPAllocation option \<Rightarrow> string \<Rightarrow> go_error option \<Rightarrow> 'w sys \<Rightarrow>
   ((PersistentIPPool option \<times> IPAllocationAddresses \<times> go_error option) \<times> 'w sys) option" where
  "persistent_pool_for_ip E serviceNamespace actualAllocation ip allocationErr s =
     (let allocation = zero_IPAllocationAddresses\<lparr>Address := ip\<rparr>;
          (contains, ready) =
            (case actualAllocation of
               Some actual \<Rightarrow> ContainsAddress (alloc_addresses actual) ip
             | None \<Rightarrow> (False, None))
      in if contains then
           do {
             r \<leftarrow> ready;
             let pool = GetPoolOfAddress (persistent_store E s) serviceNamespace (Address r);
             Some ((pool, r, allocationErr), s)
           }
         else
           (let (r, s) = use_ip serviceNamespace ip s
            in case r of
                 Inl err \<Rightarrow> Some ((None, allocation, Some err), s)
               | Inr pool \<Rightarrow> Some ((Some pool, allocation\<lparr>Pool := PGetName pool\<rparr>, allocationErr), s)))"

fun persistent_buildAllocations_loop ::
  "'w env \<Rightarrow> string \<Rightarrow> IPAllocation option \<Rightarrow> string list \<Rightarrow> IPAllocationAddresses list \<Rightarrow>
   go_error option \<Rightarrow> 'w sys \<Rightarrow> ((IPAllocationAddresses list \<times> go_error option) \<times> 'w sys) option" where
  "persistent_buildAllocations_loop E ns actual [] allocations allocationErr s =
     Some ((allocations, allocationErr), s)"
| "persistent_buildAllocations_loop E ns actual (ip # ips) allocations allocationErr s =
     do {
       ((pool, allocation, allocationErr), s) \<leftarrow> persistent_pool_for_ip E ns actual ip allocationErr s;
       (case pool of
          Some pool \<Rightarrow>
            do {
              ((allocation, err), s) \<leftarrow> addOperatorNodeToAllocation E pool allocation s;
              persistent_buildAllocations_loop E ns actual ips (allocations @ [allocation])
                (if err \<noteq> None then err else allocationErr) s
            }
        | None \<Rightarrow> persistent_buildAllocations_loop E ns actual ips allocations allocationErr s)
     }"

definition persistent_buildAllocations ::
  "'w env \<Rightarrow> string \<Rightarrow> IPAllocation option \<Rightarrow> string list \<Rightarrow> 'w sys \<Rightarrow>
   ((IPAllocationAddresses list \<times> go_error option) \<times> 'w sys) option" where
  "persistent_buildAllocations E serviceNamespace actualAllocation ips s =
     persistent_buildAllocations_loop E serviceNamespace actualAllocation ips [] None s"

definition release_all ::
  "'w env \<Rightarrow> string \<Rightarrow> IPAllocationAddresses list \<Rightarrow> 'w sys \<Rightarrow> 'w sys" where
  "release_all E namespace allocations s =
     fold (\<lambda>alloc s. release_ip E (Pool alloc) namespace (Address alloc) s) allocations s"

definition createPersistentAllocation ::
  "'w env \<Rightarrow> string \<Rightarrow> string \<Rightarrow> string list \<Rightarrow> 'w sys \<Rightarrow>
   ((IPAllocation option \<times> go_error option \<times> go_error option) \<times> 'w sys) option" where
  "createPersistentAllocation E serviceNamespace serviceName ips s =
     do {
       ((allocations, allocationErr), s) \<leftarrow> persistent_buildAllocations E serviceNamespace None ips s;
       ((allocation, err), s) \<leftarrow>
         CreateAllocation E serviceNamespace serviceName PersistentIP allocations s;
       let s = (if err \<noteq> None then release_all E serviceNamespace allocations s else s);
       Some ((allocation, allocationErr, err), s)
     }"

definition EnsurePersistentAllocation ::
  "'w env \<Rightarrow> string \<Rightarrow> string \<Rightarrow> string list \<Rightarrow> 'w sys \<Rightarrow> (alloc_result \<times> 'w sys) option" where
  "EnsurePersistentAllocation E serviceNamespace serviceName ips s =
     (let ((allocation, err), s) = FindAllocation E serviceNamespace serviceName s
      in if err \<noteq> None then Some ((None, err), s)
         else if allocation \<noteq> None then Some ((allocation, None), s)
         else do {
           ((allocation, allocationErr, err), s) \<leftarrow>
             createPersistentAllocation E serviceNamespace serviceName ips s;
           if err \<noteq> None then Some ((None, err), s)
           else (case allocationErr of
                   Some e \<Rightarrow> SetAllocationStatusError E allocation e s
                 | None \<Rightarrow> SetAllocationStatusPending E allocation s)
         })"

definition removed_allocations ::
  "IPAllocationAddresses list \<Rightarrow> IPAllocationAddresses list \<Rightarrow> IPAllocationAddresses list" where
  "removed_allocations allocations actual =
     filter (\<lambda>alloc. \<not> fst (ContainsAddress allocations (Address alloc))) actual"

type_synonym patch_result =
  "IPAllocation option \<times> IPAllocationAddresses list \<times> go_error option \<times> go_error option"

definition persistent_CheckAndPatchAllocation ::
  "'w env \<Rightarrow> string \<Rightarrow> string \<Rightarrow> string list \<Rightarrow> IPAllocation \<Rightarrow> 'w sys \<Rightarrow>
   (patch_result \<times> 'w sys) option" where
  "persistent_CheckAndPatchAllocation E serviceNamespace serviceName ips currentAllocation s =
     do {
       ((allocations, allocationErr), s) \<leftarrow>
         persistent_buildAllocations E serviceNamespace (Some currentAllocation) ips s;
       let removedAllocations = removed_allocations allocations (alloc_addresses currentAllocation);
       let s = release_all E serviceNamespace removedAllocations s;
       let actualAllocation = set_alloc_addresses allocations currentAllocation;
       if allocationErr = None \<and> actualAllocation = currentAllocation
       then Some ((Some actualAllocation, removedAllocations, allocationErr, None), s)
       else do {
         ((res, err), s) \<leftarrow> UpdateAllocation E actualAllocation s;
         if err \<noteq> None then Some ((None, [], allocationErr, err), s)
         else do {
           ((res, err), s) \<leftarrow>
             (case allocationErr of
                Some e \<Rightarrow> SetAllocationStatusError E res e s
              | None \<Rightarrow> SetAllocationStatusPending E res s);
           if err \<noteq> None then Some ((None, removedAllocations, allocationErr, err), s)
           else Some ((res, removedAllocations, allocationErr, err), s)
         }
       }
     }"

section \<open>Moving an allocation\<close>

text \<open>The loop stops at the first address whose pool is gone; the later ones stay as they are.\<close>

fun persistent_change_nodes ::
  "'w env \<Rightarrow> IPAllocationAddresses list \<Rightarrow> go_error option \<Rightarrow> 'w sys \<Rightarrow>
   ((IPAllocationAddresses list \<times> go_error option) \<times> 'w sys) option" where
  "persistent_change_nodes E [] allocationErr s = Some (([], allocationErr), s)"
| "persistent_change_nodes E (allocation # allocations) allocationErr s =
     (case persistent_SearchPoolByName (persistent_store E s) (Pool allocation) of
        None \<Rightarrow> Some ((allocation # allocations, Some ErrPersistentPoolNotFound), s)
      | Some pool \<Rightarrow>
          do {
            ((nodeName, netInterface, allocationErr), s) \<leftarrow>
              (if PersistentPoolHasHostNetworkOption pool then do {
                 (r, s) \<leftarrow> random_operator_name E s;
                 interfaceName \<leftarrow> interface_name (POptions (PSpec pool));
                 Some ((picked_node r '''', interfaceName, picked_error r allocationErr), s)
               }
               else if fst (PersistentPoolHasCloudIntegrationOption pool) then do {
                 (r, s) \<leftarrow> getRandomNode E s;
                 Some ((picked_node r '''', '''', picked_error r allocationErr), s)
               }
               else Some (('''', '''', allocationErr), s));
            ((rest, allocationErr), s) \<leftarrow> persistent_change_nodes E allocations allocationErr s;
            Some ((allocation\<lparr>NetworkInterface := netInterface, NodeName := nodeName\<rparr> # rest,
                   allocationErr), s)
          })"

definition finish_change_node ::
  "'w env \<Rightarrow> IPAllocation \<Rightarrow> go_error option \<Rightarrow> 'w sys \<Rightarrow> (alloc_result \<times> 'w sys) option" where
  "finish_change_node E allocation allocationErr s =
     do {
       ((allocation, err), s) \<leftarrow> UpdateAllocation E allocation s;
       let allocationErr = (if err \<noteq> None then err else allocationErr);
       ((result, err), s) \<leftarrow>
         (case allocationErr of
            Some e \<Rightarrow> SetAllocationStatusError E allocation e s
          | None \<Rightarrow> SetAllocationStatusPending E allocation s);
       if err \<noteq> None then Some ((None, err), s) else Some ((result, None), s)
     }"

definition persistent_ChangeAllocationNode ::
  "'w env \<Rightarrow> IPAllocation \<Rightarrow> 'w sys \<Rightarrow> (alloc_result \<times> 'w sys) option" where
  "persistent_ChangeAllocationNode E allocationRO s =
     do {
       ((allocations, allocationErr), s) \<leftarrow> persistent_change_nodes E (alloc_addresses allocationRO) None s;
       finish_change_node E (set_alloc_addresses allocations allocationRO) allocationErr s
     }"

section \<open>Cloud and host\<close>

definition persistent_allocateAddressOnCloud ::
  "'w clouds \<Rightarrow> PersistentIPPool \<Rightarrow> string \<Rightarrow> string \<Rightarrow> 'w sys \<Rightarrow> (go_error option \<times> 'w sys) option" where
  "persistent_allocateAddressOnCloud C pool address nodeName s =
     (case PCloudIntegration (PSpec pool) of
        None \<Rightarrow> Some (None, s)
      | Some opts \<Rightarrow>
          (case C opts of
             Some ci \<Rightarrow> AssignIPToServer ci address nodeName s
           | None \<Rightarrow> Some (None, s)))"

definition deallocateAddressFromCloud ::
  "'w clouds \<Rightarrow> PersistentIPPool \<Rightarrow> string \<Rightarrow> 'w sys \<Rightarrow> (go_error option \<times> 'w sys) option" where
  "deallocateAddressFromCloud C pool address s =
     (case PCloudIntegration (PSpec pool) of
        None \<Rightarrow> Some (None, s)
      | Some opts \<Rightarrow>
          (case C opts of
             Some ci \<Rightarrow> UnassignIP ci address s
           | None \<Rightarrow> Some (None, s)))"

definition persistent_AllocateAddress ::
  "'w env \<Rightarrow> 'w clouds \<Rightarrow> IPAllocationAddresses \<Rightarrow> 'w sys \<Rightarrow> (go_error option \<times> 'w sys) option" where
  "persistent_AllocateAddress E C addressAllocation s =
     (case persistent_SearchPoolByName (persistent_store E s) (Pool addressAllocation) of
        None \<Rightarrow> Some (Some ErrPersistentPoolNotFound, s)
      | Some pool \<Rightarrow>
          do {
            (err, s) \<leftarrow>
              (if PersistentPoolHasHostNetworkOption pool then do {
                 netInterface \<leftarrow> interface_name (POptions (PSpec pool));
                 EnsureIPAllocationOnNode E (NodeName addressAllocation) netInterface
                   (Address addressAllocation) s
               }
               else Some (None, s));
            if err \<noteq> None then Some (err, s)
            else if fst (PersistentPoolHasCloudIntegrationOption pool)
            then persistent_allocateAddressOnCloud C pool (Address addressAllocation)
                   (NodeName addressAllocation) s
            else Some (None, s)
          })"

definition persistent_DeallocateAddress ::
  "'w env \<Rightarrow> 'w clouds \<Rightarrow> IPAllocationAddresses \<Rightarrow> 'w sys \<Rightarrow> (go_error option \<times> 'w sys) option" where
  "persistent_DeallocateAddress E C addressAllocation s =
     (case persistent_SearchPoolByName (persistent_store E s) (Pool addressAllocation) of
        None \<Rightarrow> Some (Some ErrPersistentPoolNotFound, s)
      | Some pool \<Rightarrow>
          do {
            (err, s) \<leftarrow>
              (if PersistentPoolHasHostNetworkOption pool then do {
                 netInterface \<leftarrow> interface_name (POptions (PSpec pool));
                 RemoveAddressFromNode E (NodeName addressAllocation) netInterface
                   (Address addressAllocation) s
               }
               else Some (None, s));
            if err \<noteq> None then Some (err, s)
            else if fst (PersistentPoolHasCloudIntegrationOption pool)
            then deallocateAddressFromCloud C pool (Address addressAllocation) s
            else Some (None, s)
          })"

fun persistent_deallocate_loop ::
  "'w env \<Rightarrow> 'w clouds \<Rightarrow> string \<Rightarrow> IPAllocationAddresses list \<Rightarrow> 'w sys \<Rightarrow> 'w sys option" where
  "persistent_deallocate_loop E C namespace [] s = Some s"
| "persistent_deallocate_loop E C namespace (addrAllocation # allocations) s =
     do {
       (_, s) \<leftarrow>
         (if NetworkInterface addrAllocation \<noteq> ''''
          then RemoveAddressFromNode E (NodeName addrAllocation) (NetworkInterface addrAllocation)
                 (Address addrAllocation) s
          else Some (None, s));
       let s = release_ip E (Pool addrAllocation) namespace (Address addrAllocation) s;
       (_, s) \<leftarrow>
         (case persistent_SearchPoolByName (persistent_store E s) (Pool addrAllocation) of
            Some pool \<Rightarrow> deallocateAddressFromCloud C pool (Address addrAllocation) s
          | None \<Rightarrow> Some (None, s));
       persistent_deallocate_loop E C namespace allocations s
     }"

definition DeallocateAllocation ::
  "'w env \<Rightarrow> 'w clouds \<Rightarrow> IPAllocation \<Rightarrow> 'w sys \<Rightarrow> 'w sys option" where
  "DeallocateAllocation E C allocation s =
     persistent_deallocate_loop E C (AGetNamespace allocation) (alloc_addresses allocation) s"

section \<open>Frames\<close>

lemma getNetworkNodesList_world_only: "getNetworkNodesList E s = (r, s') \<Longrightarrow> world_only s s'"
  by (auto simp: getNetworkNodesList_def split: asm_splits sum.split_asm dest: onw_world_only)

lemma getRandomNode_world_only [world_only_intros]: "getRandomNode E s = Some (r, s') \<Longrightarrow> world_only s s'"
  by (auto simp: getRandomNode_def Let_def world_only_def split: asm_splits sum.split_asm
      dest!: onw_world_only getNetworkNodesList_world_only)

lemma random_operator_name_world_only [world_only_intros]:
  "random_operator_name E s = Some (r, s') \<Longrightarrow> world_only s s'"
  by (auto simp: random_operator_name_def elim!: bind_SomeE split: asm_splits
      dest: GetRandomOperatorNode_world_only)

text \<open>Adding a node changes neither the address nor the pool of an entry.\<close>

lemma addOperatorNode_spec:
  assumes "addOperatorNodeToAllocation E pool a s = Some ((a', err), s')"
  shows "world_only s s'" and "Address a' = Address a" and "Pool a' = Pool a"
    and "CloudProvider a' = snd (PersistentPoolHasCloudIntegrationOption pool)"
  using assms
  by (auto simp: addOperatorNodeToAllocation_def elim!: bind_SomeE split: asm_splits
      dest: random_operator_name_world_only getRandomNode_world_only)

text \<open>After it, an entry of a pool with the host network option is on the pool's interface.\<close>

lemma addOperatorNode_interface:
  assumes "addOperatorNodeToAllocation E pool a s = Some ((a', err), s')"
    and "PersistentPoolHasHostNetworkOption pool"
  shows "interface_name (POptions (PSpec pool)) = Some (NetworkInterface a')"
  using assms
  by (auto simp: addOperatorNodeToAllocation_def elim!: bind_SomeE split: asm_splits)

context clouds_integration begin

lemma persistent_allocate_cloud_world_only:
  "persistent_allocateAddressOnCloud GetCloudAPI pool a n s = Some (r, s') \<Longrightarrow> world_only s s'"
  by (auto simp: persistent_allocateAddressOnCloud_def split: option.split_asm dest: Assign)

lemma deallocate_cloud_world_only:
  "deallocateAddressFromCloud GetCloudAPI pool a s = Some (r, s') \<Longrightarrow> world_only s s'"
  by (auto simp: deallocateAddressFromCloud_def split: option.split_asm dest: Unassign)

lemma persistent_AllocateAddress_world_only:
  "persistent_AllocateAddress E GetCloudAPI a s = Some (r, s') \<Longrightarrow> world_only s s'"
  by (auto simp: persistent_AllocateAddress_def world_only_def elim!: bind_SomeE split: asm_splits
      dest!: EnsureIPAllocationOnNode_world_only persistent_allocate_cloud_world_only)

lemma persistent_DeallocateAddress_world_only:
  "persistent_DeallocateAddress E GetCloudAPI a s = Some (r, s') \<Longrightarrow> world_only s s'"
  by (auto simp: persistent_DeallocateAddress_def world_only_def elim!: bind_SomeE split: asm_splits
      dest!: RemoveAddressFromNode_world_only deallocate_cloud_world_only)

end

section \<open>Accounting of the addresses\<close>

definition alloc_pair :: "IPAllocationAddresses \<Rightarrow> string \<times> string" where
  "alloc_pair a = (Pool a, Address a)"

abbreviation pairs :: "IPAllocationAddresses list \<Rightarrow> (string \<times> string) set" where
  "pairs as \<equiv> alloc_pair ` set as"

text \<open>The store says of each of these pairs that its pool holds the address for the
  namespace, whatever else happens in the world.\<close>

definition store_owns :: "'w env \<Rightarrow> string \<Rightarrow> (string \<times> string) set \<Rightarrow> bool" where
  "store_owns E ns P \<longleftrightarrow> (\<forall>w. \<forall>(p, a) \<in> P. pool_owns (persistentPoolsStore E w) p ns a)"

lemma release_ip_simps [simp]: "world (release_ip E p ns a s) = world s"
  "lockedObjects (release_ip E p ns a s) = lockedObjects s"
  "availablesPools (release_ip E p ns a s) =
     ReleaseIP (persistent_store E s) p ns a (availablesPools s)"
  by (simp_all add: release_ip_def)

lemma release_all_world [simp]: "world (release_all E ns as s) = world s"
  unfolding release_all_def by (induction as arbitrary: s) simp_all

lemma release_all_pools:
  "availablesPools (release_all E ns as s) =
     fold (\<lambda>(p, a). ReleaseIP (persistent_store E s) p ns a) (map alloc_pair as) (availablesPools s)"
  unfolding release_all_def
proof (induction as arbitrary: s)
  case Nil
  then show ?case by simp
next
  case (Cons x xs)
  from Cons [of "release_ip E (Pool x) ns (Address x) s"] show ?case
    by (simp add: alloc_pair_def)
qed

lemma release_all_spec:
  assumes "availability_wf (availablesPools s)" and "store_owns E ns (pairs as)"
  shows "free_ips (availablesPools (release_all E ns as s)) = pairs as \<union> free_ips (availablesPools s)"
    and "availability_wf (availablesPools (release_all E ns as s))"
proof -
  have "\<forall>(p, a) \<in> set (map alloc_pair as). pool_owns (persistent_store E s) p ns a"
    using assms(2) by (auto simp: store_owns_def)
  from av.give_back_all [OF assms(1) this]
  show "free_ips (availablesPools (release_all E ns as s)) = pairs as \<union> free_ips (availablesPools s)"
    and "availability_wf (availablesPools (release_all E ns as s))"
    by (simp_all add: release_all_pools)
qed

text \<open>One address: either an entry the allocation has is kept, or the address is taken.\<close>

lemma pool_for_ip_spec:
  assumes wf: "availability_wf (availablesPools s)"
    and res: "persistent_pool_for_ip E ns actual ip e s = Some ((pool, a, e'), s')"
  obtains (kept) cur r where "actual = Some cur" "r \<in> set (alloc_addresses cur)" "Address r = ip"
      "a = r" "s' = s" "e' = e" "pool = GetPoolOfAddress (persistent_store E s) ns ip"
  | (none) err where "\<forall>cur. actual = Some cur \<longrightarrow> ip \<notin> Address ` set (alloc_addresses cur)"
      "pool = None" "s' = s" "e' = Some err"
  | (taken) p where "\<forall>cur. actual = Some cur \<longrightarrow> ip \<notin> Address ` set (alloc_addresses cur)"
      "pool = Some p" "Address a = ip" "Pool a = PGetName p" "e' = e"
      "alloc_pair a \<in> free_ips (availablesPools s)"
      "free_ips (availablesPools s') = free_ips (availablesPools s) - {alloc_pair a}"
      "availability_wf (availablesPools s')" "world s' = world s"
proof (cases "\<exists>cur. actual = Some cur \<and> ip \<in> Address ` set (alloc_addresses cur)")
  case True
  then obtain cur where cur: "actual = Some cur" "fst (ContainsAddress (alloc_addresses cur) ip)" by auto
  then obtain rd where c: "ContainsAddress (alloc_addresses cur) ip = (True, rd)"
    by (metis prod.collapse)
  from ContainsAddress_True [OF c] obtain r where r: "rd = Some r" "r \<in> set (alloc_addresses cur)"
    "Address r = ip" by auto
  with res cur c show ?thesis by (intro kept [of cur r]) (auto simp: persistent_pool_for_ip_def)
next
  case False
  then have not: "\<forall>cur. actual = Some cur \<longrightarrow> ip \<notin> Address ` set (alloc_addresses cur)" by blast
  then have nc: "(case actual of Some actual \<Rightarrow> ContainsAddress (alloc_addresses actual) ip
      | None \<Rightarrow> (False, None)) = (False, None)"
    by (auto split: option.split)
  obtain r aps where u: "UseIP ns ip (availablesPools s) = (r, aps)" by (metis prod.exhaust)
  show ?thesis
  proof (cases r)
    case (Inl err)
    with u have "aps = availablesPools s" by (auto dest: UseIP_Inl)
    with Inl u res nc have "pool = None \<and> s' = s \<and> e' = Some err"
      by (auto simp: persistent_pool_for_ip_def use_ip_def Let_def)
    with not show ?thesis by (intro none) auto
  next
    case (Inr p)
    with u have "UseIP ns ip (availablesPools s) = (Inr p, aps)" by simp
    note sp = UseIP_success [OF wf this]
    from Inr u res nc have r: "pool = Some p" "a = zero_IPAllocationAddresses\<lparr>Address := ip, Pool := PGetName p\<rparr>"
      "e' = e" "s' = s\<lparr>availablesPools := aps\<rparr>"
      by (auto simp: persistent_pool_for_ip_def use_ip_def Let_def)
    with sp not show ?thesis by (intro taken [of p]) (auto simp: alloc_pair_def)
  qed
qed

text \<open>The entries a list has beyond those of the current allocation.\<close>

definition fresh :: "IPAllocation option \<Rightarrow> IPAllocationAddresses list \<Rightarrow> IPAllocationAddresses list" where
  "fresh actual as =
     filter (\<lambda>a. \<forall>cur. actual = Some cur \<longrightarrow> Address a \<notin> Address ` set (alloc_addresses cur)) as"

definition built_ok ::
  "IPAllocation option \<Rightarrow> string list \<Rightarrow> IPAllocationAddresses list \<Rightarrow> PersistentIPPool list \<Rightarrow>
   PersistentIPPool list \<Rightarrow> bool" where
  "built_ok actual ips new aps aps' \<longleftrightarrow>
     availability_wf aps' \<and>
     pairs (fresh actual new) \<subseteq> free_ips aps \<and>
     free_ips aps' = free_ips aps - pairs (fresh actual new) \<and>
     distinct (map alloc_pair (fresh actual new)) \<and>
     Address ` set new \<subseteq> set ips \<and>
     (\<forall>a \<in> set new. \<forall>cur. actual = Some cur \<longrightarrow> Address a \<in> Address ` set (alloc_addresses cur) \<longrightarrow>
        alloc_pair a \<in> pairs (alloc_addresses cur))"

lemma built_ok_Nil: "availability_wf aps \<Longrightarrow> built_ok actual ips [] aps aps"
  by (simp add: built_ok_def fresh_def)

lemma built_ok_mono: "built_ok actual ips new aps aps' \<Longrightarrow> set ips \<subseteq> set ips' \<Longrightarrow> built_ok actual ips' new aps aps'"
  by (auto simp: built_ok_def)

lemma built_ok_Cons: "built_ok actual ips new aps aps' \<Longrightarrow> built_ok actual (ip # ips) new aps aps'"
  by (erule built_ok_mono) auto

lemma built_ok_kept:
  assumes "built_ok (Some cur) ips new aps aps'" and "alloc_pair a \<in> pairs (alloc_addresses cur)"
    and "Address a \<in> set ips"
  shows "built_ok (Some cur) ips (a # new) aps aps'"
proof -
  from assms(2) have "Address a \<in> Address ` set (alloc_addresses cur)" by (auto simp: alloc_pair_def)
  then have "fresh (Some cur) (a # new) = fresh (Some cur) new" by (auto simp: fresh_def)
  with assms show ?thesis by (simp add: built_ok_def)
qed

lemma built_ok_taken:
  assumes "built_ok actual ips new aps1 aps'" and "alloc_pair a \<in> free_ips aps"
    and "free_ips aps1 = free_ips aps - {alloc_pair a}"
    and "\<forall>cur. actual = Some cur \<longrightarrow> Address a \<notin> Address ` set (alloc_addresses cur)"
    and "Address a \<in> set ips"
  shows "built_ok actual ips (a # new) aps aps'"
proof -
  from assms(4) have f: "fresh actual (a # new) = a # fresh actual new" by (simp add: fresh_def)
  from assms(1) have new: "pairs (fresh actual new) \<subseteq> free_ips aps1"
    "free_ips aps' = free_ips aps1 - pairs (fresh actual new)"
    "distinct (map alloc_pair (fresh actual new))" by (auto simp only: built_ok_def)
  from new(1) assms(3) have "alloc_pair a \<notin> pairs (fresh actual new)" by blast
  then have "distinct (map alloc_pair (fresh actual (a # new)))" using new(3) by (simp add: f)
  moreover have "free_ips aps' = free_ips aps - pairs (fresh actual (a # new))"
    using new(2) assms(3) by (auto simp: f)
  moreover have "pairs (fresh actual (a # new)) \<subseteq> free_ips aps" using new(1) assms(2,3) by (auto simp: f)
  moreover have "\<forall>b \<in> set (a # new). \<forall>cur. actual = Some cur \<longrightarrow>
      Address b \<in> Address ` set (alloc_addresses cur) \<longrightarrow> alloc_pair b \<in> pairs (alloc_addresses cur)"
    using assms(1,4) by (simp add: built_ok_def)
  moreover have "availability_wf aps'" "Address ` set (a # new) \<subseteq> set ips"
    using assms(1,5) by (simp_all add: built_ok_def)
  ultimately show ?thesis unfolding built_ok_def by blast
qed

lemma buildAllocations_loop_ok:
  assumes "persistent_buildAllocations_loop E ns actual ips as e s = Some ((as', e'), s')"
    and "availability_wf (availablesPools s)"
  shows "\<exists>new. as' = as @ new \<and> built_ok actual ips new (availablesPools s) (availablesPools s') \<and>
    (e \<noteq> None \<longrightarrow> e' \<noteq> None) \<and> (e' = None \<longrightarrow> actual = None \<longrightarrow> map Address new = ips)"
  using assms
proof (induction ips arbitrary: as e s)
  case Nil
  then show ?case by (auto intro: built_ok_Nil)
next
  case (Cons ip ips)
  from Cons.prems(1) obtain pool a e1 s1 where
    p: "persistent_pool_for_ip E ns actual ip e s = Some ((pool, a, e1), s1)"
    by (auto elim!: bind_SomeE)
  from Cons.prems(2) p show ?case
  proof (cases rule: pool_for_ip_spec)
    case (kept cur r)
    show ?thesis
    proof (cases pool)
      case None
      with Cons.prems p kept have rest:
        "persistent_buildAllocations_loop E ns actual ips as e s = Some ((as', e'), s')" by simp
      from Cons.IH [OF rest Cons.prems(2)] kept(1) show ?thesis
        by (auto intro: built_ok_Cons)
    next
      case (Some q)
      from p Some kept(4-6) have "persistent_pool_for_ip E ns actual ip e s = Some ((Some q, r, e), s)"
        by simp
      with Cons.prems(1) obtain a2 err s2 where
        n: "addOperatorNodeToAllocation E q r s = Some ((a2, err), s2)"
        and rest: "persistent_buildAllocations_loop E ns actual ips (as @ [a2])
          (if err \<noteq> None then err else e) s2 = Some ((as', e'), s')"
        by (auto elim!: bind_SomeE)
      note n' = addOperatorNode_spec [OF n]
      note w = world_only_fields [OF n'(1)]
      from Cons.IH [OF rest] Cons.prems(2) w obtain new where
        new: "as' = as @ a2 # new" "built_ok actual ips new (availablesPools s) (availablesPools s')"
        "e \<noteq> None \<longrightarrow> e' \<noteq> None" by (auto split: if_splits)
      have "built_ok actual (ip # ips) (a2 # new) (availablesPools s) (availablesPools s')"
        unfolding kept(1)
        by (rule built_ok_kept)
          (use new(2) kept n' in \<open>auto simp: alloc_pair_def image_iff intro: built_ok_Cons\<close>)
      with new(1,3) kept(1) show ?thesis by auto
    qed
  next
    case (none err)
    with Cons.prems p have rest:
      "persistent_buildAllocations_loop E ns actual ips as (Some err) s = Some ((as', e'), s')" by simp
    from Cons.IH [OF rest Cons.prems(2)] show ?thesis by (auto intro: built_ok_Cons)
  next
    case (taken q)
    with Cons.prems(1) p obtain a2 err s2 where
      n: "addOperatorNodeToAllocation E q a s1 = Some ((a2, err), s2)"
      and rest: "persistent_buildAllocations_loop E ns actual ips (as @ [a2])
        (if err \<noteq> None then err else e) s2 = Some ((as', e'), s')"
      by (auto elim!: bind_SomeE)
    note n' = addOperatorNode_spec [OF n]
    note w = world_only_fields [OF n'(1)]
    from Cons.IH [OF rest] taken(8) w obtain new where
      new: "as' = as @ a2 # new" "built_ok actual ips new (availablesPools s1) (availablesPools s')"
      "e \<noteq> None \<longrightarrow> e' \<noteq> None" "e' = None \<longrightarrow> actual = None \<longrightarrow> map Address new = ips"
      by (auto split: if_splits)
    from n' have a2: "alloc_pair a2 = alloc_pair a" "Address a2 = ip" by (simp_all add: alloc_pair_def taken)
    have "built_ok actual (ip # ips) (a2 # new) (availablesPools s) (availablesPools s')"
      by (rule built_ok_taken [OF built_ok_mono [OF new(2)]]) (use taken a2 in auto)
    with new a2 show ?thesis by auto
  qed
qed

lemma buildAllocations_ok:
  assumes "persistent_buildAllocations E ns actual ips s = Some ((as, e), s')"
    and "availability_wf (availablesPools s)"
  shows "built_ok actual ips as (availablesPools s) (availablesPools s')"
    and "e = None \<Longrightarrow> actual = None \<Longrightarrow> map Address as = ips"
  using buildAllocations_loop_ok [OF assms(1) [unfolded persistent_buildAllocations_def] assms(2)]
  by auto

text \<open>What a request takes belongs to pools that admit its namespace.\<close>

definition stored_ids_in :: "'w env \<Rightarrow> (string \<times> string list) set \<Rightarrow> bool" where
  "stored_ids_in E I \<longleftrightarrow> (\<forall>w. store_ids (persistentPoolsStore E w) \<subseteq> I)"

lemma pool_for_ip_ids:
  assumes "persistent_pool_for_ip E ns actual ip e s = Some ((pool, a, e'), s')"
  shows "pool_ids (availablesPools s') \<subseteq> pool_ids (availablesPools s) \<and>
    (pool \<noteq> None \<longrightarrow> (\<exists>cur. actual = Some cur \<and> a \<in> set (alloc_addresses cur)) \<or>
      admits (pool_ids (availablesPools s)) ns (Pool a))"
proof (cases "\<exists>cur. actual = Some cur \<and> ip \<in> Address ` set (alloc_addresses cur)")
  case True
  then obtain cur where cur: "actual = Some cur" "fst (ContainsAddress (alloc_addresses cur) ip)" by auto
  then obtain rd where c: "ContainsAddress (alloc_addresses cur) ip = (True, rd)" by (metis prod.collapse)
  from ContainsAddress_True [OF c] obtain r where "rd = Some r" "r \<in> set (alloc_addresses cur)" by auto
  with assms cur c show ?thesis by (auto simp: persistent_pool_for_ip_def)
next
  case False
  then have nc: "(case actual of Some actual \<Rightarrow> ContainsAddress (alloc_addresses actual) ip
      | None \<Rightarrow> (False, None)) = (False, None)"
    by (auto split: option.split)
  obtain r aps where u: "UseIP ns ip (availablesPools s) = (r, aps)" by (metis prod.exhaust)
  note UseIP_ids [OF u]
  with assms u nc show ?thesis
    by (cases r) (auto simp: persistent_pool_for_ip_def use_ip_def Let_def)
qed

lemma buildAllocations_loop_ids:
  "persistent_buildAllocations_loop E ns actual ips as e s = Some ((as', e'), s') \<Longrightarrow>
     pool_ids (availablesPools s') \<subseteq> pool_ids (availablesPools s) \<and>
     (\<forall>e \<in> pairs as'. e \<in> pairs as \<or> (\<exists>cur. actual = Some cur \<and> e \<in> pairs (alloc_addresses cur)) \<or>
        admits (pool_ids (availablesPools s)) ns (fst e))"
proof (induction ips arbitrary: as e s)
  case Nil
  then show ?case by simp
next
  case (Cons ip ips)
  from Cons.prems obtain pool a e1 s1 where
    p: "persistent_pool_for_ip E ns actual ip e s = Some ((pool, a, e1), s1)"
    by (auto elim!: bind_SomeE)
  note q = pool_for_ip_ids [OF p]
  have mono: "admits (pool_ids (availablesPools s1)) ns n \<Longrightarrow> admits (pool_ids (availablesPools s)) ns n" for n
    using q by (blast intro: admits_mono)
  show ?case
  proof (cases pool)
    case None
    with Cons.prems p have "persistent_buildAllocations_loop E ns actual ips as e1 s1 = Some ((as', e'), s')" by simp
    note IH = Cons.IH [OF this]
    show ?thesis
      using subset_trans [OF conjunct1 [OF IH] conjunct1 [OF q]] conjunct2 [OF IH, THEN bspec] mono by meson
  next
    case (Some r)
    with Cons.prems p obtain a2 err s2 where
      n: "addOperatorNodeToAllocation E r a s1 = Some ((a2, err), s2)"
      and rest: "persistent_buildAllocations_loop E ns actual ips (as @ [a2])
        (if err \<noteq> None then err else e1) s2 = Some ((as', e'), s')"
      by (auto elim!: bind_SomeE)
    note n' = addOperatorNode_spec [OF n]
    have s2: "availablesPools s2 = availablesPools s1" by (rule world_only_fields [OF n'(1)])
    have a2: "alloc_pair a2 = alloc_pair a" "fst (alloc_pair a) = Pool a" using n' by (simp_all add: alloc_pair_def)
    have new: "(\<exists>cur. actual = Some cur \<and> alloc_pair a2 \<in> pairs (alloc_addresses cur)) \<or>
        admits (pool_ids (availablesPools s)) ns (fst (alloc_pair a2))"
      using q Some unfolding a2 by blast
    have ps: "pairs (as @ [a2]) = insert (alloc_pair a2) (pairs as)" by simp
    note IH = Cons.IH [OF rest, unfolded s2 ps]
    show ?thesis
    proof (intro conjI ballI)
      show "pool_ids (availablesPools s') \<subseteq> pool_ids (availablesPools s)" using IH q by (meson subset_trans)
      fix x assume "x \<in> pairs as'"
      with conjunct2 [OF IH] have "x = alloc_pair a2 \<or> x \<in> pairs as \<or>
        (\<exists>cur. actual = Some cur \<and> x \<in> pairs (alloc_addresses cur)) \<or> admits (pool_ids (availablesPools s1)) ns (fst x)"
        by (meson insertE)
      with new mono [of "fst x"] show "x \<in> pairs as \<or> (\<exists>cur. actual = Some cur \<and> x \<in> pairs (alloc_addresses cur)) \<or>
        admits (pool_ids (availablesPools s)) ns (fst x)" by metis
    qed
  qed
qed

lemma buildAllocations_ids:
  assumes "persistent_buildAllocations E ns actual ips s = Some ((as, e), s')"
  shows "pool_ids (availablesPools s') \<subseteq> pool_ids (availablesPools s)"
    and "x \<in> pairs as \<Longrightarrow> (\<exists>cur. actual = Some cur \<and> x \<in> pairs (alloc_addresses cur)) \<or>
      admits (pool_ids (availablesPools s)) ns (fst x)"
  using buildAllocations_loop_ids [OF assms [unfolded persistent_buildAllocations_def]] by auto

lemma release_ip_ids:
  assumes "stored_ids_in E I" and "pool_ids (availablesPools s) \<subseteq> I"
  shows "pool_ids (availablesPools (release_ip E n ns a s)) \<subseteq> I"
  using ReleaseIP_ids [of "persistent_store E s" n ns a "availablesPools s"] assms
  unfolding release_ip_simps stored_ids_in_def by blast

lemma release_all_ids:
  assumes "stored_ids_in E I" and "pool_ids (availablesPools s) \<subseteq> I"
  shows "pool_ids (availablesPools (release_all E ns as s)) \<subseteq> I"
  using assms(2) unfolding release_all_def
proof (induction as arbitrary: s)
  case Nil
  then show ?case by simp
next
  case (Cons a as)
  from Cons.IH [OF release_ip_ids [OF assms(1) Cons.prems]] show ?case by simp
qed

lemma fresh_None [simp]: "fresh None as = as"
  by (simp add: fresh_def)

text \<open>Creation: the addresses of the request leave the free set, and come back if the API
  refuses the object.\<close>

lemma createPersistentAllocation_cases:
  assumes "createPersistentAllocation E ns name ips s = Some ((a, aerr, err), s')"
  obtains allocations s1 t where "persistent_buildAllocations E ns None ips s = Some ((allocations, aerr), s1)"
    and "CreateAllocation E ns name PersistentIP allocations s1 = Some ((a, err), t)"
    and "s' = (if err \<noteq> None then release_all E ns allocations t else t)"
  using assms by (auto simp: createPersistentAllocation_def elim!: bind_SomeE split: asm_splits)

lemma createPersistentAllocation_accounting:
  assumes "createPersistentAllocation E ns name ips s = Some ((a, aerr, err), s')"
    and wf: "availability_wf (availablesPools s)"
    and owns: "store_owns E ns {e \<in> free_ips (availablesPools s). snd e \<in> set ips \<and>
      admits (pool_ids (availablesPools s)) ns (fst e)}"
  obtains allocations s1 t where "CreateAllocation E ns name PersistentIP allocations s1 = Some ((a, err), t)"
    and "aerr = None \<Longrightarrow> map Address allocations = ips"
    and "pairs allocations \<subseteq> free_ips (availablesPools s)" and "distinct (map alloc_pair allocations)"
    and "free_ips (availablesPools s') =
      (if err = None then free_ips (availablesPools s) - pairs allocations else free_ips (availablesPools s))"
    and "availability_wf (availablesPools s')"
proof -
  from assms(1) obtain allocations s1 t where
    b: "persistent_buildAllocations E ns None ips s = Some ((allocations, aerr), s1)"
    and c: "CreateAllocation E ns name PersistentIP allocations s1 = Some ((a, err), t)"
    and s': "s' = (if err \<noteq> None then release_all E ns allocations t else t)"
    by (rule createPersistentAllocation_cases)
  note ok = buildAllocations_ok [OF b wf]
  from ok(1) have o: "availability_wf (availablesPools s1)" "pairs allocations \<subseteq> free_ips (availablesPools s)"
    "free_ips (availablesPools s1) = free_ips (availablesPools s) - pairs allocations"
    "distinct (map alloc_pair allocations)" "Address ` set allocations \<subseteq> set ips"
    by (auto simp: built_ok_def)
  from CreateAllocation_world_only [OF c] have t: "availablesPools t = availablesPools s1"
    by (rule world_only_fields)
  have "admits (pool_ids (availablesPools s)) ns (fst x) \<and> snd x \<in> set ips" if "x \<in> pairs allocations" for x
    using buildAllocations_ids(2) [OF b that] o(5) that by (auto simp: alloc_pair_def)
  with o(2) have "pairs allocations \<subseteq> {e \<in> free_ips (availablesPools s). snd e \<in> set ips \<and>
      admits (pool_ids (availablesPools s)) ns (fst e)}"
    by blast
  with owns have ow: "store_owns E ns (pairs allocations)" unfolding store_owns_def by blast
  from release_all_spec [of t, OF _ ow] o(1) t
  have "free_ips (availablesPools (release_all E ns allocations t)) =
      pairs allocations \<union> free_ips (availablesPools s1)"
    and "availability_wf (availablesPools (release_all E ns allocations t))" by simp_all
  with o t s' show ?thesis by (intro that [OF c ok(2)]) auto
qed

text \<open>Patching: what the new list holds and what is free are together what the old list
  held and what was free, and nothing is in both.\<close>

lemma persistent_Check_cases:
  assumes "persistent_CheckAndPatchAllocation E ns name ips cur s = Some ((res, removed, aerr, err), s')"
  obtains allocations s1 where
    "persistent_buildAllocations E ns (Some cur) ips s = Some ((allocations, aerr), s1)"
    and "world_only (release_all E ns (removed_allocations allocations (alloc_addresses cur)) s1) s'"
    and "err = None \<Longrightarrow> removed = removed_allocations allocations (alloc_addresses cur)"
proof -
  from assms obtain allocations s1 where
    b: "persistent_buildAllocations E ns (Some cur) ips s = Some ((allocations, aerr), s1)"
    by (auto simp: persistent_CheckAndPatchAllocation_def Let_def elim!: bind_SomeE split: asm_splits)
  let ?rem = "removed_allocations allocations (alloc_addresses cur)"
  from assms b have "world_only (release_all E ns ?rem s1) s' \<and> (err = None \<longrightarrow> removed = ?rem)"
    by (auto simp: persistent_CheckAndPatchAllocation_def Let_def world_only_def elim!: bind_SomeE
        split: asm_splits dest!: UpdateAllocation_world_only status_world_only)
  with b show ?thesis by (intro that) auto
qed

lemma pair_by_address:
  assumes "distinct (map Address as)" and "x \<in> set as" and "alloc_pair b \<in> pairs as" and "Address b = Address x"
  shows "alloc_pair b = alloc_pair x"
proof -
  from assms(3) obtain y where y: "y \<in> set as" "alloc_pair b = alloc_pair y" by auto
  with assms(4) have "Address y = Address x" by (simp add: alloc_pair_def)
  with assms(1,2) y(1) have "y = x" by (simp add: distinct_map inj_on_def)
  with y show ?thesis by simp
qed

lemma moved_pairs:
  assumes "A = P \<union> {e \<in> C. Q e}" and "F' = {e \<in> C. \<not> Q e} \<union> (F - P)" and "P \<subseteq> F" and "C \<inter> F = {}"
  shows "A \<union> F' = C \<union> F \<and> A \<inter> F' = {}"
  using assms by blast

lemma patch_accounting:
  assumes chk: "persistent_CheckAndPatchAllocation E ns name ips cur s = Some ((res, removed, aerr, err), s')"
    and wf: "availability_wf (availablesPools s)"
    and owns: "store_owns E ns (pairs (alloc_addresses cur))"
    and dist: "distinct (map Address (alloc_addresses cur))"
    and disj: "pairs (alloc_addresses cur) \<inter> free_ips (availablesPools s) = {}"
  obtains allocations s1 where
    "persistent_buildAllocations E ns (Some cur) ips s = Some ((allocations, aerr), s1)"
    and "pairs allocations \<union> free_ips (availablesPools s') =
      pairs (alloc_addresses cur) \<union> free_ips (availablesPools s)"
    and "pairs allocations \<inter> free_ips (availablesPools s') = {}"
    and "pairs (removed_allocations allocations (alloc_addresses cur)) \<subseteq> free_ips (availablesPools s')"
    and "availability_wf (availablesPools s')"
proof -
  let ?cur = "alloc_addresses cur" and ?free = "free_ips (availablesPools s)"
  from chk obtain as s1 where
    b: "persistent_buildAllocations E ns (Some cur) ips s = Some ((as, aerr), s1)"
    and w: "world_only (release_all E ns (removed_allocations as ?cur) s1) s'"
    by (rule persistent_Check_cases)
  let ?rem = "removed_allocations as ?cur" and ?fr = "fresh (Some cur) as"
  from buildAllocations_ok(1) [OF b wf] have o: "availability_wf (availablesPools s1)"
    "pairs ?fr \<subseteq> ?free" "free_ips (availablesPools s1) = ?free - pairs ?fr"
    "\<forall>a \<in> set as. Address a \<in> Address ` set ?cur \<longrightarrow> alloc_pair a \<in> pairs ?cur"
    by (auto simp: built_ok_def)
  have rem: "set ?rem = {x \<in> set ?cur. Address x \<notin> Address ` set as}"
    by (auto simp: removed_allocations_def)
  from rem owns have "store_owns E ns (pairs ?rem)" by (auto simp: store_owns_def)
  from release_all_spec [OF o(1) this] world_only_fields(1) [OF w] o(3)
  have f': "free_ips (availablesPools s') = pairs ?rem \<union> (?free - pairs ?fr)"
    and wf': "availability_wf (availablesPools s')" by auto
  have fr: "set ?fr = {a \<in> set as. Address a \<notin> Address ` set ?cur}" by (auto simp: fresh_def)
  have kept: "pairs as = pairs ?fr \<union> {e \<in> pairs ?cur. snd e \<in> Address ` set as}"
  proof (intro equalityI subsetI)
    fix e assume "e \<in> pairs as"
    then obtain a where "a \<in> set as" "e = alloc_pair a" by auto
    with o(4) fr show "e \<in> pairs ?fr \<union> {e \<in> pairs ?cur. snd e \<in> Address ` set as}"
      by (auto simp: alloc_pair_def)
  next
    fix e assume "e \<in> pairs ?fr \<union> {e \<in> pairs ?cur. snd e \<in> Address ` set as}"
    then show "e \<in> pairs as"
    proof
      assume "e \<in> {e \<in> pairs ?cur. snd e \<in> Address ` set as}"
      then obtain x a where x: "x \<in> set ?cur" "e = alloc_pair x" and a: "a \<in> set as" "Address a = Address x"
        by (auto simp: alloc_pair_def)
      with o(4) have "alloc_pair a \<in> pairs ?cur" by force
      from pair_by_address [OF dist x(1) this a(2)] x a show ?thesis by (metis image_eqI)
    next
      assume "e \<in> pairs ?fr"
      with fr show ?thesis by blast
    qed
  qed
  have pr: "pairs ?rem = {e \<in> pairs ?cur. snd e \<notin> Address ` set as}"
    using rem by (auto simp: alloc_pair_def image_iff)
  have sum: "pairs as \<union> free_ips (availablesPools s') = pairs ?cur \<union> ?free"
    "pairs as \<inter> free_ips (availablesPools s') = {}"
    using moved_pairs [OF kept f' [unfolded pr] o(2) disj] by auto
  have sub: "pairs ?rem \<subseteq> free_ips (availablesPools s')" unfolding f' by (rule Un_upper1)
  show ?thesis by (rule that [OF b sum sub wf'])
qed

lemma createPersistentAllocation_ids:
  assumes "createPersistentAllocation E ns n ips s = Some (r, s')"
    and I: "stored_ids_in E I" "pool_ids (availablesPools s) \<subseteq> I"
  shows "pool_ids (availablesPools s') \<subseteq> I"
proof -
  obtain a aerr err where r: "r = (a, aerr, err)" by (metis prod.exhaust)
  from assms(1) r obtain as s1 t where b: "persistent_buildAllocations E ns None ips s = Some ((as, aerr), s1)"
    and c: "CreateAllocation E ns n PersistentIP as s1 = Some ((a, err), t)"
    and s': "s' = (if err \<noteq> None then release_all E ns as t else t)"
    by (blast elim: createPersistentAllocation_cases)
  from buildAllocations_ids(1) [OF b] world_only_fields(1) [OF CreateAllocation_world_only [OF c]] I(2)
  have "pool_ids (availablesPools t) \<subseteq> I" by simp
  with release_all_ids [OF I(1)] s' show ?thesis by simp
qed

lemma CheckAndPatchAllocation_ids:
  assumes "persistent_CheckAndPatchAllocation E ns n ips cur s = Some (r, s')"
    and I: "stored_ids_in E I" "pool_ids (availablesPools s) \<subseteq> I"
  shows "pool_ids (availablesPools s') \<subseteq> I"
proof -
  obtain res removed aerr err where r: "r = (res, removed, aerr, err)" by (metis prod.exhaust)
  from assms(1) r obtain as s1 where b: "persistent_buildAllocations E ns (Some cur) ips s = Some ((as, aerr), s1)"
    and w: "world_only (release_all E ns (removed_allocations as (alloc_addresses cur)) s1) s'"
    by (blast elim: persistent_Check_cases)
  from release_all_ids [OF I(1)] buildAllocations_ids(1) [OF b] I(2) world_only_fields(1) [OF w]
  show ?thesis by (metis subset_trans)
qed

section \<open>A failed move\<close>

text \<open>After an update that fails, \<open>ChangeAllocationNode\<close> writes the error to the nil object
  the update returned.\<close>

lemma finish_change_node_panics:
  "UpdateAllocation E a s = Some ((None, Some e), s') \<Longrightarrow> finish_change_node E a err s = None"
  by (simp add: finish_change_node_def status_setters_nil)

section \<open>Deallocation\<close>

text \<open>Every address of the allocation is free afterwards, whatever operators and cloud answer.\<close>

context clouds_integration begin

lemma deallocate_loop_step:
  assumes "persistent_deallocate_loop E GetCloudAPI ns (x # as) s = Some s'"
  obtains s1 s2 where "world_only s s1" and "world_only (release_ip E (Pool x) ns (Address x) s1) s2"
    and "persistent_deallocate_loop E GetCloudAPI ns as s2 = Some s'"
proof -
  let ?rest = "\<lambda>s1. do { (_, s) \<leftarrow>
         (case persistent_SearchPoolByName (persistent_store E s1) (Pool x) of
            Some pool \<Rightarrow> deallocateAddressFromCloud GetCloudAPI pool (Address x) (release_ip E (Pool x) ns (Address x) s1)
          | None \<Rightarrow> Some (None, release_ip E (Pool x) ns (Address x) s1));
       persistent_deallocate_loop E GetCloudAPI ns as s }"
  let ?first = "if NetworkInterface x \<noteq> ''''
    then RemoveAddressFromNode E (NodeName x) (NetworkInterface x) (Address x) s else Some (None, s)"
  from assms have "do { (_, s1) \<leftarrow> ?first; ?rest s1 } = Some s'" by (simp add: Let_def)
  then obtain r s1 where a: "?first = Some (r, s1)" and r1: "?rest s1 = Some s'" by (rule bind_SomeE) auto
  from a have s1: "world_only s s1" by (auto split: if_split_asm dest: RemoveAddressFromNode_world_only)
  from r1 obtain s2 where "world_only (release_ip E (Pool x) ns (Address x) s1) s2"
    and "persistent_deallocate_loop E GetCloudAPI ns as s2 = Some s'"
    by (auto elim!: bind_SomeE split: option.split_asm dest!: deallocate_cloud_world_only)
  with s1 show ?thesis by (rule that)
qed

lemma persistent_deallocate_loop_spec:
  "persistent_deallocate_loop E GetCloudAPI ns as s = Some s' \<Longrightarrow> availability_wf (availablesPools s) \<Longrightarrow>
     store_owns E ns (pairs as) \<Longrightarrow>
     free_ips (availablesPools s') = pairs as \<union> free_ips (availablesPools s) \<and> availability_wf (availablesPools s')"
proof (induction as arbitrary: s)
  case Nil
  then show ?case by simp
next
  case (Cons x as)
  from Cons.prems(1) obtain s1 s2 where s1: "world_only s s1"
    and s2: "world_only (release_ip E (Pool x) ns (Address x) s1) s2"
    and rest: "persistent_deallocate_loop E GetCloudAPI ns as s2 = Some s'"
    by (rule deallocate_loop_step)
  note f = world_only_fields(1) [OF s1] world_only_fields(1) [OF s2]
  from Cons.prems(3) have "pool_owns (persistent_store E s1) (Pool x) ns (Address x)"
    and o: "store_owns E ns (pairs as)" by (auto simp: store_owns_def alloc_pair_def)
  from ReleaseIP_spec [OF _ this(1), of "availablesPools s"] Cons.prems(2)
  have "free_ips (availablesPools s2) = insert (alloc_pair x) (free_ips (availablesPools s))"
    and "availability_wf (availablesPools s2)" by (simp_all add: f alloc_pair_def)
  with Cons.IH [OF rest _ o] show ?case by auto
qed

text \<open>And no pool is listed that was neither listed nor in the informer's cache.\<close>

lemma persistent_deallocate_loop_ids:
  "persistent_deallocate_loop E GetCloudAPI ns as s = Some s' \<Longrightarrow> stored_ids_in E I \<Longrightarrow>
     pool_ids (availablesPools s) \<subseteq> I \<Longrightarrow> pool_ids (availablesPools s') \<subseteq> I"
proof (induction as arbitrary: s)
  case Nil
  then show ?case by simp
next
  case (Cons x as)
  from Cons.prems(1) obtain s1 s2 where s1: "world_only s s1"
    and s2: "world_only (release_ip E (Pool x) ns (Address x) s1) s2"
    and rest: "persistent_deallocate_loop E GetCloudAPI ns as s2 = Some s'"
    by (rule deallocate_loop_step)
  from release_ip_ids [OF Cons.prems(2), of s1] world_only_fields(1) [OF s1] world_only_fields(1) [OF s2] Cons.prems(3)
  have "pool_ids (availablesPools s2) \<subseteq> I" by simp
  from Cons.IH [OF rest Cons.prems(2) this] show ?case .
qed

end

end
