(* ===== verification/Net_IP.thy ===== *)
theory Net_IP
  imports Go_Prelude
begin

text \<open>
  \<open>net.ParseIP\<close> and \<open>IP.String\<close> of the Go standard library, as the ephemeral allocator and the
  node agent use them. The parser is the one of Go 1.15, the version this repository is built
  with (leading zeros of a decimal field are accepted). The printer is given for IPv4,
  the family the agent configures.
\<close>

datatype ip = IPv4 "nat list" | IPv6 "nat list"   \<comment> \<open>4 bytes, or 8 groups of 16 bits\<close>

definition big :: nat where
  "big = 16777215"

definition dtoi :: "string \<Rightarrow> (nat \<times> string) option" where
  "dtoi s =
     (let ds = takeWhile is_digit s
      in if ds = [] then None
         else if dec_val ds \<ge> big then None
         else Some (dec_val ds, drop (length ds) s))"

definition hex_val :: "char \<Rightarrow> nat option" where
  "hex_val c =
     (let n = (of_char c :: nat)
      in if is_digit c then Some (digit_val c)
         else if 97 \<le> n \<and> n \<le> 102 then Some (n - 87)
         else if 65 \<le> n \<and> n \<le> 70 then Some (n - 55)
         else None)"

definition xtoi :: "string \<Rightarrow> (nat \<times> string) option" where
  "xtoi s =
     (let ds = takeWhile (\<lambda>c. hex_val c \<noteq> None) s;
          n = foldl (\<lambda>n c. n * 16 + the (hex_val c)) 0 ds
      in if ds = [] then None else if n \<ge> big then None else Some (n, drop (length ds) s))"

text \<open>The fields that are left to read, and whether a dot must come first.\<close>

fun parse_fields :: "nat \<Rightarrow> bool \<Rightarrow> string \<Rightarrow> nat list option" where
  "parse_fields 0 dot s = (if s = [] then Some [] else None)"
| "parse_fields (Suc k) dot s =
     (if s = [] then None
      else if dot \<and> hd s \<noteq> CHR ''.'' then None
      else case dtoi (if dot then tl s else s) of
             None \<Rightarrow> None
           | Some (n, rest) \<Rightarrow>
               if n > 255 then None
               else map_option (\<lambda>ns. n # ns) (parse_fields k True rest))"

definition parseIPv4 :: "string \<Rightarrow> nat list option" where
  "parseIPv4 s = parse_fields 4 False s"

fun v6_loop :: "nat \<Rightarrow> nat list \<Rightarrow> nat option \<Rightarrow> string \<Rightarrow> (nat list \<times> nat option \<times> string) option" where
  "v6_loop 0 acc ellipsis s = Some (acc, ellipsis, s)"
| "v6_loop (Suc k) acc ellipsis s =
     (case xtoi s of
        None \<Rightarrow> None
      | Some (n, rest) \<Rightarrow>
          if n > 65535 then None
          else if rest \<noteq> [] \<and> hd rest = CHR ''.'' then
            (if ellipsis = None \<and> length acc \<noteq> 6 then None
             else if length acc + 2 > 8 then None
             else case parseIPv4 s of
                    Some [a, b, c, d] \<Rightarrow> Some (acc @ [a * 256 + b, c * 256 + d], ellipsis, [])
                  | _ \<Rightarrow> None)
          else
            (let acc = acc @ [n]
             in if rest = [] then Some (acc, ellipsis, [])
                else if hd rest \<noteq> CHR '':'' \<or> length rest = 1 then None
                else if hd (tl rest) = CHR '':'' then
                  (if ellipsis \<noteq> None then None
                   else if tl (tl rest) = [] then Some (acc, Some (length acc), [])
                   else v6_loop k acc (Some (length acc)) (tl (tl rest)))
                else v6_loop k acc ellipsis (tl rest)))"

definition parseIPv6 :: "string \<Rightarrow> nat list option" where
  "parseIPv6 s =
     (if take 2 s = ''::'' \<and> drop 2 s = [] then Some (replicate 8 0)
      else case (if take 2 s = ''::'' then v6_loop 8 [] (Some 0) (drop 2 s) else v6_loop 8 [] None s) of
                None \<Rightarrow> None
              | Some (acc, ellipsis, rest) \<Rightarrow>
                  if rest \<noteq> [] then None
                  else if length acc < 8 then
                    (case ellipsis of
                       None \<Rightarrow> None
                     | Some e \<Rightarrow> Some (take e acc @ replicate (8 - length acc) 0 @ drop e acc))
                  else if ellipsis \<noteq> None then None
                  else Some acc)"

text \<open>A v4 address mapped into v6 is the v4 address (\<open>To4\<close>).\<close>

definition ip_of_groups :: "nat list \<Rightarrow> ip" where
  "ip_of_groups gs =
     (if take 6 gs = [0, 0, 0, 0, 0, 65535]
      then IPv4 [gs ! 6 div 256, gs ! 6 mod 256, gs ! 7 div 256, gs ! 7 mod 256]
      else IPv6 gs)"

definition ParseIP :: "string \<Rightarrow> ip option" where
  "ParseIP s =
     (case find (\<lambda>c. c = CHR ''.'' \<or> c = CHR '':'') s of
        None \<Rightarrow> None
      | Some c \<Rightarrow>
          if c = CHR ''.'' then map_option IPv4 (parseIPv4 s)
          else map_option ip_of_groups (parseIPv6 s))"

fun dotted :: "nat list \<Rightarrow> string" where
  "dotted [] = ''''"
| "dotted [n] = itoa n"
| "dotted (n # ns) = itoa n @ ''.'' @ dotted ns"

section \<open>Round trip\<close>

lemma takeWhile_digits:
  assumes "list_all is_digit ds" and "r = [] \<or> \<not> is_digit (hd r)"
  shows "takeWhile is_digit (ds @ r) = ds"
proof -
  from assms(2) have "takeWhile is_digit r = []" by (cases r) auto
  moreover from assms(1) have "\<And>x. x \<in> set ds \<Longrightarrow> is_digit x" by (simp add: list_all_iff)
  ultimately show ?thesis by (simp add: takeWhile_append2)
qed

lemma dtoi_itoa:
  assumes "n < big" and "r = [] \<or> \<not> is_digit (hd r)"
  shows "dtoi (itoa n @ r) = Some (n, r)"
  using assms takeWhile_digits [OF itoa_digits assms(2)] by (simp add: dtoi_def dec_val_itoa)

lemma not_digit_dot [simp]: "\<not> is_digit (CHR ''.'')"
  by (simp add: is_digit_def)

lemma parse_fields_dotted:
  "\<forall>n \<in> set ns. n < 256 \<Longrightarrow> ns \<noteq> [] \<Longrightarrow>
    parse_fields (length ns) dot ((if dot then ''.'' else []) @ dotted ns) = Some ns"
proof (induction ns arbitrary: dot rule: dotted.induct)
  case 1
  then show ?case by simp
next
  case (2 n)
  then have "dtoi (itoa n @ []) = Some (n, [])" by (intro dtoi_itoa) (simp_all add: big_def)
  with 2 show ?case by (cases dot) simp_all
next
  case (3 n m ns)
  then have "dtoi (itoa n @ ''.'' @ dotted (m # ns)) = Some (n, ''.'' @ dotted (m # ns))"
    by (intro dtoi_itoa) (simp_all add: big_def)
  moreover have "parse_fields (length (m # ns)) True (''.'' @ dotted (m # ns)) = Some (m # ns)"
    using "3.IH" [of True] "3.prems" by simp
  ultimately show ?case using "3.prems" by (cases dot) simp_all
qed

lemma find_dot_itoa: "find (\<lambda>c. c = CHR ''.'' \<or> c = CHR '':'') (itoa n @ ''.'' @ r) = Some (CHR ''.'')"
proof -
  have "find (\<lambda>c. c = CHR ''.'' \<or> c = CHR '':'') (ds @ ''.'' @ r) = Some (CHR ''.'')"
    if "list_all is_digit ds" for ds
    using that by (induction ds) (auto simp: is_digit_def)
  then show ?thesis using itoa_digits by blast
qed

text \<open>Every IPv4 address in its printed form is accepted and read back.\<close>

lemma ParseIP_dotted:
  assumes "a < 256" "b < 256" "c < 256" "d < 256"
  shows "ParseIP (dotted [a, b, c, d]) = Some (IPv4 [a, b, c, d])"
proof -
  have "parse_fields 4 False (dotted [a, b, c, d]) = Some [a, b, c, d]"
    using parse_fields_dotted [of "[a, b, c, d]" False] assms by (simp add: eval_nat_numeral)
  with find_dot_itoa [of a "dotted [b, c, d]"] show ?thesis
    by (simp add: ParseIP_def parseIPv4_def)
qed

lemma ParseIP_empty: "ParseIP '''' = None"
  by (simp add: ParseIP_def)

end
