(* ===== verification/Ephemeral_Allocator.thy ===== *)
theory Ephemeral_Allocator
  imports Persistent_Allocator Net_IP
begin

text \<open>
  \<open>pkg/controller/ephemeralips\<close>: allocations of one address bought from a cloud
  (\<open>allocator.go\<close>), the search of the pool (\<open>poolManager.go\<close>) and the pool watcher
  (\<open>watcher.go\<close>, \<open>packageInit.go\<close>). Names shared with the persistent allocator have the
  prefix \<open>ephemeral_\<close>.
\<close>

abbreviation ephemeral_store :: "'w env \<Rightarrow> 'w sys \<Rightarrow> k8s_obj list" where
  "ephemeral_store E s \<equiv> ephemeralPoolsStore E (world s)"

section \<open>poolManager.go\<close>

fun getPoolForService :: "k8s_obj list \<Rightarrow> string \<Rightarrow> EphemeralIPPool option" where
  "getPoolForService [] serviceNamespace = None"
| "getPoolForService (obj # store) serviceNamespace =
     (case obj of
        EphemeralIPPoolObj pool \<Rightarrow>
          (if namespace_allowed (EAllowedNamespaces (ESpec pool)) serviceNamespace then Some pool
           else getPoolForService store serviceNamespace)
      | _ \<Rightarrow> getPoolForService store serviceNamespace)"

fun ephemeral_SearchPoolByName :: "k8s_obj list \<Rightarrow> string \<Rightarrow> EphemeralIPPool option" where
  "ephemeral_SearchPoolByName [] name = None"
| "ephemeral_SearchPoolByName (obj # store) name =
     (case obj of
        EphemeralIPPoolObj pool \<Rightarrow>
          (if EGetName pool = name then Some pool else ephemeral_SearchPoolByName store name)
      | _ \<Rightarrow> None)"

section \<open>Cloud calls\<close>

definition getAndAssignAddressOnCloud ::
  "'w clouds \<Rightarrow> EphemeralIPPool \<Rightarrow> string \<Rightarrow> string \<Rightarrow> 'w sys \<Rightarrow>
   ((string \<times> go_error option) \<times> 'w sys) option" where
  "getAndAssignAddressOnCloud C pool ipName nodeName s =
     (case ECloudIntegration (ESpec pool) of
        None \<Rightarrow> Some (('''', None), s)
      | Some opts \<Rightarrow>
          (case C opts of
             Some ci \<Rightarrow> GetAndAssignNewAddress ci nodeName ipName s
           | None \<Rightarrow> Some (('''', None), s)))"

definition deleteAddressFromCloud ::
  "'w clouds \<Rightarrow> EphemeralIPPool \<Rightarrow> string \<Rightarrow> 'w sys \<Rightarrow> (go_error option \<times> 'w sys) option" where
  "deleteAddressFromCloud C pool address s =
     (case ECloudIntegration (ESpec pool) of
        None \<Rightarrow> Some (None, s)
      | Some opts \<Rightarrow>
          (case C opts of
             Some ci \<Rightarrow> DeleteAddress ci address s
           | None \<Rightarrow> Some (None, s)))"

definition ephemeral_allocateAddressOnCloud ::
  "'w clouds \<Rightarrow> EphemeralIPPool \<Rightarrow> string \<Rightarrow> string \<Rightarrow> 'w sys \<Rightarrow> (go_error option \<times> 'w sys) option" where
  "ephemeral_allocateAddressOnCloud C pool address nodeName s =
     (case ECloudIntegration (ESpec pool) of
        None \<Rightarrow> Some (None, s)
      | Some opts \<Rightarrow>
          (case C opts of
             Some ci \<Rightarrow> AssignIPToServer ci address nodeName s
           | None \<Rightarrow> Some (None, s)))"

definition ephemeral_getNetworkNodesList :: "'w env \<Rightarrow> 'w sys \<Rightarrow> (go_error + string list) \<times> 'w sys" where
  "ephemeral_getNetworkNodesList E s =
     (let (r, s) = onw (nodes_list E) s
      in case r of Inl err \<Rightarrow> (Inl (Ext err), s) | Inr nodeList \<Rightarrow> (Inr nodeList, s))"

definition ephemeral_getRandomNode :: "'w env \<Rightarrow> 'w sys \<Rightarrow> ((go_error + string) \<times> 'w sys) option" where
  "ephemeral_getRandomNode E s =
     (let (r, s) = ephemeral_getNetworkNodesList E s
      in case r of
           Inl err \<Rightarrow> Some (Inl err, s)
         | Inr nodes \<Rightarrow>
             (if length nodes = 0 then None
              else let (i, s) = onw (intn E (length nodes)) s in Some (Inr (nodes ! i), s)))"

text \<open>The two packages have the same copy of it.\<close>

lemma ephemeral_getRandomNode_eq: "ephemeral_getRandomNode = getRandomNode"
  by (intro ext) (simp add: ephemeral_getRandomNode_def getRandomNode_def
      ephemeral_getNetworkNodesList_def getNetworkNodesList_def)

section \<open>Building and patching\<close>

definition ephemeral_ipName :: "string \<Rightarrow> string \<Rightarrow> string \<Rightarrow> string" where
  "ephemeral_ipName clusterName serviceNamespace serviceName =
     ''plenuslb-ephemeral-'' @ clusterName @ ''-'' @ serviceNamespace @ ''-'' @ serviceName"

definition ephemeral_buildAllocations ::
  "'w env \<Rightarrow> 'w clouds \<Rightarrow> string \<Rightarrow> string \<Rightarrow> 'w sys \<Rightarrow>
   ((IPAllocationAddresses list \<times> go_error option) \<times> 'w sys) option" where
  "ephemeral_buildAllocations E C serviceNamespace serviceName s =
     (case getPoolForService (ephemeral_store E s) serviceNamespace of
        None \<Rightarrow> Some (([], Some ErrEphemeralPoolNotFound), s)
      | Some pool \<Rightarrow>
          do {
            let (hasCloudIntegrationOption, cloudProvider) = EphemeralPoolHasCloudIntegrationOption pool;
            ((nodeName, netInterface, allocationErr), s) \<leftarrow>
              (if EphemeralPoolHasHostNetworkOption pool then do {
                 (r, s) \<leftarrow> random_operator_name E s;
                 interfaceName \<leftarrow> interface_name (EOptions (ESpec pool));
                 Some ((picked_node r '''', interfaceName, picked_error r None), s)
               }
               else if hasCloudIntegrationOption then do {
                 (r, s) \<leftarrow> ephemeral_getRandomNode E s;
                 Some ((picked_node r '''', '''',
                        (case r of Inl err \<Rightarrow> Some ErrFailedToDialWithOperator | Inr _ \<Rightarrow> None)), s)
               }
               else Some (('''', '''', None), s));
            let (clusterName, s) = onw (GetClusterName E) s;
            ((ip, err), s) \<leftarrow>
              getAndAssignAddressOnCloud C pool
                (ephemeral_ipName clusterName serviceNamespace serviceName) nodeName s;
            Some (([\<lparr>Address = ip, NetworkInterface = netInterface, NodeName = nodeName,
                     CloudProvider = cloudProvider, Pool = EGetName pool\<rparr>],
                   if err \<noteq> None then err else allocationErr), s)
          })"

definition createEphemeralAllocation ::
  "'w env \<Rightarrow> 'w clouds \<Rightarrow> string \<Rightarrow> string \<Rightarrow> 'w sys \<Rightarrow>
   ((IPAllocation option \<times> go_error option \<times> go_error option) \<times> 'w sys) option" where
  "createEphemeralAllocation E C serviceNamespace serviceName s =
     do {
       ((allocations, allocationErr), s) \<leftarrow> ephemeral_buildAllocations E C serviceNamespace serviceName s;
       ((createdAllocation, err), s) \<leftarrow>
         CreateAllocation E serviceNamespace serviceName EphemeralIP allocations s;
       Some ((createdAllocation, allocationErr, err), s)
     }"

definition EnsureEphemeralAllocation ::
  "'w env \<Rightarrow> 'w clouds \<Rightarrow> string \<Rightarrow> string \<Rightarrow> 'w sys \<Rightarrow> (alloc_result \<times> 'w sys) option" where
  "EnsureEphemeralAllocation E C serviceNamespace serviceName s =
     (let ((allocation, err), s) = FindAllocation E serviceNamespace serviceName s
      in if err \<noteq> None then Some ((None, err), s)
         else if allocation \<noteq> None then Some ((allocation, None), s)
         else do {
           ((allocation, allocationErr, err), s) \<leftarrow>
             createEphemeralAllocation E C serviceNamespace serviceName s;
           if err \<noteq> None then Some ((None, err), s)
           else (case allocationErr of
                   Some e \<Rightarrow> SetAllocationStatusError E allocation e s
                 | None \<Rightarrow> SetAllocationStatusPending E allocation s)
         })"

text \<open>The node of the (first) address, brought in line with the pool.\<close>

definition ephemeral_patch_node ::
  "'w env \<Rightarrow> EphemeralIPPool \<Rightarrow> IPAllocationAddresses \<Rightarrow> 'w sys \<Rightarrow>
   ((IPAllocationAddresses \<times> go_error option) \<times> 'w sys) option" where
  "ephemeral_patch_node E pool addressAllocation s =
     (let (hasCloudIntegrationOption, cloudProvider) = EphemeralPoolHasCloudIntegrationOption pool
      in if EphemeralPoolHasHostNetworkOption pool \<and>
            (NodeName addressAllocation = '''' \<or> NetworkInterface addressAllocation = '''' \<or>
             Some (NetworkInterface addressAllocation) \<noteq> interface_name (EOptions (ESpec pool)))
         then do {
           (r, s) \<leftarrow> random_operator_name E s;
           interfaceName \<leftarrow> interface_name (EOptions (ESpec pool));
           Some ((addressAllocation\<lparr>NodeName := picked_node r (NodeName addressAllocation),
                    NetworkInterface := interfaceName\<rparr>, picked_error r None), s)
         }
         else if hasCloudIntegrationOption \<and>
            (NodeName addressAllocation = '''' \<or> CloudProvider addressAllocation \<noteq> cloudProvider)
         then do {
           (r, s) \<leftarrow> ephemeral_getRandomNode E s;
           Some ((addressAllocation\<lparr>NodeName := picked_node r (NodeName addressAllocation),
                    CloudProvider := cloudProvider\<rparr>, picked_error r None), s)
         }
         else Some ((addressAllocation, None), s))"

definition invalid_address :: "string \<Rightarrow> IPAllocation \<Rightarrow> go_error" where
  "invalid_address address allocation =
     Errorf (''Address '' @ [CHR 0x27] @ address @ [CHR 0x27] @ '' of allocation '' @
       AGetNamespace allocation @ ''/'' @ AGetName allocation @ '' is not valid'')"

text \<open>A new address for one that does not parse; \<open>Inl\<close> is the early return with that error.
  The name of the new address repeats the namespace, and the error about the old address
  stays set after a new one was obtained.\<close>

definition ephemeral_patch_address ::
  "'w env \<Rightarrow> 'w clouds \<Rightarrow> EphemeralIPPool \<Rightarrow> IPAllocation \<Rightarrow> IPAllocationAddresses \<Rightarrow> go_error option \<Rightarrow>
   'w sys \<Rightarrow> ((go_error + (IPAllocationAddresses \<times> go_error option)) \<times> 'w sys) option" where
  "ephemeral_patch_address E C pool allocationRO addressAllocation allocationErr s =
     (case ParseIP (Address addressAllocation) of
        Some _ \<Rightarrow> Some (Inr (addressAllocation, allocationErr), s)
      | None \<Rightarrow>
          (let e = invalid_address (Address addressAllocation) allocationRO
           in if NodeName addressAllocation \<noteq> '''' then
                (let (clusterName, s) = onw (GetClusterName E) s
                 in do {
                   ((ip, err), s) \<leftarrow>
                     getAndAssignAddressOnCloud C pool
                       (ephemeral_ipName clusterName (AGetNamespace allocationRO) (AGetNamespace allocationRO))
                       (NodeName addressAllocation) s;
                   (case err of
                      Some err \<Rightarrow> Some (Inl err, s)
                    | None \<Rightarrow> Some (Inr (addressAllocation\<lparr>Address := ip\<rparr>, Some e), s))
                 })
              else Some (Inl e, s)))"

definition ephemeral_CheckAndPatchAllocation ::
  "'w env \<Rightarrow> 'w clouds \<Rightarrow> IPAllocation \<Rightarrow> 'w sys \<Rightarrow> (alloc_result \<times> 'w sys) option" where
  "ephemeral_CheckAndPatchAllocation E C allocationRO s =
     (case getPoolForService (ephemeral_store E s) (AGetNamespace allocationRO) of
        None \<Rightarrow> Some ((Some allocationRO, Some ErrEphemeralPoolNotFound), s)
      | Some pool \<Rightarrow>
          (case alloc_addresses allocationRO of
             [] \<Rightarrow> None   \<comment> \<open>\<open>Allocations[0]\<close>\<close>
           | first # rest \<Rightarrow>
               do {
                 ((addressAllocation, allocationErr), s) \<leftarrow> ephemeral_patch_node E pool first s;
                 (r, s) \<leftarrow>
                   ephemeral_patch_address E C pool allocationRO addressAllocation allocationErr s;
                 (case r of
                    Inl err \<Rightarrow> Some ((Some allocationRO, Some err), s)
                  | Inr (addressAllocation, allocationErr) \<Rightarrow>
                      (let allocation = set_alloc_addresses (addressAllocation # rest) allocationRO
                       in if allocationRO = allocation then Some ((Some allocationRO, allocationErr), s)
                          else do {
                            ((allocation, err), s) \<leftarrow> UpdateAllocation E allocation s;
                            if err \<noteq> None then Some ((allocation, err), s)
                            else (case allocationErr of
                                    Some e \<Rightarrow> SetAllocationStatusError E allocation e s
                                  | None \<Rightarrow> SetAllocationStatusPending E allocation s)
                          }))
               }))"

section \<open>Moving, allocating, deallocating\<close>

fun ephemeral_change_nodes ::
  "'w env \<Rightarrow> IPAllocationAddresses list \<Rightarrow> go_error option \<Rightarrow> 'w sys \<Rightarrow>
   ((IPAllocationAddresses list \<times> go_error option) \<times> 'w sys) option" where
  "ephemeral_change_nodes E [] allocationErr s = Some (([], allocationErr), s)"
| "ephemeral_change_nodes E (allocation # allocations) allocationErr s =
     (case ephemeral_SearchPoolByName (ephemeral_store E s) (Pool allocation) of
        None \<Rightarrow> Some ((allocation # allocations, Some ErrEphemeralPoolNotFound), s)
      | Some pool \<Rightarrow>
          do {
            ((nodeName, netInterface, allocationErr), s) \<leftarrow>
              (if EphemeralPoolHasHostNetworkOption pool then do {
                 (r, s) \<leftarrow> random_operator_name E s;
                 interfaceName \<leftarrow> interface_name (EOptions (ESpec pool));
                 Some ((picked_node r '''', interfaceName, picked_error r allocationErr), s)
               }
               else if fst (EphemeralPoolHasCloudIntegrationOption pool) then do {
                 (r, s) \<leftarrow> ephemeral_getRandomNode E s;
                 Some ((picked_node r '''', '''', picked_error r allocationErr), s)
               }
               else Some (('''', '''', allocationErr), s));
            ((rest, allocationErr), s) \<leftarrow> ephemeral_change_nodes E allocations allocationErr s;
            Some ((allocation\<lparr>NetworkInterface := netInterface, NodeName := nodeName\<rparr> # rest,
                   allocationErr), s)
          })"

definition ephemeral_ChangeAllocationNode ::
  "'w env \<Rightarrow> IPAllocation \<Rightarrow> 'w sys \<Rightarrow> (alloc_result \<times> 'w sys) option" where
  "ephemeral_ChangeAllocationNode E allocationRO s =
     do {
       ((allocations, allocationErr), s) \<leftarrow> ephemeral_change_nodes E (alloc_addresses allocationRO) None s;
       finish_change_node E (set_alloc_addresses allocations allocationRO) allocationErr s
     }"

definition ephemeral_AllocateAddress ::
  "'w env \<Rightarrow> 'w clouds \<Rightarrow> IPAllocationAddresses \<Rightarrow> 'w sys \<Rightarrow> (go_error option \<times> 'w sys) option" where
  "ephemeral_AllocateAddress E C addressAllocation s =
     (case ephemeral_SearchPoolByName (ephemeral_store E s) (Pool addressAllocation) of
        None \<Rightarrow> Some (Some ErrEphemeralPoolNotFound, s)
      | Some pool \<Rightarrow>
          do {
            (err, s) \<leftarrow>
              (if EphemeralPoolHasHostNetworkOption pool then do {
                 netInterface \<leftarrow> interface_name (EOptions (ESpec pool));
                 EnsureIPAllocationOnNode E (NodeName addressAllocation) netInterface
                   (Address addressAllocation) s
               }
               else Some (None, s));
            if err \<noteq> None then Some (err, s)
            else if fst (EphemeralPoolHasCloudIntegrationOption pool)
            then ephemeral_allocateAddressOnCloud C pool (Address addressAllocation)
                   (NodeName addressAllocation) s
            else Some (None, s)
          })"

fun ephemeral_deallocate_loop ::
  "'w env \<Rightarrow> 'w clouds \<Rightarrow> IPAllocationAddresses list \<Rightarrow> 'w sys \<Rightarrow> 'w sys option" where
  "ephemeral_deallocate_loop E C [] s = Some s"
| "ephemeral_deallocate_loop E C (addrAllocation # allocations) s =
     do {
       (_, s) \<leftarrow>
         (if NetworkInterface addrAllocation \<noteq> ''''
          then RemoveAddressFromNode E (NodeName addrAllocation) (NetworkInterface addrAllocation)
                 (Address addrAllocation) s
          else Some (None, s));
       (_, s) \<leftarrow>
         (case ephemeral_SearchPoolByName (ephemeral_store E s) (Pool addrAllocation) of
            Some pool \<Rightarrow> deleteAddressFromCloud C pool (Address addrAllocation) s
          | None \<Rightarrow> Some (None, s));
       ephemeral_deallocate_loop E C allocations s
     }"

definition ephemeral_DeallocateAddress ::
  "'w env \<Rightarrow> 'w clouds \<Rightarrow> IPAllocation \<Rightarrow> 'w sys \<Rightarrow> 'w sys option" where
  "ephemeral_DeallocateAddress E C allocation s =
     ephemeral_deallocate_loop E C (alloc_addresses allocation) s"

section \<open>watcher.go, packageInit.go\<close>

definition ephemeral_addPool :: "'w env \<Rightarrow> EphemeralIPPool \<Rightarrow> 'w sys \<Rightarrow> 'w sys option" where
  "ephemeral_addPool E pool s =
     (if EphemeralPoolHasHostNetworkOption pool \<and> \<not> deployed s
      then do { (_, s) \<leftarrow> DeployOrDie E s; Some s }
      else Some s)"

definition ephemeral_modifyPool :: "EphemeralIPPool \<Rightarrow> 'w sys \<Rightarrow> 'w sys" where
  "ephemeral_modifyPool pool s = s\<lparr>bus := bus s @ [EphemeralPoolModifiedEv pool]\<rparr>"

definition ephemeral_removePool :: "EphemeralIPPool \<Rightarrow> 'w sys \<Rightarrow> 'w sys" where
  "ephemeral_removePool pool s = s\<lparr>bus := bus s @ [EphemeralPoolDeletedEv pool]\<rparr>"

fun ephemeral_pools_handler :: "'w env \<Rightarrow> informer_event \<Rightarrow> 'w sys \<Rightarrow> 'w sys option" where
  "ephemeral_pools_handler E (AddEv (EphemeralIPPoolObj pool)) s = ephemeral_addPool E pool s"
| "ephemeral_pools_handler E (DeleteEv (EphemeralIPPoolObj pool)) s = Some (ephemeral_removePool pool s)"
| "ephemeral_pools_handler E (UpdateEv _ (EphemeralIPPoolObj newPool)) s =
     Some (ephemeral_modifyPool newPool s)"
| "ephemeral_pools_handler E _ s = Some s"   \<comment> \<open>unexpected type\<close>

definition ephemeral_createIPPoolsWatcher :: "'w env \<Rightarrow> 'w sys \<Rightarrow> 'w sys" where
  "ephemeral_createIPPoolsWatcher E s =
     s\<lparr>world := informer_new E ''ephemeralippools'' '''' [] (world s)\<rparr>"

definition ephemeral_WatchIPPools :: "'w env \<Rightarrow> 'w sys \<Rightarrow> 'w sys" where
  "ephemeral_WatchIPPools E s = s\<lparr>world := informer_run E ''ephemeralippools'' (world s)\<rparr>"

definition ephemeral_warmupIPPoolsCacheOrDie :: "'w env \<Rightarrow> 'w sys \<Rightarrow> 'w sys option" where
  "ephemeral_warmupIPPoolsCacheOrDie E s =
     (let ((items, err), s) = onw (EphemeralIPPools_List E) s
      in if err \<noteq> None then None   \<comment> \<open>klog.Fatal\<close>
         else Some (s\<lparr>world :=
           fold (\<lambda>ippool. informer_add E ''ephemeralippools'' (OtherObj ''v1alpha1.EphemeralIPPool''))
             items (world s)\<rparr>))"

definition ephemeral_Init :: "'w env \<Rightarrow> 'w sys \<Rightarrow> 'w sys option" where
  "ephemeral_Init E s =
     do {
       let s = ephemeral_createIPPoolsWatcher E s;
       ephemeral_warmupIPPoolsCacheOrDie E s
     }"

section \<open>Lemmas\<close>

lemma getPoolForService_Some:
  "getPoolForService store ns = Some pool \<Longrightarrow>
     EphemeralIPPoolObj pool \<in> set store \<and> namespace_allowed (EAllowedNamespaces (ESpec pool)) ns"
  by (induction store) (auto split: k8s_obj.split_asm if_split_asm)

lemma getPoolForService_None:
  "getPoolForService store ns = None \<longleftrightarrow>
     (\<forall>pool. EphemeralIPPoolObj pool \<in> set store \<longrightarrow> \<not> namespace_allowed (EAllowedNamespaces (ESpec pool)) ns)"
  by (induction store) (auto split: k8s_obj.splits)

text \<open>Ephemeral allocations are built with at most one address, so their creation is never
  refused for having two.\<close>

lemma ephemeral_buildAllocations_length:
  "ephemeral_buildAllocations E C ns name s = Some ((as, e), s') \<Longrightarrow>
     length as \<le> 1 \<and> (as = [] \<longleftrightarrow> getPoolForService (ephemeral_store E s) ns = None)"
  by (auto simp: ephemeral_buildAllocations_def Let_def elim!: bind_SomeE split: asm_splits)

lemma ephemeral_patch_node_world_only:
  "ephemeral_patch_node E pool a s = Some (r, s') \<Longrightarrow> world_only s s'"
  by (auto simp: ephemeral_patch_node_def Let_def ephemeral_getRandomNode_eq elim!: bind_SomeE
      split: asm_splits dest: random_operator_name_world_only getRandomNode_world_only)

context clouds_integration begin

lemma getAndAssign_world_only:
  "getAndAssignAddressOnCloud GetCloudAPI pool i n s = Some (r, s') \<Longrightarrow> world_only s s'"
  by (auto simp: getAndAssignAddressOnCloud_def split: option.split_asm dest: GetNew)

lemma deleteAddress_world_only:
  "deleteAddressFromCloud GetCloudAPI pool a s = Some (r, s') \<Longrightarrow> world_only s s'"
  by (auto simp: deleteAddressFromCloud_def split: option.split_asm dest: Delete)

lemma ephemeral_allocate_cloud_world_only:
  "ephemeral_allocateAddressOnCloud GetCloudAPI pool a n s = Some (r, s') \<Longrightarrow> world_only s s'"
  by (auto simp: ephemeral_allocateAddressOnCloud_def split: option.split_asm dest: Assign)

lemma ephemeral_AllocateAddress_world_only:
  "ephemeral_AllocateAddress E GetCloudAPI a s = Some (r, s') \<Longrightarrow> world_only s s'"
  by (auto simp: ephemeral_AllocateAddress_def world_only_def elim!: bind_SomeE split: asm_splits
      dest!: EnsureIPAllocationOnNode_world_only ephemeral_allocate_cloud_world_only)

lemma ephemeral_deallocate_loop_world_only:
  "ephemeral_deallocate_loop E GetCloudAPI as s = Some s' \<Longrightarrow> world_only s s'"
proof (induction as arbitrary: s)
  case Nil
  then show ?case by simp
next
  case (Cons a as)
  then show ?case
    by (auto simp: world_only_def elim!: bind_SomeE split: asm_splits
        dest!: RemoveAddressFromNode_world_only deleteAddress_world_only Cons.IH)
qed

lemma ephemeral_patch_address_world_only:
  "ephemeral_patch_address E GetCloudAPI pool al a e s = Some (r, s') \<Longrightarrow> world_only s s'"
  by (auto simp: ephemeral_patch_address_def Let_def world_only_def elim!: bind_SomeE split: asm_splits
      dest!: onw_world_only getAndAssign_world_only)

lemma ephemeral_buildAllocations_world_only:
  "ephemeral_buildAllocations E GetCloudAPI ns n s = Some (r, s') \<Longrightarrow> world_only s s'"
  by (auto simp: ephemeral_buildAllocations_def Let_def world_only_def ephemeral_getRandomNode_eq
      elim!: bind_SomeE split: asm_splits
      dest!: onw_world_only getAndAssign_world_only random_operator_name_world_only getRandomNode_world_only)

lemma ephemeral_CheckAndPatch_world_only:
  "ephemeral_CheckAndPatchAllocation E GetCloudAPI al s = Some (r, s') \<Longrightarrow> world_only s s'"
  by (auto simp: ephemeral_CheckAndPatchAllocation_def Let_def world_only_def elim!: bind_SomeE
      split: asm_splits list.split_asm sum.split_asm
      dest!: ephemeral_patch_node_world_only ephemeral_patch_address_world_only
        UpdateAllocation_world_only status_world_only)

end

section \<open>An allocation without addresses\<close>

text \<open>An ephemeral allocation is created without addresses where no pool serves the namespace
  (\<open>ephemeral_buildAllocations_length\<close>); patching it once there is one indexes its empty list.\<close>

lemma ephemeral_CheckAndPatch_empty:
  assumes "alloc_addresses a = []" and "getPoolForService (ephemeral_store E s) (AGetNamespace a) = Some pool"
  shows "ephemeral_CheckAndPatchAllocation E C a s = None"
  using assms by (simp add: ephemeral_CheckAndPatchAllocation_def)

end
