(* ===== verification/Services.thy ===== *)
theory Services
  imports Utils
begin

text \<open>
  \<open>pkg/controller/servicesupdater/updater.go\<close> (the ingress of a service) and \<open>FindService\<close> of
  \<open>pkg/controller/servicewatcher/servicewatcher.go\<close>. The service informer exists once the
  watcher is initialised, which precedes every use.
\<close>

definition UpdateServiceIngressWithIps ::
  "'w env \<Rightarrow> string \<Rightarrow> string \<Rightarrow> string list \<Rightarrow> 'w sys \<Rightarrow> go_error option \<times> 'w sys" where
  "UpdateServiceIngressWithIps E serviceNamespace serviceName ips s =
     (let (r, s) = onw (services_get E serviceNamespace serviceName) s
      in case r of
           Inl err \<Rightarrow> (Some (Ext err), s)
         | Inr service \<Rightarrow>
             (let ingresses = map (\<lambda>ip. \<lparr>IP = ip, Hostname = ''''\<rparr>) ips;
                  (r, s) = onw (services_update_status E serviceNamespace (service\<lparr>Ingress := ingresses\<rparr>)) s
              in case r of Inl err \<Rightarrow> (Some (Ext err), s) | Inr _ \<Rightarrow> (None, s)))"

definition RemoveServiceIngressIPs ::
  "'w env \<Rightarrow> string \<Rightarrow> string \<Rightarrow> 'w sys \<Rightarrow> go_error option \<times> 'w sys" where
  "RemoveServiceIngressIPs E serviceNamespace serviceName s =
     (let (r, s) = onw (services_get E serviceNamespace serviceName) s
      in case r of
           Inl err \<Rightarrow> (Some (Ext err), s)
         | Inr service \<Rightarrow>
             (let (r, s) = onw (services_update_status E serviceNamespace (service\<lparr>Ingress := []\<rparr>)) s
              in case r of Inl err \<Rightarrow> (Some (Ext err), s) | Inr _ \<Rightarrow> (None, s)))"

fun find_service :: "string \<Rightarrow> string \<Rightarrow> k8s_obj list \<Rightarrow> Service option \<times> go_error option" where
  "find_service serviceNamespace serviceName [] = (None, Some ErrServiceNotFound)"
| "find_service serviceNamespace serviceName (obj # objs) =
     (case obj of
        ServiceObj service \<Rightarrow>
          (if SGetNamespace service = serviceNamespace \<and> SGetName service = serviceName
           then (Some service, None)
           else find_service serviceNamespace serviceName objs)
      | _ \<Rightarrow> (None, Some (unexpected_type obj)))"

definition FindService ::
  "'w env \<Rightarrow> string \<Rightarrow> string \<Rightarrow> 'w sys \<Rightarrow> (Service option \<times> go_error option) \<times> 'w sys" where
  "FindService E serviceNamespace serviceName s =
     (if servicesHasSynced E (world s)
      then (find_service serviceNamespace serviceName (servicesStore E (world s)), s)
      else
        (let (r, s) = onw (services_get E serviceNamespace serviceName) s
         in case r of
              Inl err \<Rightarrow>
                if IsNotFound (Ext err) then ((None, Some ErrServiceNotFound), s)
                else ((None, Some (Ext err)), s)
            | Inr service \<Rightarrow> ((Some service, None), s)))"

section \<open>Lemmas\<close>

lemma UpdateServiceIngress_world_only [world_only_intros]:
  "UpdateServiceIngressWithIps E ns n ips s = (r, s') \<Longrightarrow> world_only s s'"
  by (auto simp: UpdateServiceIngressWithIps_def Let_def world_only_def split: asm_splits sum.split_asm
      dest!: onw_world_only)

lemma RemoveServiceIngressIPs_world_only [world_only_intros]:
  "RemoveServiceIngressIPs E ns n s = (r, s') \<Longrightarrow> world_only s s'"
  by (auto simp: RemoveServiceIngressIPs_def Let_def world_only_def split: asm_splits sum.split_asm
      dest!: onw_world_only)

lemma FindService_world_only [world_only_intros]: "FindService E ns n s = (r, s') \<Longrightarrow> world_only s s'"
  by (auto simp: FindService_def Let_def split: asm_splits sum.split_asm dest: onw_world_only)

text \<open>A result is a service or an error, never both and never none.\<close>

lemma find_service_cases: "find_service ns n objs = (sv, err) \<Longrightarrow> sv = None \<longleftrightarrow> err \<noteq> None"
  by (induction objs) (auto split: k8s_obj.split_asm if_split_asm)

lemma FindService_cases: "FindService E ns n s = ((sv, err), s') \<Longrightarrow> sv = None \<longleftrightarrow> err \<noteq> None"
  by (auto simp: FindService_def Let_def split: asm_splits sum.split_asm dest: find_service_cases)

lemma find_service_Some:
  "find_service ns n objs = (Some sv, err) \<Longrightarrow>
     ServiceObj sv \<in> set objs \<and> SGetNamespace sv = ns \<and> SGetName sv = n"
  by (induction objs) (auto split: k8s_obj.split_asm if_split_asm)

text \<open>The status that is sent has exactly the given addresses, in their order.\<close>

lemma UpdateServiceIngress_ok:
  assumes "UpdateServiceIngressWithIps E ns n ips s = (None, s')"
  shows "\<exists>sv w1 sv' w2. services_get E ns n (world s) = (Inr sv, w1) \<and>
    services_update_status E ns (sv\<lparr>Ingress := map (\<lambda>ip. \<lparr>IP = ip, Hostname = ''''\<rparr>) ips\<rparr>) w1 = (Inr sv', w2)"
  using assms
  by (auto simp: UpdateServiceIngressWithIps_def Let_def onw_eq split: asm_splits sum.split_asm)

end
