(* ===== verification/Reconciler.thy ===== *)
theory Reconciler
  imports Ephemeral_Allocator Services
begin

text \<open>
  \<open>pkg/controller/allocationReconciler/reconciler.go\<close>: bringing an allocation in line with its
  service, and creating one for a service. The services passed in are not nil.
\<close>

definition expectedAllocationType :: "Service \<Rightarrow> IPType" where
  "expectedAllocationType service =
     (let (hasExternalIPS, ips) = ServiceHasExternalIPs service
      in if hasExternalIPS \<and> length ips > 0 then PersistentIP else EphemeralIP)"

definition serviceIsNoLongerALoadBalancer ::
  "'w env \<Rightarrow> Service \<Rightarrow> IPAllocation \<Rightarrow> 'w sys \<Rightarrow> go_error option \<times> 'w sys" where
  "serviceIsNoLongerALoadBalancer E service allocation s =
     (let (err, s) =
        (if AllocationType (ASpec allocation) = EphemeralIP
         then RemoveServiceIngressIPs E (SGetNamespace service) (SGetName service) s
         else (None, s))
      in if err \<noteq> None then (err, s)
         else DeleteAllocationByName E (AGetNamespace allocation) (AGetName allocation) s)"

definition changeAllocationType ::
  "'w env \<Rightarrow> Service \<Rightarrow> IPAllocation \<Rightarrow> 'w sys \<Rightarrow> alloc_result \<times> 'w sys" where
  "changeAllocationType E service allocation s =
     (let (err, s) = DeleteAllocationByName E (AGetNamespace allocation) (AGetName allocation) s
      in if err \<noteq> None then ((None, err), s) else ((None, None), s))"

fun cleanup_removed ::
  "'w env \<Rightarrow> 'w clouds \<Rightarrow> string \<Rightarrow> IPAllocationAddresses list \<Rightarrow> 'w sys \<Rightarrow> 'w sys option" where
  "cleanup_removed E C namespace [] s = Some s"
| "cleanup_removed E C namespace (alloc # removed) s =
     do {
       let s = release_ip E (Pool alloc) namespace (Address alloc) s;
       (_, s) \<leftarrow> persistent_DeallocateAddress E C alloc s;
       cleanup_removed E C namespace removed s
     }"

definition reconcilePersistentAllocation ::
  "'w env \<Rightarrow> 'w clouds \<Rightarrow> Service \<Rightarrow> IPAllocation \<Rightarrow> 'w sys \<Rightarrow> (alloc_result \<times> 'w sys) option" where
  "reconcilePersistentAllocation E C service allocation s =
     (let (hasExternalsIPs, ips) = ServiceHasExternalIPs service
      in if hasExternalsIPs then
           do {
             ((patched, removedAllocations, allocErr, err), s) \<leftarrow>
               persistent_CheckAndPatchAllocation E (SGetNamespace service) (SGetName service) ips allocation s;
             if err \<noteq> None then Some ((None, err), s)
             else do {
               s \<leftarrow> (if alloc_state allocation = AllocationStatusSuccess
                      then cleanup_removed E C (SGetNamespace service) removedAllocations s
                      else Some s);
               if allocErr \<noteq> None then Some ((patched, allocErr), s) else Some ((patched, None), s)
             }
           }
         else Some ((None, Some (Errorf (''Service '' @ SGetNamespace service @ ''/'' @ SGetName service @
                '' is expected as Persistent but hasn'' @ [CHR 0x27] @ ''t external ips''))), s))"

definition ingress_in_sync :: "Service \<Rightarrow> IPAllocation \<Rightarrow> bool" where
  "ingress_in_sync service allocation \<longleftrightarrow>
     (length (Ingress service) = 1 \<and> length (alloc_addresses allocation) = 1 \<and>
      IP (Ingress service ! 0) = Address (alloc_addresses allocation ! 0)) \<or>
     length (Ingress service) = 0"

definition reconcileEphemeralAllocation ::
  "'w env \<Rightarrow> 'w clouds \<Rightarrow> Service \<Rightarrow> IPAllocation \<Rightarrow> 'w sys \<Rightarrow> (alloc_result \<times> 'w sys) option" where
  "reconcileEphemeralAllocation E C service allocation s =
     (if \<not> fst (ServiceHasExternalIPs service) then
        (if ingress_in_sync service allocation then ephemeral_CheckAndPatchAllocation E C allocation s
         else
           (let (err, s) = DeleteAllocationByName E (AGetNamespace allocation) (AGetName allocation) s
            in if err \<noteq> None then Some ((None, err), s) else Some ((None, None), s)))
      else Some ((None, Some (Errorf (''Service '' @ SGetNamespace service @ ''/'' @ SGetName service @
             '' is expected as Ephemeral but has external ips''))), s))"

definition ReconcileAllocation ::
  "'w env \<Rightarrow> 'w clouds \<Rightarrow> Service \<Rightarrow> IPAllocation \<Rightarrow> 'w sys \<Rightarrow> (alloc_result \<times> 'w sys) option" where
  "ReconcileAllocation E C service allocation s =
     (if \<not> ServiceIsLoadBalancer (Some service)
      then (let (err, s) = serviceIsNoLongerALoadBalancer E service allocation s in Some ((None, err), s))
      else
        (let expectedType = expectedAllocationType service
         in if AllocationType (ASpec allocation) \<noteq> expectedType
            then Some (changeAllocationType E service allocation s)
            else if expectedType = PersistentIP then reconcilePersistentAllocation E C service allocation s
            else if expectedType = EphemeralIP then reconcileEphemeralAllocation E C service allocation s
            else Some ((None, None), s)))"

definition CreateAllocationForService ::
  "'w env \<Rightarrow> 'w clouds \<Rightarrow> Service \<Rightarrow> 'w sys \<Rightarrow> (alloc_result \<times> 'w sys) option" where
  "CreateAllocationForService E C service s =
     (let (hasExternalIPS, ips) = ServiceHasExternalIPs service
      in if hasExternalIPS \<and> length ips > 0 then
           do {
             ((allocation, err), s) \<leftarrow>
               EnsurePersistentAllocation E (SGetNamespace service) (SGetName service) ips s;
             if err \<noteq> None then Some ((None, err), s) else Some ((allocation, None), s)
           }
         else
           do {
             ((allocation, err), s) \<leftarrow>
               EnsureEphemeralAllocation E C (SGetNamespace service) (SGetName service) s;
             if err \<noteq> None then Some ((None, err), s) else Some ((allocation, None), s)
           })"

section \<open>Lemmas\<close>

lemma expectedAllocationType_eq:
  "expectedAllocationType service = (if ExternalIPs service = [] then EphemeralIP else PersistentIP)"
  by (simp add: expectedAllocationType_def ServiceHasExternalIPs_def)

text \<open>The complaint branches of both reconcilers are dead: the type that is expected says
  whether there are external addresses.\<close>

lemma ReconcileAllocation_cases:
  "ReconcileAllocation E C service allocation s =
    (if SType service \<noteq> ServiceTypeLoadBalancer then
       (let (err, s) = serviceIsNoLongerALoadBalancer E service allocation s in Some ((None, err), s))
     else if AllocationType (ASpec allocation) \<noteq> (if ExternalIPs service = [] then EphemeralIP else PersistentIP)
     then Some (changeAllocationType E service allocation s)
     else if ExternalIPs service \<noteq> [] then reconcilePersistentAllocation E C service allocation s
     else reconcileEphemeralAllocation E C service allocation s)"
  by (simp add: ReconcileAllocation_def expectedAllocationType_eq ServiceIsLoadBalancer_def Let_def)

text \<open>Any disagreement about the type deletes the object, and nothing else.\<close>

lemma changeAllocationType_deletes:
  assumes "changeAllocationType E service allocation s = (r, s')"
  shows "fst r = None" and "snd (rest_allocation E
    (IPAllocations_Delete_request (AGetNamespace allocation) (AGetName allocation)) (world s)) = world s'"
  using assms
  by (auto simp: changeAllocationType_def DeleteAllocationByName_def IPAllocations_Delete_def onw_def Let_def
      split: asm_splits sum.split_asm)

lemma changeAllocationType_world_only: "changeAllocationType E sv a s = (r, s') \<Longrightarrow> world_only s s'"
  by (auto simp: changeAllocationType_def split: asm_splits dest: DeleteAllocationByName_world_only)

lemma serviceIsNoLonger_world_only: "serviceIsNoLongerALoadBalancer E sv a s = (r, s') \<Longrightarrow> world_only s s'"
  by (auto simp: serviceIsNoLongerALoadBalancer_def Let_def world_only_def split: asm_splits
      dest!: DeleteAllocationByName_world_only RemoveServiceIngressIPs_world_only)

section \<open>What a reconciliation keeps\<close>

text \<open>An allocation that is returned belongs to a load balancer and has the type its service
  asks for; in every other case the object was to be deleted and the result is nil.\<close>

lemma ReconcileAllocation_kept:
  assumes "ReconcileAllocation E C service allocation s = Some ((Some a, err), s')"
  shows "SType service = ServiceTypeLoadBalancer"
    and "AllocationType (ASpec allocation) = (if ExternalIPs service = [] then EphemeralIP else PersistentIP)"
proof -
  have "SType service = ServiceTypeLoadBalancer \<and>
    AllocationType (ASpec allocation) = (if ExternalIPs service = [] then EphemeralIP else PersistentIP)"
  proof (rule ccontr)
    assume *: "\<not> ?thesis"
    show False
    proof (cases "SType service = ServiceTypeLoadBalancer")
      case True
      with * have "ReconcileAllocation E C service allocation s = Some (changeAllocationType E service allocation s)"
        unfolding ReconcileAllocation_cases by auto
      with assms have "changeAllocationType E service allocation s = ((Some a, err), s')" by simp
      from changeAllocationType_deletes(1) [OF this] show False by simp
    next
      case False
      with assms show False unfolding ReconcileAllocation_cases by (auto split: prod.split_asm)
    qed
  qed
  then show "SType service = ServiceTypeLoadBalancer"
    "AllocationType (ASpec allocation) = (if ExternalIPs service = [] then EphemeralIP else PersistentIP)" by auto
qed

text \<open>Where the service is no load balancer any more, or wants the other type, the allocation
  is deleted and nil is returned without an error.\<close>

lemma ReconcileAllocation_deleted:
  assumes "ReconcileAllocation E C service allocation s = Some ((r, None), s')"
    and "SType service \<noteq> ServiceTypeLoadBalancer \<or>
      AllocationType (ASpec allocation) \<noteq> (if ExternalIPs service = [] then EphemeralIP else PersistentIP)"
  shows "r = None"
  using assms ReconcileAllocation_kept [of E C service allocation s _ None s'] by (cases r) auto

end
