(* ===== verification/Allocator.thy ===== *)
theory Allocator
  imports Reconciler
begin

text \<open>
  \<open>pkg/controller/allocator/allocator.go\<close>: making the addresses of an allocation effective on
  nodes and clouds, and recording the outcome in its status.
\<close>

definition allocateAddress ::
  "'w env \<Rightarrow> 'w clouds \<Rightarrow> IPType \<Rightarrow> IPAllocationAddresses \<Rightarrow> 'w sys \<Rightarrow> (go_error option \<times> 'w sys) option" where
  "allocateAddress E C allocationType addressAllocation s =
     (if allocationType = PersistentIP then persistent_AllocateAddress E C addressAllocation s
      else if allocationType = EphemeralIP then ephemeral_AllocateAddress E C addressAllocation s
      else Some (Some (Errorf (''Unknown allocation type '' @ IPType_string allocationType)), s))"

definition updateServiceIngressWithIps ::
  "'w env \<Rightarrow> string \<Rightarrow> string \<Rightarrow> string list \<Rightarrow> 'w sys \<Rightarrow> go_error option \<times> 'w sys" where
  "updateServiceIngressWithIps E serviceNamespace serviceName ips s =
     (let (err, s) = UpdateServiceIngressWithIps E serviceNamespace serviceName ips s
      in case err of
           Some e \<Rightarrow>
             if IsNotFound e then DeleteAllocationByName E serviceNamespace serviceName s
             else (Some e, s)
         | None \<Rightarrow> (None, s))"

definition record_failure ::
  "'w env \<Rightarrow> IPAllocation \<Rightarrow> IPAllocationAddresses \<Rightarrow> go_error \<Rightarrow> 'w sys \<Rightarrow> 'w sys option" where
  "record_failure E allocation addrAllocation err s =
     (if err = ErrNoOperatorNodeAvailable \<or> err = ErrFailedToDialWithOperator then
        do {
          (_, s) \<leftarrow> SetAllocationStatusNodeError E (Some allocation)
            (Errorf (''Cluster node '' @ NodeName addrAllocation @ '' unreachable'')) s;
          Some s
        }
      else do { (_, s) \<leftarrow> SetAllocationStatusError E (Some allocation) err s; Some s })"

text \<open>\<open>Inl\<close>: the error the function returns early with; \<open>Inr\<close>: the addresses.\<close>

fun ensure_addresses ::
  "'w env \<Rightarrow> 'w clouds \<Rightarrow> IPAllocation \<Rightarrow> IPAllocationAddresses list \<Rightarrow> string list \<Rightarrow> 'w sys \<Rightarrow>
   ((go_error + string list) \<times> 'w sys) option" where
  "ensure_addresses E C allocation [] ips s = Some (Inr ips, s)"
| "ensure_addresses E C allocation (addrAllocation # rest) ips s =
     do {
       let s = (if AllocationType (ASpec allocation) = PersistentIP
                then s\<lparr>availablesPools :=
                       EnsureAddressIsNotAvailable (persistent_store E s) (Pool addrAllocation)
                         (AGetNamespace allocation) (Address addrAllocation) (availablesPools s)\<rparr>
                else s);
       (err, s) \<leftarrow> allocateAddress E C (AllocationType (ASpec allocation)) addrAllocation s;
       (case err of
          Some e \<Rightarrow> do { s \<leftarrow> record_failure E allocation addrAllocation e s; Some (Inl e, s) }
        | None \<Rightarrow> ensure_addresses E C allocation rest (ips @ [Address addrAllocation]) s)
     }"

text \<open>
  The condition \<open>err != nil && err == ErrServiceNotFound || !ServiceIsLoadBalancer(serviceRO)\<close>
  holds for every error, because the service is nil then: the check of \<open>err\<close> after it is
  dead code, and any failure to look up the service deletes the allocation.
\<close>

definition EnsureIPAllocation ::
  "'w env \<Rightarrow> 'w clouds \<Rightarrow> IPAllocation \<Rightarrow> 'w sys \<Rightarrow> (go_error option \<times> 'w sys) option" where
  "EnsureIPAllocation E C allocation s =
     (let ((serviceRO, err), s) = FindService E (AGetNamespace allocation) (AGetName allocation) s
      in if err \<noteq> None \<and> err = Some ErrServiceNotFound \<or> \<not> ServiceIsLoadBalancer serviceRO
         then (let (_, s) = DeleteAllocationByName E (AGetNamespace allocation) (AGetName allocation) s
               in Some (None, s))
         else if err \<noteq> None then Some (err, s)
         else do {
           (r, s) \<leftarrow> ensure_addresses E C allocation (alloc_addresses allocation) [] s;
           (case r of
              Inl e \<Rightarrow> Some (Some e, s)
            | Inr ips \<Rightarrow>
                do {
                  ((_, err), s) \<leftarrow> SetAllocationStatusSuccess E (Some allocation) s;
                  if err \<noteq> None then Some (err, s)
                  else if AllocationType (ASpec allocation) \<noteq> PersistentIP then
                    (let (err, s) = updateServiceIngressWithIps E (AGetNamespace allocation)
                                      (AGetName allocation) ips s
                     in if err \<noteq> None then Some (err, s) else Some (None, s))
                  else Some (None, s)
                })
         })"

section \<open>Frames\<close>

lemma record_failure_world_only [world_only_intros]:
  "record_failure E a x e s = Some s' \<Longrightarrow> world_only s s'"
  by (auto simp: record_failure_def elim!: bind_SomeE split: asm_splits dest: status_world_only)

lemma updateServiceIngressWithIps_world_only [world_only_intros]:
  "updateServiceIngressWithIps E ns n ips s = (r, s') \<Longrightarrow> world_only s s'"
  by (auto simp: updateServiceIngressWithIps_def world_only_def split: asm_splits
      dest!: UpdateServiceIngress_world_only DeleteAllocationByName_world_only)

section \<open>Outcome\<close>

text \<open>Any error of the lookup: the allocation object is deleted and nil is returned.\<close>

lemma EnsureIPAllocation_lookup_error:
  assumes "FindService E (AGetNamespace a) (AGetName a) s = ((sv, Some e), s1)"
  shows "EnsureIPAllocation E C a s =
    Some (None, snd (DeleteAllocationByName E (AGetNamespace a) (AGetName a) s1))"
proof -
  from FindService_cases [OF assms] have "sv = None" by simp
  with assms show ?thesis
    by (simp add: EnsureIPAllocation_def ServiceIsLoadBalancer_def split: prod.split)
qed

text \<open>The loop goes through all addresses in order; it stops at the first one that fails.\<close>

lemma ensure_addresses_Inr:
  assumes "ensure_addresses E C a as ips s = Some (Inr r, s')"
  shows "r = ips @ map Address as \<and>
    (\<forall>x \<in> set as. \<exists>t t'. allocateAddress E C (AllocationType (ASpec a)) x t = Some (None, t'))"
  using assms
proof (induction as arbitrary: ips s)
  case Nil
  then show ?case by simp
next
  case (Cons x as)
  from Cons.prems obtain t t' where x: "allocateAddress E C (AllocationType (ASpec a)) x t = Some (None, t')"
    and rest: "ensure_addresses E C a as (ips @ [Address x]) t' = Some (Inr r, s')"
    by (auto simp: Let_def elim!: bind_SomeE split: asm_splits)
  from Cons.IH [OF rest] x show ?case by auto
qed

lemma ensure_addresses_Inl:
  assumes "ensure_addresses E C a as ips s = Some (Inl e, s')"
  shows "\<exists>as1 x as2. as = as1 @ x # as2 \<and>
    (\<forall>y \<in> set as1. \<exists>t t'. allocateAddress E C (AllocationType (ASpec a)) y t = Some (None, t')) \<and>
    (\<exists>t t'. allocateAddress E C (AllocationType (ASpec a)) x t = Some (Some e, t') \<and>
       record_failure E a x e t' = Some s')"
  using assms
proof (induction as arbitrary: ips s)
  case Nil
  then show ?case by simp
next
  case (Cons x as)
  from Cons.prems obtain err t t' where x: "allocateAddress E C (AllocationType (ASpec a)) x t = Some (err, t')"
    and rest: "(case err of Some e \<Rightarrow> do { s \<leftarrow> record_failure E a x e t'; Some (Inl e, s) }
        | None \<Rightarrow> ensure_addresses E C a as (ips @ [Address x]) t') = Some (Inl e, s')"
    by (auto simp: Let_def elim!: bind_SomeE)
  show ?case
  proof (cases err)
    case None
    with rest have "ensure_addresses E C a as (ips @ [Address x]) t' = Some (Inl e, s')" by simp
    from Cons.IH [OF this] obtain as1 y as2 where "as = as1 @ y # as2"
      "\<forall>y \<in> set as1. \<exists>t t'. allocateAddress E C (AllocationType (ASpec a)) y t = Some (None, t')"
      "\<exists>t t'. allocateAddress E C (AllocationType (ASpec a)) y t = Some (Some e, t') \<and>
        record_failure E a y e t' = Some s'" by blast
    with x None show ?thesis by (intro exI [of _ "x # as1"] exI [of _ y] exI [of _ as2]) auto
  next
    case (Some e')
    with rest x show ?thesis
      by (intro exI [of _ "[]"] exI [of _ x] exI [of _ as]) (auto elim!: bind_SomeE)
  qed
qed

text \<open>The addresses of a persistent allocation are not free afterwards.\<close>

context clouds_integration begin

lemma allocateAddress_world_only:
  "allocateAddress E GetCloudAPI ty a s = Some (r, s') \<Longrightarrow> world_only s s'"
  by (auto simp: allocateAddress_def split: if_split_asm
      dest: persistent_AllocateAddress_world_only ephemeral_AllocateAddress_world_only)

lemma ensure_addresses_pools:
  assumes "ensure_addresses E GetCloudAPI a as ips s = Some (r, s')"
    and "availability_wf (availablesPools s)"
  shows "availability_wf (availablesPools s') \<and>
    free_ips (availablesPools s') \<subseteq> free_ips (availablesPools s) \<and>
    free_ips (availablesPools s) - pairs as \<subseteq> free_ips (availablesPools s') \<and>
    (\<forall>rs. r = Inr rs \<longrightarrow> AllocationType (ASpec a) = PersistentIP \<longrightarrow>
      free_ips (availablesPools s') = free_ips (availablesPools s) - pairs as)"
  using assms
proof (induction as arbitrary: ips s)
  case Nil
  then show ?case by simp
next
  case (Cons x as)
  let ?p = "AllocationType (ASpec a) = PersistentIP"
  let ?s = "if ?p then s\<lparr>availablesPools := EnsureAddressIsNotAvailable (persistent_store E s) (Pool x)
      (AGetNamespace a) (Address x) (availablesPools s)\<rparr> else s"
  have wf: "availability_wf (availablesPools ?s)"
    and fr: "free_ips (availablesPools ?s) =
      (if ?p then free_ips (availablesPools s) - {alloc_pair x} else free_ips (availablesPools s))"
    using Cons.prems(2) by (simp_all add: EnsureAddressIsNotAvailable_spec alloc_pair_def)
  from Cons.prems(1) obtain err t where x: "allocateAddress E GetCloudAPI (AllocationType (ASpec a)) x ?s = Some (err, t)"
    and rest: "(case err of Some e \<Rightarrow> do { s \<leftarrow> record_failure E a x e t; Some (Inl e, s) }
        | None \<Rightarrow> ensure_addresses E GetCloudAPI a as (ips @ [Address x]) t) = Some (r, s')"
    by (auto simp: Let_def elim!: bind_SomeE)
  from allocateAddress_world_only [OF x] have t: "availablesPools t = availablesPools ?s"
    by (rule world_only_fields)
  show ?case
  proof (cases err)
    case None
    with rest have "ensure_addresses E GetCloudAPI a as (ips @ [Address x]) t = Some (r, s')" by simp
    from Cons.IH [OF this] wf t fr show ?thesis by (auto split: if_split_asm)
  next
    case (Some e)
    with rest obtain "record_failure E a x e t = Some s'" and r: "r = Inl e" by (auto elim!: bind_SomeE)
    from world_only_fields(1) [OF record_failure_world_only [OF this(1)]] t
    have "availablesPools s' = availablesPools ?s" by simp
    with wf fr r show ?thesis by auto
  qed
qed

lemma ensure_addresses_ids:
  "ensure_addresses E GetCloudAPI a as ips s = Some (r, s') \<Longrightarrow>
     pool_ids (availablesPools s') \<subseteq> pool_ids (availablesPools s)"
proof (induction as arbitrary: ips s)
  case Nil
  then show ?case by simp
next
  case (Cons x as)
  let ?s = "if AllocationType (ASpec a) = PersistentIP then s\<lparr>availablesPools :=
      EnsureAddressIsNotAvailable (persistent_store E s) (Pool x) (AGetNamespace a) (Address x) (availablesPools s)\<rparr> else s"
  have ids: "pool_ids (availablesPools ?s) \<subseteq> pool_ids (availablesPools s)"
    using EnsureAddressIsNotAvailable_ids by simp
  from Cons.prems obtain err t where x: "allocateAddress E GetCloudAPI (AllocationType (ASpec a)) x ?s = Some (err, t)"
    and rest: "(case err of Some e \<Rightarrow> do { s \<leftarrow> record_failure E a x e t; Some (Inl e, s) }
        | None \<Rightarrow> ensure_addresses E GetCloudAPI a as (ips @ [Address x]) t) = Some (r, s')"
    by (auto simp: Let_def elim!: bind_SomeE)
  have t: "availablesPools t = availablesPools ?s" by (rule world_only_fields [OF allocateAddress_world_only [OF x]])
  show ?case
  proof (cases err)
    case None
    with rest have "ensure_addresses E GetCloudAPI a as (ips @ [Address x]) t = Some (r, s')" by simp
    from Cons.IH [OF this] ids show ?thesis unfolding t by (rule subset_trans)
  next
    case (Some e)
    with rest have "record_failure E a x e t = Some s'" by (auto elim!: bind_SomeE)
    from world_only_fields(1) [OF record_failure_world_only [OF this]] t ids show ?thesis by simp
  qed
qed

end

text \<open>Success: nil for a service that is found means that each address was made effective,
  and the status update was accepted.\<close>

lemma EnsureIPAllocation_ok:
  assumes res: "EnsureIPAllocation E C a s = Some (None, s')"
    and svc: "FindService E (AGetNamespace a) (AGetName a) s = ((Some sv, None), s1)"
    and lb: "SType sv = ServiceTypeLoadBalancer"
  shows "(\<forall>x \<in> set (alloc_addresses a). \<exists>t t'. allocateAddress E C (AllocationType (ASpec a)) x t = Some (None, t')) \<and>
    (\<exists>t res t'. SetAllocationStatusSuccess E (Some a) t = Some ((res, None), t')) \<and>
    (AllocationType (ASpec a) \<noteq> PersistentIP \<longrightarrow>
      (\<exists>t. updateServiceIngressWithIps E (AGetNamespace a) (AGetName a) (map Address (alloc_addresses a)) t = (None, s')))"
proof -
  from res svc lb obtain ips t t2 res2 where
    l: "ensure_addresses E C a (alloc_addresses a) [] s1 = Some (Inr ips, t)"
    and st: "SetAllocationStatusSuccess E (Some a) t = Some ((res2, None), t2)"
    and fin: "if AllocationType (ASpec a) \<noteq> PersistentIP
      then updateServiceIngressWithIps E (AGetNamespace a) (AGetName a) ips t2 = (None, s') else s' = t2"
    by (auto simp: EnsureIPAllocation_def ServiceIsLoadBalancer_def Let_def elim!: bind_SomeE
        split: asm_splits sum.split_asm)
  from ensure_addresses_Inr [OF l] have ips: "ips = map Address (alloc_addresses a)"
    and all: "\<forall>x \<in> set (alloc_addresses a). \<exists>t t'. allocateAddress E C (AllocationType (ASpec a)) x t = Some (None, t')"
    by auto
  with st fin show ?thesis by (auto split: if_split_asm)
qed

end
