(* ===== verification/Effects.thy ===== *)
theory Effects
  imports Allocator
begin

text \<open>
  What happened during a run. \<open>calls E w w'\<close> says that the world went from \<open>w\<close> to \<open>w'\<close> by calls
  the allocator makes; so "the call was made during the run" is a call between two worlds
  on the way from the first state to the last one.
\<close>

section \<open>Calls\<close>

inductive env_step :: "'w env \<Rightarrow> 'w \<Rightarrow> 'w \<Rightarrow> bool" for E :: "'w env" where
  rest_call: "env_step E w (snd (rest_allocation E rq w))"
| services_get_call: "env_step E w (snd (services_get E ns n w))"
| services_update_call: "env_step E w (snd (services_update_status E ns sv w))"
| dial_call: "env_step E w (snd (grpc_dial E a w))"
| add_call: "env_step E w (snd (grpc_AddAddress E a i w))"
| remove_call: "env_step E w (snd (grpc_RemoveAddress E a i w))"
| servers_call: "env_step E w (snd (hcloud_servers E t n w))"
| floating_ips_call: "env_step E w (snd (hcloud_floating_ips E t w))"
| assign_call: "env_step E w (snd (hcloud_assign E t ip sv w))"

definition calls :: "'w env \<Rightarrow> 'w \<Rightarrow> 'w \<Rightarrow> bool" where
  "calls E w w' \<longleftrightarrow> (env_step E)\<^sup>*\<^sup>* w w'"

definition ran :: "'w env \<Rightarrow> 'w sys \<Rightarrow> 'w sys \<Rightarrow> bool" where
  "ran E s s' \<longleftrightarrow> calls E (world s) (world s')"

lemma calls_refl [simp, intro]: "calls E w w"
  by (simp add: calls_def)

lemma calls_trans [trans]: "calls E w w' \<Longrightarrow> calls E w' w'' \<Longrightarrow> calls E w w''"
  unfolding calls_def by (rule rtranclp_trans)

lemma ran_refl [simp, intro]: "ran E s s"
  by (simp add: ran_def)

lemma ran_trans [trans]: "ran E s s' \<Longrightarrow> ran E s' s'' \<Longrightarrow> ran E s s''"
  unfolding ran_def by (rule calls_trans)

lemma ran_own: "ran E (s\<lparr>availablesPools := aps\<rparr>) s' \<longleftrightarrow> ran E s s'"
  by (simp add: ran_def)

lemma step_calls: "env_step E w w' \<Longrightarrow> calls E w w'"
  unfolding calls_def by (rule r_into_rtranclp)

lemma onw_ran: "onw f s = (r, s') \<Longrightarrow> (\<And>w. env_step E w (snd (f w))) \<Longrightarrow> ran E s s'"
  unfolding ran_def onw_eq by (metis step_calls snd_conv sys.select_convs(1) sys.update_convs(1) sys.surjective)

lemma onw_rans:
  "onw (services_get E ns n) s = (r1, s') \<Longrightarrow> ran E s s'"
  "onw (services_update_status E ns sv) s = (r1, s') \<Longrightarrow> ran E s s'"
  "onw (grpc_dial E a) s = (r2, s') \<Longrightarrow> ran E s s'"
  "onw (grpc_AddAddress E a i) s = (r2, s') \<Longrightarrow> ran E s s'"
  "onw (grpc_RemoveAddress E a i) s = (r2, s') \<Longrightarrow> ran E s s'"
  "onw (hcloud_servers E t n) s = (r3, s') \<Longrightarrow> ran E s s'"
  "onw (hcloud_floating_ips E t) s = (r4, s') \<Longrightarrow> ran E s s'"
  "onw (hcloud_assign E t ip hs) s = (r5, s') \<Longrightarrow> ran E s s'"
  by (rule onw_ran, assumption, rule env_step.intros)+

section \<open>The operations of the allocator are made of such calls\<close>

lemma FindService_ran: "FindService E ns n s = (r, s') \<Longrightarrow> ran E s s'"
  by (auto simp: FindService_def Let_def split: asm_splits sum.split_asm dest: onw_rans)

lemma UpdateStatus_step: "env_step E w (snd (IPAllocations_UpdateStatus E ns a w))"
  by (simp add: IPAllocations_UpdateStatus_def split_beta rest_call)

lemma status_success_ran: "SetAllocationStatusSuccess E a s = Some (r, s') \<Longrightarrow> ran E s s'"
  by (auto simp: SetAllocationStatusSuccess_def send_status_def elim!: bind_SomeE split: asm_splits
      dest: onw_ran [OF _ UpdateStatus_step])

lemma GrpcClientForNode_ran: "GrpcClientForNode E n s = Some (r, s') \<Longrightarrow> ran E s s'"
  by (auto simp: GrpcClientForNode_def Let_def split: asm_splits dest: onw_rans)

lemma Ensure_pod_ran: "EnsureIPAllocationOnNode_pod E n i a pod s = Some (r, s') \<Longrightarrow> ran E s s'"
  unfolding EnsureIPAllocationOnNode_pod_def
  by (auto simp: Let_def elim!: bind_SomeE split: asm_splits
      dest!: onw_rans GrpcClientForNode_ran intro: ran_trans)

lemma Ensure_loop_ran: "EnsureIPAllocationOnNode_loop E n i a objs s = Some (r, s') \<Longrightarrow> ran E s s'"
proof (induction objs arbitrary: s)
  case Nil
  then show ?case by simp
next
  case (Cons obj objs)
  then show ?case
    by (auto split: k8s_obj.split_asm asm_splits dest!: Ensure_pod_ran intro: ran_trans)
qed

lemma EnsureIPAllocationOnNode_ran: "EnsureIPAllocationOnNode E n i a s = Some (r, s') \<Longrightarrow> ran E s s'"
  by (auto simp: EnsureIPAllocationOnNode_def elim!: bind_SomeE dest: Ensure_loop_ran)

lemma hetzner_Assign_ran: "hetzner_AssignIPToServer E t a n s = Some (r, s') \<Longrightarrow> ran E s s'"
  by (auto simp: hetzner_AssignIPToServer_def getIPByAddress_def getServerByName_def Let_def
      elim!: bind_SomeE split: asm_splits sum.split_asm dest!: onw_rans intro: ran_trans)

lemma Integration_Assign_ran:
  "Integration_GetCloudAPI E ci = Some api \<Longrightarrow> AssignIPToServer api a n s = Some (r, s') \<Longrightarrow> ran E s s'"
  by (auto simp: Integration_GetCloudAPI_def hetzner_API_def split: option.split_asm
      dest: hetzner_Assign_ran)

lemma allocate_on_cloud_ran:
  "persistent_allocateAddressOnCloud (Integration_GetCloudAPI E) p a n s = Some (r, s') \<Longrightarrow> ran E s s'"
  "ephemeral_allocateAddressOnCloud (Integration_GetCloudAPI E) q a n s = Some (r, s') \<Longrightarrow> ran E s s'"
  by (auto simp: persistent_allocateAddressOnCloud_def ephemeral_allocateAddressOnCloud_def
      split: option.split_asm dest: Integration_Assign_ran)

lemma AllocateAddress_ran:
  "persistent_AllocateAddress E (Integration_GetCloudAPI E) x s = Some (r, s') \<Longrightarrow> ran E s s'"
  "ephemeral_AllocateAddress E (Integration_GetCloudAPI E) x s = Some (r, s') \<Longrightarrow> ran E s s'"
  by (auto simp: persistent_AllocateAddress_def ephemeral_AllocateAddress_def elim!: bind_SomeE
      split: asm_splits dest!: EnsureIPAllocationOnNode_ran allocate_on_cloud_ran intro: ran_trans)

lemma allocateAddress_ran:
  "allocateAddress E (Integration_GetCloudAPI E) ty x s = Some (r, s') \<Longrightarrow> ran E s s'"
  by (auto simp: allocateAddress_def split: if_split_asm dest: AllocateAddress_ran)

section \<open>The call that puts an address on a node\<close>

text \<open>Between the two states the operator at \<open>target\<close> was asked to add the address, and did.\<close>

definition added :: "'w env \<Rightarrow> string \<Rightarrow> AddressInfo \<Rightarrow> 'w sys \<Rightarrow> 'w sys \<Rightarrow> bool" where
  "added E target info s s' \<longleftrightarrow> (\<exists>w1 w2. calls E (world s) w1 \<and>
     grpc_AddAddress E target info w1 = (None, w2) \<and> calls E w2 (world s'))"

lemma added_before: "ran E s t \<Longrightarrow> added E x i t u \<Longrightarrow> added E x i s u"
  unfolding added_def ran_def by (meson calls_trans)

lemma added_after: "added E x i s t \<Longrightarrow> ran E t u \<Longrightarrow> added E x i s u"
  unfolding added_def ran_def by (meson calls_trans)

lemma Ensure_pod_added:
  assumes "EnsureIPAllocationOnNode_pod E n i a pod s = Some (None, s')" and "PodNodeName pod = n"
  shows "IsPodReady pod" and "added E (PodIP pod @ '':'' @ itoa OperatorPort)
    \<lparr>InfoAddress = a, InfoInterface = i\<rparr> s s'"
proof -
  let ?t = "PodIP pod @ '':'' @ itoa OperatorPort" and ?i = "\<lparr>InfoAddress = a, InfoInterface = i\<rparr>"
  from assms obtain t where g: "GrpcClientForNode E (GetNodeFromOperatorPod pod) s = Some (?t, t)"
    and r: "IsPodReady pod" and add: "onw (grpc_AddAddress E ?t ?i) t = (None, s')"
    by (auto simp: EnsureIPAllocationOnNode_pod_def Let_def GetNodeFromOperatorPod_def
        GrpcClientForNode_def elim!: bind_SomeE split: asm_splits)
  from add have "added E ?t ?i t s'" by (auto simp: added_def onw_eq)
  with r added_before [OF GrpcClientForNode_ran [OF g]] show "IsPodReady pod" "added E ?t ?i s s'"
    by blast+
qed

lemma Ensure_loop_added:
  assumes "EnsureIPAllocationOnNode_loop E n i a objs s = Some (None, s')"
    and "PodObj pod \<in> set objs" and "PodNodeName pod = n"
  shows "IsPodReady pod \<and> added E (PodIP pod @ '':'' @ itoa OperatorPort)
    \<lparr>InfoAddress = a, InfoInterface = i\<rparr> s s'"
  using assms
proof (induction objs arbitrary: s)
  case Nil
  then show ?case by simp
next
  case (Cons obj objs)
  show ?case
  proof (cases "obj = PodObj pod")
    case True
    with Cons.prems obtain t where p: "EnsureIPAllocationOnNode_pod E n i a pod s = Some (None, t)"
      and l: "EnsureIPAllocationOnNode_loop E n i a objs t = Some (None, s')"
      by (auto split: asm_splits)
    from Ensure_pod_added [OF p Cons.prems(3)] Ensure_loop_ran [OF l] show ?thesis
      by (blast intro: added_after)
  next
    case False
    with Cons.prems(2) have m: "PodObj pod \<in> set objs" by simp
    show ?thesis
    proof (cases obj)
      case (PodObj p)
      with Cons.prems obtain t where p: "EnsureIPAllocationOnNode_pod E n i a p s = Some (None, t)"
        and l: "EnsureIPAllocationOnNode_loop E n i a objs t = Some (None, s')"
        by (auto split: asm_splits)
      from Cons.IH [OF l m Cons.prems(3)] added_before [OF Ensure_pod_ran [OF p]] show ?thesis by blast
    qed (use Cons m in simp_all)
  qed
qed

text \<open>What is supposed of the pool and the operator during the run: the pool of \<open>x\<close> asks for
  interface \<open>i\<close>, and the operator pod of the node is in the list.\<close>

definition wants_interface :: "'w env \<Rightarrow> IPType \<Rightarrow> IPAllocationAddresses \<Rightarrow> string \<Rightarrow> bool" where
  "wants_interface E ty x i \<longleftrightarrow> (\<forall>w.
     (case ty of
        PersistentIP \<Rightarrow> \<exists>pool. persistent_SearchPoolByName (persistentPoolsStore E w) (Pool x) = Some pool \<and>
          PersistentPoolHasHostNetworkOption pool \<and> interface_name (POptions (PSpec pool)) = Some i
      | EphemeralIP \<Rightarrow> \<exists>pool. ephemeral_SearchPoolByName (ephemeralPoolsStore E w) (Pool x) = Some pool \<and>
          EphemeralPoolHasHostNetworkOption pool \<and> interface_name (EOptions (ESpec pool)) = Some i
      | _ \<Rightarrow> False))"

definition operator_of :: "'w env \<Rightarrow> string \<Rightarrow> Pod \<Rightarrow> bool" where
  "operator_of E n pod \<longleftrightarrow> PodNodeName pod = n \<and> (\<forall>w. PodObj pod \<in> set (operatorNodesStore E w))"

lemma EnsureIPAllocationOnNode_added:
  assumes "EnsureIPAllocationOnNode E n i a s = Some (None, s')" and "operator_of E n pod"
  shows "IsPodReady pod \<and> added E (PodIP pod @ '':'' @ itoa OperatorPort)
    \<lparr>InfoAddress = a, InfoInterface = i\<rparr> s s'"
proof -
  from assms(1) obtain objs where "GetOperatorsList E s = Some objs"
    and l: "EnsureIPAllocationOnNode_loop E n i a objs s = Some (None, s')"
    by (auto simp: EnsureIPAllocationOnNode_def elim!: bind_SomeE)
  with assms(2) have "PodObj pod \<in> set objs" "PodNodeName pod = n"
    by (auto simp: GetOperatorsList_def operator_of_def split: if_split_asm)
  with l show ?thesis by (rule Ensure_loop_added)
qed

lemma allocateAddress_added:
  assumes res: "allocateAddress E (Integration_GetCloudAPI E) ty x s = Some (None, s')"
    and wi: "wants_interface E ty x i" and opd: "operator_of E (NodeName x) pod"
  shows "IsPodReady pod \<and> added E (PodIP pod @ '':'' @ itoa OperatorPort)
    \<lparr>InfoAddress = Address x, InfoInterface = i\<rparr> s s'"
proof -
  obtain t where "EnsureIPAllocationOnNode E (NodeName x) i (Address x) s = Some (None, t)" "ran E t s'"
  proof (cases ty)
    case PersistentIP
    from wi PersistentIP obtain pool where
      "persistent_SearchPoolByName (persistent_store E s) (Pool x) = Some pool"
      "PersistentPoolHasHostNetworkOption pool" "interface_name (POptions (PSpec pool)) = Some i"
      unfolding wants_interface_def by fastforce
    with res PersistentIP show ?thesis
      by (auto simp: allocateAddress_def persistent_AllocateAddress_def elim!: bind_SomeE
          split: asm_splits dest!: allocate_on_cloud_ran intro: that)
  next
    case EphemeralIP
    from wi EphemeralIP obtain pool where
      "ephemeral_SearchPoolByName (ephemeral_store E s) (Pool x) = Some pool"
      "EphemeralPoolHasHostNetworkOption pool" "interface_name (EOptions (ESpec pool)) = Some i"
      unfolding wants_interface_def by fastforce
    with res EphemeralIP show ?thesis
      by (auto simp: allocateAddress_def ephemeral_AllocateAddress_def elim!: bind_SomeE
          split: asm_splits dest!: allocate_on_cloud_ran intro: that)
  next
    case IPTypeOther
    with wi show ?thesis by (simp add: wants_interface_def)
  qed
  then show ?thesis using EnsureIPAllocationOnNode_added [OF _ opd] by (blast intro: added_after)
qed

section \<open>The whole of EnsureIPAllocation\<close>

lemma ensure_addresses_ran:
  "ensure_addresses E (Integration_GetCloudAPI E) a as ips s = Some (Inr r, s') \<Longrightarrow> ran E s s'"
proof (induction as arbitrary: ips s)
  case Nil
  then show ?case by simp
next
  case (Cons x as)
  then show ?case
    by (auto simp: Let_def ran_own elim!: bind_SomeE split: asm_splits dest!: allocateAddress_ran
        intro: ran_trans)
qed

lemma ensure_addresses_added:
  assumes "ensure_addresses E (Integration_GetCloudAPI E) a as ips s = Some (Inr r, s')"
    and "x \<in> set as" and "wants_interface E (AllocationType (ASpec a)) x i"
    and "operator_of E (NodeName x) pod"
  shows "IsPodReady pod \<and> added E (PodIP pod @ '':'' @ itoa OperatorPort)
    \<lparr>InfoAddress = Address x, InfoInterface = i\<rparr> s s'"
  using assms(1,2)
proof (induction as arbitrary: ips s)
  case Nil
  then show ?case by simp
next
  case (Cons y as)
  define s0 where "s0 = (if AllocationType (ASpec a) = PersistentIP
    then s\<lparr>availablesPools := EnsureAddressIsNotAvailable (persistent_store E s) (Pool y)
      (AGetNamespace a) (Address y) (availablesPools s)\<rparr> else s)"
  have w: "world s0 = world s" by (simp add: s0_def)
  from Cons.prems(1) obtain t where
    al: "allocateAddress E (Integration_GetCloudAPI E) (AllocationType (ASpec a)) y s0 = Some (None, t)"
    and rest: "ensure_addresses E (Integration_GetCloudAPI E) a as (ips @ [Address y]) t = Some (Inr r, s')"
    unfolding ensure_addresses.simps Let_def s0_def [symmetric]
    by (auto elim!: bind_SomeE split: option.split_asm)
  have same: "added E tg inf s0 u \<Longrightarrow> added E tg inf s u" for tg inf u
    unfolding added_def w .
  show ?case
  proof (cases "x = y")
    case True
    with allocateAddress_added [OF al _ _] assms(3,4) ensure_addresses_ran [OF rest] same show ?thesis
      by (blast intro: added_after)
  next
    case False
    with Cons.prems(2) have "x \<in> set as" by simp
    from Cons.IH [OF rest this] allocateAddress_ran [OF al] same show ?thesis
      by (blast intro: added_before)
  qed
qed

text \<open>\<open>IPAllocations_UpdateStatus\<close> of the ingress of an ephemeral service follows the status.\<close>

lemma updateServiceIngress_ran: "UpdateServiceIngressWithIps E ns n ips s = (r, s') \<Longrightarrow> ran E s s'"
  by (auto simp: UpdateServiceIngressWithIps_def Let_def split: asm_splits sum.split_asm
      dest!: onw_rans intro: ran_trans)

lemma Delete_step: "env_step E w (snd (IPAllocations_Delete E ns n w))"
  by (simp add: IPAllocations_Delete_def split_beta rest_call)

lemma DeleteAllocationByName_ran: "DeleteAllocationByName E ns n s = (r, s') \<Longrightarrow> ran E s s'"
  by (auto simp: DeleteAllocationByName_def split: asm_splits dest: onw_ran [OF _ Delete_step])

lemma allocator_ingress_ran: "updateServiceIngressWithIps E ns n ips s = (r, s') \<Longrightarrow> ran E s s'"
  by (auto simp: updateServiceIngressWithIps_def split: asm_splits
      dest!: updateServiceIngress_ran DeleteAllocationByName_ran intro: ran_trans)

text \<open>A successful run on a load balancer's allocation, as the states it passes.\<close>

lemma EnsureIPAllocation_phases:
  assumes res: "EnsureIPAllocation E C a s = Some (None, s')"
    and svc: "FindService E (AGetNamespace a) (AGetName a) s = ((Some sv, None), s1)"
    and lb: "SType sv = ServiceTypeLoadBalancer"
  obtains t t2 al where "ensure_addresses E C a (alloc_addresses a) [] s1 =
      Some (Inr (map Address (alloc_addresses a)), t)"
    and "SetAllocationStatusSuccess E (Some a) t = Some ((al, None), t2)"
    and "if AllocationType (ASpec a) = PersistentIP then s' = t2
      else updateServiceIngressWithIps E (AGetNamespace a) (AGetName a)
        (map Address (alloc_addresses a)) t2 = (None, s')"
proof -
  from res svc lb obtain ips t t2 al where
    l: "ensure_addresses E C a (alloc_addresses a) [] s1 = Some (Inr ips, t)"
    and st: "SetAllocationStatusSuccess E (Some a) t = Some ((al, None), t2)"
    and fin: "if AllocationType (ASpec a) = PersistentIP then s' = t2
      else updateServiceIngressWithIps E (AGetNamespace a) (AGetName a) ips t2 = (None, s')"
    by (auto simp: EnsureIPAllocation_def ServiceIsLoadBalancer_def Let_def elim!: bind_SomeE
        split: asm_splits sum.split_asm)
  from ensure_addresses_Inr [OF l] have ips: "ips = map Address (alloc_addresses a)" by simp
  show ?thesis using l st fin unfolding ips by (rule that)
qed

lemma EnsureIPAllocation_added:
  assumes res: "EnsureIPAllocation E (Integration_GetCloudAPI E) a s = Some (None, s')"
    and svc: "FindService E (AGetNamespace a) (AGetName a) s = ((Some sv, None), s1)"
    and lb: "SType sv = ServiceTypeLoadBalancer" and x: "x \<in> set (alloc_addresses a)"
    and wi: "wants_interface E (AllocationType (ASpec a)) x i" and opd: "operator_of E (NodeName x) pod"
  shows "IsPodReady pod \<and> added E (PodIP pod @ '':'' @ itoa OperatorPort)
    \<lparr>InfoAddress = Address x, InfoInterface = i\<rparr> s s'"
  using EnsureIPAllocation_phases [OF res svc lb]
proof cases
  case (1 t t2 al)
  have "ran E t2 s'" using 1(3) allocator_ingress_ran by (fastforce split: if_split_asm)
  with status_success_ran [OF 1(2)] have "ran E t s'" by (rule ran_trans)
  with ensure_addresses_added [OF 1(1) x wi opd] FindService_ran [OF svc] show ?thesis
    by (blast intro: added_before added_after)
qed

text \<open>And the pools' availability, in every outcome.\<close>

lemma EnsureIPAllocation_pools:
  assumes res: "EnsureIPAllocation E (Integration_GetCloudAPI E) a s = Some (r, s')"
    and wf: "availability_wf (availablesPools s)"
  shows "availability_wf (availablesPools s') \<and>
    free_ips (availablesPools s') \<subseteq> free_ips (availablesPools s)"
proof -
  obtain sv err s1 where f: "FindService E (AGetNamespace a) (AGetName a) s = ((sv, err), s1)"
    by (metis prod.exhaust)
  note p1 = world_only_fields(1) [OF FindService_world_only [OF f]]
  show ?thesis
  proof (cases "ServiceIsLoadBalancer sv \<and> err = None")
    case False
    then have "\<not> ServiceIsLoadBalancer sv" using FindService_cases [OF f]
      by (auto simp: ServiceIsLoadBalancer_def)
    with res f have "s' = snd (DeleteAllocationByName E (AGetNamespace a) (AGetName a) s1)"
      by (auto simp: EnsureIPAllocation_def split: prod.split_asm)
    then have "availablesPools s' = availablesPools s"
      using p1 world_only_fields(1) [OF DeleteAllocationByName_world_only]
      by (metis prod.collapse)
    with wf show ?thesis by simp
  next
    case True
    with res f obtain q t where
      l: "ensure_addresses E (Integration_GetCloudAPI E) a (alloc_addresses a) [] s1 = Some (q, t)"
      and w: "world_only t s'"
      by (auto simp: EnsureIPAllocation_def Let_def world_only_def elim!: bind_SomeE
          split: asm_splits sum.split_asm
          dest!: status_world_only updateServiceIngressWithIps_world_only)
    from wf p1 have "availability_wf (availablesPools s1)" by simp
    from hetzner_clouds.ensure_addresses_pools [OF l this] world_only_fields(1) [OF w] p1
    show ?thesis by auto
  qed
qed

lemma EnsureIPAllocation_takes:
  assumes res: "EnsureIPAllocation E (Integration_GetCloudAPI E) a s = Some (None, s')"
    and svc: "FindService E (AGetNamespace a) (AGetName a) s = ((Some sv, None), s1)"
    and lb: "SType sv = ServiceTypeLoadBalancer" and p: "AllocationType (ASpec a) = PersistentIP"
    and wf: "availability_wf (availablesPools s)"
  shows "free_ips (availablesPools s') = free_ips (availablesPools s) - pairs (alloc_addresses a)"
  using EnsureIPAllocation_phases [OF res svc lb]
proof cases
  case (1 t t2 al)
  note p1 = world_only_fields(1) [OF FindService_world_only [OF svc]]
  with wf have "availability_wf (availablesPools s1)" by simp
  from hetzner_clouds.ensure_addresses_pools [OF 1(1) this] p1 p
  have "free_ips (availablesPools t) = free_ips (availablesPools s) - pairs (alloc_addresses a)" by simp
  with 1(3) p world_only_fields(1) [OF status_world_only(1) [OF 1(2)]] show ?thesis by simp
qed

section \<open>The record of a failure\<close>

definition failure_status :: "IPAllocation \<Rightarrow> IPAllocationAddresses \<Rightarrow> go_error \<Rightarrow> IPAllocation" where
  "failure_status a x e =
     (if e = ErrNoOperatorNodeAvailable \<or> e = ErrFailedToDialWithOperator
      then set_alloc_status AllocationStatusNodeError (''Cluster node '' @ NodeName x @ '' unreachable'') a
      else set_alloc_status AllocationStatusError (error_message e) a)"

lemma UpdateStatus_world:
  "snd (IPAllocations_UpdateStatus E ns a w) = snd (rest_allocation E (IPAllocations_UpdateStatus_request ns a) w)"
  by (simp add: IPAllocations_UpdateStatus_def split_beta)

lemma record_failure_request:
  assumes "record_failure E a x e s = Some s'"
  shows "world s' = snd (rest_allocation E
    (IPAllocations_UpdateStatus_request (AGetNamespace a) (failure_status a x e)) (world s))"
  using assms
  by (auto simp: record_failure_def failure_status_def SetAllocationStatusNodeError_def
      SetAllocationStatusError_def send_status_def onw_def UpdateStatus_world [symmetric]
      elim!: bind_SomeE split: prod.split_asm if_split_asm)

lemma ensure_addresses_failure:
  assumes "ensure_addresses E C a as ips s = Some (Inl e, s')"
  shows "\<exists>x \<in> set as. \<exists>t t'. allocateAddress E C (AllocationType (ASpec a)) x t = Some (Some e, t') \<and>
    world s' = snd (rest_allocation E
      (IPAllocations_UpdateStatus_request (AGetNamespace a) (failure_status a x e)) (world t'))"
  using ensure_addresses_Inl [OF assms] record_failure_request by fastforce

end
