(* ===== verification/Node_Agent.thy ===== *)
theory Node_Agent
  imports Environment Net_IP
begin

text \<open>
  The operator process on a node: \<open>pkg/operator/network/network.go\<close> over netlink,
  \<open>pkg/operator/observer/observer.go\<close> with the list of addresses it must hold,
  \<open>pkg/operator/server/server.go\<close> (the gRPC service) and \<open>pkg/operator/utils/utils.go\<close>.
  Netlink is a parameter; \<open>netlink_ok\<close> states what the code relies on.
\<close>

section \<open>utils.go\<close>

fun ContainsAddressInfo :: "AddressInfo list \<Rightarrow> string \<Rightarrow> string \<Rightarrow> bool" where
  "ContainsAddressInfo [] interfaceName address = False"
| "ContainsAddressInfo (n # a) interfaceName address =
     (if address = InfoAddress n \<and> InfoInterface n = interfaceName then True
      else ContainsAddressInfo a interfaceName address)"

lemma ContainsAddressInfo_iff [simp]:
  "ContainsAddressInfo a i x \<longleftrightarrow> \<lparr>InfoAddress = x, InfoInterface = i\<rparr> \<in> set a"
  by (induction a) (auto simp: AddressInfo.equality)

section \<open>netlink\<close>

record link =
  LinkName :: string

record addr =
  AddrIP :: string       \<comment> \<open>\<open>IP.String()\<close>\<close>
  AddrLabel :: string

record new_addr =
  NewIP :: "ip option"
  NewMask :: "nat list"
  NewScope :: nat
  NewLabel :: string

record 'w netlink =
  LinkList :: "'w \<Rightarrow> (ext_error + link list) \<times> 'w"
  LinkByName :: "string \<Rightarrow> 'w \<Rightarrow> (ext_error + link) \<times> 'w"
  AddrList :: "link \<Rightarrow> 'w \<Rightarrow> (ext_error + addr list) \<times> 'w"
  AddrDel :: "link \<Rightarrow> addr \<Rightarrow> 'w \<Rightarrow> ext_error option \<times> 'w"
  AddrAdd :: "link \<Rightarrow> new_addr \<Rightarrow> 'w \<Rightarrow> ext_error option \<times> 'w"

section \<open>network.go\<close>

definition labelName :: string where
  "labelName = ''pllb''"

definition composeLinkLabel :: "link \<Rightarrow> string" where
  "composeLinkLabel link = LinkName link @ '':'' @ labelName"

definition getInterfaceByName :: "'w netlink \<Rightarrow> string \<Rightarrow> 'w \<Rightarrow> (go_error + link) \<times> 'w" where
  "getInterfaceByName NL netInterfaceName w =
     (let (r, w) = LinkByName NL netInterfaceName w
      in case r of Inl err \<Rightarrow> (Inl (Ext err), w) | Inr netInterface \<Rightarrow> (Inr netInterface, w))"

fun cleanup_addresses :: "'w netlink \<Rightarrow> AddressInfo list \<Rightarrow> link \<Rightarrow> addr list \<Rightarrow> 'w \<Rightarrow> 'w" where
  "cleanup_addresses NL keepThese link [] w = w"
| "cleanup_addresses NL keepThese link (addres # rest) w =
     cleanup_addresses NL keepThese link rest
       (if AddrLabel addres = composeLinkLabel link \<and>
           \<not> ContainsAddressInfo keepThese (LinkName link) (AddrIP addres)
        then snd (AddrDel NL link addres w)
        else w)"

fun cleanup_links :: "'w netlink \<Rightarrow> AddressInfo list \<Rightarrow> link list \<Rightarrow> 'w \<Rightarrow> go_error option \<times> 'w" where
  "cleanup_links NL keepThese [] w = (None, w)"
| "cleanup_links NL keepThese (link # links) w =
     (let (r, w) = AddrList NL link w
      in case r of
           Inl err \<Rightarrow> (Some (Ext err), w)
         | Inr address \<Rightarrow> cleanup_links NL keepThese links (cleanup_addresses NL keepThese link address w))"

definition network_Cleanup :: "'w netlink \<Rightarrow> AddressInfo list \<Rightarrow> 'w \<Rightarrow> go_error option \<times> 'w" where
  "network_Cleanup NL keepThese w =
     (let (r, w) = LinkList NL w
      in case r of Inl err \<Rightarrow> (Some (Ext err), w) | Inr links \<Rightarrow> cleanup_links NL keepThese links w)"

fun delete_first :: "'w netlink \<Rightarrow> link \<Rightarrow> string \<Rightarrow> addr list \<Rightarrow> 'w \<Rightarrow> go_error option \<times> 'w" where
  "delete_first NL netInterface address [] w = (None, w)"
| "delete_first NL netInterface address (addres # rest) w =
     (if AddrIP addres = address
      then (let (err, w) = AddrDel NL netInterface addres w in (map_option Ext err, w))
      else delete_first NL netInterface address rest w)"

definition network_DeleteAddress :: "'w netlink \<Rightarrow> string \<Rightarrow> string \<Rightarrow> 'w \<Rightarrow> go_error option \<times> 'w" where
  "network_DeleteAddress NL netInterfaceName address w =
     (let (r, w) = getInterfaceByName NL netInterfaceName w
      in case r of
           Inl err \<Rightarrow> (Some err, w)
         | Inr netInterface \<Rightarrow>
             (let (r, w) = AddrList NL netInterface w
              in case r of
                   Inl err \<Rightarrow> (Some (Ext err), w)
                 | Inr addresses \<Rightarrow> delete_first NL netInterface address addresses w))"

text \<open>\<open>RT_SCOPE_LINK\<close> is 253.\<close>

definition network_AddAddress :: "'w netlink \<Rightarrow> string \<Rightarrow> string \<Rightarrow> 'w \<Rightarrow> go_error option \<times> 'w" where
  "network_AddAddress NL netInterfaceName address w =
     (let (r, w) = getInterfaceByName NL netInterfaceName w
      in case r of
           Inl err \<Rightarrow> (Some err, w)
         | Inr netInterface \<Rightarrow>
             (let eip = \<lparr>NewIP = ParseIP address, NewMask = [255, 255, 255, 255], NewScope = 253,
                         NewLabel = composeLinkLabel netInterface\<rparr>;
                  (err, w) = AddrAdd NL netInterface eip w
              in case err of
                   Some e \<Rightarrow> if ext_message e \<noteq> ''file exists'' then (Some (Ext e), w) else (None, w)
                 | None \<Rightarrow> (None, w)))"

fun has_address :: "string \<Rightarrow> addr list \<Rightarrow> bool" where
  "has_address x [] = False"
| "has_address x (address # rest) = (if x = AddrIP address then True else has_address x rest)"

definition IsAddressOnInterface :: "'w netlink \<Rightarrow> AddressInfo \<Rightarrow> 'w \<Rightarrow> (bool \<times> go_error option) \<times> 'w" where
  "IsAddressOnInterface NL info w =
     (let (r, w) = getInterfaceByName NL (InfoInterface info) w
      in case r of
           Inl err \<Rightarrow> ((False, Some err), w)
         | Inr link \<Rightarrow>
             (let (r, w) = AddrList NL link w
              in case r of
                   Inl err \<Rightarrow> ((False, Some (Ext err)), w)
                 | Inr realAddressList \<Rightarrow> ((has_address (InfoAddress info) realAddressList, None), w)))"

section \<open>observer.go\<close>

record 'w node =
  nworld :: 'w
  assignedAddressesList :: "AddressInfo list"

definition observer_AddAddress :: "'w netlink \<Rightarrow> AddressInfo \<Rightarrow> 'w node \<Rightarrow> go_error option \<times> 'w node" where
  "observer_AddAddress NL info n =
     (let (err, w) = network_AddAddress NL (InfoInterface info) (InfoAddress info) (nworld n);
          n = n\<lparr>nworld := w\<rparr>
      in if err \<noteq> None then (err, n)
         else if \<not> ContainsAddressInfo (assignedAddressesList n) (InfoInterface info) (InfoAddress info)
         then (None, n\<lparr>assignedAddressesList := assignedAddressesList n @ [info]\<rparr>)
         else (None, n))"

definition observer_RemoveAddress :: "'w netlink \<Rightarrow> AddressInfo \<Rightarrow> 'w node \<Rightarrow> go_error option \<times> 'w node" where
  "observer_RemoveAddress NL info n =
     (let (err, w) = network_DeleteAddress NL (InfoInterface info) (InfoAddress info) (nworld n);
          n = n\<lparr>nworld := w\<rparr>
      in if err \<noteq> None then (err, n)
         else (None, n\<lparr>assignedAddressesList :=
           filter (\<lambda>currentAddress. InfoAddress currentAddress \<noteq> InfoAddress info \<or>
                     InfoInterface currentAddress \<noteq> InfoInterface info) (assignedAddressesList n)\<rparr>))"

fun restore_missing :: "'w netlink \<Rightarrow> AddressInfo list \<Rightarrow> 'w \<Rightarrow> go_error option \<times> 'w" where
  "restore_missing NL [] w = (None, w)"
| "restore_missing NL (info # infos) w =
     (let (err, w) = network_AddAddress NL (InfoInterface info) (InfoAddress info) w
      in if err \<noteq> None then (err, w) else restore_missing NL infos w)"

definition observer_Cleanup :: "'w netlink \<Rightarrow> AddressInfo list \<Rightarrow> 'w node \<Rightarrow> go_error option \<times> 'w node" where
  "observer_Cleanup NL keepThese n =
     (let (err, w) = network_Cleanup NL keepThese (nworld n)
      in if err \<noteq> None then (err, n\<lparr>nworld := w\<rparr>)
         else
           (let (err, w) = restore_missing NL keepThese w
            in if err \<noteq> None then (err, n\<lparr>nworld := w\<rparr>)
               else (None, n\<lparr>nworld := w, assignedAddressesList := keepThese\<rparr>)))"

fun check_assigned :: "'w netlink \<Rightarrow> AddressInfo list \<Rightarrow> 'w \<Rightarrow> 'w" where
  "check_assigned NL [] w = w"
| "check_assigned NL (currentAddress # rest) w =
     (let ((addressFound, err), w) = IsAddressOnInterface NL currentAddress w
      in if err \<noteq> None then check_assigned NL rest w
         else if \<not> addressFound
         then check_assigned NL rest
                (snd (network_AddAddress NL (InfoInterface currentAddress) (InfoAddress currentAddress) w))
         else check_assigned NL rest w)"

text \<open>Whether the check takes longer than its five seconds is decided outside; then the
  process ends (\<open>klog.Fatal\<close>).\<close>

definition processAddressUpdate :: "'w netlink \<Rightarrow> bool \<Rightarrow> 'w node \<Rightarrow> 'w node option" where
  "processAddressUpdate NL timeout n =
     (if timeout then None
      else Some (n\<lparr>nworld := check_assigned NL (assignedAddressesList n) (nworld n)\<rparr>))"

section \<open>server.go\<close>

record grpc_result =
  Done :: bool
  ResultMessage :: string

definition grpc_internal :: "go_error \<Rightarrow> ext_error" where
  "grpc_internal err = GrpcStatus ''Internal'' (error_message err)"

definition server_AddAddress ::
  "'w netlink \<Rightarrow> string \<Rightarrow> AddressInfo \<Rightarrow> 'w node \<Rightarrow> (ext_error + grpc_result) \<times> 'w node" where
  "server_AddAddress NL myNodeName info n =
     (let (err, n) = observer_AddAddress NL info n
      in case err of
           Some e \<Rightarrow> (Inl (grpc_internal e), n)
         | None \<Rightarrow> (Inr \<lparr>Done = True, ResultMessage = ''Added address '' @ InfoAddress info @
             '' on interface '' @ InfoInterface info @ '' of node '' @ myNodeName\<rparr>, n))"

definition server_RemoveAddress ::
  "'w netlink \<Rightarrow> string \<Rightarrow> AddressInfo \<Rightarrow> 'w node \<Rightarrow> (ext_error + grpc_result) \<times> 'w node" where
  "server_RemoveAddress NL myNodeName info n =
     (let (err, n) = observer_RemoveAddress NL info n
      in case err of
           Some e \<Rightarrow> (Inl (grpc_internal e), n)
         | None \<Rightarrow> (Inr \<lparr>Done = True, ResultMessage = ''Deleted address '' @ InfoAddress info @
             '' from interface '' @ InfoInterface info @ '' of node '' @ myNodeName\<rparr>, n))"

definition server_Cleanup ::
  "'w netlink \<Rightarrow> AddressInfo list \<Rightarrow> 'w node \<Rightarrow> (ext_error + grpc_result) \<times> 'w node" where
  "server_Cleanup NL toKeep n =
     (let (err, n) = observer_Cleanup NL toKeep n
      in case err of
           Some e \<Rightarrow> (Inl (grpc_internal e), n)
         | None \<Rightarrow> (Inr \<lparr>Done = True, ResultMessage = ''Cleanup completed''\<rparr>, n))"

definition HealthProbe :: "string \<Rightarrow> string" where
  "HealthProbe ping = ''PONG''"

section \<open>What netlink does\<close>

text \<open>
  \<open>view w n\<close> are the addresses of the interface \<open>n\<close>. Reading calls do not change them and
  return them; \<open>AddrDel\<close> removes at most the given address of the given link; \<open>AddrAdd\<close>
  removes nothing, and the address is there after it when it succeeds or answers that it
  exists.
\<close>

definition added_ok :: "ext_error option \<Rightarrow> bool" where
  "added_ok err = (case err of None \<Rightarrow> True | Some e \<Rightarrow> ext_message e = ''file exists'')"

definition has_ip :: "('w \<Rightarrow> string \<Rightarrow> addr list) \<Rightarrow> 'w \<Rightarrow> string \<Rightarrow> string \<Rightarrow> bool" where
  "has_ip view w n x \<longleftrightarrow> x \<in> AddrIP ` set (view w n)"

definition netlink_ok :: "'w netlink \<Rightarrow> ('w \<Rightarrow> string \<Rightarrow> addr list) \<Rightarrow> bool" where
  "netlink_ok NL view \<longleftrightarrow>
     (\<forall>w. view (snd (LinkList NL w)) = view w) \<and>
     (\<forall>x w. view (snd (LinkByName NL x w)) = view w \<and>
        (\<forall>l. fst (LinkByName NL x w) = Inr l \<longrightarrow> LinkName l = x)) \<and>
     (\<forall>l w. view (snd (AddrList NL l w)) = view w \<and>
        (\<forall>as. fst (AddrList NL l w) = Inr as \<longrightarrow> as = view w (LinkName l))) \<and>
     (\<forall>l a w n b. b \<in> set (view w n) \<longrightarrow> b \<notin> set (view (snd (AddrDel NL l a w)) n) \<longrightarrow>
        n = LinkName l \<and> b = a) \<and>
     (\<forall>l e w n. set (view w n) \<subseteq> set (view (snd (AddrAdd NL l e w)) n)) \<and>
     (\<forall>l e w bs. added_ok (fst (AddrAdd NL l e w)) \<longrightarrow> NewIP e = Some (IPv4 bs) \<longrightarrow>
        has_ip view (snd (AddrAdd NL l e w)) (LinkName l) (dotted bs))"

lemma netlink_okD:
  assumes "netlink_ok NL view"
  shows LinkList_view: "LinkList NL w = (r, w') \<Longrightarrow> view w' = view w"
    and LinkByName_view: "LinkByName NL x w = (r', w') \<Longrightarrow> view w' = view w"
    and LinkByName_name: "LinkByName NL x w = (Inr l, w') \<Longrightarrow> LinkName l = x"
    and AddrList_view: "AddrList NL l w = (r'', w') \<Longrightarrow> view w' = view w"
    and AddrList_eq: "AddrList NL l w = (Inr as, w') \<Longrightarrow> as = view w (LinkName l)"
    and AddrDel_view: "AddrDel NL l a w = (err, w') \<Longrightarrow> b \<in> set (view w n) \<Longrightarrow>
      b \<notin> set (view w' n) \<Longrightarrow> n = LinkName l \<and> b = a"
    and AddrAdd_view: "AddrAdd NL l e w = (err, w') \<Longrightarrow> set (view w n) \<subseteq> set (view w' n)"
    and AddrAdd_ok: "AddrAdd NL l e w = (err, w') \<Longrightarrow> added_ok err \<Longrightarrow> NewIP e = Some (IPv4 bs) \<Longrightarrow>
      has_ip view w' (LinkName l) (dotted bs)"
  using assms unfolding netlink_ok_def by (metis fst_conv snd_conv)+

lemma has_ip_mono: "set (view w n) \<subseteq> set (view w' n) \<Longrightarrow> has_ip view w n x \<Longrightarrow> has_ip view w' n x"
  by (auto simp: has_ip_def)

lemma has_address_iff [simp]: "has_address x addrs \<longleftrightarrow> x \<in> AddrIP ` set addrs"
  by (induction addrs) auto

section \<open>Cleaning deletes only what is ours\<close>

definition ours_unkept :: "AddressInfo list \<Rightarrow> string \<Rightarrow> addr \<Rightarrow> bool" where
  "ours_unkept keep n a \<longleftrightarrow> AddrLabel a = n @ '':pllb'' \<and>
     \<lparr>InfoAddress = AddrIP a, InfoInterface = n\<rparr> \<notin> set keep"

lemma cleanup_addresses_only:
  assumes ok: "netlink_ok NL view"
  shows "a \<in> set (view w n) \<Longrightarrow> a \<notin> set (view (cleanup_addresses NL keep link as w) n) \<Longrightarrow>
    ours_unkept keep n a"
proof (induction as arbitrary: w)
  case Nil
  then show ?case by simp
next
  case (Cons x rest)
  show ?case
  proof (cases "AddrLabel x = composeLinkLabel link \<and>
      \<not> ContainsAddressInfo keep (LinkName link) (AddrIP x)")
    case True
    show ?thesis
    proof (cases "a \<in> set (view (snd (AddrDel NL link x w)) n)")
      case True
      with Cons \<open>AddrLabel x = composeLinkLabel link \<and> _\<close> show ?thesis by simp
    next
      case False
      then have "n = LinkName link \<and> a = x"
        using AddrDel_view [OF ok, of link x w _ _ a n] Cons.prems(1) by (metis prod.collapse)
      with True show ?thesis
        by (simp add: ours_unkept_def composeLinkLabel_def labelName_def)
    qed
  next
    case False
    with Cons.prems have "a \<notin> set (view (cleanup_addresses NL keep link rest w) n)"
      by auto
    with Cons show ?thesis by blast
  qed
qed

lemma cleanup_links_only:
  assumes ok: "netlink_ok NL view"
  shows "a \<in> set (view w n) \<Longrightarrow> a \<notin> set (view (snd (cleanup_links NL keep ls w)) n) \<Longrightarrow>
    ours_unkept keep n a"
proof (induction ls arbitrary: w)
  case Nil
  then show ?case by simp
next
  case (Cons l ls)
  obtain r w1 where r: "AddrList NL l w = (r, w1)" by (metis prod.exhaust)
  then have v: "view w1 = view w" by (rule AddrList_view [OF ok])
  show ?case
  proof (cases r)
    case (Inl e)
    with r v Cons.prems show ?thesis by (simp add: Let_def)
  next
    case (Inr as)
    show ?thesis
    proof (cases "a \<in> set (view (cleanup_addresses NL keep l as w1) n)")
      case True
      with Cons r Inr show ?thesis by (simp add: Let_def)
    next
      case False
      moreover from v Cons.prems(1) have "a \<in> set (view w1 n)" by simp
      ultimately show ?thesis by (intro cleanup_addresses_only [OF ok])
    qed
  qed
qed

lemma network_Cleanup_only:
  assumes ok: "netlink_ok NL view" and "network_Cleanup NL keep w = (err, w')"
    and "a \<in> set (view w n)" and "a \<notin> set (view w' n)"
  shows "ours_unkept keep n a"
proof -
  obtain r w1 where r: "LinkList NL w = (r, w1)" by (metis prod.exhaust)
  then have v: "view w1 = view w" by (rule LinkList_view [OF ok])
  show ?thesis
  proof (cases r)
    case (Inl e)
    with r v assms show ?thesis by (simp add: network_Cleanup_def Let_def)
  next
    case (Inr ls)
    with r assms(2) have "w' = snd (cleanup_links NL keep ls w1)"
      by (simp add: network_Cleanup_def Let_def)
    with v assms(3,4) show ?thesis by (intro cleanup_links_only [OF ok, of a w1]) simp_all
  qed
qed

section \<open>Adding, removing and restoring\<close>

lemma network_AddAddress_mono:
  assumes ok: "netlink_ok NL view" and "network_AddAddress NL i x w = (err, w')"
  shows "set (view w n) \<subseteq> set (view w' n)"
proof -
  obtain r w1 where r: "LinkByName NL i w = (r, w1)" by (metis prod.exhaust)
  then have v: "view w1 = view w" by (rule LinkByName_view [OF ok])
  show ?thesis
  proof (cases r)
    case (Inl e)
    with assms(2) r v show ?thesis
      by (simp add: network_AddAddress_def getInterfaceByName_def Let_def)
  next
    case (Inr l)
    let ?e = "\<lparr>NewIP = ParseIP x, NewMask = [255, 255, 255, 255], NewScope = 253,
      NewLabel = composeLinkLabel l\<rparr>"
    obtain e2 w2 where e: "AddrAdd NL l ?e w1 = (e2, w2)" by (metis prod.exhaust)
    with assms(2) r Inr have "w' = w2"
      by (auto simp: network_AddAddress_def getInterfaceByName_def Let_def
          split: option.splits if_splits)
    then show ?thesis using AddrAdd_view [OF ok e, of n] v by simp
  qed
qed

lemma network_AddAddress_present:
  assumes ok: "netlink_ok NL view" and "network_AddAddress NL i x w = (None, w')"
    and "ParseIP x = Some (IPv4 bs)"
  shows "has_ip view w' i (dotted bs)"
  using assms(2,3)
  by (auto simp: network_AddAddress_def getInterfaceByName_def Let_def added_ok_def
      split: sum.splits prod.splits option.splits if_splits
      dest!: AddrAdd_ok [OF ok, of _ _ _ _ _ bs] LinkByName_name [OF ok])

lemma IsAddressOnInterface_correct:
  assumes ok: "netlink_ok NL view" and "IsAddressOnInterface NL info w = ((b, err), w')"
  shows "view w' = view w" "err = None \<Longrightarrow> b \<longleftrightarrow> has_ip view w (InfoInterface info) (InfoAddress info)"
proof -
  obtain r w1 where r: "LinkByName NL (InfoInterface info) w = (r, w1)" by (metis prod.exhaust)
  note v = LinkByName_view [OF ok r]
  have "view w' = view w \<and> (err = None \<longrightarrow> b = has_ip view w (InfoInterface info) (InfoAddress info))"
  proof (cases r)
    case (Inl e)
    with assms(2) r v show ?thesis
      by (auto simp: IsAddressOnInterface_def getInterfaceByName_def Let_def)
  next
    case (Inr l)
    obtain r2 w2 where r2: "AddrList NL l w1 = (r2, w2)" by (metis prod.exhaust)
    note v2 = AddrList_view [OF ok r2]
    show ?thesis
    proof (cases r2)
      case (Inl e)
      with assms(2) r r2 v v2 \<open>r = Inr l\<close> show ?thesis
        by (auto simp: IsAddressOnInterface_def getInterfaceByName_def Let_def)
    next
      case (Inr as)
      have "as = view w (InfoInterface info)"
        using AddrList_eq [OF ok] LinkByName_name [OF ok] r r2 v Inr \<open>r = Inr l\<close> by metis
      with assms(2) r r2 v v2 Inr \<open>r = Inr l\<close> show ?thesis
        by (simp add: IsAddressOnInterface_def getInterfaceByName_def Let_def has_ip_def)
    qed
  qed
  then show "view w' = view w"
    "err = None \<Longrightarrow> b \<longleftrightarrow> has_ip view w (InfoInterface info) (InfoAddress info)" by auto
qed

definition dotted_quad :: "string \<Rightarrow> bool" where
  "dotted_quad x \<longleftrightarrow> (\<exists>a b c d. a < 256 \<and> b < 256 \<and> c < 256 \<and> d < 256 \<and> x = dotted [a, b, c, d])"

lemma dotted_quad_ParseIP: "dotted_quad x \<Longrightarrow> \<exists>bs. ParseIP x = Some (IPv4 bs) \<and> x = dotted bs"
  unfolding dotted_quad_def using ParseIP_dotted by blast

lemma network_AddAddress_dotted:
  assumes "netlink_ok NL view" and "network_AddAddress NL i x w = (None, w')" and "dotted_quad x"
  shows "has_ip view w' i x"
  using dotted_quad_ParseIP [OF assms(3)] network_AddAddress_present [OF assms(1,2)] by blast

definition holds :: "('w \<Rightarrow> string \<Rightarrow> addr list) \<Rightarrow> 'w \<Rightarrow> AddressInfo \<Rightarrow> bool" where
  "holds view w info \<longleftrightarrow> has_ip view w (InfoInterface info) (InfoAddress info)"

lemma restore_missing_mono:
  assumes ok: "netlink_ok NL view"
  shows "restore_missing NL infos w = (err, w') \<Longrightarrow> set (view w n) \<subseteq> set (view w' n)"
proof (induction infos arbitrary: w)
  case Nil
  then show ?case by simp
next
  case (Cons i infos)
  obtain e w1 where e: "network_AddAddress NL (InfoInterface i) (InfoAddress i) w = (e, w1)"
    by (metis prod.exhaust)
  from Cons.prems e network_AddAddress_mono [OF ok e, of n] Cons.IH [of w1] show ?case
    by (auto simp: Let_def split: if_splits)
qed

lemma restore_missing_holds:
  assumes ok: "netlink_ok NL view"
  shows "restore_missing NL infos w = (None, w') \<Longrightarrow> info \<in> set infos \<Longrightarrow>
    dotted_quad (InfoAddress info) \<Longrightarrow> holds view w' info"
proof (induction infos arbitrary: w)
  case Nil
  then show ?case by simp
next
  case (Cons i infos)
  obtain e w1 where e: "network_AddAddress NL (InfoInterface i) (InfoAddress i) w = (e, w1)"
    by (metis prod.exhaust)
  with Cons.prems have e0: "e = None" and rest: "restore_missing NL infos w1 = (None, w')"
    by (auto simp: Let_def split: if_splits)
  show ?case
  proof (cases "info = i")
    case True
    then have "has_ip view w1 (InfoInterface info) (InfoAddress info)"
      using network_AddAddress_dotted [OF ok] e e0 Cons.prems(3) by blast
    then show ?thesis
      unfolding holds_def by (rule has_ip_mono [rotated]) (rule restore_missing_mono [OF ok rest])
  next
    case False
    with Cons rest show ?thesis by auto
  qed
qed

text \<open>After a successful cleanup the list is the one asked for and every address of it is on
  its interface.\<close>

lemma observer_Cleanup_holds:
  assumes ok: "netlink_ok NL view" and "observer_Cleanup NL keep n = (None, n')"
  shows "assignedAddressesList n' = keep"
    "\<forall>info \<in> set keep. dotted_quad (InfoAddress info) \<longrightarrow> holds view (nworld n') info"
  using assms(2)
  by (auto simp: observer_Cleanup_def Let_def split: prod.splits if_splits
      dest: restore_missing_holds [OF ok])

lemma check_assigned_mono:
  assumes ok: "netlink_ok NL view"
  shows "set (view w n) \<subseteq> set (view (check_assigned NL infos w) n)"
proof (induction infos arbitrary: w)
  case Nil
  then show ?case by simp
next
  case (Cons i infos)
  obtain b e w1 where e: "IsAddressOnInterface NL i w = ((b, e), w1)" by (metis prod.exhaust)
  obtain e2 w2 where e2: "network_AddAddress NL (InfoInterface i) (InfoAddress i) w1 = (e2, w2)"
    by (metis prod.exhaust)
  show ?case
    using IsAddressOnInterface_correct(1) [OF ok e] network_AddAddress_mono [OF ok e2, of n]
      Cons.IH [of w1] Cons.IH [of w2]
    by (auto simp: e e2 Let_def)
qed

text \<open>Netlink answers every request, and adding an address succeeds or finds it there.\<close>

definition netlink_up :: "'w netlink \<Rightarrow> bool" where
  "netlink_up NL \<longleftrightarrow> (\<forall>x w. isl (fst (LinkByName NL x w)) = False) \<and>
     (\<forall>l w. isl (fst (AddrList NL l w)) = False) \<and> (\<forall>l e w. added_ok (fst (AddrAdd NL l e w)))"

lemma netlink_upD:
  assumes "netlink_up NL"
  shows "LinkByName NL x w = (r, w') \<Longrightarrow> \<exists>l. r = Inr l"
    and "AddrList NL l w = (r', w') \<Longrightarrow> \<exists>as. r' = Inr as"
    and "AddrAdd NL l e w = (err, w') \<Longrightarrow> added_ok err"
proof -
  show "LinkByName NL x w = (r, w') \<Longrightarrow> \<exists>l. r = Inr l"
    using assms unfolding netlink_up_def by (cases r) (auto, metis fst_conv isl_def)
  show "AddrList NL l w = (r', w') \<Longrightarrow> \<exists>as. r' = Inr as"
    using assms unfolding netlink_up_def by (cases r') (auto, metis fst_conv isl_def)
  show "AddrAdd NL l e w = (err, w') \<Longrightarrow> added_ok err"
    using assms unfolding netlink_up_def by (metis fst_conv)
qed

lemma network_AddAddress_up:
  "netlink_up NL \<Longrightarrow> network_AddAddress NL i x w = (err, w') \<Longrightarrow> err = None"
  by (auto simp: network_AddAddress_def getInterfaceByName_def Let_def added_ok_def
      split: sum.splits prod.splits option.splits if_splits dest: netlink_upD)

lemma IsAddressOnInterface_up:
  "netlink_up NL \<Longrightarrow> IsAddressOnInterface NL info w = ((b, err), w') \<Longrightarrow> err = None"
  by (auto simp: IsAddressOnInterface_def getInterfaceByName_def Let_def
      split: sum.splits prod.splits dest: netlink_upD)

lemma check_assigned_holds:
  assumes ok: "netlink_ok NL view" and up: "netlink_up NL"
  shows "info \<in> set infos \<Longrightarrow> dotted_quad (InfoAddress info) \<Longrightarrow>
    holds view (check_assigned NL infos w) info"
proof (induction infos arbitrary: w)
  case Nil
  then show ?case by simp
next
  case (Cons i infos)
  obtain b e w1 where e: "IsAddressOnInterface NL i w = ((b, e), w1)" by (metis prod.exhaust)
  obtain e2 w2 where e2: "network_AddAddress NL (InfoInterface i) (InfoAddress i) w1 = (e2, w2)"
    by (metis prod.exhaust)
  have none: "e = None" "e2 = None"
    using IsAddressOnInterface_up [OF up e] network_AddAddress_up [OF up e2] by auto
  let ?w = "if b then w1 else w2"
  have step: "check_assigned NL (i # infos) w = check_assigned NL infos ?w"
    using e e2 none by (simp add: Let_def)
  show ?case
  proof (cases "info = i")
    case True
    then have "has_ip view ?w (InfoInterface info) (InfoAddress info)"
      using IsAddressOnInterface_correct [OF ok e] none Cons.prems(2) e2
        network_AddAddress_dotted [OF ok, of "InfoInterface i" "InfoAddress i" w1 w2]
      by (auto simp: has_ip_def)
    then show ?thesis
      unfolding holds_def step by (rule has_ip_mono [rotated]) (rule check_assigned_mono [OF ok])
  next
    case False
    with Cons.prems have "info \<in> set infos" by simp
    then show ?thesis unfolding step by (rule Cons.IH) (rule Cons.prems)
  qed
qed

section \<open>The list of the observer\<close>

datatype node_op = AddOp AddressInfo | RemoveOp AddressInfo | CleanupOp "AddressInfo list" | UpdateOp

definition node_step :: "'w netlink \<Rightarrow> node_op \<Rightarrow> 'w node \<Rightarrow> 'w node" where
  "node_step NL oper n =
     (case oper of
        AddOp info \<Rightarrow> snd (observer_AddAddress NL info n)
      | RemoveOp info \<Rightarrow> snd (observer_RemoveAddress NL info n)
      | CleanupOp keep \<Rightarrow> snd (observer_Cleanup NL keep n)
      | UpdateOp \<Rightarrow> (case processAddressUpdate NL False n of None \<Rightarrow> n | Some n' \<Rightarrow> n'))"

lemma observer_AddAddress_list:
  assumes "observer_AddAddress NL info n = (err, n')"
  shows "assignedAddressesList n' =
    (if err = None \<and> info \<notin> set (assignedAddressesList n) then assignedAddressesList n @ [info]
     else assignedAddressesList n)"
  using assms by (cases info) (auto simp: observer_AddAddress_def Let_def split: prod.splits if_splits)

lemma observer_RemoveAddress_list:
  assumes "observer_RemoveAddress NL info n = (err, n')"
  shows "assignedAddressesList n' =
    (if err = None then filter (\<lambda>a. a \<noteq> info) (assignedAddressesList n) else assignedAddressesList n)"
proof -
  have "(InfoAddress a \<noteq> InfoAddress info \<or> InfoInterface a \<noteq> InfoInterface info) = (a \<noteq> info)" for a
    by (cases a; cases info) auto
  then have eq: "(\<lambda>a. InfoAddress a \<noteq> InfoAddress info \<or> InfoInterface a \<noteq> InfoInterface info) =
    (\<lambda>a. a \<noteq> info)" by (rule ext)
  obtain e w where e: "network_DeleteAddress NL (InfoInterface info) (InfoAddress info) (nworld n) = (e, w)"
    by (metis prod.exhaust)
  from assms show ?thesis
    unfolding observer_RemoveAddress_def e Let_def eq by (cases e) auto
qed

lemma observer_Cleanup_list:
  assumes "observer_Cleanup NL keep n = (err, n')"
  shows "assignedAddressesList n' = (if err = None then keep else assignedAddressesList n)"
  using assms by (auto simp: observer_Cleanup_def Let_def split: prod.splits if_splits)

lemma node_step_distinct:
  assumes "distinct (assignedAddressesList n)" and "\<And>keep. oper = CleanupOp keep \<Longrightarrow> distinct keep"
  shows "distinct (assignedAddressesList (node_step NL oper n))"
proof (cases oper)
  case (AddOp info)
  then show ?thesis
    using assms observer_AddAddress_list [of NL info n "fst (observer_AddAddress NL info n)"]
    by (simp add: node_step_def)
next
  case (RemoveOp info)
  then show ?thesis
    using assms observer_RemoveAddress_list [of NL info n "fst (observer_RemoveAddress NL info n)"]
    by (simp add: node_step_def)
next
  case (CleanupOp keep)
  then show ?thesis
    using assms observer_Cleanup_list [of NL keep n "fst (observer_Cleanup NL keep n)"]
    by (simp add: node_step_def)
next
  case UpdateOp
  then show ?thesis using assms by (simp add: node_step_def processAddressUpdate_def)
qed

end
