(* ===== verification/Node_Calls.thy ===== *)
theory Node_Calls
  imports Effects Node_Agent
begin

text \<open>
  The controller and the operators together: the gRPC calls of the controller's environment
  are served by the operators' server (\<open>pkg/operator/server/server.go\<close>), each on its node.
\<close>

text \<open>\<open>nodes w t\<close> is the operator that listens on target \<open>t\<close>. A call that the client sees
  succeed has been handled by the server, which returned a result.\<close>

definition grpc_served :: "'w env \<Rightarrow> ('w \<Rightarrow> string \<Rightarrow> 'v node) \<Rightarrow> 'v netlink \<Rightarrow> bool" where
  "grpc_served E nodes NL \<longleftrightarrow> (\<forall>t info w w'. grpc_AddAddress E t info w = (None, w') \<longrightarrow>
     (\<exists>myNodeName r. server_AddAddress NL myNodeName info (nodes w t) = (Inr r, nodes w' t)))"

lemma server_AddAddress_holds:
  assumes ok: "netlink_ok NL view" and "server_AddAddress NL me info n = (Inr r, n')"
    and "dotted_quad (InfoAddress info)"
  shows "holds view (nworld n') info" and "info \<in> set (assignedAddressesList n')"
    and "holds view (nworld n) j \<Longrightarrow> holds view (nworld n') j"
proof -
  from assms(2) have o: "observer_AddAddress NL info n = (None, n')"
    by (auto simp: server_AddAddress_def split: prod.split_asm option.split_asm)
  then have a: "network_AddAddress NL (InfoInterface info) (InfoAddress info) (nworld n) = (None, nworld n')"
    by (auto simp: observer_AddAddress_def Let_def split: prod.split_asm if_split_asm)
  from network_AddAddress_dotted [OF ok a assms(3)] show "holds view (nworld n') info"
    by (simp add: holds_def)
  from observer_AddAddress_list [OF o] show "info \<in> set (assignedAddressesList n')" by auto
  show "holds view (nworld n) j \<Longrightarrow> holds view (nworld n') j"
    using network_AddAddress_mono [OF ok a, of "InfoInterface j"] by (auto simp: holds_def has_ip_def)
qed

lemma added_holds:
  assumes "added E t info s s'" and "grpc_served E nodes NL" and "netlink_ok NL view"
    and "dotted_quad (InfoAddress info)"
  shows "\<exists>w. calls E (world s) w \<and> calls E w (world s') \<and>
    holds view (nworld (nodes w t)) info \<and> info \<in> set (assignedAddressesList (nodes w t))"
proof -
  from assms(1) obtain w1 w2 where c1: "calls E (world s) w1"
    and add: "grpc_AddAddress E t info w1 = (None, w2)" and c2: "calls E w2 (world s')"
    unfolding added_def by blast
  from assms(2) add obtain me r where sv: "server_AddAddress NL me info (nodes w1 t) = (Inr r, nodes w2 t)"
    unfolding grpc_served_def by blast
  from step_calls [OF add_call, of E w1 t info] add have "calls E w1 w2" by simp
  with c1 have "calls E (world s) w2" by (rule calls_trans)
  with c2 server_AddAddress_holds [OF assms(3) sv assms(4)] show ?thesis by blast
qed

end
