(* ===== verification/Node_Watch.thy ===== *)
theory Node_Watch
  imports Node_Agent
begin

text \<open>
  The watch of an operator over its addresses (\<open>Run\<close>, \<open>watchAddrUpdate\<close> and
  \<open>subscribeAddrUpdate\<close> of \<open>pkg/operator/observer/observer.go\<close>): the calls of the controller,
  changes made by anybody else on the node and the loop over netlink's notifications, in any
  order. The mutex of the observer makes each of them one step.
\<close>

text \<open>\<open>chAddrUpdate\<close> is the number of notifications that wait in the channel.\<close>

record 'v agent =
  agent_node :: "'v node"
  chAddrUpdate :: nat

text \<open>The subscription is a call of netlink; a failure ends the process.\<close>

definition subscribeAddrUpdate :: "ext_error option \<Rightarrow> go_error option" where
  "subscribeAddrUpdate subscription = map_option Ext subscription"

definition observer_Run :: "ext_error option \<Rightarrow> 'v node \<Rightarrow> 'v agent option" where
  "observer_Run subscription n =
     (let err = subscribeAddrUpdate subscription
      in if err \<noteq> None then None else Some \<lparr>agent_node = n, chAddrUpdate = 0\<rparr>)"

text \<open>One turn of the loop over the channel; \<open>None\<close>: nothing to receive, or the process ended.\<close>

definition watchAddrUpdate_turn :: "'v netlink \<Rightarrow> bool \<Rightarrow> 'v agent \<Rightarrow> 'v agent option" where
  "watchAddrUpdate_turn NL timeout a =
     (case chAddrUpdate a of
        0 \<Rightarrow> None
      | Suc k \<Rightarrow> do { n \<leftarrow> processAddressUpdate NL timeout (agent_node a);
                     Some \<lparr>agent_node = n, chAddrUpdate = k\<rparr> })"

text \<open>Netlink notifies of every change of an address, whoever made it; other notifications may
  come as well.\<close>

definition notified :: "('v \<Rightarrow> string \<Rightarrow> addr list) \<Rightarrow> 'v \<Rightarrow> 'v \<Rightarrow> nat \<Rightarrow> bool" where
  "notified view w w' k \<longleftrightarrow> (view w' \<noteq> view w \<longrightarrow> 0 < k)"

inductive agent_step :: "'v netlink \<Rightarrow> ('v \<Rightarrow> string \<Rightarrow> addr list) \<Rightarrow> 'v agent \<Rightarrow> 'v agent \<Rightarrow> bool"
  for NL :: "'v netlink" and view :: "'v \<Rightarrow> string \<Rightarrow> addr list" where
  grpc_add: "observer_AddAddress NL info (agent_node a) = (err, n) \<Longrightarrow>
     notified view (nworld (agent_node a)) (nworld n) k \<Longrightarrow>
     agent_step NL view a \<lparr>agent_node = n, chAddrUpdate = chAddrUpdate a + k\<rparr>"
| grpc_remove: "observer_RemoveAddress NL info (agent_node a) = (err, n) \<Longrightarrow>
     notified view (nworld (agent_node a)) (nworld n) k \<Longrightarrow>
     agent_step NL view a \<lparr>agent_node = n, chAddrUpdate = chAddrUpdate a + k\<rparr>"
| grpc_cleanup: "observer_Cleanup NL keep (agent_node a) = (err, n) \<Longrightarrow>
     notified view (nworld (agent_node a)) (nworld n) k \<Longrightarrow>
     agent_step NL view a \<lparr>agent_node = n, chAddrUpdate = chAddrUpdate a + k\<rparr>"
| outside: "notified view (nworld (agent_node a)) w k \<Longrightarrow>
     agent_step NL view a \<lparr>agent_node = (agent_node a)\<lparr>nworld := w\<rparr>, chAddrUpdate = chAddrUpdate a + k\<rparr>"
| watch: "watchAddrUpdate_turn NL timeout a = Some b \<Longrightarrow>
     notified view (nworld (agent_node a)) (nworld (agent_node b)) k \<Longrightarrow>
     agent_step NL view a (b\<lparr>chAddrUpdate := chAddrUpdate b + k\<rparr>)"

definition agent_reachable :: "'v netlink \<Rightarrow> ('v \<Rightarrow> string \<Rightarrow> addr list) \<Rightarrow> 'v agent \<Rightarrow> bool" where
  "agent_reachable NL view a \<longleftrightarrow>
     (\<exists>w a0. observer_Run None \<lparr>nworld = w, assignedAddressesList = []\<rparr> = Some a0 \<and>
        (agent_step NL view)\<^sup>*\<^sup>* a0 a)"

section \<open>The node heals\<close>

definition all_held :: "('v \<Rightarrow> string \<Rightarrow> addr list) \<Rightarrow> 'v node \<Rightarrow> bool" where
  "all_held view n \<longleftrightarrow>
     (\<forall>info \<in> set (assignedAddressesList n). dotted_quad (InfoAddress info) \<longrightarrow> holds view (nworld n) info)"

text \<open>Either a notification waits, or nothing is missing.\<close>

definition agent_inv :: "('v \<Rightarrow> string \<Rightarrow> addr list) \<Rightarrow> 'v agent \<Rightarrow> bool" where
  "agent_inv view a \<longleftrightarrow> 0 < chAddrUpdate a \<or> all_held view (agent_node a)"

lemma holds_view: "view w' = view w \<Longrightarrow> holds view w' info = holds view w info"
  by (simp add: holds_def has_ip_def)

lemma all_held_subset:
  "view (nworld n') = view (nworld n) \<Longrightarrow> set (assignedAddressesList n') \<subseteq> set (assignedAddressesList n) \<Longrightarrow>
     all_held view n \<Longrightarrow> all_held view n'"
  by (auto simp: all_held_def holds_view [of view "nworld n'" "nworld n"])

text \<open>A call of the controller that changes no address keeps what is held.\<close>

lemma calls_keep_held:
  assumes ok: "netlink_ok NL view" and v: "view (nworld n') = view (nworld n)" and held: "all_held view n"
  shows "observer_AddAddress NL info n = (err, n') \<Longrightarrow> all_held view n'"
    and "observer_RemoveAddress NL info n = (err, n') \<Longrightarrow> all_held view n'"
    and "observer_Cleanup NL keep n = (err, n') \<Longrightarrow> all_held view n'"
proof -
  assume a: "observer_AddAddress NL info n = (err, n')"
  show "all_held view n'"
  proof (cases err)
    case None
    with a have "network_AddAddress NL (InfoInterface info) (InfoAddress info) (nworld n) = (None, nworld n')"
      by (auto simp: observer_AddAddress_def Let_def split: prod.split_asm if_split_asm)
    from network_AddAddress_dotted [OF ok this] have "dotted_quad (InfoAddress info) \<Longrightarrow> holds view (nworld n') info"
      by (simp add: holds_def)
    with held observer_AddAddress_list [OF a] show ?thesis
      by (auto simp: all_held_def holds_view [of view "nworld n'" "nworld n", OF v])
  next
    case (Some e)
    with held v observer_AddAddress_list [OF a] show ?thesis by (intro all_held_subset [of view n' n]) auto
  qed
next
  assume a: "observer_RemoveAddress NL info n = (err, n')"
  from held v observer_RemoveAddress_list [OF a] show "all_held view n'"
    by (intro all_held_subset [of view n' n]) auto
next
  assume a: "observer_Cleanup NL keep n = (err, n')"
  show "all_held view n'"
  proof (cases err)
    case None
    with observer_Cleanup_holds [OF ok] a show ?thesis by (auto simp: all_held_def)
  next
    case (Some e)
    with held v observer_Cleanup_list [OF a] show ?thesis by (intro all_held_subset [of view n' n]) auto
  qed
qed

text \<open>A change is notified, so only steps that change no address matter.\<close>

lemma notified_inv:
  assumes "agent_inv view a" and "notified view (nworld (agent_node a)) (nworld n) k"
    and "view (nworld n) = view (nworld (agent_node a)) \<Longrightarrow> all_held view (agent_node a) \<Longrightarrow> all_held view n"
  shows "agent_inv view \<lparr>agent_node = n, chAddrUpdate = chAddrUpdate a + k\<rparr>"
  using assms by (cases "0 < chAddrUpdate a + k") (simp_all add: agent_inv_def notified_def)

lemma agent_step_inv:
  assumes ok: "netlink_ok NL view" and up: "netlink_up NL" and "agent_step NL view a b" and inv: "agent_inv view a"
  shows "agent_inv view b"
  using assms(3)
proof cases
  case (grpc_add info err n k)
  show ?thesis unfolding grpc_add(1)
    by (rule notified_inv [OF inv grpc_add(3)]) (rule calls_keep_held(1) [OF ok _ _ grpc_add(2)])
next
  case (grpc_remove info err n k)
  show ?thesis unfolding grpc_remove(1)
    by (rule notified_inv [OF inv grpc_remove(3)]) (rule calls_keep_held(2) [OF ok _ _ grpc_remove(2)])
next
  case (grpc_cleanup keep err n k)
  show ?thesis unfolding grpc_cleanup(1)
    by (rule notified_inv [OF inv grpc_cleanup(3)]) (rule calls_keep_held(3) [OF ok _ _ grpc_cleanup(2)])
next
  case (outside w k)
  show ?thesis unfolding outside(1)
    by (rule notified_inv [OF inv]) (use outside(2) in \<open>auto intro: all_held_subset [of view _ "agent_node a"]\<close>)
next
  case (watch timeout b' k)
  then obtain n where n: "processAddressUpdate NL timeout (agent_node a) = Some n" and b: "agent_node b' = n"
    by (auto simp: watchAddrUpdate_turn_def elim!: bind_SomeE split: nat.split_asm)
  from n have "all_held view n"
    by (auto simp: processAddressUpdate_def all_held_def check_assigned_holds [OF ok up] split: if_split_asm)
  with watch(1) b show ?thesis by (simp add: agent_inv_def)
qed

lemma agent_reachable_inv:
  assumes "netlink_ok NL view" and "netlink_up NL" and "agent_reachable NL view a"
  shows "agent_inv view a"
proof -
  from assms(3) obtain w a0 where a0: "observer_Run None \<lparr>nworld = w, assignedAddressesList = []\<rparr> = Some a0"
    and run: "(agent_step NL view)\<^sup>*\<^sup>* a0 a" unfolding agent_reachable_def by blast
  from a0 have "agent_inv view a0"
    by (auto simp: observer_Run_def subscribeAddrUpdate_def agent_inv_def all_held_def)
  with run show ?thesis
    by (induction rule: rtranclp_induct) (auto intro: agent_step_inv [OF assms(1,2)])
qed

text \<open>Where nothing is missing a further notification changes nothing, so the work ends.\<close>

lemma check_assigned_idle:
  assumes ok: "netlink_ok NL view" and up: "netlink_up NL"
  shows "(\<forall>info \<in> set infos. holds view w info) \<Longrightarrow> view (check_assigned NL infos w) = view w"
proof (induction infos arbitrary: w)
  case Nil
  then show ?case by simp
next
  case (Cons i infos)
  obtain b e w1 where e: "IsAddressOnInterface NL i w = ((b, e), w1)" by (metis prod.exhaust)
  note c = IsAddressOnInterface_correct [OF ok e]
  have "e = None" using IsAddressOnInterface_up [OF up e] .
  with c Cons.prems have "b" "view w1 = view w" by (simp_all add: holds_def)
  with Cons.IH [of w1] Cons.prems e \<open>e = None\<close> show ?case
    by (simp add: holds_view [of view w1 w])
qed

end
