(* ===== verification/Node_Liveness.thy ===== *)
theory Node_Liveness
  imports Node_Watch
begin

text \<open>
  What the loop of \<open>watchAddrUpdate\<close> (\<open>pkg/operator/observer/observer.go\<close>) achieves in the end:
  infinite executions of an operator, fairness of the loop, and the state in which it rests.
\<close>

text \<open>The life of an operator: at each instant a step of \<open>agent_step\<close>, or none.\<close>

definition agent_execution ::
  "'v netlink \<Rightarrow> ('v \<Rightarrow> string \<Rightarrow> addr list) \<Rightarrow> (nat \<Rightarrow> 'v agent) \<Rightarrow> bool" where
  "agent_execution NL view run \<longleftrightarrow>
     (\<exists>w. observer_Run None \<lparr>nworld = w, assignedAddressesList = []\<rparr> = Some (run 0)) \<and>
     (\<forall>i. agent_step NL view (run i) (run (Suc i)) \<or> run (Suc i) = run i)"

text \<open>A turn of the loop that nothing disturbs: netlink notifies of what the turn itself
  changes, and of nothing else.\<close>

definition quiet_turn ::
  "'v netlink \<Rightarrow> ('v \<Rightarrow> string \<Rightarrow> addr list) \<Rightarrow> 'v agent \<Rightarrow> 'v agent \<Rightarrow> bool" where
  "quiet_turn NL view a b \<longleftrightarrow>
     (\<exists>b0 k. watchAddrUpdate_turn NL False a = Some b0 \<and> b = b0\<lparr>chAddrUpdate := chAddrUpdate b0 + k\<rparr> \<and>
        (0 < k \<longleftrightarrow> view (nworld (agent_node b0)) \<noteq> view (nworld (agent_node a))))"

text \<open>From instant \<open>m\<close> on only the loop acts. It may rest for any time, but not forever while a
  notification waits (weak fairness).\<close>

definition quiet_from ::
  "'v netlink \<Rightarrow> ('v \<Rightarrow> string \<Rightarrow> addr list) \<Rightarrow> nat \<Rightarrow> (nat \<Rightarrow> 'v agent) \<Rightarrow> bool" where
  "quiet_from NL view m run \<longleftrightarrow>
     (\<forall>i \<ge> m. quiet_turn NL view (run i) (run (Suc i)) \<or> run (Suc i) = run i) \<and>
     (\<forall>i \<ge> m. 0 < chAddrUpdate (run i) \<longrightarrow> (\<exists>j \<ge> i. quiet_turn NL view (run j) (run (Suc j))))"

lemma execution_reachable:
  assumes "agent_execution NL view run"
  shows "agent_reachable NL view (run i)"
proof -
  have "(agent_step NL view)\<^sup>*\<^sup>* (run 0) (run i)"
  proof (induction i)
    case (Suc i)
    moreover from assms have "agent_step NL view (run i) (run (Suc i)) \<or> run (Suc i) = run i"
      by (simp add: agent_execution_def)
    ultimately show ?case by (auto intro: rtranclp.rtrancl_into_rtrancl)
  qed simp
  with assms show ?thesis by (auto simp: agent_execution_def agent_reachable_def)
qed

text \<open>Where every address is held a turn takes its notification and changes nothing.\<close>

definition settled :: "('v \<Rightarrow> string \<Rightarrow> addr list) \<Rightarrow> 'v node \<Rightarrow> bool" where
  "settled view n \<longleftrightarrow> (\<forall>info \<in> set (assignedAddressesList n). holds view (nworld n) info)"

lemma quiet_turn_list:
  "quiet_turn NL view a b \<Longrightarrow> assignedAddressesList (agent_node b) = assignedAddressesList (agent_node a)"
  by (auto simp: quiet_turn_def watchAddrUpdate_turn_def processAddressUpdate_def elim!: bind_SomeE split: nat.split_asm)

lemma quiet_turn_settles:
  assumes "netlink_ok NL view" and "netlink_up NL" and "quiet_turn NL view a b"
    and "\<forall>info \<in> set (assignedAddressesList (agent_node a)). dotted_quad (InfoAddress info)"
  shows "settled view (agent_node b)"
  using assms(3,4) check_assigned_holds [OF assms(1,2)]
  by (auto simp: settled_def quiet_turn_def watchAddrUpdate_turn_def processAddressUpdate_def
      elim!: bind_SomeE split: nat.split_asm)

lemma quiet_turn_settled:
  assumes "netlink_ok NL view" and "netlink_up NL" and "quiet_turn NL view a b" and "settled view (agent_node a)"
  shows "chAddrUpdate a = Suc (chAddrUpdate b)" and "view (nworld (agent_node b)) = view (nworld (agent_node a))"
    and "settled view (agent_node b)"
proof -
  from assms(3) obtain b0 k where t: "watchAddrUpdate_turn NL False a = Some b0"
    and b: "b = b0\<lparr>chAddrUpdate := chAddrUpdate b0 + k\<rparr>"
    and k: "0 < k \<longleftrightarrow> view (nworld (agent_node b0)) \<noteq> view (nworld (agent_node a))"
    unfolding quiet_turn_def by blast
  from t have n: "agent_node b0 = (agent_node a)\<lparr>nworld := check_assigned NL (assignedAddressesList (agent_node a)) (nworld (agent_node a))\<rparr>"
    and c: "chAddrUpdate a = Suc (chAddrUpdate b0)"
    by (auto simp: watchAddrUpdate_turn_def processAddressUpdate_def elim!: bind_SomeE split: nat.split_asm)
  from check_assigned_idle [OF assms(1,2) assms(4) [unfolded settled_def]] n
  have v: "view (nworld (agent_node b0)) = view (nworld (agent_node a))" by simp
  with b k show "view (nworld (agent_node b)) = view (nworld (agent_node a))" by simp
  from v k b c show "chAddrUpdate a = Suc (chAddrUpdate b)" by simp
  have "assignedAddressesList (agent_node b) = assignedAddressesList (agent_node a)"
    using n b by simp
  moreover have "view (nworld (agent_node b)) = view (nworld (agent_node a))" using v b by simp
  ultimately show "settled view (agent_node b)" using assms(4)
    by (simp add: settled_def holds_view [of view "nworld (agent_node b)" "nworld (agent_node a)"])
qed

text \<open>At rest: nothing waits, every address is held.\<close>

definition at_rest :: "('v \<Rightarrow> string \<Rightarrow> addr list) \<Rightarrow> 'v agent \<Rightarrow> bool" where
  "at_rest view a \<longleftrightarrow> chAddrUpdate a = 0 \<and> settled view (agent_node a)"

lemma quiet_from_step:
  assumes "quiet_from NL view m run" and "m \<le> i"
  shows "quiet_turn NL view (run i) (run (Suc i)) \<or> run (Suc i) = run i"
  using assms by (simp add: quiet_from_def)

lemma at_rest_forever:
  assumes "quiet_from NL view m run" and "m \<le> i" and "at_rest view (run i)"
  shows "run (i + d) = run i"
proof (induction d)
  case (Suc d)
  have "\<not> quiet_turn NL view (run (i + d)) (run (Suc (i + d)))"
    using assms(3) by (simp add: Suc at_rest_def quiet_turn_def watchAddrUpdate_turn_def)
  with quiet_from_step [OF assms(1), of "i + d"] assms(2) Suc show ?case by simp
qed simp

lemma quiet_turn_step: "quiet_turn NL view a b \<Longrightarrow> agent_step NL view a b"
  unfolding quiet_turn_def by (auto intro: agent_step.watch simp: notified_def)

text \<open>Until the next turn nothing moves.\<close>

lemma next_turn:
  assumes q: "quiet_from NL view m run" and m: "m \<le> i" and "0 < chAddrUpdate (run i)"
  obtains j where "i \<le> j" and "run j = run i" and "quiet_turn NL view (run i) (run (Suc j))"
proof -
  let ?T = "\<lambda>j. i \<le> j \<and> quiet_turn NL view (run j) (run (Suc j))"
  define j where "j = (LEAST j. ?T j)"
  from q m assms(3) have "\<exists>j. ?T j" unfolding quiet_from_def by blast
  then have j: "?T j" unfolding j_def by (rule LeastI_ex)
  have "run (i + d) = run i" if "i + d \<le> j" for d
    using that
  proof (induction d)
    case (Suc d)
    then have "\<not> ?T (i + d)" unfolding j_def by (intro not_less_Least) simp
    with Suc quiet_from_step [OF q, of "i + d"] m show ?case by simp
  qed simp
  from this [of "j - i"] j have "run j = run i" by simp
  with j show ?thesis by (intro that [of j]) simp_all
qed

lemma settled_comes_to_rest:
  assumes ok: "netlink_ok NL view" "netlink_up NL" and q: "quiet_from NL view m run"
  shows "m \<le> i \<Longrightarrow> settled view (agent_node (run i)) \<Longrightarrow>
     \<exists>N \<ge> i. at_rest view (run N) \<and> assignedAddressesList (agent_node (run N)) = assignedAddressesList (agent_node (run i))"
proof (induction "chAddrUpdate (run i)" arbitrary: i)
  case 0
  then show ?case by (intro exI [of _ i]) (simp add: at_rest_def)
next
  case (Suc c)
  from Suc.hyps(2) have "0 < chAddrUpdate (run i)" by simp
  from next_turn [OF q Suc.prems(1) this] obtain j where j: "i \<le> j"
    and t: "quiet_turn NL view (run i) (run (Suc j))" by blast
  note s = quiet_turn_settled [OF ok t Suc.prems(2)]
  from Suc.hyps(2) s(1) have "c = chAddrUpdate (run (Suc j))" by simp
  from Suc.hyps(1) [OF this _ s(3)] Suc.prems(1) j obtain N where "Suc j \<le> N" "at_rest view (run N)"
    "assignedAddressesList (agent_node (run N)) = assignedAddressesList (agent_node (run (Suc j)))" by auto
  with j quiet_turn_list [OF t] show ?case by (intro exI [of _ N]) simp
qed

text \<open>From any reachable state the node comes to rest.\<close>

lemma comes_to_rest:
  assumes ok: "netlink_ok NL view" "netlink_up NL" and run: "agent_execution NL view run"
    and q: "quiet_from NL view m run"
    and dotted: "\<forall>info \<in> set (assignedAddressesList (agent_node (run m))). dotted_quad (InfoAddress info)"
  shows "\<exists>N \<ge> m. (\<forall>d. run (N + d) = run N) \<and> at_rest view (run N) \<and>
    assignedAddressesList (agent_node (run N)) = assignedAddressesList (agent_node (run m))"
proof -
  have "\<exists>i \<ge> m. settled view (agent_node (run i)) \<and>
      assignedAddressesList (agent_node (run i)) = assignedAddressesList (agent_node (run m))"
  proof (cases "chAddrUpdate (run m)")
    case 0
    with agent_reachable_inv [OF ok execution_reachable [OF run], of m] dotted
    have "settled view (agent_node (run m))" by (simp add: agent_inv_def all_held_def settled_def)
    then show ?thesis by blast
  next
    case (Suc c)
    then have "0 < chAddrUpdate (run m)" by simp
    from next_turn [OF q order_refl this] obtain j where j: "m \<le> j"
      and t: "quiet_turn NL view (run m) (run (Suc j))" by blast
    from quiet_turn_settles [OF ok t dotted] quiet_turn_list [OF t] j show ?thesis
      by (intro exI [of _ "Suc j"]) simp
  qed
  then obtain i where i: "m \<le> i" "settled view (agent_node (run i))"
    "assignedAddressesList (agent_node (run i)) = assignedAddressesList (agent_node (run m))" by blast
  from settled_comes_to_rest [OF ok q i(1,2)] obtain N where "i \<le> N" and r: "at_rest view (run N)"
    and l: "assignedAddressesList (agent_node (run N)) = assignedAddressesList (agent_node (run i))" by blast
  with i(1,3) have N: "m \<le> N" "at_rest view (run N)"
    "assignedAddressesList (agent_node (run N)) = assignedAddressesList (agent_node (run m))" by simp_all
  have "run (N + d) = run N" for d
    using at_rest_forever [OF q N(1,2)] .
  with N show ?thesis by blast
qed

end
