(* ===== verification/Alloc_Lock.thy ===== *)
theory Alloc_Lock
  imports Utils
begin

text \<open>
  \<open>pkg/controller/allocationsLock/lock.go\<close>: the map of locked allocations with its
  acquire-with-backoff, and the list of allocations in error that are being retried. The
  functions come first, each as one uninterrupted call; then the acquisition as the two
  separate map accesses the code makes (\<open>Load\<close>, then \<open>Store\<close>), with any interleaving of
  goroutines.
\<close>

section \<open>The lock map\<close>

abbreviation alloc_key :: "IPAllocation \<Rightarrow> string" where
  "alloc_key a \<equiv> obj_key (AGetNamespace a) (AGetName a)"

definition addToLock :: "IPAllocation \<Rightarrow> string \<Rightarrow> (string \<rightharpoonup> string) \<Rightarrow> (string \<rightharpoonup> string)" where
  "addToLock allocation byWho locks = locks(alloc_key allocation \<mapsto> byWho)"

definition isLocked :: "IPAllocation \<Rightarrow> (string \<rightharpoonup> string) \<Rightarrow> bool \<times> string" where
  "isLocked allocation locks =
     (case locks (alloc_key allocation) of Some byWho \<Rightarrow> (True, byWho) | None \<Rightarrow> (False, ''''))"

definition RemoveFromLock :: "IPAllocation \<Rightarrow> 'w sys \<Rightarrow> 'w sys" where
  "RemoveFromLock allocation s = s\<lparr>lockedObjects := (lockedObjects s)(alloc_key allocation := None)\<rparr>"

text \<open>\<open>trace(skip)\<close> on the frame that \<open>runtime.Callers\<close> gives: the last two components of
  the file name and the line.\<close>

fun split_on :: "char \<Rightarrow> string \<Rightarrow> string list" where
  "split_on c [] = [[]]"
| "split_on c (x # xs) =
     (if x = c then [] # split_on c xs
      else (case split_on c xs of [] \<Rightarrow> [[x]] | w # ws \<Rightarrow> (x # w) # ws))"

definition trace :: "string \<Rightarrow> nat \<Rightarrow> string" where
  "trace frame_file frame_line =
     (let s = split_on (CHR ''/'') frame_file;
          file = (if length s \<ge> 2 then s ! (length s - 2) @ ''/'' @ s ! (length s - 1)
                  else s ! (length s - 1))
      in file @ '':'' @ itoa frame_line)"

lemma split_on_not_Nil: "split_on c s \<noteq> []"
  by (cases s) (auto split: list.splits)

definition errIsObjectLocked :: "go_error \<Rightarrow> bool" where
  "errIsObjectLocked err \<longleftrightarrow> err = ErrObjectLocked"

definition lock_attempt :: "IPAllocation \<Rightarrow> string \<Rightarrow> 'w sys attempt" where
  "lock_attempt allocation calledBy s =
     (let (locked, byWho) = isLocked allocation (lockedObjects s)
      in if \<not> locked
         then Some (None, s\<lparr>lockedObjects := addToLock allocation calledBy (lockedObjects s)\<rparr>)
         else Some (Some ErrObjectLocked, s))"

definition AcquireAllocationLock ::
  "'w env \<Rightarrow> string \<Rightarrow> IPAllocation \<Rightarrow> 'w sys \<Rightarrow> (go_error option \<times> 'w sys) option" where
  "AcquireAllocationLock E calledBy allocation s =
     do {
       (err, s) \<leftarrow> retry_lock E errIsObjectLocked (lock_attempt allocation calledBy) s;
       if err \<noteq> None then Some (err, s) else Some (None, s)
     }"

lemma RemoveFromLock_simps [simp]:
  "world (RemoveFromLock a s) = world s" "availablesPools (RemoveFromLock a s) = availablesPools s"
  "lockedObjects (RemoveFromLock a s) = (lockedObjects s)(alloc_key a := None)"
  "errorAllocationsBackoffDict (RemoveFromLock a s) = errorAllocationsBackoffDict s"
  "deployed (RemoveFromLock a s) = deployed s"
  by (simp_all add: RemoveFromLock_def)

text \<open>An acquisition always returns; on success the caller's name is in the map, and it was
  put there when the key was free; the only error is the timeout.\<close>

lemma lock_attempt_total: "lock_attempt a c s \<noteq> None"
  by (simp add: lock_attempt_def isLocked_def split: option.splits)

lemma Acquire_cases:
  assumes R: "retry_ok (retry_lock E)"
  obtains (locked) s' s0 where "AcquireAllocationLock E c a s = Some (None, s')"
      "lockedObjects s0 (alloc_key a) = None" "s' = s0\<lparr>lockedObjects := (lockedObjects s0)(alloc_key a \<mapsto> c)\<rparr>"
  | (timeout) s' where "AcquireAllocationLock E c a s = Some (Some ErrObjectLocked, s')"
      "lockedObjects s' (alloc_key a) \<noteq> None"
proof -
  from retry_ok_total [OF R lock_attempt_total]
  have "retry_lock E errIsObjectLocked (lock_attempt a c) s \<noteq> None" .
  then obtain r s' where res: "retry_lock E errIsObjectLocked (lock_attempt a c) s = Some (r, s')"
    by auto
  from retry_ok_last [OF R this] obtain s0 where s0: "lock_attempt a c s0 = Some (r, s')" ..
  have acq: "AcquireAllocationLock E c a s = Some (r, s')"
    by (simp add: AcquireAllocationLock_def res)
  show ?thesis
  proof (cases "lockedObjects s0 (alloc_key a)")
    case None
    with s0 have "r = None" "s' = s0\<lparr>lockedObjects := (lockedObjects s0)(alloc_key a \<mapsto> c)\<rparr>"
      by (auto simp: lock_attempt_def isLocked_def addToLock_def)
    with acq None show ?thesis by (auto intro: locked)
  next
    case (Some w)
    with s0 have "r = Some ErrObjectLocked" "s' = s0"
      by (auto simp: lock_attempt_def isLocked_def)
    with acq Some show ?thesis by (auto intro: timeout)
  qed
qed

section \<open>The list of error allocations in processing\<close>

fun in_backoff_list :: "string list \<Rightarrow> string \<Rightarrow> bool" where
  "in_backoff_list [] k = False"
| "in_backoff_list (e # es) k = (if e = k then True else in_backoff_list es k)"

lemma in_backoff_list_iff [simp]: "in_backoff_list es k \<longleftrightarrow> k \<in> set es"
  by (induction es) auto

definition isErrorAllocationAlreadyProcessing :: "IPAllocation \<Rightarrow> string list \<Rightarrow> bool" where
  "isErrorAllocationAlreadyProcessing allocation dict = in_backoff_list dict (alloc_key allocation)"

definition IsErrorAllocationAlreadyProcessing :: "IPAllocation \<Rightarrow> 'w sys \<Rightarrow> bool" where
  "IsErrorAllocationAlreadyProcessing allocation s =
     isErrorAllocationAlreadyProcessing allocation (errorAllocationsBackoffDict s)"

definition AddErrorAllocationToProcessingList :: "IPAllocation \<Rightarrow> string list \<Rightarrow> string list" where
  "AddErrorAllocationToProcessingList allocation dict =
     (if \<not> isErrorAllocationAlreadyProcessing allocation dict then dict @ [alloc_key allocation]
      else dict)"

definition RemoveErrorAllocationFromProcessingList :: "IPAllocation \<Rightarrow> string list \<Rightarrow> string list" where
  "RemoveErrorAllocationFromProcessingList allocation dict =
     (case find_index (\<lambda>e. e = alloc_key allocation) dict of
        Some i \<Rightarrow> swap_remove i dict
      | None \<Rightarrow> dict)"

lemma RemoveError_mset:
  "mset (RemoveErrorAllocationFromProcessingList a dict) = mset dict - {#alloc_key a#}"
proof (cases "find_index (\<lambda>e. e = alloc_key a) dict")
  case None
  then have "alloc_key a \<notin> set dict" by (auto simp: find_index_None)
  then have "mset dict - {#alloc_key a#} = mset dict" by (simp add: diff_single_trivial)
  with None show ?thesis by (simp add: RemoveErrorAllocationFromProcessingList_def)
next
  case (Some i)
  then have "i < length dict" "dict ! i = alloc_key a" by (auto dest: find_index_lt find_index_sat)
  from mset_swap_remove [OF this(1)] this(2)
  have "mset (swap_remove i dict) = mset dict - {#alloc_key a#}" by (metis add_diff_cancel_right')
  with Some show ?thesis by (simp add: RemoveErrorAllocationFromProcessingList_def)
qed

lemma AddError_distinct: "distinct dict \<Longrightarrow> distinct (AddErrorAllocationToProcessingList a dict)"
  by (simp add: AddErrorAllocationToProcessingList_def isErrorAllocationAlreadyProcessing_def)

lemma RemoveError_distinct:
  assumes "distinct dict"
  shows "distinct (RemoveErrorAllocationFromProcessingList a dict)"
    and "set (RemoveErrorAllocationFromProcessingList a dict) = set dict - {alloc_key a}"
proof -
  have "distinct (RemoveErrorAllocationFromProcessingList a dict) \<and>
      set (RemoveErrorAllocationFromProcessingList a dict) = set dict - {alloc_key a}"
  proof (cases "find_index (\<lambda>e. e = alloc_key a) dict")
    case None
    then have "alloc_key a \<notin> set dict" by (auto simp: find_index_None)
    with None assms show ?thesis by (simp add: RemoveErrorAllocationFromProcessingList_def)
  next
    case (Some i)
    then have i: "i < length dict" and e: "dict ! i = alloc_key a"
      by (auto dest: find_index_lt find_index_sat)
    from distinct_map_swap_remove [OF i, of "\<lambda>x. x"] set_swap_remove [OF i] assms e Some
    show ?thesis by (auto simp: RemoveErrorAllocationFromProcessingList_def)
  qed
  then show "distinct (RemoveErrorAllocationFromProcessingList a dict)"
    and "set (RemoveErrorAllocationFromProcessingList a dict) = set dict - {alloc_key a}" by auto
qed

section \<open>Interleaved acquisition\<close>

text \<open>
  \<open>AcquireAllocationLock\<close> reads the map (\<open>isLocked\<close>) and writes it (\<open>addToLock\<close>) in two
  separate \<open>sync.Map\<close> calls, so another goroutine can run in between. A goroutine is
  outside, has read "not locked", sleeps in the backoff, or is inside.
\<close>

datatype lock_pc = LOutside | LReadFree | LBackoff | LInside

record lock_sys =
  lmap :: "string \<rightharpoonup> string"
  lpc :: "nat \<Rightarrow> lock_pc"

definition lock_init :: lock_sys where
  "lock_init = \<lparr>lmap = Map.empty, lpc = (\<lambda>_. LOutside)\<rparr>"

text \<open>\<open>key i\<close> is the allocation goroutine \<open>i\<close> works on, \<open>who i\<close> the caller it names.\<close>

inductive lock_step :: "(nat \<Rightarrow> IPAllocation) \<Rightarrow> (nat \<Rightarrow> string) \<Rightarrow> lock_sys \<Rightarrow> lock_sys \<Rightarrow> bool"
  for key :: "nat \<Rightarrow> IPAllocation" and who :: "nat \<Rightarrow> string" where
  read_free: "lpc s i \<in> {LOutside, LBackoff} \<Longrightarrow> \<not> fst (isLocked (key i) (lmap s)) \<Longrightarrow>
     lock_step key who s (s\<lparr>lpc := (lpc s)(i := LReadFree)\<rparr>)"
| read_locked: "lpc s i \<in> {LOutside, LBackoff} \<Longrightarrow> fst (isLocked (key i) (lmap s)) \<Longrightarrow>
     lock_step key who s (s\<lparr>lpc := (lpc s)(i := LBackoff)\<rparr>)"
| give_up: "lpc s i = LBackoff \<Longrightarrow> lock_step key who s (s\<lparr>lpc := (lpc s)(i := LOutside)\<rparr>)"
| store: "lpc s i = LReadFree \<Longrightarrow>
     lock_step key who s (s\<lparr>lmap := addToLock (key i) (who i) (lmap s), lpc := (lpc s)(i := LInside)\<rparr>)"
| release: "lpc s i = LInside \<Longrightarrow>
     lock_step key who s (s\<lparr>lmap := (lmap s)(alloc_key (key i) := None), lpc := (lpc s)(i := LOutside)\<rparr>)"

text \<open>The same goroutines when no other goroutine runs between the read and the write.\<close>

inductive lock_step_atomic ::
  "(nat \<Rightarrow> IPAllocation) \<Rightarrow> (nat \<Rightarrow> string) \<Rightarrow> lock_sys \<Rightarrow> lock_sys \<Rightarrow> bool"
  for key :: "nat \<Rightarrow> IPAllocation" and who :: "nat \<Rightarrow> string" where
  acquire: "lpc s i \<in> {LOutside, LBackoff} \<Longrightarrow> \<not> fst (isLocked (key i) (lmap s)) \<Longrightarrow>
     lock_step_atomic key who s
       (s\<lparr>lmap := addToLock (key i) (who i) (lmap s), lpc := (lpc s)(i := LInside)\<rparr>)"
| backoff: "lpc s i \<in> {LOutside, LBackoff} \<Longrightarrow> fst (isLocked (key i) (lmap s)) \<Longrightarrow>
     lock_step_atomic key who s (s\<lparr>lpc := (lpc s)(i := LBackoff)\<rparr>)"
| give_up_atomic: "lpc s i = LBackoff \<Longrightarrow>
     lock_step_atomic key who s (s\<lparr>lpc := (lpc s)(i := LOutside)\<rparr>)"
| release_atomic: "lpc s i = LInside \<Longrightarrow>
     lock_step_atomic key who s
       (s\<lparr>lmap := (lmap s)(alloc_key (key i) := None), lpc := (lpc s)(i := LOutside)\<rparr>)"

inductive_cases lock_step_atomicE: "lock_step_atomic key who s t"
inductive_cases lock_stepE: "lock_step key who s t"

definition lock_reachable ::
  "(lock_sys \<Rightarrow> lock_sys \<Rightarrow> bool) \<Rightarrow> lock_sys \<Rightarrow> bool" where
  "lock_reachable step s = step\<^sup>*\<^sup>* lock_init s"

definition lock_inv :: "(nat \<Rightarrow> IPAllocation) \<Rightarrow> lock_sys \<Rightarrow> bool" where
  "lock_inv key s \<longleftrightarrow>
     (\<forall>i. lpc s i = LInside \<longrightarrow> lmap s (alloc_key (key i)) \<noteq> None) \<and>
     (\<forall>i j. lpc s i = LInside \<longrightarrow> lpc s j = LInside \<longrightarrow> alloc_key (key i) = alloc_key (key j) \<longrightarrow> i = j)"

lemma lock_inv_init: "lock_inv key lock_init"
  by (simp add: lock_inv_def lock_init_def)

lemma isLocked_fst [simp]: "fst (isLocked a m) \<longleftrightarrow> m (alloc_key a) \<noteq> None"
  by (simp add: isLocked_def split: option.splits)

lemma lock_step_atomic_inv:
  assumes "lock_step_atomic key who s t" and "lock_inv key s"
  shows "lock_inv key t"
  using assms(1)
proof cases
  case (acquire i)
  with assms(2) show ?thesis by (auto simp: lock_inv_def addToLock_def)
next
  case (backoff i)
  with assms(2) show ?thesis by (auto simp: lock_inv_def)
next
  case (give_up_atomic i)
  with assms(2) show ?thesis by (auto simp: lock_inv_def)
next
  case (release_atomic i)
  with assms(2) show ?thesis by (auto simp: lock_inv_def)
qed

lemma lock_reachable_atomic_inv: "lock_reachable (lock_step_atomic key who) s \<Longrightarrow> lock_inv key s"
  unfolding lock_reachable_def
  by (induction rule: rtranclp_induct) (auto intro: lock_inv_init lock_step_atomic_inv)

text \<open>In the code as it is, a goroutine enters by its write alone: what it read may have
  changed since.\<close>

lemma lock_step_enters:
  assumes "lock_step key who s t" and "lpc s i \<noteq> LInside" and "lpc t i = LInside"
  shows "lpc s i = LReadFree" and "lmap t (alloc_key (key i)) = Some (who i)"
  using assms by (auto elim!: lock_stepE simp: addToLock_def split: if_splits)

text \<open>So two goroutines that read before either writes are both inside.\<close>

lemma lock_race_run:
  assumes "i \<noteq> j"
  shows "\<exists>s. lock_reachable (lock_step key who) s \<and> lpc s i = LInside \<and> lpc s j = LInside"
proof -
  let ?r = "lock_step key who"
  let ?s1 = "lock_init\<lparr>lpc := (lpc lock_init)(i := LReadFree)\<rparr>"
  let ?s2 = "?s1\<lparr>lpc := (lpc ?s1)(j := LReadFree)\<rparr>"
  let ?s3 = "?s2\<lparr>lmap := addToLock (key i) (who i) (lmap ?s2), lpc := (lpc ?s2)(i := LInside)\<rparr>"
  let ?s4 = "?s3\<lparr>lmap := addToLock (key j) (who j) (lmap ?s3), lpc := (lpc ?s3)(j := LInside)\<rparr>"
  have "?r lock_init ?s1" by (rule read_free) (simp_all add: lock_init_def)
  moreover have "?r ?s1 ?s2" using assms by (intro read_free) (simp_all add: lock_init_def)
  moreover have "?r ?s2 ?s3" using assms by (intro store) simp
  moreover have "?r ?s3 ?s4" using assms by (intro store) simp
  ultimately have "?r\<^sup>*\<^sup>* lock_init ?s4"
    by (meson rtranclp.rtrancl_refl rtranclp.rtrancl_into_rtrancl)
  then show ?thesis using assms unfolding lock_reachable_def by (intro exI [of _ ?s4]) simp
qed

end
