(* ===== verification/Service_Watcher.thy ===== *)
theory Service_Watcher
  imports Allocator Alloc_Lock
begin

text \<open>
  The handlers of \<open>pkg/controller/servicewatcher/servicewatcher.go\<close>. A statement
  \<open>go f(x)\<close> of the code is a task in the result: the scheduler may run it at any later time,
  concurrently with other tasks. \<open>run_service_task\<close> is what such a task does.
\<close>

datatype service_task =
    CreateAllocationTask Service
  | ReconcileTask Service IPAllocation

definition run_service_task ::
  "'w env \<Rightarrow> 'w clouds \<Rightarrow> service_task \<Rightarrow> 'w sys \<Rightarrow> (alloc_result \<times> 'w sys) option" where
  "run_service_task E C task s =
     (case task of
        CreateAllocationTask service \<Rightarrow> CreateAllocationForService E C service s
      | ReconcileTask service allocation \<Rightarrow> ReconcileAllocation E C service allocation s)"

definition serviceCreated :: "Service \<Rightarrow> service_task list" where
  "serviceCreated service =
     (if ServiceIsLoadBalancer (Some service) then [CreateAllocationTask service] else [])"

definition serviceDeleted :: "'w env \<Rightarrow> Service \<Rightarrow> 'w sys \<Rightarrow> 'w sys" where
  "serviceDeleted E service s =
     (if ServiceIsLoadBalancer (Some service)
      then snd (DeleteAllocationByName E (SGetNamespace service) (SGetName service) s)
      else s)"

text \<open>The lock is released when the handler returns (\<open>defer\<close>), which is not when the spawned
  reconciliation ends.\<close>

definition serviceChanged ::
  "'w env \<Rightarrow> Service \<Rightarrow> 'w sys \<Rightarrow> (service_task list \<times> 'w sys) option" where
  "serviceChanged E service s =
     (let ((allocation, err), s) = FindAllocation E (SGetNamespace service) (SGetName service) s
      in if err \<noteq> None then Some ([], s)
         else (case allocation of
                 None \<Rightarrow>
                   if ServiceIsLoadBalancer (Some service) then Some ([CreateAllocationTask service], s)
                   else Some ([], s)
               | Some allocation \<Rightarrow>
                   do {
                     (err, s) \<leftarrow> AcquireAllocationLock E
                       (trace ''pkg/controller/servicewatcher/servicewatcher.go'' 126) allocation s;
                     if err \<noteq> None then Some ([], s)
                     else Some ([ReconcileTask service allocation], RemoveFromLock allocation s)
                   }))"

fun services_handler ::
  "'w env \<Rightarrow> informer_event \<Rightarrow> 'w sys \<Rightarrow> (service_task list \<times> 'w sys) option" where
  "services_handler E (AddEv (ServiceObj service)) s = Some (serviceCreated service, s)"
| "services_handler E (DeleteEv (ServiceObj service)) s = Some ([], serviceDeleted E service s)"
| "services_handler E (UpdateEv _ (ServiceObj newService)) s = serviceChanged E newService s"
| "services_handler E _ s = Some ([], s)"   \<comment> \<open>unexpected type\<close>

definition buildServicesWatcher :: "'w env \<Rightarrow> 'w sys \<Rightarrow> 'w sys" where
  "buildServicesWatcher E s = s\<lparr>world := informer_new E ''services'' '''' [] (world s)\<rparr>"

definition Service_Watcher_Init :: "'w env \<Rightarrow> 'w sys \<Rightarrow> 'w sys" where
  "Service_Watcher_Init E s = buildServicesWatcher E s"

definition WatchServices :: "'w env \<Rightarrow> 'w sys \<Rightarrow> 'w sys" where
  "WatchServices E s = s\<lparr>world := informer_run E ''services'' (world s)\<rparr>"

section \<open>Lemmas\<close>

text \<open>The handler of changes always returns, spawns at most one task, and never leaves a
  lock of its own behind.\<close>

lemma serviceChanged_total:
  assumes R: "retry_ok (retry_lock E)"
  shows "serviceChanged E sv s \<noteq> None"
proof -
  obtain al err t where f: "FindAllocation E (SGetNamespace sv) (SGetName sv) s = ((al, err), t)"
    by (metis prod.exhaust)
  show ?thesis
  proof (cases al)
    case None
    with f show ?thesis by (simp add: serviceChanged_def)
  next
    case (Some a)
    from R show ?thesis
      by (rule Acquire_cases [of E "trace ''pkg/controller/servicewatcher/servicewatcher.go'' 126" a t])
        (use f Some in \<open>simp_all add: serviceChanged_def\<close>)
  qed
qed

lemma serviceChanged_reconcile:
  assumes R: "retry_ok (retry_lock E)" and "serviceChanged E sv s = Some (tasks, s')"
    and "ReconcileTask sv' a \<in> set tasks"
  shows "sv' = sv \<and> tasks = [ReconcileTask sv a] \<and> lockedObjects s' (alloc_key a) = None"
proof -
  obtain al err t where f: "FindAllocation E (SGetNamespace sv) (SGetName sv) s = ((al, err), t)"
    by (metis prod.exhaust)
  with assms(2,3) obtain a' where al: "al = Some a'" "err = None"
    by (auto simp: serviceChanged_def split: if_split_asm option.split_asm)
  from R show ?thesis
    by (rule Acquire_cases [of E "trace ''pkg/controller/servicewatcher/servicewatcher.go'' 126" a' t])
      (use f al assms(2,3) in \<open>auto simp: serviceChanged_def\<close>)
qed

lemma serviceChanged_tasks:
  assumes "serviceChanged E sv s = Some (tasks, s')"
  shows "length tasks \<le> 1"
  using assms
  by (auto simp: serviceChanged_def elim!: bind_SomeE split: asm_splits)

end
