(* ===== verification/Backoff.thy ===== *)
theory Backoff
  imports Go_Prelude
begin

text \<open>
  The backoff loop of \<open>pkg/controller/utils/utils.go\<close>: \<open>ForeverBackoff.Step\<close>,
  \<open>ExponentialBackoffWithForeverCap\<close>, \<open>OnErrorForever\<close> and the value \<open>ErrorBackoff\<close>.

  A duration is a natural number of nanoseconds (the code's are not negative). A
  \<open>float64\<close> is a pair \<open>(m, e)\<close> with the value \<open>m / 2^e\<close>; a product is rounded to 53
  significant bits, ties to even. Overflow of the exponent is not modelled: the
  factors here are constants near 1 and the durations are below \<open>2^63\<close>.
  \<open>wait.Jitter\<close> and \<open>time.Sleep\<close> belong to libraries and are parameters.
\<close>

section \<open>float64\<close>

type_synonym fl = "nat \<times> nat"

fun bit_len :: "nat \<Rightarrow> nat" where
  "bit_len n = (if n = 0 then 0 else Suc (bit_len (n div 2)))"

declare bit_len.simps [simp del]

definition fl_round :: "fl \<Rightarrow> fl" where
  "fl_round x =
     (let (m, e) = x; k = bit_len m - 53; q = m div 2 ^ k; r = m mod 2 ^ k;
          up = (if 2 * r > 2 ^ k \<or> (2 * r = 2 ^ k \<and> odd q) then 1 else 0)
      in ((q + up) * 2 ^ k, e))"

definition fl_of_nat :: "nat \<Rightarrow> fl" where
  "fl_of_nat n = fl_round (n, 0)"

definition fl_mult :: "fl \<Rightarrow> fl \<Rightarrow> fl" where
  "fl_mult x y = fl_round (fst x * fst y, snd x + snd y)"

definition fl_trunc :: "fl \<Rightarrow> nat" where
  "fl_trunc x = fst x div 2 ^ snd x"

section \<open>The backoff\<close>

record ForeverBackoff =
  Duration :: nat
  Factor :: fl
  Jitter :: fl
  Steps :: int
  Cap :: nat

type_synonym 's jitterer = "nat \<Rightarrow> fl \<Rightarrow> 's \<Rightarrow> nat \<times> 's"

definition next_duration :: "ForeverBackoff \<Rightarrow> nat" where
  "next_duration b =
     (let d = fl_trunc (fl_mult (fl_of_nat (Duration b)) (Factor b))
      in if Cap b > 0 \<and> d > Cap b then Cap b else d)"

definition Step :: "'s jitterer \<Rightarrow> ForeverBackoff \<Rightarrow> 's \<Rightarrow> (nat \<times> ForeverBackoff) \<times> 's" where
  "Step jit b s =
     (if Steps b < 1 then
        (if fst (Jitter b) > 0 then (let (d, s) = jit (Duration b) (Jitter b) s in ((d, b), s))
         else ((Duration b, b), s))
      else
        (let b = b\<lparr>Steps := Steps b - 1\<rparr>;
             duration = Duration b;
             b = (if fst (Factor b) \<noteq> 0 then b\<lparr>Duration := next_duration b\<rparr> else b)
         in if fst (Jitter b) > 0 then (let (d, s) = jit duration (Jitter b) s in ((d, b), s))
            else ((duration, b), s)))"

lemma Step_Steps: "Step jit b s = ((d, b'), s') \<Longrightarrow> Steps b > 0 \<Longrightarrow> Steps b' = Steps b - 1"
  by (auto simp: Step_def Let_def split: prod.splits if_splits)

type_synonym 's condition = "'s \<Rightarrow> ((bool \<times> go_error option) \<times> 's) option"

function ExponentialBackoffWithForeverCap ::
  "'s jitterer \<Rightarrow> (nat \<Rightarrow> 's \<Rightarrow> 's) \<Rightarrow> ForeverBackoff \<Rightarrow> 's condition \<Rightarrow> 's \<Rightarrow>
   (go_error option \<times> 's) option" where
  "ExponentialBackoffWithForeverCap jit sleep backoff condition s =
     (if Steps backoff > 0 then
        (case condition s of
           None \<Rightarrow> None
         | Some ((ok, err), s) \<Rightarrow>
             (if err \<noteq> None \<or> ok then Some (err, s)
              else if Steps backoff = 1 then Some (Some ErrWaitTimeout, s)
              else let r = Step jit backoff s
                   in ExponentialBackoffWithForeverCap jit sleep (snd (fst r)) condition
                        (sleep (fst (fst r)) (snd r))))
      else Some (Some ErrWaitTimeout, s))"
  by auto
termination
proof (relation "measure (\<lambda>(jit, sleep, b, c, s). nat (Steps b))", goal_cases)
  case 1
  then show ?case by simp
next
  case (2 jit sleep b c s x2 a s2 ok err x)
  then show ?case
    using Step_Steps [of jit b s2 "fst (fst x)" "snd (fst x)" "snd x"] by simp
qed

declare ExponentialBackoffWithForeverCap.simps [simp del]

text \<open>\<open>OnErrorForever\<close>: the captured \<open>lastConflictErr\<close> is threaded beside the state.\<close>

type_synonym 's body = "'s \<Rightarrow> (go_error option \<times> 's) option"

definition forever_condition ::
  "(go_error \<Rightarrow> bool) \<Rightarrow> 's body \<Rightarrow> (go_error option \<times> 's) condition" where
  "forever_condition errorFunc fn = (\<lambda>(lastConflictErr, s).
     case fn s of
       None \<Rightarrow> None
     | Some (None, s) \<Rightarrow> Some ((True, None), (lastConflictErr, s))
     | Some (Some err, s) \<Rightarrow>
         (if errorFunc err then Some ((False, None), (Some err, s))
          else Some ((False, Some err), (lastConflictErr, s))))"

definition OnErrorForever ::
  "'s jitterer \<Rightarrow> (nat \<Rightarrow> 's \<Rightarrow> 's) \<Rightarrow> ForeverBackoff \<Rightarrow> (go_error \<Rightarrow> bool) \<Rightarrow> 's body \<Rightarrow> 's \<Rightarrow>
   (go_error option \<times> 's) option" where
  "OnErrorForever jit sleep backoff errorFunc fn s =
     do {
       (err, lastConflictErr, s) \<leftarrow>
         ExponentialBackoffWithForeverCap
           (\<lambda>d f (l, s). let (d, s) = jit d f s in (d, l, s)) (\<lambda>d (l, s). (l, sleep d s))
           backoff (forever_condition errorFunc fn) (None, s);
       if err = Some ErrWaitTimeout then Some (lastConflictErr, s) else Some (err, s)
     }"

text \<open>\<open>1.2\<close> and \<open>0.2\<close> as float64.\<close>

definition ErrorBackoff :: ForeverBackoff where
  "ErrorBackoff =
     \<lparr>Duration = 1000000000, Factor = (5404319552844595, 52), Jitter = (7205759403792794, 55),
      Steps = 552, Cap = 300000000000\<rparr>"
section \<open>Bounds of the schedule\<close>

lemma next_duration_le_Cap: "Cap b > 0 \<Longrightarrow> next_duration b \<le> Cap b"
  by (simp add: next_duration_def Let_def)

lemma Step_fields:
  assumes "Step jit b s = ((d, b'), s')"
  shows "Cap b' = Cap b" "Factor b' = Factor b" "Jitter b' = Jitter b"
    and "Cap b > 0 \<Longrightarrow> Duration b \<le> Cap b \<Longrightarrow> Duration b' \<le> Cap b"
    and "fst (Jitter b) > 0 \<Longrightarrow> jit (Duration b) (Jitter b) s = (d, s')"
    and "fst (Jitter b) = 0 \<Longrightarrow> d = Duration b \<and> s' = s"
  using assms next_duration_le_Cap [of "b\<lparr>Steps := Steps b - 1\<rparr>"]
  by (auto simp: Step_def Let_def split: prod.splits if_splits)

text \<open>
  The cost of a loop, for any measure of the state: at most \<open>a\<close> per check and at most
  \<open>c\<close> per sleep, with one sleep less than checks.
\<close>

lemma loop_cost:
  fixes cost :: "'s \<Rightarrow> nat"
  assumes check: "\<And>s x s'. cond s = Some (x, s') \<Longrightarrow> cost s' \<le> cost s + a"
    and slept: "\<And>b d b' s s'. Step jit b s = ((d, b'), s') \<Longrightarrow> Jitter b = j \<Longrightarrow> Duration b \<le> m \<Longrightarrow>
      cost (sleep d s') \<le> cost s + c"
    and res: "ExponentialBackoffWithForeverCap jit sleep b cond s = Some (r, s')"
    and "Jitter b = j" and "Cap b = m" and "m > 0" and "Duration b \<le> m" and "Steps b > 0"
  shows "cost s' \<le> cost s + nat (Steps b) * a + (nat (Steps b) - 1) * c"
  using res assms(4-)
proof (induction "nat (Steps b)" arbitrary: b s rule: less_induct)
  case less
  from less.prems(1,6) obtain ok err s1 where c1: "cond s = Some ((ok, err), s1)"
    by (subst (asm) ExponentialBackoffWithForeverCap.simps) (auto split: option.splits)
  note cost1 = check [OF c1]
  have n: "nat (Steps b) * a \<ge> a" using less.prems(6) by (cases "nat (Steps b)") auto
  show ?case
  proof (cases "err \<noteq> None \<or> ok \<or> Steps b = 1")
    case True
    with less.prems(1,6) c1 have "s' = s1"
      by (subst (asm) ExponentialBackoffWithForeverCap.simps) (auto split: if_splits)
    moreover from cost1 n have "cost s1 \<le> cost s + nat (Steps b) * a"
      by (meson add_left_mono le_trans)
    ultimately show ?thesis by (simp add: trans_le_add1)
  next
    case False
    obtain d b' s2 where st: "Step jit b s1 = ((d, b'), s2)" by (metis prod.exhaust)
    from False less.prems(1,6) c1 st
    have rest: "ExponentialBackoffWithForeverCap jit sleep b' cond (sleep d s2) = Some (r, s')"
      by (subst (asm) ExponentialBackoffWithForeverCap.simps) (auto simp: Let_def)
    note f = Step_fields [OF st]
    have st': "Steps b' = Steps b - 1" using Step_Steps [OF st] less.prems(6) by simp
    have "cost s' \<le> cost (sleep d s2) + nat (Steps b') * a + (nat (Steps b') - 1) * c"
      by (rule less.hyps [OF _ rest]) (use st' False less.prems f in auto)
    moreover have "cost (sleep d s2) \<le> cost s1 + c"
      using slept [OF st] less.prems by simp
    moreover have "nat (Steps b') * a + a = nat (Steps b) * a"
      using st' less.prems(6) by (cases "nat (Steps b)") (auto simp: nat_diff_distrib)
    moreover have "(nat (Steps b') - 1) * c + c = (nat (Steps b) - 1) * c"
    proof -
      have "nat (Steps b) - 1 = Suc (nat (Steps b') - 1)" using st' False less.prems(6) by auto
      then show ?thesis by simp
    qed
    ultimately show ?thesis using cost1 by linarith
  qed
qed

section \<open>What a retry loop returns\<close>

text \<open>An invariant of the checks and of the sleeps holds where the loop checks last.\<close>

lemma loop_last:
  assumes "ExponentialBackoffWithForeverCap jit sleep b cond s = Some (r, s')" and "Steps b > 0"
  shows "\<exists>s0 ok err. cond s0 = Some ((ok, err), s') \<and>
    (if err \<noteq> None \<or> ok then r = err else r = Some ErrWaitTimeout)"
  using assms
proof (induction "nat (Steps b)" arbitrary: b s rule: less_induct)
  case less
  from less.prems obtain ok err s1 where c1: "cond s = Some ((ok, err), s1)"
    by (subst (asm) ExponentialBackoffWithForeverCap.simps) (auto split: option.splits)
  show ?case
  proof (cases "err \<noteq> None \<or> ok \<or> Steps b = 1")
    case True
    with less.prems c1 have "s' = s1 \<and> (if err \<noteq> None \<or> ok then r = err else r = Some ErrWaitTimeout)"
      by (subst (asm) ExponentialBackoffWithForeverCap.simps) (auto split: if_splits)
    with c1 show ?thesis by blast
  next
    case False
    obtain d b' s2 where st: "Step jit b s1 = ((d, b'), s2)" by (metis prod.exhaust)
    from False less.prems c1 st
    have rest: "ExponentialBackoffWithForeverCap jit sleep b' cond (sleep d s2) = Some (r, s')"
      by (subst (asm) ExponentialBackoffWithForeverCap.simps) (auto simp: Let_def)
    have "Steps b' = Steps b - 1" using Step_Steps [OF st] less.prems(2) by simp
    with False less.prems(2) show ?thesis by (intro less.hyps [OF _ rest]) auto
  qed
qed

lemma loop_total:
  assumes "\<And>s. cond s \<noteq> None"
  shows "ExponentialBackoffWithForeverCap jit sleep b cond s \<noteq> None"
proof (induction "nat (Steps b)" arbitrary: b s rule: less_induct)
  case less
  obtain ok err s1 where c1: "cond s = Some ((ok, err), s1)"
    using assms [of s] not_None_triple by (metis not_None_eq prod.exhaust)
  obtain d b' s2 where st: "Step jit b s1 = ((d, b'), s2)" by (metis prod.exhaust)
  show ?case
  proof (cases "Steps b > 0")
    case False
    then show ?thesis by (subst ExponentialBackoffWithForeverCap.simps) simp
  next
    case True
    with st have "Steps b' = Steps b - 1" by (simp add: Step_Steps)
    with True have "ExponentialBackoffWithForeverCap jit sleep b' cond (sleep d s2) \<noteq> None"
      by (intro less) simp
    with True c1 st show ?thesis
      by (subst ExponentialBackoffWithForeverCap.simps) (simp add: Let_def)
  qed
qed

lemma OnErrorForever_total:
  assumes "\<And>s. fn s \<noteq> None"
  shows "OnErrorForever jit sleep b P fn s \<noteq> None"
proof -
  have "forever_condition P fn x \<noteq> None" for x
    using assms [of "snd x"] by (auto simp: forever_condition_def split: prod.splits option.splits)
  note tot = loop_total [of "forever_condition P fn", OF this]
  show ?thesis
    using tot [of "\<lambda>d f (l, s). let (d, s) = jit d f s in (d, l, s)" "\<lambda>d (l, s). (l, sleep d s)" b "(None, s)"]
    by (auto simp: OnErrorForever_def)
qed

text \<open>The result is the one of the last call, nil or its error, given that no call returns
  the timeout error of the loop itself.\<close>

lemma OnErrorForever_last:
  assumes res: "OnErrorForever jit sleep b P fn s = Some (r, s')" and "Steps b > 0"
    and no_timeout: "\<And>s s'. fn s \<noteq> Some (Some ErrWaitTimeout, s')"
  shows "\<exists>s0. fn s0 = Some (r, s')"
proof -
  from res obtain err l where
    loop: "ExponentialBackoffWithForeverCap
           (\<lambda>d f (l, s). let (d, s) = jit d f s in (d, l, s)) (\<lambda>d (l, s). (l, sleep d s))
           b (forever_condition P fn) (None, s) = Some (err, l, s')"
    and r: "r = (if err = Some ErrWaitTimeout then l else err)"
    by (auto simp: OnErrorForever_def elim!: bind_SomeE split: if_splits)
  from loop_last [OF loop assms(2)] obtain s0 ok e where
    c: "forever_condition P fn s0 = Some ((ok, e), (l, s'))"
    and e: "if e \<noteq> None \<or> ok then err = e else err = Some ErrWaitTimeout" by (metis prod.exhaust)
  obtain l0 t where s0: "s0 = (l0, t)" by (cases s0)
  from c s0 obtain q t' where q: "fn t = Some (q, t')"
    by (auto simp: forever_condition_def split: option.splits)
  with no_timeout have "q \<noteq> Some ErrWaitTimeout" by auto
  with c s0 e r q have "fn t = Some (r, s')"
    by (cases q) (auto simp: forever_condition_def split: if_splits)
  then show ?thesis ..
qed

text \<open>The duration after \<open>n\<close> steps.\<close>

primrec schedule :: "ForeverBackoff \<Rightarrow> nat \<Rightarrow> nat" where
  "schedule b 0 = Duration b"
| "schedule b (Suc n) = schedule (b\<lparr>Duration := next_duration b\<rparr>) n"

lemma schedule_Cap: "Cap b > 0 \<Longrightarrow> Duration b \<le> Cap b \<Longrightarrow> schedule b n \<le> Cap b"
proof (induction n arbitrary: b)
  case 0
  then show ?case by simp
next
  case (Suc n)
  from Suc.IH [of "b\<lparr>Duration := next_duration b\<rparr>"] Suc.prems next_duration_le_Cap [of b]
  show ?case by simp
qed


lemma schedule_numeral: "schedule b (numeral n) = schedule (b\<lparr>Duration := next_duration b\<rparr>) (pred_numeral n)"
  by (simp add: numeral_eq_Suc)

lemma bit_len_eval:
  "bit_len 0 = 0" "bit_len (Suc 0) = 1" "bit_len (numeral k) = Suc (bit_len (numeral k div 2))"
  by (subst bit_len.simps; simp)+

lemma fl_round_eval:
  "fl_round (m, e) =
     (let k = bit_len m - 53; q = m div 2 ^ k; r = m mod 2 ^ k
      in ((if 2 * r > 2 ^ k \<or> (2 * r = 2 ^ k \<and> odd q) then q + 1 else q) * 2 ^ k, e))"
  by (simp add: fl_round_def Let_def)

lemmas schedule_eval = schedule_numeral next_duration_def fl_trunc_def fl_mult_def fl_of_nat_def
  fl_round_eval bit_len_eval

text \<open>The cap of five minutes is reached after 32 sleeps and not before.\<close>

lemma ErrorBackoff_cap:
  "schedule ErrorBackoff 31 < 300000000000" "schedule ErrorBackoff 32 = 300000000000"
  by (simp_all add: schedule_eval ErrorBackoff_def)

section \<open>The cost of a whole retry loop\<close>

lemma OnErrorForever_cost:
  fixes cost :: "'s \<Rightarrow> nat"
  assumes fn: "\<And>s r s'. fn s = Some (r, s') \<Longrightarrow> cost s' \<le> cost s + a"
    and slept: "\<And>d e t t'. d \<le> Cap b \<Longrightarrow> jit d (Jitter b) t = (e, t') \<Longrightarrow> cost (sleep e t') \<le> cost t + c"
    and res: "OnErrorForever jit sleep b P fn s = Some (r, s')"
    and b: "fst (Jitter b) > 0" "Cap b > 0" "Duration b \<le> Cap b" "Steps b > 0"
  shows "cost s' \<le> cost s + nat (Steps b) * a + (nat (Steps b) - 1) * c"
proof -
  let ?j = "\<lambda>d f (l :: go_error option, s). let (d, s) = jit d f s in (d, l, s)"
  let ?s = "\<lambda>d (l :: go_error option, s). (l, sleep d s)"
  from res obtain err l where
    loop: "ExponentialBackoffWithForeverCap ?j ?s b (forever_condition P fn) (None, s) = Some (err, l, s')"
    by (auto simp: OnErrorForever_def elim!: bind_SomeE split: if_splits)
  have check: "cost (snd u') \<le> cost (snd u) + a" if "forever_condition P fn u = Some (x, u')" for u x u'
  proof -
    obtain l t where u: "u = (l, t)" by (cases u)
    with that obtain q t' where q: "fn t = Some (q, t')" "snd u' = t'"
      by (auto simp: forever_condition_def split: option.split_asm if_split_asm)
    from fn [OF q(1)] q(2) u show ?thesis by simp
  qed
  have sl: "cost (snd (?s d u')) \<le> cost (snd u) + c"
    if "Step ?j b' u = ((d, b''), u')" "Jitter b' = Jitter b" "Duration b' \<le> Cap b" for b' d b'' u u'
    using Step_fields(5) [OF that(1)] that(2,3) b(1) slept [of "Duration b'" "snd u"]
    by (cases u; cases u') (auto split: prod.split_asm)
  from loop_cost [where cost = "\<lambda>u. cost (snd u)", OF check sl loop] b show ?thesis by auto
qed

lemma ErrorBackoff_fields [simp]:
  "Steps ErrorBackoff = 552" "Cap ErrorBackoff = 300000000000" "Duration ErrorBackoff = 1000000000"
  "fst (Jitter ErrorBackoff) > 0"
  by (simp_all add: ErrorBackoff_def)

end
