(* ===== verification/Allocations_Watcher.thy ===== *)
theory Allocations_Watcher
  imports Service_Watcher Backoff
begin

text \<open>
  \<open>pkg/controller/allocationswatcher/allocationswatcher.go\<close>: the handlers of allocation events,
  the goroutines they start (one per state of an allocation) and the callbacks for pool
  and operator events. \<open>reflect.DeepEqual\<close> of two pointers compares the objects; with a nil
  pointer it is false.
\<close>

datatype allocation_task =
    SuccessTask IPAllocation
  | PendingTask IPAllocation
  | NodeErrorTask IPAllocation
  | ErrorTask IPAllocation
  | DeletedTask IPAllocation

section \<open>Dispatch on the state\<close>

definition allocationCreated :: "IPAllocation \<Rightarrow> allocation_task list" where
  "allocationCreated allocation =
     (case alloc_state allocation of
        AllocationStatusEmpty \<Rightarrow> []
      | AllocationStatusSuccess \<Rightarrow> [SuccessTask allocation]
      | AllocationStatusPending \<Rightarrow> [PendingTask allocation]
      | AllocationStatusNodeError \<Rightarrow> [NodeErrorTask allocation]
      | AllocationStatusError \<Rightarrow> [ErrorTask allocation]
      | AllocationStatusFailed \<Rightarrow> []
      | _ \<Rightarrow> [])"   \<comment> \<open>"not implemented"\<close>

definition allocationsChanged :: "IPAllocation \<Rightarrow> allocation_task list" where
  "allocationsChanged allocation =
     (case alloc_state allocation of
        AllocationStatusEmpty \<Rightarrow> []
      | AllocationStatusSuccess \<Rightarrow> [SuccessTask allocation]
      | AllocationStatusPending \<Rightarrow> [PendingTask allocation]
      | AllocationStatusNodeError \<Rightarrow> [NodeErrorTask allocation]
      | AllocationStatusError \<Rightarrow> [ErrorTask allocation]
      | AllocationStatusFailed \<Rightarrow> []
      | _ \<Rightarrow> [])"   \<comment> \<open>"not implemented"\<close>

definition allocationDeleted :: "IPAllocation \<Rightarrow> allocation_task list" where
  "allocationDeleted allocation = [DeletedTask allocation]"

fun allocations_handler :: "informer_event \<Rightarrow> allocation_task list" where
  "allocations_handler (AddEv (IPAllocationObj allocation)) = allocationCreated allocation"
| "allocations_handler (DeleteEv (IPAllocationObj allocation)) = allocationDeleted allocation"
| "allocations_handler (UpdateEv _ (IPAllocationObj allocation)) = allocationsChanged allocation"
| "allocations_handler _ = []"   \<comment> \<open>unexpected type\<close>

definition buildAllocationsWhatcher :: "'w env \<Rightarrow> 'w sys \<Rightarrow> 'w sys" where
  "buildAllocationsWhatcher E s = s\<lparr>world := informer_new E ''ipallocations'' '''' [] (world s)\<rparr>"

definition WatchAllocations :: "'w env \<Rightarrow> 'w sys \<Rightarrow> 'w sys" where
  "WatchAllocations E s = s\<lparr>world := informer_run E ''ipallocations'' (world s)\<rparr>"

definition FindAllocationByName ::
  "'w env \<Rightarrow> string \<Rightarrow> string \<Rightarrow> 'w sys \<Rightarrow> (go_error + IPAllocation) \<times> 'w sys" where
  "FindAllocationByName E namespace name s =
     (let ((allocation, err), s) = onw (IPAllocations_Get E namespace name) s
      in case err of
           Some e \<Rightarrow> if IsNotFound e then (Inl ErrAllocationNotFound, s) else (Inl e, s)
         | None \<Rightarrow> (Inr allocation, s))"

section \<open>The goroutines\<close>

text \<open>\<open>AcquireAllocationLock\<close> followed by \<open>defer RemoveFromLock\<close>.\<close>

definition with_lock ::
  "'w env \<Rightarrow> nat \<Rightarrow> IPAllocation \<Rightarrow> ('w sys \<Rightarrow> (go_error option \<times> 'w sys) option) \<Rightarrow> 'w sys \<Rightarrow>
   (go_error option \<times> 'w sys) option" where
  "with_lock E line allocation body s =
     do {
       (err, s) \<leftarrow> AcquireAllocationLock E
         (trace ''pkg/controller/allocationswatcher/allocationswatcher.go'' line) allocation s;
       if err \<noteq> None then Some (err, s)
       else do { (r, s) \<leftarrow> body s; Some (r, RemoveFromLock allocation s) }
     }"

text \<open>Reconcile with the service; where the object stayed as it was, ensure its addresses.
  \<open>Inr None\<close> is the nil allocation a reconciliation that deleted the object returns.\<close>

definition reconcile_and_ensure ::
  "'w env \<Rightarrow> 'w clouds \<Rightarrow> IPAllocation \<Rightarrow> 'w sys \<Rightarrow>
   ((go_error + IPAllocation option) \<times> 'w sys) option" where
  "reconcile_and_ensure E C allocation s =
     (let ((service, err), s) = FindService E (AGetNamespace allocation) (AGetName allocation) s
      in case err of
           Some e \<Rightarrow> Some (Inl e, s)
         | None \<Rightarrow>
             do {
               service \<leftarrow> service;
               ((reconciledAllocation, err), s) \<leftarrow> ReconcileAllocation E C service allocation s;
               (case err of
                  Some e \<Rightarrow> Some (Inl e, s)
                | None \<Rightarrow>
                    if reconciledAllocation = Some allocation then
                      do {
                        (err, s) \<leftarrow> EnsureIPAllocation E C allocation s;
                        (case err of
                           Some e \<Rightarrow> Some (Inl e, s)
                         | None \<Rightarrow> Some (Inr reconciledAllocation, s))
                      }
                    else Some (Inr reconciledAllocation, s))
             })"

definition processAllocationStatusSuccess ::
  "'w env \<Rightarrow> 'w clouds \<Rightarrow> IPAllocation \<Rightarrow> 'w sys \<Rightarrow> (go_error option \<times> 'w sys) option" where
  "processAllocationStatusSuccess E C allocationRO =
     with_lock E 226 allocationRO (\<lambda>s.
       let (r, s) = FindAllocationByName E (AGetNamespace allocationRO) (AGetName allocationRO) s
       in case r of
            Inl err \<Rightarrow> Some (Some err, s)
          | Inr allocation \<Rightarrow>
              if alloc_state allocation \<noteq> AllocationStatusSuccess then Some (None, s)
              else do {
                (r, s) \<leftarrow> reconcile_and_ensure E C allocation s;
                Some (case r of Inl e \<Rightarrow> Some e | Inr _ \<Rightarrow> None, s)
              })"

definition processAllocationStatusPending ::
  "'w env \<Rightarrow> 'w clouds \<Rightarrow> IPAllocation \<Rightarrow> 'w sys \<Rightarrow> (go_error option \<times> 'w sys) option" where
  "processAllocationStatusPending E C allocationRO =
     with_lock E 466 allocationRO (\<lambda>s.
       let (r, s) = FindAllocationByName E (AGetNamespace allocationRO) (AGetName allocationRO) s
       in case r of
            Inl err \<Rightarrow> Some (Some err, s)
          | Inr allocation \<Rightarrow>
              if alloc_state allocation \<noteq> AllocationStatusPending then Some (None, s)
              else EnsureIPAllocation E C allocation s)"

definition processAllocationNodeError ::
  "'w env \<Rightarrow> IPAllocation \<Rightarrow> 'w sys \<Rightarrow> (go_error option \<times> 'w sys) option" where
  "processAllocationNodeError E allocationRO =
     with_lock E 442 allocationRO (\<lambda>s.
       let (r, s) = FindAllocationByName E (AGetNamespace allocationRO) (AGetName allocationRO) s
       in case r of
            Inl err \<Rightarrow> Some (Some err, s)
          | Inr allocation \<Rightarrow>
              if alloc_state allocation \<noteq> AllocationStatusNodeError then Some (None, s)
              else do {
                ((_, err), s) \<leftarrow>
                  (if AllocationType (ASpec allocation) = PersistentIP
                   then persistent_ChangeAllocationNode E allocation s
                   else ephemeral_ChangeAllocationNode E allocation s);
                Some (err, s)
              })"

text \<open>
  One attempt of the retry loop for an allocation in error. After a reconciliation the
  code reads the status message of the result, which panics where the result is nil (the
  service changed its type, or is no load balancer any more).
\<close>

definition error_attempt ::
  "'w env \<Rightarrow> 'w clouds \<Rightarrow> IPAllocation \<Rightarrow> 'w sys \<Rightarrow> (go_error option \<times> 'w sys) option" where
  "error_attempt E C allocationRO =
     with_lock E 174 allocationRO (\<lambda>s.
       let (r, s) = FindAllocationByName E (AGetNamespace allocationRO) (AGetName allocationRO) s
       in case r of
            Inl err \<Rightarrow> Some (Some err, s)
          | Inr allocation \<Rightarrow>
              if alloc_state allocation \<noteq> AllocationStatusError
              then Some (None, s\<lparr>errorAllocationsBackoffDict :=
                RemoveErrorAllocationFromProcessingList allocationRO (errorAllocationsBackoffDict s)\<rparr>)
              else do {
                (r, s) \<leftarrow> reconcile_and_ensure E C allocation s;
                (case r of
                   Inl e \<Rightarrow> Some (Some e, s)
                 | Inr reconciledAllocation \<Rightarrow>
                     do {
                       reconciled \<leftarrow> reconciledAllocation;
                       Some (Some (Errorf (Message (AStatus reconciled))), s)
                     })
              })"

definition processAllocationStatusError ::
  "'w env \<Rightarrow> 'w clouds \<Rightarrow> IPAllocation \<Rightarrow> 'w sys \<Rightarrow> (go_error option \<times> 'w sys) option" where
  "processAllocationStatusError E C allocationRO s =
     (if IsErrorAllocationAlreadyProcessing allocationRO s then Some (None, s)
      else do {
        let s = s\<lparr>errorAllocationsBackoffDict :=
          AddErrorAllocationToProcessingList allocationRO (errorAllocationsBackoffDict s)\<rparr>;
        (err, s) \<leftarrow> OnErrorForever (jitter E) (retry_sleep E) ErrorBackoff (\<lambda>err. True)
          (error_attempt E C allocationRO) s;
        (case err of
           Some err \<Rightarrow>
             (let s = s\<lparr>errorAllocationsBackoffDict :=
                    RemoveErrorAllocationFromProcessingList allocationRO (errorAllocationsBackoffDict s)\<rparr>;
                  (r, s) = FindAllocationByName E (AGetNamespace allocationRO) (AGetName allocationRO) s
              in case r of
                   Inl findErr \<Rightarrow> Some (Some findErr, s)
                 | Inr allocation \<Rightarrow>
                     do {
                       ((_, err), s) \<leftarrow> SetAllocationStatusFailed E (Some allocation) err s;
                       Some (err, s)
                     })
         | None \<Rightarrow> Some (None, s))
      })"

definition process_deleted ::
  "'w env \<Rightarrow> 'w clouds \<Rightarrow> IPAllocation \<Rightarrow> 'w sys \<Rightarrow> (go_error option \<times> 'w sys) option" where
  "process_deleted E C allocation =
     with_lock E 268 allocation (\<lambda>s.
       do {
         s \<leftarrow>
           (if AllocationType (ASpec allocation) = PersistentIP then DeallocateAllocation E C allocation s
            else if AllocationType (ASpec allocation) = EphemeralIP then
              do {
                s \<leftarrow> ephemeral_DeallocateAddress E C allocation s;
                let (_, s) = RemoveServiceIngressIPs E (AGetNamespace allocation) (AGetName allocation) s;
                Some s
              }
            else Some s);
         let ((service, err), s) = FindService E (AGetNamespace allocation) (AGetName allocation) s;
         if err = None \<and> ServiceIsLoadBalancer service then
           do {
             service \<leftarrow> service;
             (_, s) \<leftarrow> CreateAllocationForService E C service s;
             Some (None, s)
           }
         else Some (None, s)
       })"

definition run_allocation_task ::
  "'w env \<Rightarrow> 'w clouds \<Rightarrow> allocation_task \<Rightarrow> 'w sys \<Rightarrow> (go_error option \<times> 'w sys) option" where
  "run_allocation_task E C task s =
     (case task of
        SuccessTask a \<Rightarrow> processAllocationStatusSuccess E C a s
      | PendingTask a \<Rightarrow> processAllocationStatusPending E C a s
      | NodeErrorTask a \<Rightarrow> processAllocationNodeError E a s
      | ErrorTask a \<Rightarrow> processAllocationStatusError E C a s
      | DeletedTask a \<Rightarrow> process_deleted E C a s)"

section \<open>Callbacks for operator events\<close>

fun lost_allocations :: "'w env \<Rightarrow> string \<Rightarrow> k8s_obj list \<Rightarrow> 'w sys \<Rightarrow> 'w sys option" where
  "lost_allocations E clusterNodeName [] s = Some s"
| "lost_allocations E clusterNodeName (obj # objs) s =
     (case obj of
        IPAllocationObj allocation \<Rightarrow>
          (if \<exists>addrAlloc \<in> set (alloc_addresses allocation). NodeName addrAlloc = clusterNodeName
           then do {
             (_, s) \<leftarrow> SetAllocationStatusNodeError E (Some allocation)
               (Errorf (''Cluster node '' @ clusterNodeName @ '' lost'')) s;
             lost_allocations E clusterNodeName objs s
           }
           else lost_allocations E clusterNodeName objs s)
      | _ \<Rightarrow> lost_allocations E clusterNodeName objs s)"

definition operatorNodeLost :: "'w env \<Rightarrow> string \<Rightarrow> 'w sys \<Rightarrow> 'w sys option" where
  "operatorNodeLost E clusterNodeName s =
     lost_allocations E clusterNodeName (allocationStore E (world s)) s"

fun addresses_to_keep :: "string \<Rightarrow> k8s_obj list \<Rightarrow> AddressInfo list" where
  "addresses_to_keep clusterNodeName [] = []"
| "addresses_to_keep clusterNodeName (obj # objs) =
     (case obj of
        IPAllocationObj allocation \<Rightarrow>
          map (\<lambda>addrAlloc. \<lparr>InfoAddress = Address addrAlloc, InfoInterface = NetworkInterface addrAlloc\<rparr>)
            (filter (\<lambda>addrAlloc. NodeName addrAlloc = clusterNodeName) (alloc_addresses allocation))
          @ addresses_to_keep clusterNodeName objs
      | _ \<Rightarrow> addresses_to_keep clusterNodeName objs)"

definition newOperatorNode :: "'w env \<Rightarrow> string \<Rightarrow> 'w sys \<Rightarrow> 'w sys option" where
  "newOperatorNode E clusterNodeName s =
     do {
       (_, s) \<leftarrow> DoCleanup E clusterNodeName
         (addresses_to_keep clusterNodeName (allocationStore E (world s))) s;
       Some s
     }"

section \<open>Callbacks for pool events\<close>

text \<open>The inner loops go over the addresses the allocation had at first, and remove from
  its latest version.\<close>

fun remove_matching ::
  "'w env \<Rightarrow> (IPAllocationAddresses \<Rightarrow> bool) \<Rightarrow> IPAllocationAddresses list \<Rightarrow> IPAllocation option \<Rightarrow>
   'w sys \<Rightarrow> 'w sys option" where
  "remove_matching E P [] allocation s = Some s"
| "remove_matching E P (addrAlloc # rest) allocation s =
     (if P addrAlloc then
        do {
          ((result, err), s) \<leftarrow> RemoveAddressFromAllocation E allocation (Address addrAlloc) s;
          remove_matching E P rest (if err \<noteq> None then allocation else result) s
        }
      else remove_matching E P rest allocation s)"

fun remove_from_allocations ::
  "'w env \<Rightarrow> (IPAllocation \<Rightarrow> IPAllocationAddresses \<Rightarrow> bool) \<Rightarrow> k8s_obj list \<Rightarrow> 'w sys \<Rightarrow> 'w sys option" where
  "remove_from_allocations E P [] s = Some s"
| "remove_from_allocations E P (obj # objs) s =
     (case obj of
        IPAllocationObj allocation \<Rightarrow>
          do {
            s \<leftarrow> remove_matching E (P allocation) (alloc_addresses allocation) (Some allocation) s;
            remove_from_allocations E P objs s
          }
      | _ \<Rightarrow> remove_from_allocations E P objs s)"

definition deallocateDeletedAddresses :: "'w env \<Rightarrow> string list \<Rightarrow> 'w sys \<Rightarrow> 'w sys option" where
  "deallocateDeletedAddresses E addresses s =
     remove_from_allocations E (\<lambda>_ addrAlloc. ContainsString addresses (Address addrAlloc))
       (allocationStore E (world s)) s"

definition deallocateAddressesOfPool :: "'w env \<Rightarrow> string \<Rightarrow> 'w sys \<Rightarrow> 'w sys option" where
  "deallocateAddressesOfPool E poolName s =
     remove_from_allocations E (\<lambda>_ addrAlloc. Pool addrAlloc = poolName)
       (allocationStore E (world s)) s"

definition watcher_persistentPoolModified :: "'w env \<Rightarrow> PersistentIPPool \<Rightarrow> 'w sys \<Rightarrow> 'w sys option" where
  "watcher_persistentPoolModified E pool s =
     do {
       s \<leftarrow> remove_from_allocations E
         (\<lambda>allocation addrAllocation.
            AllocationType (ASpec allocation) = PersistentIP \<and>
            Pool addrAllocation = PGetName pool \<and>
            \<not> PoolHasAddress pool (Address addrAllocation))
         (allocationStore E (world s)) s;
       Some (s\<lparr>availablesPools :=
         ProcessIPAvailabilityFromCacheList pool (allocationStore E (world s)) (availablesPools s)\<rparr>)
     }"

definition watcher_ephemeralPoolModified :: "'w env \<Rightarrow> EphemeralIPPool \<Rightarrow> 'w sys \<Rightarrow> 'w sys option" where
  "watcher_ephemeralPoolModified E pool s = Some s"

definition watcher_persistentPoolRemoved :: "'w env \<Rightarrow> PersistentIPPool \<Rightarrow> 'w sys \<Rightarrow> 'w sys option" where
  "watcher_persistentPoolRemoved E pool s = deallocateDeletedAddresses E (pool_addresses pool) s"

definition watcher_ephemeralPoolRemoved :: "'w env \<Rightarrow> EphemeralIPPool \<Rightarrow> 'w sys \<Rightarrow> 'w sys option" where
  "watcher_ephemeralPoolRemoved E pool s = deallocateAddressesOfPool E (EGetName pool) s"

section \<open>The lock around the goroutines\<close>

text \<open>Whatever the body does, the lock of the allocation is free when the goroutine has
  held it; it is not touched where the lock could not be had.\<close>

lemma with_lock_cases:
  assumes R: "retry_ok (retry_lock E)" and "with_lock E line a body s = Some (r, s')"
  obtains (ran) t t' where "body t = Some (r, t')" "s' = RemoveFromLock a t'"
      "lockedObjects t (alloc_key a) \<noteq> None"
  | (busy) "r = Some ErrObjectLocked" "lockedObjects s' (alloc_key a) \<noteq> None"
proof -
  let ?c = "trace ''pkg/controller/allocationswatcher/allocationswatcher.go'' line"
  from R show ?thesis
  proof (cases rule: Acquire_cases [of E ?c a s])
    case (locked t s0)
    with assms(2) obtain t' where "body t = Some (r, t')" "s' = RemoveFromLock a t'"
      by (auto simp: with_lock_def elim!: bind_SomeE)
    with locked show ?thesis by (intro ran) auto
  next
    case (timeout t)
    with assms(2) show ?thesis by (intro busy) (auto simp: with_lock_def)
  qed
qed

lemma with_lock_released:
  assumes "retry_ok (retry_lock E)" and "with_lock E line a body s = Some (r, s')"
  shows "lockedObjects s' (alloc_key a) = None \<or> r = Some ErrObjectLocked"
  using assms by (cases rule: with_lock_cases) auto

lemma with_lock_total:
  assumes R: "retry_ok (retry_lock E)" and "\<And>t. body t \<noteq> None"
  shows "with_lock E line a body s \<noteq> None"
proof -
  let ?c = "trace ''pkg/controller/allocationswatcher/allocationswatcher.go'' line"
  from R show ?thesis
  proof (cases rule: Acquire_cases [of E ?c a s])
    case (locked t s0)
    from assms(2) [of t] obtain r t' where "body t = Some (r, t')" by auto
    with locked show ?thesis by (simp add: with_lock_def)
  next
    case (timeout t)
    then show ?thesis by (simp add: with_lock_def)
  qed
qed

lemma FindAllocationByName_world_only: "FindAllocationByName E ns n s = (r, s') \<Longrightarrow> world_only s s'"
  by (auto simp: FindAllocationByName_def split: asm_splits dest: onw_world_only)

section \<open>Dispatch\<close>

text \<open>The two handlers treat an allocation alike, and start a goroutine for four states.\<close>

lemma allocation_dispatch:
  "allocationCreated a = allocationsChanged a"
  "allocationsChanged a \<noteq> [] \<longleftrightarrow> alloc_state a \<in>
     {AllocationStatusSuccess, AllocationStatusPending, AllocationStatusNodeError, AllocationStatusError}"
  by (auto simp: allocationCreated_def allocationsChanged_def split: AllocationStatus.splits)

section \<open>The error list\<close>

text \<open>At most one retry loop runs for an allocation: a second one returns at once.\<close>

lemma processError_busy:
  "alloc_key a \<in> set (errorAllocationsBackoffDict s) \<Longrightarrow> processAllocationStatusError E C a s = Some (None, s)"
  by (simp add: processAllocationStatusError_def IsErrorAllocationAlreadyProcessing_def
      isErrorAllocationAlreadyProcessing_def)

text \<open>An attempt that finds the object in another state ends the loop and leaves the list.\<close>

lemma error_attempt_nil:
  assumes R: "retry_ok (retry_lock E)" and "error_attempt E C a s = Some (None, s')"
    and "distinct (errorAllocationsBackoffDict s')"
  obtains t al t' where "FindAllocationByName E (AGetNamespace a) (AGetName a) t = (Inr al, t')"
    and "alloc_state al \<noteq> AllocationStatusError"
    and "errorAllocationsBackoffDict s' =
      RemoveErrorAllocationFromProcessingList a (errorAllocationsBackoffDict t')"
  using R assms(2) [unfolded error_attempt_def]
proof (cases rule: with_lock_cases)
  case (ran t t')
  then show ?thesis
    by (auto simp: Let_def elim!: bind_SomeE split: asm_splits sum.split_asm intro!: that)
next
  case busy
  then show ?thesis by simp
qed

section \<open>Operator events\<close>

text \<open>Exactly the addresses recorded on the new node are kept, with their interface as it is
  recorded (for an address bought from a cloud without a host interface, the empty one).\<close>

lemma addresses_to_keep_iff:
  "i \<in> set (addresses_to_keep n objs) \<longleftrightarrow>
    (\<exists>a x. IPAllocationObj a \<in> set objs \<and> x \<in> set (alloc_addresses a) \<and> NodeName x = n \<and>
       i = \<lparr>InfoAddress = Address x, InfoInterface = NetworkInterface x\<rparr>)"
proof (induction objs)
  case Nil
  then show ?case by simp
next
  case (Cons obj objs)
  show ?case
  proof (cases obj)
    case (IPAllocationObj a)
    have "i \<in> set (addresses_to_keep n (obj # objs)) \<longleftrightarrow>
        (\<exists>x \<in> set (alloc_addresses a). NodeName x = n \<and>
           i = \<lparr>InfoAddress = Address x, InfoInterface = NetworkInterface x\<rparr>) \<or>
        i \<in> set (addresses_to_keep n objs)"
      by (auto simp: IPAllocationObj)
    then show ?thesis unfolding Cons IPAllocationObj by auto
  qed (simp_all add: Cons)
qed

text \<open>The status requests of a lost node, as the list of objects they are sent for.\<close>

fun on_lost_node :: "string \<Rightarrow> k8s_obj \<Rightarrow> IPAllocation option" where
  "on_lost_node n (IPAllocationObj a) =
     (if \<exists>x \<in> set (alloc_addresses a). NodeName x = n
      then Some (set_alloc_status AllocationStatusNodeError (''Cluster node '' @ n @ '' lost'') a)
      else None)"
| "on_lost_node n _ = None"

lemma lost_allocations_eq:
  "lost_allocations E n objs s =
     Some (fold (\<lambda>a s. snd (send_status E a s)) (List.map_filter (on_lost_node n) objs) s)"
proof (induction objs arbitrary: s)
  case Nil
  then show ?case by (simp add: List.map_filter_simps)
next
  case (Cons obj objs)
  show ?case
  proof (cases obj)
    case (IPAllocationObj a)
    show ?thesis
    proof (cases "\<exists>x \<in> set (alloc_addresses a). NodeName x = n")
      case True
      obtain r t where "send_status E (set_alloc_status AllocationStatusNodeError (''Cluster node '' @ n @ '' lost'') a) s
          = (r, t)" by fastforce
      with Cons [of t] True IPAllocationObj show ?thesis
        by (simp add: SetAllocationStatusNodeError_def List.map_filter_simps)
    next
      case False
      with Cons IPAllocationObj show ?thesis by (auto simp: List.map_filter_simps)
    qed
  qed (use Cons in \<open>simp_all add: List.map_filter_simps\<close>)
qed

lemma operatorNodeLost_total: "operatorNodeLost E n s \<noteq> None"
  by (simp add: operatorNodeLost_def lost_allocations_eq)

section \<open>Pool events\<close>

text \<open>Removing all addresses of a list one after the other never panics.\<close>

lemma SetAddrDeleted_Some:
  obtains r s' where "SetAllocationStatusAddrDeleted E (Some a) m s = Some (r, s')"
    and "snd r = None \<longrightarrow> fst r \<noteq> None"
proof -
  obtain res e s' where "send_status E (set_alloc_status AllocationStatusAddrDeleted
      (''Address '' @ m @ '' removed from pool'') a) s = ((res, e), s')" by (metis prod.exhaust)
  then have "SetAllocationStatusAddrDeleted E (Some a) m s = Some (status_result (res, e), s')"
    by (simp add: SetAllocationStatusAddrDeleted_def)
  moreover have "snd (status_result (res, e)) = None \<longrightarrow> fst (status_result (res, e)) \<noteq> None"
    by (cases e) (simp_all add: status_result_def)
  ultimately show ?thesis by (rule that)
qed

lemma RemoveAddress_Some: "\<exists>r s'. RemoveAddressFromAllocation E (Some a) x s = Some (r, s') \<and>
    (snd r = None \<longrightarrow> fst r \<noteq> None)"
proof (cases "filter (\<lambda>y. Address y \<noteq> x) (alloc_addresses a) = alloc_addresses a")
  case True
  then show ?thesis by (simp add: RemoveAddressFromAllocation_def)
next
  case False
  then have ne: "length (filter (\<lambda>y. Address y \<noteq> x) (alloc_addresses a)) \<noteq> length (alloc_addresses a)"
    by (metis filter_True length_filter_less less_irrefl)
  let ?a = "set_alloc_addresses (filter (\<lambda>y. Address y \<noteq> x) (alloc_addresses a)) a"
  obtain u e t where u: "onw (IPAllocations_Update E (AGetNamespace ?a) ?a) s = ((u, e), t)"
    by (metis prod.exhaust)
  show ?thesis
  proof (cases e)
    case (Some err)
    with ne u show ?thesis by (simp add: RemoveAddressFromAllocation_def Let_def)
  next
    case None
    obtain r t' where "SetAllocationStatusAddrDeleted E (Some u) x t = Some (r, t')"
      and "snd r = None \<longrightarrow> fst r \<noteq> None" by (rule SetAddrDeleted_Some)
    with ne u None show ?thesis by (cases r) (simp add: RemoveAddressFromAllocation_def Let_def)
  qed
qed

lemma remove_matching_total: "remove_matching E P as (Some a) s \<noteq> None"
proof (induction as arbitrary: a s)
  case Nil
  then show ?case by simp
next
  case (Cons x as)
  obtain r e s' where r: "RemoveAddressFromAllocation E (Some a) (Address x) s = Some ((r, e), s')"
    and ne: "e = None \<longrightarrow> r \<noteq> None"
    using RemoveAddress_Some [of E a "Address x" s] by auto
  then obtain b where "(if e \<noteq> None then Some a else r) = Some b" by (cases e) auto
  with Cons [of b s'] Cons [of a s] r show ?case by simp
qed

lemma remove_from_allocations_total: "remove_from_allocations E P objs s \<noteq> None"
proof (induction objs arbitrary: s)
  case Nil
  then show ?case by simp
next
  case (Cons obj objs)
  show ?case
  proof (cases obj)
    case (IPAllocationObj a)
    from remove_matching_total [of E "P a" "alloc_addresses a" a s] obtain t where
      "remove_matching E (P a) (alloc_addresses a) (Some a) s = Some t" by auto
    with Cons [of t] IPAllocationObj show ?thesis by simp
  qed (use Cons in simp_all)
qed

lemma remove_matching_world_only [world_only_intros]:
  "remove_matching E P as a s = Some s' \<Longrightarrow> world_only s s'"
proof (induction as arbitrary: a s)
  case Nil
  then show ?case by simp
next
  case (Cons x as)
  then show ?case
    by (auto elim!: bind_SomeE split: asm_splits dest!: RemoveAddressFromAllocation_world_only
        intro: world_only_trans)
qed

lemma remove_from_allocations_world_only [world_only_intros]:
  "remove_from_allocations E P objs s = Some s' \<Longrightarrow> world_only s s'"
proof (induction objs arbitrary: s)
  case Nil
  then show ?case by simp
next
  case (Cons obj objs)
  then show ?case
    by (auto elim!: bind_SomeE split: k8s_obj.split_asm dest!: remove_matching_world_only
        intro: world_only_trans)
qed

section \<open>Panics of the error loop\<close>

text \<open>A reconciliation that returns nil without an error (it deleted the object) takes the
  process down when an allocation in error is retried.\<close>

lemma error_attempt_panics:
  assumes R: "retry_ok (retry_lock E)" and free: "lockedObjects s (alloc_key a) = None"
    and nil: "\<And>t. world t = world s \<Longrightarrow> \<exists>al t1 t2.
      FindAllocationByName E (AGetNamespace a) (AGetName a) t = (Inr al, t1) \<and>
      alloc_state al = AllocationStatusError \<and> reconcile_and_ensure E C al t1 = Some (Inr None, t2)"
  shows "error_attempt E C a s = None"
proof -
  let ?c = "trace ''pkg/controller/allocationswatcher/allocationswatcher.go'' 174"
  obtain n d where Rd: "\<forall>P f t. retry_lock E P f t = retry_loop n d P f t"
    using R unfolding retry_ok_def by blast
  have "AcquireAllocationLock E ?c a s =
      Some (None, s\<lparr>lockedObjects := (lockedObjects s)(alloc_key a \<mapsto> ?c)\<rparr>)"
    using free by (simp add: AcquireAllocationLock_def Rd retry_loop.simps [of n]
        lock_attempt_def isLocked_def addToLock_def)
  moreover obtain al t1 t2 where
    "FindAllocationByName E (AGetNamespace a) (AGetName a)
       (s\<lparr>lockedObjects := (lockedObjects s)(alloc_key a \<mapsto> ?c)\<rparr>) = (Inr al, t1)"
    "alloc_state al = AllocationStatusError" "reconcile_and_ensure E C al t1 = Some (Inr None, t2)"
    using nil [of "s\<lparr>lockedObjects := (lockedObjects s)(alloc_key a \<mapsto> ?c)\<rparr>"] by auto
  ultimately show ?thesis by (simp add: error_attempt_def with_lock_def)
qed

end
