(* ===== verification/Pools_Controller.thy ===== *)
theory Pools_Controller
  imports Operator_Daemonset
begin

text \<open>
  \<open>pkg/controller/poolsController/poolsController.go\<close>: the operators are deployed while some
  pool puts addresses on a host interface, and deleted when none does. The errors of the
  calls are ignored, as in the code.
\<close>

fun any_ephemeral_host_option :: "k8s_obj list \<Rightarrow> bool" where
  "any_ephemeral_host_option [] = False"
| "any_ephemeral_host_option (obj # objs) =
     (case obj of
        EphemeralIPPoolObj pool \<Rightarrow>
          (if EphemeralPoolHasHostNetworkOption pool then True else any_ephemeral_host_option objs)
      | _ \<Rightarrow> any_ephemeral_host_option objs)"

fun any_persistent_host_option :: "k8s_obj list \<Rightarrow> bool" where
  "any_persistent_host_option [] = False"
| "any_persistent_host_option (obj # objs) =
     (case obj of
        PersistentIPPoolObj pool \<Rightarrow>
          (if PersistentPoolHasHostNetworkOption pool then True else any_persistent_host_option objs)
      | _ \<Rightarrow> any_persistent_host_option objs)"

definition atLeastOnePoolHasHostNetworkOption :: "'w env \<Rightarrow> 'w sys \<Rightarrow> bool" where
  "atLeastOnePoolHasHostNetworkOption E s =
     (if any_ephemeral_host_option (ephemeralPoolsStore E (world s)) then True
      else if any_persistent_host_option (persistentPoolsStore E (world s)) then True
      else False)"

definition controller_persistentPoolModified :: "'w env \<Rightarrow> PersistentIPPool \<Rightarrow> 'w sys \<Rightarrow> 'w sys option" where
  "controller_persistentPoolModified E pool s =
     (let required = atLeastOnePoolHasHostNetworkOption E s
      in if required \<and> \<not> deployed s then do { (_, s) \<leftarrow> DeployOrDie E s; Some s }
         else if \<not> required \<and> deployed s then do { (_, s) \<leftarrow> Delete E s; Some s }
         else Some s)"

definition controller_ephemeralPoolModified :: "'w env \<Rightarrow> EphemeralIPPool \<Rightarrow> 'w sys \<Rightarrow> 'w sys option" where
  "controller_ephemeralPoolModified E pool s =
     (let required = atLeastOnePoolHasHostNetworkOption E s
      in if required \<and> \<not> deployed s then do { (_, s) \<leftarrow> DeployOrDie E s; Some s }
         else if \<not> required \<and> deployed s then do { (_, s) \<leftarrow> Delete E s; Some s }
         else Some s)"

definition controller_persistentPoolRemoved :: "'w env \<Rightarrow> PersistentIPPool \<Rightarrow> 'w sys \<Rightarrow> 'w sys option" where
  "controller_persistentPoolRemoved E pool s =
     (if PersistentPoolHasHostNetworkOption pool then
        (let required = atLeastOnePoolHasHostNetworkOption E s
         in if required \<and> \<not> deployed s then do { (_, s) \<leftarrow> DeployOrDie E s; Some s }
            else if \<not> required \<and> deployed s then do { (_, s) \<leftarrow> Delete E s; Some s }
            else Some s)
      else Some s)"

definition controller_ephemeralPoolRemoved :: "'w env \<Rightarrow> EphemeralIPPool \<Rightarrow> 'w sys \<Rightarrow> 'w sys option" where
  "controller_ephemeralPoolRemoved E pool s =
     (if EphemeralPoolHasHostNetworkOption pool then
        (let required = atLeastOnePoolHasHostNetworkOption E s
         in if required \<and> \<not> deployed s then do { (_, s) \<leftarrow> DeployOrDie E s; Some s }
            else if \<not> required \<and> deployed s then do { (_, s) \<leftarrow> Delete E s; Some s }
            else Some s)
      else Some s)"

section \<open>Lemmas\<close>

lemma any_ephemeral_iff: "any_ephemeral_host_option objs \<longleftrightarrow>
    (\<exists>pool. EphemeralIPPoolObj pool \<in> set objs \<and> EphemeralPoolHasHostNetworkOption pool)"
  by (induction objs) (auto split: k8s_obj.splits)

lemma any_persistent_iff: "any_persistent_host_option objs \<longleftrightarrow>
    (\<exists>pool. PersistentIPPoolObj pool \<in> set objs \<and> PersistentPoolHasHostNetworkOption pool)"
  by (induction objs) (auto split: k8s_obj.splits)

lemma atLeastOne_iff: "atLeastOnePoolHasHostNetworkOption E s \<longleftrightarrow>
    (\<exists>pool. EphemeralIPPoolObj pool \<in> set (ephemeralPoolsStore E (world s)) \<and>
       EphemeralPoolHasHostNetworkOption pool) \<or>
    (\<exists>pool. PersistentIPPoolObj pool \<in> set (persistentPoolsStore E (world s)) \<and>
       PersistentPoolHasHostNetworkOption pool)"
  by (simp add: atLeastOnePoolHasHostNetworkOption_def any_ephemeral_iff any_persistent_iff)

text \<open>The four callbacks are one decision, taken at once or guarded by the removed pool's option.\<close>

lemma pool_callbacks_eq:
  "controller_ephemeralPoolModified E q s = controller_persistentPoolModified E p s"
  "PersistentPoolHasHostNetworkOption p \<Longrightarrow>
     controller_persistentPoolRemoved E p s = controller_persistentPoolModified E p s"
  "EphemeralPoolHasHostNetworkOption q \<Longrightarrow>
     controller_ephemeralPoolRemoved E q s = controller_persistentPoolModified E p s"
  by (simp_all add: controller_ephemeralPoolModified_def controller_persistentPoolModified_def
      controller_persistentPoolRemoved_def controller_ephemeralPoolRemoved_def)

text \<open>
  What a decision leaves behind: deployed exactly where some pool needs the operators, or
  else the API refused the one call that was made and the state is as before.
\<close>

lemma pool_modified_spec:
  assumes "controller_persistentPoolModified E pool s = Some s'" and inv: "operator_inv s"
  shows "operator_inv s'" and "bus s' = bus s" and "availablesPools s' = availablesPools s"
    and "deployed s' = atLeastOnePoolHasHostNetworkOption E s \<or> deployed s' = deployed s"
proof -
  let ?r = "atLeastOnePoolHasHostNetworkOption E s"
  from assms(1) consider (same) "s' = s" "deployed s = ?r"
    | (deploy) e where "?r" "\<not> deployed s" "DeployOrDie E s = Some (e, s')"
    | (delete) e where "\<not> ?r" "deployed s" "Delete E s = Some (e, s')"
    by (auto simp: controller_persistentPoolModified_def Let_def elim!: bind_SomeE split: if_split_asm)
  then have "operator_inv s' \<and> bus s' = bus s \<and> availablesPools s' = availablesPools s \<and>
      (deployed s' = ?r \<or> deployed s' = deployed s)"
  proof cases
    case same
    with inv show ?thesis by simp
  next
    case deploy
    with DeployOrDie_inv [OF deploy(3) inv] show ?thesis by auto
  next
    case delete
    from Delete_inv [OF delete(3) inv] delete show ?thesis by auto
  qed
  then show "operator_inv s'" and "bus s' = bus s" and "availablesPools s' = availablesPools s"
    and "deployed s' = ?r \<or> deployed s' = deployed s" by auto
qed

text \<open>It makes no call where the deployment already agrees with the pools.\<close>

lemma pool_modified_idle:
  "deployed s = atLeastOnePoolHasHostNetworkOption E s \<Longrightarrow> controller_persistentPoolModified E pool s = Some s"
  by (simp add: controller_persistentPoolModified_def)

end
