(* ===== verification/Persistent_Watcher.thy ===== *)
theory Persistent_Watcher
  imports Persistent_Allocator
begin

text \<open>
  \<open>pkg/controller/persistentips/watcher.go\<close> and \<open>packageInit.go\<close>: the informer of the
  persistent pools, what its events do, and the warm-up of the availability at start.
\<close>

definition persistent_addPool :: "'w env \<Rightarrow> PersistentIPPool \<Rightarrow> 'w sys \<Rightarrow> 'w sys option" where
  "persistent_addPool E pool s =
     (let s = s\<lparr>availablesPools := addOrReplaceAvailabilityPool pool (availablesPools s)\<rparr>
      in if PersistentPoolHasHostNetworkOption pool \<and> \<not> deployed s
         then do { (_, s) \<leftarrow> DeployOrDie E s; Some s }
         else Some s)"

definition persistent_modifyPool :: "PersistentIPPool \<Rightarrow> 'w sys \<Rightarrow> 'w sys" where
  "persistent_modifyPool pool s = s\<lparr>bus := bus s @ [PersistentPoolModifiedEv pool]\<rparr>"

definition persistent_removePool :: "PersistentIPPool \<Rightarrow> 'w sys \<Rightarrow> 'w sys" where
  "persistent_removePool pool s = s\<lparr>bus := bus s @ [PersistentPoolDeletedEv pool]\<rparr>"

fun persistent_pools_handler :: "'w env \<Rightarrow> informer_event \<Rightarrow> 'w sys \<Rightarrow> 'w sys option" where
  "persistent_pools_handler E (AddEv (PersistentIPPoolObj pool)) s = persistent_addPool E pool s"
| "persistent_pools_handler E (DeleteEv (PersistentIPPoolObj pool)) s = Some (persistent_removePool pool s)"
| "persistent_pools_handler E (UpdateEv _ (PersistentIPPoolObj newPool)) s =
     Some (persistent_modifyPool newPool s)"
| "persistent_pools_handler E _ s = Some s"   \<comment> \<open>unexpected type\<close>

definition persistent_createIPPoolsWatcher :: "'w env \<Rightarrow> 'w sys \<Rightarrow> 'w sys" where
  "persistent_createIPPoolsWatcher E s =
     s\<lparr>world := informer_new E ''persistentippools'' '''' [] (world s)\<rparr>"

definition persistent_WatchIPPools :: "'w env \<Rightarrow> 'w sys \<Rightarrow> 'w sys" where
  "persistent_WatchIPPools E s = s\<lparr>world := informer_run E ''persistentippools'' (world s)\<rparr>"

text \<open>The list holds pool values, and values (not pointers) are put in the store.\<close>

definition persistent_warmupIPPoolsCacheOrDie :: "'w env \<Rightarrow> 'w sys \<Rightarrow> 'w sys option" where
  "persistent_warmupIPPoolsCacheOrDie E s =
     (let ((items, err), s) = onw (PersistentIPPools_List E) s
      in if err \<noteq> None then None   \<comment> \<open>klog.Fatal\<close>
         else Some (s\<lparr>world :=
           fold (\<lambda>ippool. informer_add E ''persistentippools'' (OtherObj ''v1alpha1.PersistentIPPool''))
             items (world s)\<rparr>))"

fun warmup_pools :: "'w env \<Rightarrow> IPAllocation list \<Rightarrow> k8s_obj list \<Rightarrow> 'w sys \<Rightarrow> 'w sys option" where
  "warmup_pools E allocations [] s = Some s"
| "warmup_pools E allocations (obj # objs) s =
     (case obj of
        PersistentIPPoolObj pool \<Rightarrow>
          do {
            s \<leftarrow> persistent_addPool E pool s;
            warmup_pools E allocations objs
              (s\<lparr>availablesPools := processIPAvailability pool allocations (availablesPools s)\<rparr>)
          }
      | _ \<Rightarrow> warmup_pools E allocations objs s)"

definition warmupIPAvailabilityOrDie :: "'w env \<Rightarrow> 'w sys \<Rightarrow> 'w sys option" where
  "warmupIPAvailabilityOrDie E s =
     (let ((allocations, err), s) = onw (IPAllocations_List E '''') s
      in if err \<noteq> None then None   \<comment> \<open>klog.Fatal\<close>
         else warmup_pools E allocations (persistent_store E s) s)"

definition persistent_Init :: "'w env \<Rightarrow> 'w sys \<Rightarrow> 'w sys option" where
  "persistent_Init E s =
     do {
       let s = persistent_createIPPoolsWatcher E s;
       s \<leftarrow> persistent_warmupIPPoolsCacheOrDie E s;
       warmupIPAvailabilityOrDie E s
     }"

section \<open>Preservation of the availability invariant\<close>

lemma addOrReplace_wf:
  "availability_wf aps \<Longrightarrow> availability_wf (addOrReplaceAvailabilityPool pool aps)"
  by (cases "pool_addresses pool = []") (simp_all add: addOrReplace_empty addOrReplace_spec)

lemma persistent_addPool_spec:
  assumes "persistent_addPool E pool s = Some s'" and "operator_inv s"
  shows "availablesPools s' = addOrReplaceAvailabilityPool pool (availablesPools s)"
    and "operator_inv s'" and "bus s' = bus s"
proof -
  let ?s = "s\<lparr>availablesPools := addOrReplaceAvailabilityPool pool (availablesPools s)\<rparr>"
  have inv: "operator_inv ?s" using assms(2) by (simp add: operator_inv_def)
  from assms(1) consider "s' = ?s" | r where "DeployOrDie E ?s = Some (r, s')"
    by (auto simp: persistent_addPool_def Let_def elim!: bind_SomeE split: if_split_asm)
  then have "availablesPools s' = availablesPools ?s \<and> operator_inv s' \<and> bus s' = bus ?s"
    by cases (use inv DeployOrDie_inv [OF _ inv] in auto)
  then show "availablesPools s' = addOrReplaceAvailabilityPool pool (availablesPools s)"
    and "operator_inv s'" and "bus s' = bus s" by simp_all
qed

lemma persistent_addPool_availability:
  "persistent_addPool E pool s = Some s' \<Longrightarrow>
     availablesPools s' = addOrReplaceAvailabilityPool pool (availablesPools s)"
  by (auto simp: persistent_addPool_def Let_def elim!: bind_SomeE split: if_split_asm dest: DeployOrDie_pools)

lemma persistent_pools_handler_wf:
  assumes "persistent_pools_handler E ev s = Some s'" and "operator_inv s"
    and "availability_wf (availablesPools s)"
  shows "availability_wf (availablesPools s') \<and> operator_inv s'"
  using assms
  by (cases "(E, ev, s)" rule: persistent_pools_handler.cases)
    (auto simp: persistent_removePool_def persistent_modifyPool_def persistent_addPool_spec addOrReplace_wf)

text \<open>
  The warm-up of one pool that has a free address: the free set of the pool is then the
  addresses no allocation has. For a pool whose addresses are all allocated it is not: the
  first call (\<open>addPool\<close>) makes them all free, and the second has no effect.
\<close>

lemma warmup_one_pool:
  assumes "availability_wf aps"
  shows "free_ips (processIPAvailability pool allocations (addOrReplaceAvailabilityPool pool aps)) =
    {e \<in> free_ips aps. fst e \<noteq> PGetName pool} \<union>
    (if set (pool_addresses pool) \<subseteq> allocated_ips allocations
     then (if pool_addresses pool = [] then {e \<in> free_ips aps. fst e = PGetName pool}
           else pool_entries pool)
     else Pair (PGetName pool) ` (set (pool_addresses pool) - allocated_ips allocations))"
proof -
  let ?f = "filter (\<lambda>ip. \<not> checkIfIPIsAllocated ip allocations) (pool_addresses pool)"
  have f: "set ?f = set (pool_addresses pool) - allocated_ips allocations" by auto
  have wf1: "availability_wf (addOrReplaceAvailabilityPool pool aps)" using assms by (rule addOrReplace_wf)
  show ?thesis
  proof (cases "pool_addresses pool = []")
    case True
    then show ?thesis by (auto simp: processIPAvailability_def addOrReplace_empty)
  next
    case False
    note sp = addOrReplace_spec [OF assms False]
    show ?thesis
    proof (cases "?f = []")
      case True
      then have "set ?f = {}" by (simp only: list.set)
      then have "set (pool_addresses pool) \<subseteq> allocated_ips allocations"
        unfolding f by (simp only: Diff_eq_empty_iff)
      with True False sp show ?thesis by (simp add: processIPAvailability_def addOrReplace_empty)
    next
      case ne: False
      then have "set ?f \<noteq> {}" by (simp only: set_empty not_False_eq_True)
      then have "\<not> set (pool_addresses pool) \<subseteq> allocated_ips allocations"
        unfolding f by (simp only: Diff_eq_empty_iff not_False_eq_True)
      moreover have "free_ips (processIPAvailability pool allocations (addOrReplaceAvailabilityPool pool aps)) =
        {e \<in> free_ips (addOrReplaceAvailabilityPool pool aps). fst e \<noteq> PGetName pool} \<union>
        Pair (PGetName pool) ` set ?f"
        using addOrReplace_spec(1) [OF wf1, of "set_pool_addresses ?f pool"] ne
        by (simp add: processIPAvailability_def)
      ultimately show ?thesis using sp(1) f by (auto simp: pool_entries_def)
    qed
  qed
qed

lemma warmup_pools_wf:
  "warmup_pools E allocations objs s = Some s' \<Longrightarrow> operator_inv s \<Longrightarrow> availability_wf (availablesPools s) \<Longrightarrow>
     availability_wf (availablesPools s') \<and> operator_inv s'"
proof (induction objs arbitrary: s)
  case Nil
  then show ?case by simp
next
  case (Cons obj objs)
  show ?case
  proof (cases "\<exists>pool. obj = PersistentIPPoolObj pool")
    case True
    then obtain pool where obj: "obj = PersistentIPPoolObj pool" ..
    with Cons.prems(1) obtain t where t: "persistent_addPool E pool s = Some t"
      and rest: "warmup_pools E allocations objs
        (t\<lparr>availablesPools := processIPAvailability pool allocations (availablesPools t)\<rparr>) = Some s'"
      by (auto elim!: bind_SomeE)
    note sp = persistent_addPool_spec [OF t Cons.prems(2)]
    have "operator_inv (t\<lparr>availablesPools := processIPAvailability pool allocations (availablesPools t)\<rparr>)"
      using sp(2) by (simp add: operator_inv_def)
    with Cons.IH [OF rest] sp(1) Cons.prems(3) show ?thesis
      by (simp add: processIPAvailability_wf addOrReplace_wf)
  next
    case False
    with Cons show ?thesis by (cases obj) auto
  qed
qed

end
