(* ===== verification/Events.thy ===== *)
theory Events
  imports Allocations_Watcher Pools_Controller Persistent_Watcher
begin

text \<open>
  \<open>pkg/controller/events\<close>: the channels between the watchers and the controllers. A send
  appends to the bus (\<open>Environment\<close>); a listener goroutine receives the oldest event of its
  channel and runs the callbacks that were registered, in the order of registration. One
  turn of a listener is a function here; with nothing to receive it changes nothing.
\<close>

record 'w callbacks =
  onPoolModifiedCB :: "(PersistentIPPool \<Rightarrow> 'w sys \<Rightarrow> 'w sys option) list"
  onPoolDeletedCB :: "(PersistentIPPool \<Rightarrow> 'w sys \<Rightarrow> 'w sys option) list"
  onEphemeralPoolModifiedCB :: "(EphemeralIPPool \<Rightarrow> 'w sys \<Rightarrow> 'w sys option) list"
  onEphemeralPoolDeletedCB :: "(EphemeralIPPool \<Rightarrow> 'w sys \<Rightarrow> 'w sys option) list"
  onNodeLostCB :: "(string \<Rightarrow> 'w sys \<Rightarrow> 'w sys option) option"
  onNewNodeCB :: "(string \<Rightarrow> 'w sys \<Rightarrow> 'w sys option) option"

definition no_callbacks :: "'w callbacks" where
  "no_callbacks =
     \<lparr>onPoolModifiedCB = [], onPoolDeletedCB = [], onEphemeralPoolModifiedCB = [],
      onEphemeralPoolDeletedCB = [], onNodeLostCB = None, onNewNodeCB = None\<rparr>"

section \<open>Sending\<close>

definition PersistentPoolModified :: "PersistentIPPool \<Rightarrow> 'w sys \<Rightarrow> 'w sys" where
  "PersistentPoolModified pool s = s\<lparr>bus := bus s @ [PersistentPoolModifiedEv pool]\<rparr>"

definition PersistentPoolDeleted :: "PersistentIPPool \<Rightarrow> 'w sys \<Rightarrow> 'w sys" where
  "PersistentPoolDeleted pool s = s\<lparr>bus := bus s @ [PersistentPoolDeletedEv pool]\<rparr>"

definition EphemeralPoolModified :: "EphemeralIPPool \<Rightarrow> 'w sys \<Rightarrow> 'w sys" where
  "EphemeralPoolModified pool s = s\<lparr>bus := bus s @ [EphemeralPoolModifiedEv pool]\<rparr>"

definition EphemeralPoolDeleted :: "EphemeralIPPool \<Rightarrow> 'w sys \<Rightarrow> 'w sys" where
  "EphemeralPoolDeleted pool s = s\<lparr>bus := bus s @ [EphemeralPoolDeletedEv pool]\<rparr>"

definition OperatorNodeLost :: "string \<Rightarrow> 'w sys \<Rightarrow> 'w sys" where
  "OperatorNodeLost nodeName s = s\<lparr>bus := bus s @ [OperatorNodeLostEv nodeName]\<rparr>"

definition NewOperatorNode :: "string \<Rightarrow> 'w sys \<Rightarrow> 'w sys" where
  "NewOperatorNode nodeName s = s\<lparr>bus := bus s @ [NewOperatorNodeEv nodeName]\<rparr>"

text \<open>The watchers of the pools and of the operator pods send with these.\<close>

lemma watchers_send:
  "persistent_modifyPool = PersistentPoolModified" "persistent_removePool = PersistentPoolDeleted"
  "ephemeral_modifyPool = EphemeralPoolModified" "ephemeral_removePool = EphemeralPoolDeleted"
  "newOperatorNode_pod pod = NewOperatorNode (PodNodeName pod)"
  "operatorNodeLost_pod E pod = (\<lambda>s.
     checkIfOperatorIsStillRequiredOrDie E (OperatorNodeLost (PodNodeName pod) s))"
  by (intro ext; simp add: persistent_modifyPool_def persistent_removePool_def ephemeral_modifyPool_def
      ephemeral_removePool_def newOperatorNode_pod_def operatorNodeLost_pod_def PersistentPoolModified_def
      PersistentPoolDeleted_def EphemeralPoolModified_def EphemeralPoolDeleted_def
      NewOperatorNode_def OperatorNodeLost_def)+

section \<open>Registering\<close>

definition RegisterOnPersistentPoolModifiedFunc ::
  "(PersistentIPPool \<Rightarrow> 'w sys \<Rightarrow> 'w sys option) \<Rightarrow> 'w callbacks \<Rightarrow> 'w callbacks" where
  "RegisterOnPersistentPoolModifiedFunc cb CB = CB\<lparr>onPoolModifiedCB := onPoolModifiedCB CB @ [cb]\<rparr>"

definition RegisterOnPersistentPoolDeletedFunc ::
  "(PersistentIPPool \<Rightarrow> 'w sys \<Rightarrow> 'w sys option) \<Rightarrow> 'w callbacks \<Rightarrow> 'w callbacks" where
  "RegisterOnPersistentPoolDeletedFunc cb CB = CB\<lparr>onPoolDeletedCB := onPoolDeletedCB CB @ [cb]\<rparr>"

definition RegisterOnEphemeralPoolModifiedFunc ::
  "(EphemeralIPPool \<Rightarrow> 'w sys \<Rightarrow> 'w sys option) \<Rightarrow> 'w callbacks \<Rightarrow> 'w callbacks" where
  "RegisterOnEphemeralPoolModifiedFunc cb CB =
     CB\<lparr>onEphemeralPoolModifiedCB := onEphemeralPoolModifiedCB CB @ [cb]\<rparr>"

definition RegisterOnEphemeralPoolDeletedFunc ::
  "(EphemeralIPPool \<Rightarrow> 'w sys \<Rightarrow> 'w sys option) \<Rightarrow> 'w callbacks \<Rightarrow> 'w callbacks" where
  "RegisterOnEphemeralPoolDeletedFunc cb CB =
     CB\<lparr>onEphemeralPoolDeletedCB := onEphemeralPoolDeletedCB CB @ [cb]\<rparr>"

definition RegisterOnOperatorNodeLostFunc ::
  "(string \<Rightarrow> 'w sys \<Rightarrow> 'w sys option) \<Rightarrow> 'w callbacks \<Rightarrow> 'w callbacks" where
  "RegisterOnOperatorNodeLostFunc cb CB = CB\<lparr>onNodeLostCB := Some cb\<rparr>"

definition RegisterOnNewOperatorNodeFunc ::
  "(string \<Rightarrow> 'w sys \<Rightarrow> 'w sys option) \<Rightarrow> 'w callbacks \<Rightarrow> 'w callbacks" where
  "RegisterOnNewOperatorNodeFunc cb CB = CB\<lparr>onNewNodeCB := Some cb\<rparr>"

text \<open>\<open>allocationswatcher.Init\<close> and \<open>poolscontroller.Init\<close>.\<close>

definition Allocations_Watcher_Init :: "'w env \<Rightarrow> 'w callbacks \<Rightarrow> 'w sys \<Rightarrow> 'w callbacks \<times> 'w sys" where
  "Allocations_Watcher_Init E CB s =
     (let s = buildAllocationsWhatcher E s;
          CB = RegisterOnPersistentPoolModifiedFunc (watcher_persistentPoolModified E) CB;
          CB = RegisterOnPersistentPoolDeletedFunc (watcher_persistentPoolRemoved E) CB;
          CB = RegisterOnEphemeralPoolModifiedFunc (watcher_ephemeralPoolModified E) CB;
          CB = RegisterOnEphemeralPoolDeletedFunc (watcher_ephemeralPoolRemoved E) CB;
          CB = RegisterOnOperatorNodeLostFunc (operatorNodeLost E) CB;
          CB = RegisterOnNewOperatorNodeFunc (newOperatorNode E) CB
      in (CB, s))"

definition Pools_Controller_Init :: "'w env \<Rightarrow> 'w callbacks \<Rightarrow> 'w callbacks" where
  "Pools_Controller_Init E CB =
     (let CB = RegisterOnPersistentPoolDeletedFunc (controller_persistentPoolRemoved E) CB;
          CB = RegisterOnEphemeralPoolDeletedFunc (controller_ephemeralPoolRemoved E) CB;
          CB = RegisterOnPersistentPoolModifiedFunc (controller_persistentPoolModified E) CB
      in RegisterOnEphemeralPoolModifiedFunc (controller_ephemeralPoolModified E) CB)"

section \<open>Receiving\<close>

text \<open>The oldest event of a channel (\<open>sel\<close> picks the channel), and the bus without it.\<close>

fun receive :: "(bus_event \<Rightarrow> 'a option) \<Rightarrow> bus_event list \<Rightarrow> ('a \<times> bus_event list) option" where
  "receive sel [] = None"
| "receive sel (e # es) =
     (case sel e of
        Some x \<Rightarrow> Some (x, es)
      | None \<Rightarrow> map_option (\<lambda>(x, es). (x, e # es)) (receive sel es))"

fun run_callbacks :: "('a \<Rightarrow> 'w sys \<Rightarrow> 'w sys option) list \<Rightarrow> 'a \<Rightarrow> 'w sys \<Rightarrow> 'w sys option" where
  "run_callbacks [] x s = Some s"
| "run_callbacks (cb # cbs) x s = do { s \<leftarrow> cb x s; run_callbacks cbs x s }"

definition listen_turn ::
  "(bus_event \<Rightarrow> 'a option) \<Rightarrow> ('a \<Rightarrow> 'w sys \<Rightarrow> 'w sys option) list \<Rightarrow> 'w sys \<Rightarrow> 'w sys option" where
  "listen_turn sel cbs s =
     (case receive sel (bus s) of
        None \<Rightarrow> Some s
      | Some (x, es) \<Rightarrow> run_callbacks cbs x (s\<lparr>bus := es\<rparr>))"

fun sel_persistent_modified :: "bus_event \<Rightarrow> PersistentIPPool option" where
  "sel_persistent_modified (PersistentPoolModifiedEv p) = Some p"
| "sel_persistent_modified _ = None"

fun sel_persistent_deleted :: "bus_event \<Rightarrow> PersistentIPPool option" where
  "sel_persistent_deleted (PersistentPoolDeletedEv p) = Some p"
| "sel_persistent_deleted _ = None"

fun sel_ephemeral_modified :: "bus_event \<Rightarrow> EphemeralIPPool option" where
  "sel_ephemeral_modified (EphemeralPoolModifiedEv p) = Some p"
| "sel_ephemeral_modified _ = None"

fun sel_ephemeral_deleted :: "bus_event \<Rightarrow> EphemeralIPPool option" where
  "sel_ephemeral_deleted (EphemeralPoolDeletedEv p) = Some p"
| "sel_ephemeral_deleted _ = None"

fun sel_node_lost :: "bus_event \<Rightarrow> string option" where
  "sel_node_lost (OperatorNodeLostEv n) = Some n"
| "sel_node_lost _ = None"

fun sel_new_node :: "bus_event \<Rightarrow> string option" where
  "sel_new_node (NewOperatorNodeEv n) = Some n"
| "sel_new_node _ = None"

definition ListenModifiedPersistentPoolsChan :: "'w callbacks \<Rightarrow> 'w sys \<Rightarrow> 'w sys option" where
  "ListenModifiedPersistentPoolsChan CB s = listen_turn sel_persistent_modified (onPoolModifiedCB CB) s"

definition ListenDeletedPersistentPoolsChan :: "'w callbacks \<Rightarrow> 'w sys \<Rightarrow> 'w sys option" where
  "ListenDeletedPersistentPoolsChan CB s = listen_turn sel_persistent_deleted (onPoolDeletedCB CB) s"

definition ListenModifiedEphemeralPoolsChan :: "'w callbacks \<Rightarrow> 'w sys \<Rightarrow> 'w sys option" where
  "ListenModifiedEphemeralPoolsChan CB s =
     listen_turn sel_ephemeral_modified (onEphemeralPoolModifiedCB CB) s"

definition ListenDeletedEphemeralPoolsChan :: "'w callbacks \<Rightarrow> 'w sys \<Rightarrow> 'w sys option" where
  "ListenDeletedEphemeralPoolsChan CB s =
     listen_turn sel_ephemeral_deleted (onEphemeralPoolDeletedCB CB) s"

text \<open>Of a node callback only the last registration counts.\<close>

definition ListenOperatorNodeLostChan :: "'w callbacks \<Rightarrow> 'w sys \<Rightarrow> 'w sys option" where
  "ListenOperatorNodeLostChan CB s =
     listen_turn sel_node_lost (case onNodeLostCB CB of Some cb \<Rightarrow> [cb] | None \<Rightarrow> []) s"

definition ListenNewOperatorNodeChan :: "'w callbacks \<Rightarrow> 'w sys \<Rightarrow> 'w sys option" where
  "ListenNewOperatorNodeChan CB s =
     listen_turn sel_new_node (case onNewNodeCB CB of Some cb \<Rightarrow> [cb] | None \<Rightarrow> []) s"

section \<open>Order of delivery\<close>

text \<open>Each channel is first-in first-out and the receipt from one does not touch another.\<close>

lemma receive_None: "receive sel es = None \<longleftrightarrow> List.map_filter sel es = []"
  by (induction es) (auto simp: List.map_filter_simps split: option.splits)

lemma receive_Some:
  "receive sel es = Some (x, es') \<Longrightarrow> List.map_filter sel es = x # List.map_filter sel es'"
  by (induction es arbitrary: es') (auto simp: List.map_filter_simps split: option.split_asm)

lemma receive_other:
  assumes "receive sel es = Some (x, es')" and "\<And>e. sel e \<noteq> None \<Longrightarrow> sel' e = None"
  shows "List.map_filter sel' es' = List.map_filter sel' es"
  using assms(1)
proof (induction es arbitrary: es')
  case Nil
  then show ?case by simp
next
  case (Cons e es)
  then show ?case using assms(2) [of e]
    by (auto simp: List.map_filter_simps split: option.split_asm option.split)
qed

end
