(* ===== verification/Crd.thy ===== *)
theory Crd
  imports Wait
begin

text \<open>
  The custom resource definitions: names (\<open>register.go\<close> and \<open>*_register.go\<close>), validation
  schemas (\<open>*_validation.go\<close>), the definitions the three packages build (\<open>CRDDeployer.go\<close>) and
  their deployment (\<open>pkg/controller/CRDDeployer/deployer.go\<close>).
\<close>

section \<open>Names\<close>

definition CRDGroup :: string where
  "CRDGroup = ''loadbalancing.plenus.io''"

definition CRDVersion :: string where
  "CRDVersion = ''v1alpha1''"

definition IPAllocationCRDPlural :: string where
  "IPAllocationCRDPlural = ''ipallocations''"

definition FullIPAllocationCRDName :: string where
  "FullIPAllocationCRDName = IPAllocationCRDPlural @ ''.'' @ CRDGroup"

definition PersistentIPPoolCRDPlural :: string where
  "PersistentIPPoolCRDPlural = ''persistentippools''"

definition FullPersistentIPPoolCRDName :: string where
  "FullPersistentIPPoolCRDName = PersistentIPPoolCRDPlural @ ''.'' @ CRDGroup"

definition EphemeralIPPoolCRDPlural :: string where
  "EphemeralIPPoolCRDPlural = ''ephemeralippools''"

definition FullEphemeralIPPoolCRDName :: string where
  "FullEphemeralIPPoolCRDName = EphemeralIPPoolCRDPlural @ ''.'' @ CRDGroup"

text \<open>\<open>strings.ToLower\<close> on ASCII.\<close>

definition ToLower :: "string \<Rightarrow> string" where
  "ToLower s =
     map (\<lambda>c. if 65 \<le> (of_char c :: nat) \<and> (of_char c :: nat) \<le> 90 then char_of ((of_char c :: nat) + 32) else c) s"

section \<open>Validation schemas\<close>

text \<open>The arguments of \<open>Schema\<close>: type, required, properties, items, enum (raw JSON), minimal
  length, one-of, and whether additional properties are disallowed.\<close>

definition json_string :: "string \<Rightarrow> string" where
  "json_string s = [CHR 0x22] @ s @ [CHR 0x22]"

definition scalar :: "string \<Rightarrow> schema" where
  "scalar ty = Schema ty [] [] None [] None [] True"

definition string_enum :: "string list \<Rightarrow> schema" where
  "string_enum vs = Schema ''string'' [] [] None (map json_string vs) None [] True"

definition object :: "string list \<Rightarrow> (string \<times> schema) list \<Rightarrow> schema" where
  "object req props = Schema ''object'' req props None [] None [] False"

definition string_array :: "int \<Rightarrow> schema" where
  "string_array minLength = Schema ''array'' [] [] (Some (scalar ''string'')) [] (Some minLength) [] True"

definition GetIPAllocationValidationSchemaV1 :: schema where
  "GetIPAllocationValidationSchemaV1 =
     object [''spec'']
       [(''spec'',
         object [''allocations'', ''type'']
           [(''type'', string_enum [IPType_string EphemeralIP, IPType_string PersistentIP]),
            (''allocations'',
             Schema ''array'' [] []
               (Some (object [''address'', ''pool'']
                  [(''address'', scalar ''string''),
                   (''pool'', scalar ''string''),
                   (''networkInterface'', scalar ''string''),
                   (''nodeName'', scalar ''string''),
                   (''cloudProvider'', scalar ''string'')]))
               [] None [] False)]),
        (''status'',
         object []
           [(''state'',
             string_enum
               [AllocationStatus_string AllocationStatusSuccess,
                AllocationStatus_string AllocationStatusError,
                AllocationStatus_string AllocationStatusNodeError,
                AllocationStatus_string AllocationStatusPending,
                AllocationStatus_string AllocationStatusAddrDeleted,
                AllocationStatus_string AllocationStatusFailed]),
            (''message'', scalar ''string'')])]"

definition cloud_integration_schema :: schema where
  "cloud_integration_schema =
     Schema ''object'' []
       [(''hetzner'', object [''token''] [(''token'', scalar ''string'')])]
       None [] None [Schema '''' [''hetzner''] [] None [] None [] False] False"

definition options_schema :: schema where
  "options_schema =
     object []
       [(''hostNetworkInterface'',
         object [''addAddressesToInterface'', ''interfaceName'']
           [(''addAddressesToInterface'', scalar ''boolean''),
            (''interfaceName'', scalar ''string'')])]"

definition GetEphemeralIPPoolValidationSchemaV1 :: schema where
  "GetEphemeralIPPoolValidationSchemaV1 =
     object [''spec'']
       [(''spec'',
         object [''cloudIntegration'']
           [(''allowedNamespaces'', string_array 1),
            (''cloudIntegration'', cloud_integration_schema),
            (''options'', options_schema)])]"

definition GetPersistentIPPoolValidationSchemaV1 :: schema where
  "GetPersistentIPPoolValidationSchemaV1 =
     object [''spec'']
       [(''spec'',
         object [''addresses'']
           [(''addresses'', string_array 1),
            (''allowedNamespaces'', string_array 1),
            (''cloudIntegration'', cloud_integration_schema),
            (''options'', options_schema)])]"

section \<open>Definitions of the three resources\<close>

definition crd_definition :: "string \<Rightarrow> schema \<Rightarrow> string \<Rightarrow> string \<Rightarrow> string \<Rightarrow> CRD" where
  "crd_definition fullName sch scope plural kind =
     \<lparr>CRDMeta = \<lparr>Name = fullName, Namespace = '''', Labels = [], ResourceVersion = ''''\<rparr>,
      CRDGroupName = CRDGroup, CRDVersionName = CRDVersion, CRDServed = True, CRDStorage = True,
      CRDSchema = sch, CRDStatusSubresource = False, CRDPrinterColumns = [], CRDScope = scope,
      CRDSingular = ToLower kind, CRDPlural = plural, CRDKind = kind, CRDCategories = [],
      CRDShortNames = [], CRDPreserveUnknownFields = False, CRDConditions = []\<rparr>"

definition persistent_getV1Definition :: CRD where
  "persistent_getV1Definition =
     crd_definition FullPersistentIPPoolCRDName GetPersistentIPPoolValidationSchemaV1 ''Cluster''
       PersistentIPPoolCRDPlural ''PersistentIPPool''"

definition ephemeral_getV1Definition :: CRD where
  "ephemeral_getV1Definition =
     crd_definition FullEphemeralIPPoolCRDName GetEphemeralIPPoolValidationSchemaV1 ''Cluster''
       EphemeralIPPoolCRDPlural ''EphemeralIPPool''"

definition allocation_getV1Definition :: CRD where
  "allocation_getV1Definition =
     (crd_definition FullIPAllocationCRDName GetIPAllocationValidationSchemaV1 ''Namespaced''
        IPAllocationCRDPlural ''IPAllocation'')
       \<lparr>CRDStatusSubresource := True,
        CRDPrinterColumns :=
          [\<lparr>ColName = ''Type'', ColType = ''string'', ColPath = ''.spec.type''\<rparr>,
           \<lparr>ColName = ''State'', ColType = ''string'', ColPath = ''.status.state''\<rparr>,
           \<lparr>ColName = ''Message'', ColType = ''string'', ColPath = ''.status.message''\<rparr>,
           \<lparr>ColName = ''Age'', ColType = ''date'', ColPath = ''.metadata.creationTimestamp''\<rparr>],
        CRDCategories := [''all''],
        CRDShortNames := [''ipa'']\<rparr>"

section \<open>Deployment\<close>

definition createCRDV1 :: "'w env \<Rightarrow> CRD \<Rightarrow> 'w \<Rightarrow> go_error option \<times> 'w" where
  "createCRDV1 E crd w =
     (let (r, w) = crd_create E crd w
      in case r of
           Inl err \<Rightarrow> (Some (Ext err), w)
         | Inr deployedCRD \<Rightarrow> ForCRD E (2 * Minute) deployedCRD w)"

definition updateCRDV1 :: "'w env \<Rightarrow> CRD \<Rightarrow> CRD \<Rightarrow> 'w \<Rightarrow> go_error option \<times> 'w" where
  "updateCRDV1 E existingCRD newCrd w =
     (let newCrd = newCrd\<lparr>CRDMeta := (CRDMeta newCrd)\<lparr>ResourceVersion := ResourceVersion (CRDMeta existingCRD)\<rparr>\<rparr>;
          (r, w) = crd_update E newCrd w
      in case r of
           Inl err \<Rightarrow> (Some (Ext err), w)
         | Inr deployedCRD \<Rightarrow> ForCRD E (2 * Minute) deployedCRD w)"

text \<open>\<open>strconv.Atoi\<close> fails on anything but an optional sign and digits, so on a minor version
  like \<open>18+\<close> too.\<close>

definition CreateOrUpdateCRD :: "'w env \<Rightarrow> string \<Rightarrow> CRD \<Rightarrow> 'w \<Rightarrow> go_error option \<times> 'w" where
  "CreateOrUpdateCRD E crdName v1Definition w =
     (let (r, w) = server_version E w
      in case r of
           Inl err \<Rightarrow> (Some (Ext err), w)
         | Inr (major, minor) \<Rightarrow>
             (let (r, w) = crd_get E crdName w
              in case r of
                   Inr existingResourceV1 \<Rightarrow> updateCRDV1 E existingResourceV1 v1Definition w
                 | Inl err \<Rightarrow>
                     if \<not> IsNotFound (Ext err) then (Some (Ext err), w)
                     else (case ParseInt 64 minor of
                             None \<Rightarrow> (Some (Ext (PlainError (''strconv.Atoi: parsing '' @ minor))), w)
                           | Some minorNum \<Rightarrow>
                               if minorNum \<ge> 16 then createCRDV1 E v1Definition w
                               else (Some (Errorf ''Cluster version ot supported''), w))))"

definition persistent_CreateOrUpdateCRD :: "'w env \<Rightarrow> 'w \<Rightarrow> go_error option \<times> 'w" where
  "persistent_CreateOrUpdateCRD E = CreateOrUpdateCRD E FullPersistentIPPoolCRDName persistent_getV1Definition"

definition ephemeral_CreateOrUpdateCRD :: "'w env \<Rightarrow> 'w \<Rightarrow> go_error option \<times> 'w" where
  "ephemeral_CreateOrUpdateCRD E = CreateOrUpdateCRD E FullEphemeralIPPoolCRDName ephemeral_getV1Definition"

definition allocation_CreateOrUpdateCRD :: "'w env \<Rightarrow> 'w \<Rightarrow> go_error option \<times> 'w" where
  "allocation_CreateOrUpdateCRD E = CreateOrUpdateCRD E FullIPAllocationCRDName allocation_getV1Definition"

section \<open>Lemmas\<close>

text \<open>The state values the schema admits are the states the code writes.\<close>

definition written_states :: "AllocationStatus list" where
  "written_states =
     [AllocationStatusSuccess, AllocationStatusError, AllocationStatusNodeError, AllocationStatusPending,
      AllocationStatusAddrDeleted, AllocationStatusFailed]"

fun schema_at :: "string list \<Rightarrow> schema \<Rightarrow> schema option" where
  "schema_at [] sch = Some sch"
| "schema_at (p # ps) sch =
     (case map_of (schema_props sch) p of None \<Rightarrow> None | Some sub \<Rightarrow> schema_at ps sub)"

lemma state_schema:
  "schema_at [''status'', ''state''] GetIPAllocationValidationSchemaV1 =
     Some (string_enum (map AllocationStatus_string written_states))"
  by (simp add: GetIPAllocationValidationSchemaV1_def object_def written_states_def)

text \<open>After a successful deployment some version of a definition was seen established.\<close>

lemma CreateOrUpdateCRD_ok:
  assumes P: "poll_ok E" and "CreateOrUpdateCRD E n crd w = (None, w')"
  shows "\<exists>w0 c m. crd_get E m w0 = (Inr c, w') \<and> crdReady c"
  using assms(2)
  by (auto simp: CreateOrUpdateCRD_def createCRDV1_def updateCRDV1_def Let_def
      split: prod.split_asm sum.split_asm option.split_asm if_split_asm dest!: ForCRD_ready [OF P])

text \<open>On a server whose minor version is not a plain number nothing is created.\<close>

lemma CreateOrUpdateCRD_odd_minor:
  assumes "server_version E w = (Inr (major, minor), w1)" and "ParseInt 64 minor = None"
    and "crd_get E n w1 = (Inl err, w2)" and "IsNotFound (Ext err)"
  shows "CreateOrUpdateCRD E n crd w = (Some (Ext (PlainError (''strconv.Atoi: parsing '' @ minor))), w2)"
  using assms by (simp add: CreateOrUpdateCRD_def)

lemma CreateOrUpdateCRD_suffixed_minor:
  assumes "server_version E w = (Inr (major, digits @ ''+''), w1)"
    and "crd_get E n w1 = (Inl err, w2)" and "IsNotFound (Ext err)"
  shows "CreateOrUpdateCRD E n crd w =
    (Some (Ext (PlainError (''strconv.Atoi: parsing '' @ digits @ ''+''))), w2)"
proof -
  have "ParseInt 64 (digits @ ''+'') = None"
    by (cases digits) (auto simp: ParseInt_def parse_uint_def is_digit_def split: if_splits)
  from CreateOrUpdateCRD_odd_minor [OF assms(1) this assms(2,3)] show ?thesis by simp
qed

end
