(* ===== verification/Leader.thy ===== *)
theory Leader
  imports Events Crd
begin

text \<open>
  \<open>pkg/controller/leader/election.go\<close>: what the process does when it starts and stops being
  the leader. The election itself (client-go), the lease object and the wait for the
  caches are parameters.
\<close>

record LeaderElectionRecord =
  HolderIdentity :: string
  LeaseDurationSeconds :: int
  RenewTime :: int

record 'w lease_client =
  lease_get :: "'w \<Rightarrow> (ext_error + LeaderElectionRecord) \<times> 'w"
  lease_update :: "LeaderElectionRecord \<Rightarrow> 'w \<Rightarrow> ext_error option \<times> 'w"
  now :: "'w \<Rightarrow> int"
  WaitForCacheSync :: "string list \<Rightarrow> 'w \<Rightarrow> bool \<times> 'w"

record Election =
  leaseLockName :: string
  leaseLockNamespace :: string
  electionId :: string
  imLeader :: bool

definition Election_Init :: "string \<Rightarrow> string \<Rightarrow> Election" where
  "Election_Init namespace ident =
     \<lparr>leaseLockName = ''plenus.io-leader-lease'', leaseLockNamespace = namespace, electionId = ident,
      imLeader = False\<rparr>"

definition releaseLeader :: "'w lease_client \<Rightarrow> 'w \<Rightarrow> go_error option \<times> 'w" where
  "releaseLeader L w =
     (let (r, w) = lease_get L w
      in case r of
           Inl err \<Rightarrow> (Some (Ext err), w)
         | Inr electionRecord \<Rightarrow>
             (let newElectionRecord = electionRecord\<lparr>HolderIdentity := '''', RenewTime := now L w\<rparr>;
                  (err, w) = lease_update L newElectionRecord w
              in (map_option Ext err, w)))"

section \<open>The configuration of the election (nanoseconds)\<close>

record LeaderElectionConfig =
  ReleaseOnCancel :: bool
  LeaseDuration :: int
  RenewDeadline :: int
  RetryPeriod :: int

definition election_config :: LeaderElectionConfig where
  "election_config =
     \<lparr>ReleaseOnCancel = False, LeaseDuration = 60 * 1000000000, RenewDeadline = 15 * 1000000000,
      RetryPeriod = 5 * 1000000000\<rparr>"

section \<open>Starting to lead\<close>

text \<open>The result: the callbacks registered, and whether the listeners run (they do not where
  the caches did not synchronise). \<open>None\<close>: the process ended with \<open>klog.Fatal\<close>.\<close>

definition OnStartedLeading ::
  "'w env \<Rightarrow> 'w lease_client \<Rightarrow> Election \<Rightarrow> 'w sys \<Rightarrow>
   ((Election \<times> 'w callbacks \<times> bool) \<times> 'w sys) option" where
  "OnStartedLeading E L le s =
     do {
       let le = le\<lparr>imLeader := True\<rparr>;
       let (err, s) = onw (allocation_CreateOrUpdateCRD E) s;
       if err \<noteq> None then None
       else do {
         s \<leftarrow> Operator_Init E s;
         let (err, s) = onw (persistent_CreateOrUpdateCRD E) s;
         if err \<noteq> None then None
         else do {
           s \<leftarrow> persistent_Init E s;
           let s = persistent_WatchIPPools E s;
           let (err, s) = onw (ephemeral_CreateOrUpdateCRD E) s;
           if err \<noteq> None then None
           else do {
             s \<leftarrow> ephemeral_Init E s;
             let s = ephemeral_WatchIPPools E s;
             let s = Service_Watcher_Init E s;
             let s = WatchServices E s;
             let (CB, s) = Allocations_Watcher_Init E no_callbacks s;
             let s = WatchAllocations E s;
             let informers = [''ipallocations'', ''services'', ''persistentippools'', ''ephemeralippools''] @
                   (if operatorNodesStoreBuilt s then [''pods''] else []);
             let CB = Pools_Controller_Init E CB;
             let (synced, s) = onw (WaitForCacheSync L informers) s;
             Some ((le, CB, synced), s)
           }
         }
       }
     }"

section \<open>Stopping\<close>

datatype process = Running | Exited nat   \<comment> \<open>\<open>klog.Fatalf\<close> exits with 255\<close>

definition OnStoppedLeading :: "'w lease_client \<Rightarrow> Election \<Rightarrow> 'w \<Rightarrow> process \<times> Election \<times> 'w" where
  "OnStoppedLeading L le w =
     (if \<not> imLeader le then (Running, le, w)
      else
        (let le = le\<lparr>imLeader := False\<rparr>;
             (err, w) = releaseLeader L w
         in if err \<noteq> None then (Exited 255, le, w) else (Exited 0, le, w)))"

section \<open>The election\<close>

record LeaseLock =
  LockName :: string
  LockNamespace :: string
  LockIdentity :: string

definition lease_lock :: "Election \<Rightarrow> LeaseLock" where
  "lease_lock le =
     \<lparr>LockName = leaseLockName le, LockNamespace = leaseLockNamespace le, LockIdentity = electionId le\<rparr>"

text \<open>\<open>leaderelection.RunOrDie\<close> tries to get the lease; where it does, it starts to lead and goes on
  until the lease is lost or the context is done; \<open>OnStoppedLeading\<close> runs in the end in any case.
  \<open>elected\<close> is whether it got the lease, \<open>led\<close> what the leader's time does to the state. The
  last component: whether \<open>stopped\<close> has been sent, which an exit prevents.\<close>

definition DoLeaderElection ::
  "'w env \<Rightarrow> 'w lease_client \<Rightarrow> bool \<Rightarrow> ('w callbacks \<Rightarrow> bool \<Rightarrow> 'w sys \<Rightarrow> 'w sys) \<Rightarrow> Election \<Rightarrow> 'w sys \<Rightarrow>
   ((process \<times> Election \<times> bool) \<times> 'w sys) option" where
  "DoLeaderElection E L elected led le s =
     do {
       (le, s) \<leftarrow>
         (if elected then do {
            ((le, CB, listening), s) \<leftarrow> OnStartedLeading E L le s;
            Some (le, led CB listening s)
          }
          else Some (le, s));
       let (p, le, w) = OnStoppedLeading L le (world s);
       Some ((p, le, p = Running), s\<lparr>world := w\<rparr>)
     }"

section \<open>Lemmas\<close>

text \<open>A replica that was elected ends as a process, with 0 exactly when it gave the lease back; so no
  process leads twice. One that was not elected touches nothing and reports that it stopped.\<close>

lemma OnStartedLeading_leads:
  "OnStartedLeading E L le s = Some ((le', CB, listening), s') \<Longrightarrow> le' = le\<lparr>imLeader := True\<rparr>"
  by (auto simp: OnStartedLeading_def Let_def elim!: bind_SomeE split: asm_splits)

lemma DoLeaderElection_elected:
  assumes "DoLeaderElection E L True led le s = Some ((p, le', stopped), s')"
  shows "p \<noteq> Running \<and> \<not> stopped \<and> \<not> imLeader le' \<and>
    (\<exists>CB listening s1. OnStartedLeading E L le s = Some ((le\<lparr>imLeader := True\<rparr>, CB, listening), s1) \<and>
       p = (if fst (releaseLeader L (world (led CB listening s1))) = None then Exited 0 else Exited 255))"
proof -
  from assms obtain le1 CB listening s1 where o: "OnStartedLeading E L le s = Some ((le1, CB, listening), s1)"
    and r: "(let (p, le, w) = OnStoppedLeading L le1 (world (led CB listening s1))
       in Some ((p, le, p = Running), (led CB listening s1)\<lparr>world := w\<rparr>)) = Some ((p, le', stopped), s')"
    by (auto simp: DoLeaderElection_def elim!: bind_SomeE)
  from OnStartedLeading_leads [OF o] have le1: "le1 = le\<lparr>imLeader := True\<rparr>" .
  obtain err w where rel: "releaseLeader L (world (led CB listening s1)) = (err, w)" by (metis prod.exhaust)
  from r le1 rel have "p = (if err \<noteq> None then Exited 255 else Exited 0) \<and> \<not> stopped \<and> \<not> imLeader le'"
    by (auto simp: OnStoppedLeading_def split: if_split_asm)
  with o le1 rel show ?thesis by auto
qed

lemma DoLeaderElection_not_elected:
  "\<not> imLeader le \<Longrightarrow> DoLeaderElection E L False led le s = Some ((Running, le, True), s)"
  by (simp add: DoLeaderElection_def OnStoppedLeading_def)

text \<open>The order in which one event reaches its callbacks: the allocations watcher first.\<close>

lemma registered_callbacks:
  assumes "Allocations_Watcher_Init E no_callbacks s = (CB, s')"
  shows "onPoolModifiedCB (Pools_Controller_Init E CB) =
      [watcher_persistentPoolModified E, controller_persistentPoolModified E]"
    and "onPoolDeletedCB (Pools_Controller_Init E CB) =
      [watcher_persistentPoolRemoved E, controller_persistentPoolRemoved E]"
    and "onEphemeralPoolModifiedCB (Pools_Controller_Init E CB) =
      [watcher_ephemeralPoolModified E, controller_ephemeralPoolModified E]"
    and "onEphemeralPoolDeletedCB (Pools_Controller_Init E CB) =
      [watcher_ephemeralPoolRemoved E, controller_ephemeralPoolRemoved E]"
    and "onNodeLostCB (Pools_Controller_Init E CB) = Some (operatorNodeLost E)"
    and "onNewNodeCB (Pools_Controller_Init E CB) = Some (newOperatorNode E)"
  using assms
  by (auto simp: Allocations_Watcher_Init_def Pools_Controller_Init_def no_callbacks_def Let_def
      RegisterOnPersistentPoolModifiedFunc_def RegisterOnPersistentPoolDeletedFunc_def
      RegisterOnEphemeralPoolModifiedFunc_def RegisterOnEphemeralPoolDeletedFunc_def
      RegisterOnOperatorNodeLostFunc_def RegisterOnNewOperatorNodeFunc_def)

lemma releaseLeader_ok:
  assumes "releaseLeader L w = (None, w')"
  shows "\<exists>r w1. lease_get L w = (Inr r, w1) \<and>
    lease_update L (r\<lparr>HolderIdentity := '''', RenewTime := now L w1\<rparr>) w1 = (None, w')"
  using assms by (auto simp: releaseLeader_def Let_def split: prod.split_asm sum.split_asm)

end
