(* ===== verification/Example_Cluster.thy ===== *)
theory Example_Cluster
  imports Leader Persistent_Watcher Effects
begin

text \<open>
  An environment that computes: a small cluster held in memory. It instantiates every
  parameter of the model (API server, informer caches, retry loops, gRPC, the Hetzner
  client), so that the properties can be applied to concrete runs and their hypotheses on
  the environment be checked.
\<close>

section \<open>The cluster\<close>

record cluster =
  ClPersistent :: "PersistentIPPool list"
  ClEphemeral :: "EphemeralIPPool list"
  ClAllocations :: "IPAllocation list"
  ClServices :: "Service list"
  ClPods :: "Pod list"
  ClDaemonSets :: "DaemonSet list"
  ClCRDs :: "CRD list"
  ClNodes :: "string list"
  ClAdded :: "(string \<times> AddressInfo) list"   \<comment> \<open>AddAddress calls, by operator\<close>

definition not_found :: ext_error where
  "not_found = ApiStatus NotFound ''not found''"

definition same_object :: "ObjectMeta \<Rightarrow> ObjectMeta \<Rightarrow> bool" where
  "same_object m n \<longleftrightarrow> Namespace m = Namespace n \<and> Name m = Name n"

definition is_allocation :: "IPAllocation rest_request \<Rightarrow> IPAllocation \<Rightarrow> bool" where
  "is_allocation rq a \<longleftrightarrow> rq_namespace rq = Some (AGetNamespace a) \<and> rq_name rq = Some (AGetName a)"

text \<open>The status subresource takes the status, an update of the object the rest.\<close>

definition merge_allocation :: "IPAllocation rest_request \<Rightarrow> IPAllocation \<Rightarrow> IPAllocation \<Rightarrow> IPAllocation" where
  "merge_allocation rq new old =
     (if rq_subresources rq = [''status''] then old\<lparr>AStatus := AStatus new\<rparr> else new\<lparr>AStatus := AStatus old\<rparr>)"

definition demo_rest_allocation ::
  "IPAllocation rest_request \<Rightarrow> cluster \<Rightarrow> (ext_error + IPAllocation) \<times> cluster" where
  "demo_rest_allocation rq c =
     (case (rq_verb rq, rq_body rq) of
        (POST, ObjBody a) \<Rightarrow>
          (if \<exists>b \<in> set (ClAllocations c). same_object (AMeta a) (AMeta b)
           then (Inl (ApiStatus AlreadyExists ''already exists''), c)
           else (Inr a, c\<lparr>ClAllocations := ClAllocations c @ [a]\<rparr>))
      | (v, b) \<Rightarrow>
          (case find (is_allocation rq) (ClAllocations c) of
             None \<Rightarrow> (Inl not_found, c)
           | Some a \<Rightarrow>
               (case (v, b) of
                  (GET, _) \<Rightarrow> (Inr a, c)
                | (PUT, ObjBody new) \<Rightarrow>
                    (Inr (merge_allocation rq new a),
                     c\<lparr>ClAllocations := map (\<lambda>x. if is_allocation rq x then merge_allocation rq new x else x)
                        (ClAllocations c)\<rparr>)
                | (DELETE, _) \<Rightarrow> (Inr a, c\<lparr>ClAllocations := filter (\<lambda>x. \<not> is_allocation rq x) (ClAllocations c)\<rparr>)
                | _ \<Rightarrow> (Inl (PlainError ''not supported''), c))))"

definition demo_services_get :: "string \<Rightarrow> string \<Rightarrow> cluster \<Rightarrow> (ext_error + Service) \<times> cluster" where
  "demo_services_get ns n c =
     (case find (\<lambda>sv. SGetNamespace sv = ns \<and> SGetName sv = n) (ClServices c) of
        None \<Rightarrow> (Inl not_found, c) | Some sv \<Rightarrow> (Inr sv, c))"

definition demo_services_update :: "string \<Rightarrow> Service \<Rightarrow> cluster \<Rightarrow> (ext_error + Service) \<times> cluster" where
  "demo_services_update ns sv c =
     (Inr sv, c\<lparr>ClServices := map (\<lambda>x. if same_object (SMeta x) (SMeta sv) then x\<lparr>Ingress := Ingress sv\<rparr> else x)
        (ClServices c)\<rparr>)"

definition demo_daemonset_get :: "string \<Rightarrow> string \<Rightarrow> cluster \<Rightarrow> (ext_error + DaemonSet) \<times> cluster" where
  "demo_daemonset_get ns n c =
     (case find (\<lambda>d. Namespace (DSMeta d) = ns \<and> Name (DSMeta d) = n) (ClDaemonSets c) of
        None \<Rightarrow> (Inl not_found, c) | Some d \<Rightarrow> (Inr d, c))"

definition demo_daemonset_update :: "string \<Rightarrow> DaemonSet \<Rightarrow> cluster \<Rightarrow> (ext_error + DaemonSet) \<times> cluster" where
  "demo_daemonset_update ns d c =
     (Inr d, c\<lparr>ClDaemonSets := map (\<lambda>x. if same_object (DSMeta x) (DSMeta d) then d else x) (ClDaemonSets c)\<rparr>)"

definition demo_crd_get :: "string \<Rightarrow> cluster \<Rightarrow> (ext_error + CRD) \<times> cluster" where
  "demo_crd_get n c =
     (case find (\<lambda>d. Name (CRDMeta d) = n) (ClCRDs c) of None \<Rightarrow> (Inl not_found, c) | Some d \<Rightarrow> (Inr d, c))"

text \<open>A new definition is established at once.\<close>

definition established :: "CRD \<Rightarrow> CRD" where
  "established d = d\<lparr>CRDConditions := [\<lparr>CRDCondType = ''Established'', CRDCondStatus = ''True''\<rparr>]\<rparr>"

definition demo_getenv :: "string \<Rightarrow> string" where
  "demo_getenv v =
     (if v = ''MY_POD_NAMESPACE'' then ''plenuslb'' else if v = ''OPERATOR_IMAGE'' then ''operator:1'' else '''')"

definition demo_floating_ip :: HFloatingIP where
  "demo_floating_ip = \<lparr>HIPID = 1, HIPAddress = ''192.0.2.9''\<rparr>"

definition demo_response :: HResponse where
  "demo_response =
     \<lparr>StatusCode = 201, HBody = Inr '''', HHeader = (\<lambda>h. if h = ''RateLimit-Limit'' then ''3600'' else ''10'')\<rparr>"

section \<open>The environment\<close>

definition demo :: "cluster env" where
  "demo =
     \<lparr>persistentPoolsStore = (\<lambda>c. map PersistentIPPoolObj (ClPersistent c)),
      ephemeralPoolsStore = (\<lambda>c. map EphemeralIPPoolObj (ClEphemeral c)),
      allocationStore = (\<lambda>c. map IPAllocationObj (ClAllocations c)),
      servicesStore = (\<lambda>c. map ServiceObj (ClServices c)),
      servicesHasSynced = (\<lambda>c. True),
      operatorNodesStore = (\<lambda>c. map PodObj (ClPods c)),
      rest_allocation = demo_rest_allocation,
      rest_allocation_list = (\<lambda>rq c. (Inr (ClAllocations c), c)),
      rest_persistent_list = (\<lambda>rq c. (Inr (ClPersistent c), c)),
      rest_ephemeral_list = (\<lambda>rq c. (Inr (ClEphemeral c), c)),
      services_get = demo_services_get,
      services_update_status = demo_services_update,
      nodes_list = (\<lambda>c. (Inr (ClNodes c), c)),
      pods_list = (\<lambda>ns sel c. ((ClPods c, None), c)),
      daemonset_get = demo_daemonset_get,
      daemonset_create = (\<lambda>ns d c. (Inr d, c\<lparr>ClDaemonSets := ClDaemonSets c @ [d]\<rparr>)),
      daemonset_update = demo_daemonset_update,
      daemonset_delete = (\<lambda>ns n c. (None, c\<lparr>ClDaemonSets := filter (\<lambda>d. Name (DSMeta d) \<noteq> n) (ClDaemonSets c)\<rparr>)),
      server_version = (\<lambda>c. (Inr (''1'', ''18''), c)),
      crd_get = demo_crd_get,
      crd_create = (\<lambda>d c. (Inr d, c\<lparr>ClCRDs := ClCRDs c @ [established d]\<rparr>)),
      crd_update = (\<lambda>d c. (Inr d, c\<lparr>ClCRDs := map (\<lambda>x. if same_object (CRDMeta x) (CRDMeta d) then established d else x)
        (ClCRDs c)\<rparr>)),
      informer_new = (\<lambda>r ns sel c. c),
      informer_add = (\<lambda>r obj c. c),
      informer_run = (\<lambda>r c. c),
      retry_lock = retry_loop 9 id,
      retry_allocation = retry_loop 4 id,
      retry_pod = retry_loop 3 id,
      retry_daemonset = retry_loop 4 id,
      poll = (\<lambda>t. poll_loop 3 id),
      getenv = demo_getenv,
      silly_name = (\<lambda>c. (''silly'', c)),
      intn = (\<lambda>n c. (n - 1, c)),
      retry_sleep = (\<lambda>d s. s),
      jitter = (\<lambda>d j s. (d, s)),
      grpc_dial = (\<lambda>a c. (None, c)),
      grpc_AddAddress = (\<lambda>a i c. (None, c\<lparr>ClAdded := ClAdded c @ [(a, i)]\<rparr>)),
      grpc_RemoveAddress = (\<lambda>a i c. (None, c)),
      grpc_Cleanup = (\<lambda>a keep c. (None, c)),
      hcloud_servers = (\<lambda>t n c. (Inr [\<lparr>HServerID = 1, HServerName = ''node1''\<rparr>], c)),
      hcloud_floating_ips = (\<lambda>t c. (Inr [demo_floating_ip], c)),
      hcloud_assign = (\<lambda>t ip sv c. (Inr demo_response, c)),
      hcloud_unassign = (\<lambda>t ip c. (Inr demo_response, c)),
      hcloud_create = (\<lambda>t opts c. (Inr (''192.0.2.9'', demo_response), c)),
      hcloud_delete = (\<lambda>t ip c. (Inr demo_response, c))\<rparr>"

lemma demo_simps [simp]:
  "persistentPoolsStore demo = (\<lambda>c. map PersistentIPPoolObj (ClPersistent c))"
  "ephemeralPoolsStore demo = (\<lambda>c. map EphemeralIPPoolObj (ClEphemeral c))"
  "allocationStore demo = (\<lambda>c. map IPAllocationObj (ClAllocations c))"
  "servicesStore demo = (\<lambda>c. map ServiceObj (ClServices c))"
  "servicesHasSynced demo = (\<lambda>c. True)"
  "operatorNodesStore demo = (\<lambda>c. map PodObj (ClPods c))"
  "rest_allocation demo = demo_rest_allocation"
  "rest_allocation_list demo = (\<lambda>rq c. (Inr (ClAllocations c), c))"
  "services_get demo = demo_services_get"
  "services_update_status demo = demo_services_update"
  "nodes_list demo = (\<lambda>c. (Inr (ClNodes c), c))"
  "pods_list demo = (\<lambda>ns sel c. ((ClPods c, None), c))"
  "daemonset_get demo = demo_daemonset_get"
  "daemonset_create demo = (\<lambda>ns d c. (Inr d, c\<lparr>ClDaemonSets := ClDaemonSets c @ [d]\<rparr>))"
  "daemonset_update demo = demo_daemonset_update"
  "daemonset_delete demo =
     (\<lambda>ns n c. (None, c\<lparr>ClDaemonSets := filter (\<lambda>d. Name (DSMeta d) \<noteq> n) (ClDaemonSets c)\<rparr>))"
  "server_version demo = (\<lambda>c. (Inr (''1'', ''18''), c))"
  "crd_get demo = demo_crd_get"
  "crd_create demo = (\<lambda>d c. (Inr d, c\<lparr>ClCRDs := ClCRDs c @ [established d]\<rparr>))"
  "informer_new demo = (\<lambda>r ns sel c. c)"
  "informer_add demo = (\<lambda>r obj c. c)"
  "informer_run demo = (\<lambda>r c. c)"
  "retry_lock demo = retry_loop 9 id"
  "retry_allocation demo = retry_loop 4 id"
  "retry_pod demo = retry_loop 3 id"
  "retry_daemonset demo = retry_loop 4 id"
  "poll demo = (\<lambda>t. poll_loop 3 id)"
  "getenv demo = demo_getenv"
  "intn demo = (\<lambda>n c. (n - 1, c))"
  "retry_sleep demo = (\<lambda>d s. s)"
  "jitter demo = (\<lambda>d j s. (d, s))"
  "grpc_dial demo = (\<lambda>a c. (None, c))"
  "grpc_AddAddress demo = (\<lambda>a i c. (None, c\<lparr>ClAdded := ClAdded c @ [(a, i)]\<rparr>))"
  "grpc_RemoveAddress demo = (\<lambda>a i c. (None, c))"
  "grpc_Cleanup demo = (\<lambda>a keep c. (None, c))"
  "hcloud_servers demo = (\<lambda>t n c. (Inr [\<lparr>HServerID = 1, HServerName = ''node1''\<rparr>], c))"
  "hcloud_floating_ips demo = (\<lambda>t c. (Inr [demo_floating_ip], c))"
  "hcloud_assign demo = (\<lambda>t ip sv c. (Inr demo_response, c))"
  by (simp_all add: demo_def)

abbreviation demo_clouds :: "cluster clouds" where
  "demo_clouds \<equiv> Integration_GetCloudAPI demo"

lemma demo_ok [simp]:
  "retry_ok (retry_lock demo)" "retry_ok (retry_allocation demo)" "retry_ok (retry_pod demo)"
  "retry_ok (retry_daemonset demo)" "poll_ok demo" "intn_ok demo"
  by (auto simp: retry_ok_loop poll_ok_def intn_ok_def)

section \<open>Objects\<close>

definition meta :: "string \<Rightarrow> string \<Rightarrow> ObjectMeta" where
  "meta ns n = \<lparr>Name = n, Namespace = ns, Labels = [], ResourceVersion = ''1''\<rparr>"

definition plain_pool :: "string \<Rightarrow> string list \<Rightarrow> PersistentIPPool" where
  "plain_pool n as =
     \<lparr>PMeta = meta '''' n,
      PSpec = \<lparr>Addresses = as, PAllowedNamespaces = [], PCloudIntegration = None, POptions = None\<rparr>,
      PStatus = \<lparr>PoolState = '''', PoolMessage = ''''\<rparr>\<rparr>"

definition host_pool :: "string \<Rightarrow> string list \<Rightarrow> PersistentIPPool" where
  "host_pool n as =
     (plain_pool n as)\<lparr>PSpec :=
        \<lparr>Addresses = as, PAllowedNamespaces = [], PCloudIntegration = None,
         POptions = Some \<lparr>HostNetworkInterface =
           Some \<lparr>AddAddressesToInterface = True, InterfaceName = ''eth0''\<rparr>\<rparr>\<rparr>\<rparr>"

definition addr_on :: "string \<Rightarrow> string \<Rightarrow> string \<Rightarrow> IPAllocationAddresses" where
  "addr_on pool node a =
     \<lparr>Address = a, NetworkInterface = ''eth0'', NodeName = node, CloudProvider = '''', Pool = pool\<rparr>"

definition alloc_of :: "string \<Rightarrow> IPAllocationAddresses list \<Rightarrow> AllocationStatus \<Rightarrow> IPAllocation" where
  "alloc_of n as st =
     \<lparr>AMeta = meta ''web'' n, ASpec = \<lparr>AllocationType = PersistentIP, Allocations = as\<rparr>,
      AStatus = \<lparr>State = st, Message = ''''\<rparr>\<rparr>"

definition lb_service :: "string \<Rightarrow> string list \<Rightarrow> Service" where
  "lb_service n ips =
     \<lparr>SMeta = meta ''web'' n, SType = ServiceTypeLoadBalancer, ExternalIPs = ips, Ingress = []\<rparr>"

definition ready_pod :: "string \<Rightarrow> Pod" where
  "ready_pod node =
     \<lparr>PodMeta = meta ''plenuslb'' (''operator-'' @ node), PodNodeName = node, PodIP = ''10.0.0.1'',
      Conditions = [\<lparr>CondType = ''Ready'', CondStatus = ''True''\<rparr>]\<rparr>"

definition empty_cluster :: cluster where
  "empty_cluster =
     \<lparr>ClPersistent = [], ClEphemeral = [], ClAllocations = [], ClServices = [], ClPods = [],
      ClDaemonSets = [], ClCRDs = [], ClNodes = [], ClAdded = []\<rparr>"

definition sys_of :: "cluster \<Rightarrow> PersistentIPPool list \<Rightarrow> cluster sys" where
  "sys_of c aps =
     \<lparr>world = c, availablesPools = aps, lockedObjects = Map.empty, errorAllocationsBackoffDict = [],
      deployed = False, operatorNodesStoreBuilt = True, stopWatch = ChanNil, bus = []\<rparr>"

lemmas demo_objects = meta_def plain_pool_def host_pool_def addr_on_def alloc_of_def lb_service_def
  ready_pod_def empty_cluster_def sys_of_def

lemmas demo_api = demo_rest_allocation_def demo_services_get_def demo_services_update_def
  is_allocation_def same_object_def merge_allocation_def not_found_def

section \<open>Two clusters\<close>

text \<open>The caches of the pools and of the operator pods never change, as the accounting of
  addresses and the placement on nodes suppose.\<close>

definition fixed_pools :: "PersistentIPPool list \<Rightarrow> cluster env" where
  "fixed_pools ps = demo\<lparr>persistentPoolsStore := (\<lambda>_. map PersistentIPPoolObj ps),
     operatorNodesStore := (\<lambda>_. [PodObj (ready_pod ''node1'')])\<rparr>"

lemma fixed_pools_simps [simp]:
  "persistentPoolsStore (fixed_pools ps) = (\<lambda>_. map PersistentIPPoolObj ps)"
  "operatorNodesStore (fixed_pools ps) = (\<lambda>_. [PodObj (ready_pod ''node1'')])"
  "rest_allocation (fixed_pools ps) = demo_rest_allocation"
  "retry_allocation (fixed_pools ps) = retry_loop 4 id"
  "retry_pod (fixed_pools ps) = retry_loop 3 id"
  "intn (fixed_pools ps) = (\<lambda>n c. (n - 1, c))"
  "servicesHasSynced (fixed_pools ps) = (\<lambda>_. True)"
  "servicesStore (fixed_pools ps) = (\<lambda>c. map ServiceObj (ClServices c))"
  "grpc_dial (fixed_pools ps) = (\<lambda>a c. (None, c))"
  "grpc_AddAddress (fixed_pools ps) = (\<lambda>a i c. (None, c\<lparr>ClAdded := ClAdded c @ [(a, i)]\<rparr>))"
  by (simp_all add: fixed_pools_def)

definition two_ips :: PersistentIPPool where
  "two_ips = plain_pool ''p'' [''192.0.2.1'', ''192.0.2.2'']"

text \<open>A service whose allocation waits to be put on a node.\<close>

definition web_cluster :: cluster where
  "web_cluster = empty_cluster
     \<lparr>ClPersistent := [host_pool ''p'' [''192.0.2.1'']],
      ClAllocations := [alloc_of ''site'' [addr_on ''p'' ''node1'' ''192.0.2.1''] AllocationStatusPending],
      ClServices := [lb_service ''site'' [''192.0.2.1'']],
      ClPods := [ready_pod ''node1'']\<rparr>"

lemmas demo_clusters = two_ips_def web_cluster_def demo_objects

section \<open>The lease\<close>

definition demo_lease :: "cluster lease_client" where
  "demo_lease =
     \<lparr>lease_get = (\<lambda>c. (Inr \<lparr>HolderIdentity = ''a'', LeaseDurationSeconds = 60, RenewTime = 0\<rparr>, c)),
      lease_update = (\<lambda>r c. (None, c)), now = (\<lambda>c. 1), WaitForCacheSync = (\<lambda>l c. (True, c))\<rparr>"

section \<open>Evaluation\<close>

lemmas eval_pools = UseIP_def getAvailabilityPoolOfAddress_def namespace_allowed_def removeIPFromPool_def
  removeAvailablePool_def swap_remove_def set_pool_addresses_def ReleaseIP_def
  searchAvailabilityPoolByName_def recreatePoolAvailability_def PersistentPoolHasHostNetworkOption_def
  PersistentPoolHasCloudIntegrationOption_def

lemmas eval_api = new_allocation_def CreateAllocation_def create_attempt_def UpdateAllocation_def
  update_attempt_def IPAllocations_Create_def IPAllocations_Get_def IPAllocations_Update_def
  IPAllocations_UpdateStatus_def IPAllocations_Delete_def allocation_requests into_def base_request_def
  demo_api retry_loop.simps onw_def send_status_def status_result_def set_alloc_status_def
  set_alloc_addresses_def status_setters

lemmas eval_create = createPersistentAllocation_def persistent_buildAllocations_def
  persistent_pool_for_ip_def use_ip_def release_ip_def addOperatorNodeToAllocation_def
  zero_IPAllocationAddresses_def

lemmas eval_ensure = EnsureIPAllocation_def FindService_def ServiceIsLoadBalancer_def
  allocateAddress_def persistent_AllocateAddress_def EnsureIPAllocationOnNode_def
  EnsureIPAllocationOnNode_pod_def EnsureAddressIsNotAvailable_def GetOperatorsList_def
  GetNodeFromOperatorPod_def GrpcClientForNode_def IsPodReady_def interface_name_def host_option_def

lemmas eval_deploy = DeployOrDie_def getDaemonsetSetDefinition_def HealthPort_def onw_def ForResources_def
  resources_condition_def GetPodsFromDaemonset_def buildOperatorNodesWatcher_def WhatchControllerNodes_def
  demo_getenv_def IsPodReady_def host_option_def Let_def

lemma poll_loop_numeral [simp]:
  "poll_loop (numeral k) d c w =
     (let ((ok, err), w) = c (d w)
      in if err \<noteq> None then (err, w) else if ok then (None, w) else poll_loop (pred_numeral k) d c w)"
  by (simp add: numeral_eq_Suc)

section \<open>A run of the allocator on the waiting allocation\<close>

definition web_pool :: PersistentIPPool where
  "web_pool = host_pool ''p'' [''192.0.2.1'', ''192.0.2.2'']"

definition web_env :: "cluster env" where
  "web_env = fixed_pools [web_pool]"

definition web_address :: IPAllocationAddresses where
  "web_address = addr_on ''p'' ''node1'' ''192.0.2.1''"

definition web_allocation :: IPAllocation where
  "web_allocation = alloc_of ''site'' [web_address] AllocationStatusPending"

definition web_service :: Service where
  "web_service = lb_service ''site'' [''192.0.2.1'']"

definition web_start :: "cluster sys" where
  "web_start = sys_of web_cluster [web_pool]"

lemmas web_defs = web_pool_def web_env_def web_address_def web_allocation_def web_service_def web_start_def

lemma web_run:
  obtains s' where "EnsureIPAllocation web_env (Integration_GetCloudAPI web_env) web_allocation web_start = Some (None, s')"
    and "FindService web_env (AGetNamespace web_allocation) (AGetName web_allocation) web_start =
      ((Some web_service, None), web_start)"
proof -
  have "\<exists>s'. EnsureIPAllocation web_env (Integration_GetCloudAPI web_env) web_allocation web_start = Some (None, s')"
    by (simp add: web_defs eval_ensure eval_pools eval_api demo_clusters Let_def)
  then obtain s' where "EnsureIPAllocation web_env (Integration_GetCloudAPI web_env) web_allocation web_start = Some (None, s')" ..
  moreover have "FindService web_env (AGetNamespace web_allocation) (AGetName web_allocation) web_start =
      ((Some web_service, None), web_start)"
    by (simp add: web_defs FindService_def demo_clusters)
  ultimately show ?thesis by (rule that)
qed

lemma web_facts [simp]:
  "SType web_service = ServiceTypeLoadBalancer" "alloc_addresses web_allocation = [web_address]"
  "AllocationType (ASpec web_allocation) = PersistentIP" "NodeName web_address = ''node1''"
  "Address web_address = ''192.0.2.1''" "PodIP (ready_pod ''node1'') = ''10.0.0.1''"
  "availability_wf (availablesPools web_start)"
  "free_ips (availablesPools web_start) = {(''p'', ''192.0.2.1''), (''p'', ''192.0.2.2'')}"
  "alloc_pair web_address = (''p'', ''192.0.2.1'')"
  by (auto simp: web_defs availability_wf_def alloc_pair_def pool_entries_def demo_clusters)

lemma web_wants [simp]: "wants_interface web_env PersistentIP web_address ''eth0''"
  by (simp add: wants_interface_def web_defs eval_pools host_option_def interface_name_def demo_clusters)

lemma web_operator [simp]: "operator_of web_env ''node1'' (ready_pod ''node1'')"
  by (simp add: operator_of_def web_defs demo_clusters)

end
