(* ===== verification/Example_Node.thy ===== *)
theory Example_Node
  imports Node_Calls Node_Liveness Example_Cluster
begin

text \<open>
  A node whose interfaces are held in memory: a netlink that computes and satisfies what is
  supposed of netlink in \<open>Node_Agent\<close>; and the operators of the example cluster, each
  on such a node, as the history of the calls made to them.
\<close>

type_synonym interfaces = "string \<Rightarrow> addr list"

definition demo_add :: "link \<Rightarrow> new_addr \<Rightarrow> interfaces \<Rightarrow> ext_error option \<times> interfaces" where
  "demo_add l e w =
     (case NewIP e of
        Some (IPv4 bs) \<Rightarrow> (None, w(LinkName l := w (LinkName l) @ [\<lparr>AddrIP = dotted bs, AddrLabel = NewLabel e\<rparr>]))
      | _ \<Rightarrow> (None, w))"

definition demo_netlink :: "string list \<Rightarrow> interfaces netlink" where
  "demo_netlink names =
     \<lparr>LinkList = (\<lambda>w. (Inr (map (\<lambda>n. \<lparr>LinkName = n\<rparr>) names), w)),
      LinkByName = (\<lambda>n w. (Inr \<lparr>LinkName = n\<rparr>, w)),
      AddrList = (\<lambda>l w. (Inr (w (LinkName l)), w)),
      AddrDel = (\<lambda>l a w. (None, w(LinkName l := filter (\<lambda>b. b \<noteq> a) (w (LinkName l))))),
      AddrAdd = demo_add\<rparr>"

lemma demo_netlink_simps [simp]:
  "LinkList (demo_netlink names) = (\<lambda>w. (Inr (map (\<lambda>n. \<lparr>LinkName = n\<rparr>) names), w))"
  "LinkByName (demo_netlink names) = (\<lambda>n w. (Inr \<lparr>LinkName = n\<rparr>, w))"
  "AddrList (demo_netlink names) = (\<lambda>l w. (Inr (w (LinkName l)), w))"
  "AddrDel (demo_netlink names) = (\<lambda>l a w. (None, w(LinkName l := filter (\<lambda>b. b \<noteq> a) (w (LinkName l)))))"
  "AddrAdd (demo_netlink names) = demo_add"
  by (simp_all add: demo_netlink_def)

lemma demo_netlink_ok [simp]: "netlink_ok (demo_netlink names) (\<lambda>w. w)"
  by (auto simp: netlink_ok_def demo_add_def has_ip_def split: option.splits ip.splits if_splits)

lemma demo_netlink_up [simp]: "netlink_up (demo_netlink names)"
  by (auto simp: netlink_up_def demo_add_def added_ok_def split: option.splits ip.splits)

definition eth0_with :: "addr list \<Rightarrow> interfaces" where
  "eth0_with as = (\<lambda>n. if n = ''eth0'' then as else [])"

definition info_on :: "string \<Rightarrow> AddressInfo" where
  "info_on a = \<lparr>InfoAddress = a, InfoInterface = ''eth0''\<rparr>"

lemma dotted_quad_itoa:
  "a < 256 \<Longrightarrow> b < 256 \<Longrightarrow> c < 256 \<Longrightarrow> d < 256 \<Longrightarrow> dotted_quad (dotted [a, b, c, d])"
  unfolding dotted_quad_def by blast

lemma dotted_192_0_2_1: "dotted [192, 0, 2, 1] = ''192.0.2.1''"
  by code_simp

lemma dotted_quad_192_0_2_1 [simp]: "dotted_quad ''192.0.2.1''"
  by (rule dotted_quad_itoa [of 192 0 2 1, unfolded dotted_192_0_2_1]) simp_all

section \<open>An operator that heals\<close>

abbreviation demo_nl :: "interfaces netlink" where
  "demo_nl \<equiv> demo_netlink [''eth0'']"

text \<open>An operator that is given an address, which somebody then removes from the interface;
  the loop restores it and takes the notifications that are left.\<close>

definition given_node :: "interfaces node" where
  "given_node = snd (observer_AddAddress (demo_netlink [''eth0'']) (info_on ''192.0.2.1'')
     \<lparr>nworld = eth0_with [], assignedAddressesList = []\<rparr>)"

definition robbed_node :: "interfaces node" where
  "robbed_node = given_node\<lparr>nworld := eth0_with []\<rparr>"

definition healed_node :: "interfaces node" where
  "healed_node = robbed_node\<lparr>nworld :=
     check_assigned (demo_netlink [''eth0'']) (assignedAddressesList robbed_node) (nworld robbed_node)\<rparr>"

definition demo_run :: "nat \<Rightarrow> interfaces agent" where
  "demo_run i =
     (if i = 0 then \<lparr>agent_node = \<lparr>nworld = eth0_with [], assignedAddressesList = []\<rparr>, chAddrUpdate = 0\<rparr>
      else if i = 1 then \<lparr>agent_node = given_node, chAddrUpdate = 1\<rparr>
      else if i = 2 then \<lparr>agent_node = robbed_node, chAddrUpdate = 2\<rparr>
      else \<lparr>agent_node = healed_node, chAddrUpdate = 5 - i\<rparr>)"

lemma given_node_list: "assignedAddressesList given_node = [info_on ''192.0.2.1'']"
proof -
  let ?i = "info_on ''192.0.2.1''" and ?n = "\<lparr>nworld = eth0_with [], assignedAddressesList = []\<rparr>"
  obtain err n where add: "observer_AddAddress demo_nl ?i ?n = (err, n)" by (metis prod.exhaust)
  have "fst (network_AddAddress demo_nl (InfoInterface ?i) (InfoAddress ?i) (eth0_with [])) = None"
    using network_AddAddress_up [OF demo_netlink_up] by (metis prod.collapse)
  with add have "err = None" by (auto simp: observer_AddAddress_def Let_def split: prod.split_asm if_split_asm)
  with observer_AddAddress_list [OF add] show ?thesis by (simp add: given_node_def add)
qed

lemma healed_node_list [simp]: "assignedAddressesList healed_node = [info_on ''192.0.2.1'']"
  by (simp add: healed_node_def robbed_node_def given_node_list)

lemma healed_node_holds: "holds (\<lambda>w. w) (nworld healed_node) (info_on ''192.0.2.1'')"
  unfolding healed_node_def robbed_node_def
  using check_assigned_holds [OF demo_netlink_ok demo_netlink_up, of "info_on ''192.0.2.1''" "[info_on ''192.0.2.1'']" "[''eth0'']"]
  by (simp add: given_node_list) (simp add: info_on_def)

lemma healed_node_settled: "settled (\<lambda>w. w) healed_node"
  by (simp add: settled_def healed_node_holds)

lemma healed_differs: "nworld healed_node \<noteq> nworld robbed_node"
proof
  assume "nworld healed_node = nworld robbed_node"
  with healed_node_holds have "holds (\<lambda>w. w) (eth0_with []) (info_on ''192.0.2.1'')" by (simp add: robbed_node_def)
  then show False by (simp add: holds_def has_ip_def eth0_with_def)
qed

lemma demo_healing: "quiet_turn demo_nl (\<lambda>w. w) (demo_run 2) (demo_run 3)"
proof -
  have "watchAddrUpdate_turn demo_nl False (demo_run 2) = Some \<lparr>agent_node = healed_node, chAddrUpdate = 1\<rparr>"
    by (simp add: demo_run_def watchAddrUpdate_turn_def processAddressUpdate_def numeral_2_eq_2 healed_node_def)
  with healed_differs show ?thesis unfolding quiet_turn_def
    by (intro exI [of _ "\<lparr>agent_node = healed_node, chAddrUpdate = 1\<rparr>"] exI [of _ 1]) (simp add: demo_run_def)
qed

lemma demo_idle: "3 \<le> i \<Longrightarrow> i < 5 \<Longrightarrow> quiet_turn demo_nl (\<lambda>w. w) (demo_run i) (demo_run (Suc i))"
proof -
  assume i: "3 \<le> i" "i < 5"
  then have s: "5 - i = Suc (5 - Suc i)" by simp
  from check_assigned_idle [OF demo_netlink_ok demo_netlink_up healed_node_settled [unfolded settled_def]]
  have "processAddressUpdate demo_nl False healed_node = Some healed_node"
    by (simp add: processAddressUpdate_def)
  with i s show ?thesis unfolding quiet_turn_def
    by (intro exI [of _ "\<lparr>agent_node = healed_node, chAddrUpdate = 5 - Suc i\<rparr>"] exI [of _ 0])
      (simp add: demo_run_def watchAddrUpdate_turn_def)
qed

lemma demo_run_quiet: "quiet_from demo_nl (\<lambda>w. w) 2 demo_run"
proof -
  have t: "quiet_turn demo_nl (\<lambda>w. w) (demo_run i) (demo_run (Suc i))" if "2 \<le> i" "i < 5" for i
    using demo_healing demo_idle [of i] that by (cases "i = 2") (simp_all add: numeral_3_eq_3)
  have r: "demo_run (Suc i) = demo_run i" if "5 \<le> i" for i using that by (simp add: demo_run_def)
  have z: "chAddrUpdate (demo_run i) = 0" if "5 \<le> i" for i using that by (simp add: demo_run_def)
  show ?thesis unfolding quiet_from_def
    by (intro conjI allI impI) (metis t r not_less, metis t z not_less order_refl neq0_conv)
qed

lemma demo_run_execution: "agent_execution demo_nl (\<lambda>w. w) demo_run"
proof -
  have s0: "agent_step demo_nl (\<lambda>w. w) (demo_run 0) (demo_run 1)"
    using agent_step.grpc_add [of demo_nl "info_on ''192.0.2.1''" "demo_run 0" _ given_node "\<lambda>w. w" 1]
    by (simp add: demo_run_def notified_def given_node_def prod_eq_iff)
  have s1: "agent_step demo_nl (\<lambda>w. w) (demo_run 1) (demo_run 2)"
    using agent_step.outside [of "\<lambda>w. w" "demo_run 1" "eth0_with []" 1 demo_nl]
    by (simp add: demo_run_def notified_def robbed_node_def numeral_2_eq_2)
  have "agent_step demo_nl (\<lambda>w. w) (demo_run i) (demo_run (Suc i)) \<or> demo_run (Suc i) = demo_run i" for i
    using s0 s1 quiet_from_step [OF demo_run_quiet, of i] quiet_turn_step
    by (cases "2 \<le> i") (auto simp: not_le less_Suc_eq numeral_2_eq_2)
  then show ?thesis
    by (simp add: agent_execution_def demo_run_def observer_Run_def subscribeAddrUpdate_def)
qed

section \<open>The operators of the example cluster\<close>

definition demo_operator :: "cluster \<Rightarrow> string \<Rightarrow> interfaces node" where
  "demo_operator c t =
     foldl (\<lambda>n (t', info). if t' = t then snd (server_AddAddress (demo_netlink [''eth0'']) t info n) else n)
       \<lparr>nworld = eth0_with [], assignedAddressesList = []\<rparr> (ClAdded c)"

lemma demo_server_up: "\<exists>r n'. server_AddAddress (demo_netlink names) me info n = (Inr r, n')"
proof -
  obtain w where "network_AddAddress (demo_netlink names) (InfoInterface info) (InfoAddress info) (nworld n) = (None, w)"
    using network_AddAddress_up [OF demo_netlink_up] by (metis prod.exhaust)
  then show ?thesis by (auto simp: server_AddAddress_def observer_AddAddress_def Let_def)
qed

lemma fixed_pools_served: "grpc_served (fixed_pools ps) demo_operator (demo_netlink [''eth0''])"
proof -
  have "\<exists>r. server_AddAddress (demo_netlink [''eth0'']) t info (demo_operator c t) =
      (Inr r, demo_operator (c\<lparr>ClAdded := ClAdded c @ [(t, info)]\<rparr>) t)" for t info c
    using demo_server_up [of "[''eth0'']" t info "demo_operator c t"] by (auto simp: demo_operator_def)
  then show ?thesis unfolding grpc_served_def by auto blast
qed

lemma web_served: "grpc_served web_env demo_operator (demo_netlink [''eth0''])"
  unfolding web_env_def by (rule fixed_pools_served)

end
