(* ===== verification/Ledger.thy ===== *)
theory Ledger
  imports Allocator Persistent_Watcher
begin

text \<open>
  The persistent addresses over the whole life of the controller: who holds which address, as a
  ledger of the allocations, while allocations are created, patched, made effective and
  deallocated in any order (\<open>pkg/controller/persistentips/allocator.go\<close>,
  \<open>pkg/controller/allocator/allocator.go\<close>).
\<close>

section \<open>What the API server returns\<close>

definition same_spec :: "IPAllocation \<Rightarrow> IPAllocation \<Rightarrow> bool" where
  "same_spec a b \<longleftrightarrow> ASpec b = ASpec a \<and> AGetNamespace b = AGetNamespace a"

text \<open>A write that succeeds returns the object that was sent; a write of the status that directly
  follows a write of the object leaves the rest of it alone. (Another writer in between is a
  conflict, by the resource version, and then the write does not succeed.)\<close>

definition api_echoes :: "'w env \<Rightarrow> bool" where
  "api_echoes E \<longleftrightarrow>
     (\<forall>a w a' w'. IPAllocations_Create E (AGetNamespace a) a w = ((a', None), w') \<longrightarrow> same_spec a a') \<and>
     (\<forall>a w a' w'. IPAllocations_Update E (AGetNamespace a) a w = ((a', None), w') \<longrightarrow>
        same_spec a a' \<and>
        (\<forall>st m b w2. IPAllocations_UpdateStatus E (AGetNamespace a') (set_alloc_status st m a') w' = ((b, None), w2) \<longrightarrow>
           same_spec a' b))"

lemma CreateAllocation_echo:
  assumes R: "retry_ok (retry_allocation E)" and api: "api_echoes E"
    and c: "CreateAllocation E ns n PersistentIP as s = Some ((Some a, None), s')"
  shows "alloc_addresses a = as" and "AGetNamespace a = ns"
proof -
  let ?new = "new_allocation ns n PersistentIP as"
  from c obtain w where
    r: "retry_allocation E IsConflict (create_attempt E ns ?new) (None, world s) = Some (None, Some a, w)"
    by (auto simp: CreateAllocation_def elim!: bind_SomeE split: asm_splits)
  have ns: "AGetNamespace ?new = ns" by (simp add: new_allocation_def)
  from retry_ok_last [OF R r] obtain c0 w0 where "create_attempt E ns ?new (c0, w0) = Some (None, Some a, w)"
    by (metis prod.exhaust)
  then have "IPAllocations_Create E (AGetNamespace ?new) ?new w0 = ((a, None), w)"
    unfolding ns by (auto simp: create_attempt_def split: prod.splits option.splits)
  with api have "same_spec ?new a" unfolding api_echoes_def by blast
  then show "alloc_addresses a = as" and "AGetNamespace a = ns"
    by (simp_all add: same_spec_def new_allocation_def)
qed

lemma UpdateAllocation_echo:
  assumes R: "retry_ok (retry_allocation E)" and api: "api_echoes E"
    and u: "UpdateAllocation E a s = Some ((Some a', None), s')"
  shows "same_spec a a'"
    and "IPAllocations_UpdateStatus E (AGetNamespace a') (set_alloc_status st m a') (world s') = ((b, None), w2) \<Longrightarrow>
      same_spec a' b"
proof -
  from u have r: "retry_allocation E IsConflict (update_attempt E a) (None, world s) = Some (None, Some a', world s')"
    by (auto simp: UpdateAllocation_def elim!: bind_SomeE split: asm_splits)
  from retry_ok_last [OF R r] obtain c0 w0 where "update_attempt E a (c0, w0) = Some (None, Some a', world s')"
    by (metis prod.exhaust)
  then have "IPAllocations_Update E (AGetNamespace a) a w0 = ((a', None), world s')"
    by (auto simp: update_attempt_def split: prod.splits option.splits)
  with api show "same_spec a a'"
    and "IPAllocations_UpdateStatus E (AGetNamespace a') (set_alloc_status st m a') (world s') = ((b, None), w2) \<Longrightarrow>
      same_spec a' b" unfolding api_echoes_def by blast+
qed

lemma status_written:
  assumes "(case e of Some e \<Rightarrow> SetAllocationStatusError E (Some a) e s
      | None \<Rightarrow> SetAllocationStatusPending E (Some a) s) = Some ((Some b, None), s')"
  shows "\<exists>st m w2. IPAllocations_UpdateStatus E (AGetNamespace a) (set_alloc_status st m a) (world s) = ((b, None), w2)"
  using assms
  by (auto simp: status_setters send_status_def onw_def status_result_def split: option.split_asm prod.split_asm)

text \<open>So a patch that succeeds leaves the stored object with the addresses that were built.\<close>

lemma patch_echo:
  assumes R: "retry_ok (retry_allocation E)" and api: "api_echoes E"
    and p: "persistent_CheckAndPatchAllocation E ns n ips cur s = Some ((Some res, removed, aerr, None), s')"
    and b: "persistent_buildAllocations E ns (Some cur) ips s = Some ((as, aerr), s1)"
  shows "alloc_addresses res = as" and "AGetNamespace res = AGetNamespace cur"
proof -
  let ?act = "set_alloc_addresses as cur"
  let ?s2 = "release_all E ns (removed_allocations as (alloc_addresses cur)) s1"
  have "alloc_addresses res = as \<and> AGetNamespace res = AGetNamespace cur"
  proof (cases "aerr = None \<and> ?act = cur")
    case True
    with p b have "res = ?act" by (auto simp: persistent_CheckAndPatchAllocation_def Let_def)
    then show ?thesis by simp
  next
    case False
    with p b obtain a' s3 where u: "UpdateAllocation E ?act ?s2 = Some ((a', None), s3)"
      and st: "(case aerr of Some e \<Rightarrow> SetAllocationStatusError E a' e s3
        | None \<Rightarrow> SetAllocationStatusPending E a' s3) = Some ((Some res, None), s')"
      by (auto simp: persistent_CheckAndPatchAllocation_def Let_def elim!: bind_SomeE split: asm_splits)
    from st obtain a where a: "a' = Some a" by (cases a') (auto simp: status_setters_nil split: option.split_asm)
    from status_written [OF st [unfolded a]] UpdateAllocation_echo [OF R api u [unfolded a]]
    show ?thesis by (auto simp: same_spec_def)
  qed
  then show "alloc_addresses res = as" and "AGetNamespace res = AGetNamespace cur" by simp_all
qed

section \<open>Moving an allocation\<close>

text \<open>A change of node touches neither the addresses nor the pools of the entries.\<close>

lemma change_nodes_pairs:
  "persistent_change_nodes E as e s = Some ((as', e'), s') \<Longrightarrow>
     map alloc_pair as' = map alloc_pair as \<and> world_only s s'"
proof (induction as arbitrary: as' e s)
  case Nil
  then show ?case by simp
next
  case (Cons a as)
  show ?case
  proof (cases "persistent_SearchPoolByName (persistent_store E s) (Pool a)")
    case None
    with Cons.prems show ?thesis by simp
  next
    case (Some pool)
    let ?pick = "if PersistentPoolHasHostNetworkOption pool then do {
        (r, s) \<leftarrow> random_operator_name E s;
        interfaceName \<leftarrow> interface_name (POptions (PSpec pool));
        Some ((picked_node r '''', interfaceName, picked_error r e), s) }
      else if fst (PersistentPoolHasCloudIntegrationOption pool) then do {
        (r, s) \<leftarrow> getRandomNode E s;
        Some ((picked_node r '''', '''', picked_error r e), s) }
      else Some (('''', '''', e), s)"
    from Cons.prems Some obtain n i e1 s1 rest where pick: "?pick = Some ((n, i, e1), s1)"
      and rest: "persistent_change_nodes E as e1 s1 = Some ((rest, e'), s')"
      and as': "as' = a\<lparr>NetworkInterface := i, NodeName := n\<rparr> # rest"
      by (auto elim!: bind_SomeE)
    from pick have "world_only s s1"
      by (auto elim!: bind_SomeE split: if_split_asm dest: random_operator_name_world_only getRandomNode_world_only)
    with Cons.IH [OF rest] as' show ?thesis by (auto simp: alloc_pair_def intro: world_only_trans)
  qed
qed

lemma move_echo:
  assumes R: "retry_ok (retry_allocation E)" and api: "api_echoes E"
    and m: "persistent_ChangeAllocationNode E a s = Some ((r, err), s')"
  shows "availablesPools s' = availablesPools s"
    and "r = Some b \<Longrightarrow> map alloc_pair (alloc_addresses b) = map alloc_pair (alloc_addresses a) \<and> AGetNamespace b = AGetNamespace a"
proof -
  from m obtain as e s1 where c: "persistent_change_nodes E (alloc_addresses a) None s = Some ((as, e), s1)"
    and f: "finish_change_node E (set_alloc_addresses as a) e s1 = Some ((r, err), s')"
    by (auto simp: persistent_ChangeAllocationNode_def elim!: bind_SomeE)
  from f obtain u uerr s2 r2 err2 where up: "UpdateAllocation E (set_alloc_addresses as a) s1 = Some ((u, uerr), s2)"
    and st: "(case (if uerr \<noteq> None then uerr else e) of Some x \<Rightarrow> SetAllocationStatusError E u x s2
      | None \<Rightarrow> SetAllocationStatusPending E u s2) = Some ((r2, err2), s')"
    and r: "r = (if err2 \<noteq> None then None else r2)"
    by (auto simp: finish_change_node_def Let_def elim!: bind_SomeE split: if_split_asm)
  note p = change_nodes_pairs [OF c]
  from st have "world_only s2 s'" by (auto split: option.split_asm dest: status_world_only)
  with p UpdateAllocation_world_only [OF up] show "availablesPools s' = availablesPools s"
    by (simp add: world_only_fields)
  show "map alloc_pair (alloc_addresses b) = map alloc_pair (alloc_addresses a) \<and> AGetNamespace b = AGetNamespace a"
    if b: "r = Some b"
  proof -
    from st obtain u1 where u1: "u = Some u1"
      by (cases u) (auto simp: status_setters_nil split: option.split_asm)
    from UpdateAllocation_cases [OF R, of "set_alloc_addresses as a" s1] up u1 have "uerr = None" by auto
    with up u1 have up': "UpdateAllocation E (set_alloc_addresses as a) s1 = Some ((Some u1, None), s2)" by simp
    from r b have rb: "r2 = Some b" "err2 = None" by (auto split: if_split_asm)
    from st u1 rb \<open>uerr = None\<close> have "(case e of Some x \<Rightarrow> SetAllocationStatusError E (Some u1) x s2
      | None \<Rightarrow> SetAllocationStatusPending E (Some u1) s2) = Some ((Some b, None), s')" by (simp cong: option.case_cong)
    from status_written [OF this] UpdateAllocation_echo [OF R api up'] p show ?thesis by (auto simp: same_spec_def)
  qed
qed

lemma move_pools:
  assumes "persistent_ChangeAllocationNode E a s = Some ((r, err), s')"
  shows "availablesPools s' = availablesPools s"
proof -
  from assms obtain as e s1 where c: "persistent_change_nodes E (alloc_addresses a) None s = Some ((as, e), s1)"
    and f: "finish_change_node E (set_alloc_addresses as a) e s1 = Some ((r, err), s')"
    by (auto simp: persistent_ChangeAllocationNode_def elim!: bind_SomeE)
  from f obtain u uerr s2 t where up: "UpdateAllocation E (set_alloc_addresses as a) s1 = Some ((u, uerr), s2)"
    and st: "(case (if uerr \<noteq> None then uerr else e) of Some x \<Rightarrow> SetAllocationStatusError E u x s2
      | None \<Rightarrow> SetAllocationStatusPending E u s2) = Some (t, s')"
    by (auto simp: finish_change_node_def Let_def elim!: bind_SomeE split: if_split_asm)
  from st have "world_only s2 s'" by (cases t) (auto split: option.split_asm if_split_asm dest: status_world_only)
  with change_nodes_pairs [OF c] UpdateAllocation_world_only [OF up] show ?thesis by (simp add: world_only_fields)
qed

section \<open>One entry for each address asked for\<close>

lemma pool_for_ip_address:
  "persistent_pool_for_ip E ns actual ip e s = Some ((Some p, a, e'), s') \<Longrightarrow> Address a = ip"
  by (auto simp: persistent_pool_for_ip_def Let_def use_ip_def elim!: bind_SomeE split: asm_splits sum.split_asm
      dest: ContainsAddress_True)

lemma buildAllocations_distinct:
  "persistent_buildAllocations_loop E ns actual ips as e s = Some ((as', e'), s') \<Longrightarrow>
     \<exists>new. as' = as @ new \<and> Address ` set new \<subseteq> set ips \<and> (distinct ips \<longrightarrow> distinct (map Address new))"
proof (induction ips arbitrary: as e s)
  case Nil
  then show ?case by auto
next
  case (Cons ip ips)
  then obtain pool a e1 s1 where p: "persistent_pool_for_ip E ns actual ip e s = Some ((pool, a, e1), s1)"
    by (auto elim!: bind_SomeE)
  show ?case
  proof (cases pool)
    case None
    with Cons.prems p have "persistent_buildAllocations_loop E ns actual ips as e1 s1 = Some ((as', e'), s')" by simp
    from Cons.IH [OF this] show ?thesis by auto
  next
    case (Some q)
    with Cons.prems p obtain a2 err s2 where n: "addOperatorNodeToAllocation E q a s1 = Some ((a2, err), s2)"
      and rest: "persistent_buildAllocations_loop E ns actual ips (as @ [a2]) (if err \<noteq> None then err else e1) s2
        = Some ((as', e'), s')" by (auto elim!: bind_SomeE)
    from addOperatorNode_spec(2) [OF n] pool_for_ip_address [OF p [unfolded Some]] have a2: "Address a2 = ip" by simp
    from Cons.IH [OF rest] obtain new where new: "as' = (as @ [a2]) @ new" "Address ` set new \<subseteq> set ips"
      "distinct ips \<longrightarrow> distinct (map Address new)" by blast
    then show ?thesis using a2 by (intro exI [of _ "a2 # new"]) auto
  qed
qed

section \<open>What an effectuation leaves of the availability\<close>

context clouds_integration begin

lemma EnsureIPAllocation_pools_cases:
  assumes e: "EnsureIPAllocation E GetCloudAPI a s = Some (err, s')"
  obtains (none) "availablesPools s' = availablesPools s"
  | (ran) r t u where "ensure_addresses E GetCloudAPI a (alloc_addresses a) [] t = Some (r, u)"
      and "availablesPools t = availablesPools s" and "availablesPools s' = availablesPools u"
proof -
  obtain sv e1 s1 where f: "FindService E (AGetNamespace a) (AGetName a) s = ((sv, e1), s1)" by (metis prod.exhaust)
  from FindService_world_only [OF f] have s1: "availablesPools s1 = availablesPools s" by (rule world_only_fields)
  from e f consider (deleted) "s' = snd (DeleteAllocationByName E (AGetNamespace a) (AGetName a) s1)"
    | (failed) "s' = s1"
    | (run) r t where "ensure_addresses E GetCloudAPI a (alloc_addresses a) [] s1 = Some (r, t)"
        and "availablesPools s' = availablesPools t"
    by (auto simp: EnsureIPAllocation_def Let_def elim!: bind_SomeE split: asm_splits sum.split_asm
        dest!: status_world_only(1) [THEN world_only_fields(1)]
          updateServiceIngressWithIps_world_only [THEN world_only_fields(1)])
  then show ?thesis
  proof cases
    case deleted
    then have "availablesPools s' = availablesPools s1"
      using world_only_fields(1) [OF DeleteAllocationByName_world_only] by (metis prod.collapse)
    with s1 show ?thesis by (intro none) simp
  next
    case failed
    with s1 show ?thesis by (intro none) simp
  next
    case run
    from ran [OF run(1) s1 run(2)] show ?thesis .
  qed
qed

lemma EnsureIPAllocation_leaves_pools:
  assumes e: "EnsureIPAllocation E GetCloudAPI a s = Some (err, s')"
    and wf: "availability_wf (availablesPools s)"
  shows "availability_wf (availablesPools s') \<and> free_ips (availablesPools s') \<subseteq> free_ips (availablesPools s) \<and>
    free_ips (availablesPools s) - pairs (alloc_addresses a) \<subseteq> free_ips (availablesPools s')"
  using e
proof (cases rule: EnsureIPAllocation_pools_cases)
  case none
  with wf show ?thesis by simp
next
  case ran
  from ensure_addresses_pools [OF ran(1)] ran(2,3) wf show ?thesis by simp
qed

lemma EnsureIPAllocation_ids:
  assumes "EnsureIPAllocation E GetCloudAPI a s = Some (err, s')"
  shows "pool_ids (availablesPools s') \<subseteq> pool_ids (availablesPools s)"
  using assms
proof (cases rule: EnsureIPAllocation_pools_cases)
  case none
  then show ?thesis by simp
next
  case ran
  from ensure_addresses_ids [OF ran(1)] ran(2,3) show ?thesis by simp
qed

end

section \<open>The ledger\<close>

text \<open>The pools that have been added, and the persistent allocations that hold addresses, by
  namespace and name of their service. The informer reports pools, which are then in its cache; the
  controller handles creations, patches, changes of node, effectuations and deallocations, in any
  order, each of them ending as it may, except for a patch whose update is refused (its addresses
  are then released although the stored object has them, see \<open>patch_accounting\<close>).\<close>

type_synonym ledger = "string \<times> string \<rightharpoonup> IPAllocation"

inductive ledger_step :: "'w env \<Rightarrow> 'w clouds \<Rightarrow> PersistentIPPool set \<times> ledger \<times> 'w sys \<Rightarrow>
    PersistentIPPool set \<times> ledger \<times> 'w sys \<Rightarrow> bool"
  for E :: "'w env" and C :: "'w clouds" where
  pool_added: "PersistentIPPoolObj p \<in> set (persistent_store E s) \<Longrightarrow> p \<notin> A \<Longrightarrow>
     persistent_pools_handler E (AddEv (PersistentIPPoolObj p)) s = Some s' \<Longrightarrow>
     ledger_step E C (A, led, s) (insert p A, led, s')"
| create: "led (ns, n) = None \<Longrightarrow> distinct ips \<Longrightarrow>
     createPersistentAllocation E ns n ips s = Some ((Some a, aerr, None), s') \<Longrightarrow>
     ledger_step E C (A, led, s) (A, led((ns, n) \<mapsto> a), s')"
| refused: "createPersistentAllocation E ns n ips s = Some ((r, aerr, Some err), s') \<Longrightarrow>
     ledger_step E C (A, led, s) (A, led, s')"
| patch: "led (ns, n) = Some cur \<Longrightarrow> distinct ips \<Longrightarrow>
     persistent_CheckAndPatchAllocation E ns n ips cur s = Some ((Some a, removed, aerr, None), s') \<Longrightarrow>
     ledger_step E C (A, led, s) (A, led((ns, n) \<mapsto> a), s')"
| move: "led k = Some a \<Longrightarrow> persistent_ChangeAllocationNode E a s = Some ((r, err), s') \<Longrightarrow>
     ledger_step E C (A, led, s) (A, led(k \<mapsto> (case r of Some b \<Rightarrow> b | None \<Rightarrow> a)), s')"
| ensure: "led k = Some a \<Longrightarrow> EnsureIPAllocation E C a s = Some (err, s') \<Longrightarrow>
     ledger_step E C (A, led, s) (A, led, s')"
| deallocate: "led k = Some a \<Longrightarrow> DeallocateAllocation E C a s = Some s' \<Longrightarrow>
     ledger_step E C (A, led, s) (A, led(k := None), s')"
| elsewhere: "availablesPools s' = availablesPools s \<Longrightarrow> ledger_step E C (A, led, s) (A, led, s')"

text \<open>The pools of the cluster stay in the informer's cache; no two have a name or an address in
  common.\<close>

definition cached_pools :: "'w env \<Rightarrow> PersistentIPPool list \<Rightarrow> bool" where
  "cached_pools E ps \<longleftrightarrow> (\<forall>w. set (persistentPoolsStore E w) = PersistentIPPoolObj ` set ps) \<and>
     distinct (map PGetName ps) \<and>
     (\<forall>p \<in> set ps. \<forall>q \<in> set ps. set (pool_addresses p) \<inter> set (pool_addresses q) \<noteq> {} \<longrightarrow> p = q)"

lemma GetPoolOfAddress_found:
  assumes "set store = PersistentIPPoolObj ` P" and "p \<in> P"
    and "namespace_allowed (PAllowedNamespaces (PSpec p)) ns" and "a \<in> set (pool_addresses p)"
  obtains q where "q \<in> P" "GetPoolOfAddress store ns a = Some q" "a \<in> set (pool_addresses q)"
proof -
  have "set store \<subseteq> range PersistentIPPoolObj \<Longrightarrow> PersistentIPPoolObj p \<in> set store \<Longrightarrow>
      \<exists>q. PersistentIPPoolObj q \<in> set store \<and> GetPoolOfAddress store ns a = Some q \<and> a \<in> set (pool_addresses q)"
    by (induction store) (use assms(3,4) in auto)
  with assms(1,2) that show ?thesis by auto
qed

lemma cached_pools_ids: "cached_pools E ps \<Longrightarrow> stored_ids_in E (pool_ids ps)"
  by (auto simp: cached_pools_def stored_ids_in_def store_ids_def pool_ids_def)

lemma cached_pools_own:
  assumes c: "cached_pools E ps" and X: "X \<subseteq> \<Union> (pool_entries ` set ps)"
    and adm: "\<And>x. x \<in> X \<Longrightarrow> admits (pool_ids ps) ns (fst x)"
  shows "store_owns E ns X"
  unfolding store_owns_def
proof (intro allI ballI, clarify)
  fix w n a
  assume x: "(n, a) \<in> X"
  from X x obtain p where p: "p \<in> set ps" "PGetName p = n" "a \<in> set (pool_addresses p)"
    by (auto simp: pool_entries_def)
  from adm [OF x] obtain p' where p': "p' \<in> set ps" "PGetName p' = n" "namespace_allowed (PAllowedNamespaces (PSpec p')) ns"
    by (auto simp: admits_def pool_ids_def pool_id_def)
  from c p(1,2) p'(1,2) have "p' = p" unfolding cached_pools_def distinct_map inj_on_def by metis
  with p' have ns: "namespace_allowed (PAllowedNamespaces (PSpec p)) ns" by simp
  from c have s: "set (persistentPoolsStore E w) = PersistentIPPoolObj ` set ps" unfolding cached_pools_def by blast
  obtain q where q: "q \<in> set ps" "GetPoolOfAddress (persistentPoolsStore E w) ns a = Some q" "a \<in> set (pool_addresses q)"
    by (rule GetPoolOfAddress_found [OF s p(1) ns p(3)])
  from c p q have "q = p" unfolding cached_pools_def by blast
  with q p show "pool_owns (persistentPoolsStore E w) n ns a" by (simp add: pool_owns_def)
qed

definition held_by :: "ledger \<Rightarrow> string \<times> string \<Rightarrow> (string \<times> string) set" where
  "held_by led k = (case led k of None \<Rightarrow> {} | Some a \<Rightarrow> pairs (alloc_addresses a))"

definition ledger_held :: "ledger \<Rightarrow> (string \<times> string) set" where
  "ledger_held led = (\<Union>k. held_by led k)"

definition ledger_inv :: "(string \<times> string) set \<Rightarrow> ledger \<times> 'w sys \<Rightarrow> bool" where
  "ledger_inv T = (\<lambda>(led, s).
     availability_wf (availablesPools s) \<and>
     ledger_held led \<union> free_ips (availablesPools s) = T \<and> ledger_held led \<inter> free_ips (availablesPools s) = {} \<and>
     (\<forall>k k'. k \<noteq> k' \<longrightarrow> held_by led k \<inter> held_by led k' = {}) \<and>
     (\<forall>k a. led k = Some a \<longrightarrow> AGetNamespace a = fst k \<and> distinct (map Address (alloc_addresses a))))"

lemma held_by_upd: "held_by (led(k := x)) = (held_by led)(k := (case x of None \<Rightarrow> {} | Some a \<Rightarrow> pairs (alloc_addresses a)))"
  by (rule ext) (simp add: held_by_def)

lemma held_split: "ledger_held led = held_by led k \<union> (\<Union>j \<in> - {k}. held_by led j)"
  unfolding ledger_held_def by blast

text \<open>One entry changes: what it gives up and what it takes is exchanged with the free addresses.\<close>

lemma ledger_inv_upd:
  assumes inv: "ledger_inv T (led, s)" and wf: "availability_wf (availablesPools s')"
    and new: "N = (case x of None \<Rightarrow> {} | Some a \<Rightarrow> pairs (alloc_addresses a))"
    and sum: "N \<union> free_ips (availablesPools s') = held_by led k \<union> free_ips (availablesPools s)"
    and disj: "N \<inter> free_ips (availablesPools s') = {}"
    and x: "\<And>a. x = Some a \<Longrightarrow> AGetNamespace a = fst k \<and> distinct (map Address (alloc_addresses a))"
  shows "ledger_inv T (led(k := x), s')"
proof -
  let ?O = "\<Union>j \<in> - {k}. held_by led j" and ?F = "free_ips (availablesPools s)" and ?F' = "free_ips (availablesPools s')"
  let ?H = "held_by led k"
  from inv have i: "ledger_held led \<union> ?F = T" "ledger_held led \<inter> ?F = {}"
    "\<forall>k k'. k \<noteq> k' \<longrightarrow> held_by led k \<inter> held_by led k' = {}"
    "\<forall>k a. led k = Some a \<longrightarrow> AGetNamespace a = fst k \<and> distinct (map Address (alloc_addresses a))"
    unfolding ledger_inv_def prod.case by blast+
  from i(1,2) held_split [of led k] have a: "?H \<union> ?O \<union> ?F = T" "?O \<inter> ?F = {}" "?H \<inter> ?F = {}" by blast+
  have b: "?H \<inter> ?O = {}"
  proof -
    have "?H \<inter> held_by led j = {}" if "j \<in> - {k}" for j using i(3) that by (metis ComplD singleton_iff)
    then show ?thesis by blast
  qed
  have h: "held_by (led(k := x)) = (held_by led)(k := N)" unfolding new by (rule held_by_upd)
  have held': "ledger_held (led(k := x)) = N \<union> ?O" unfolding held_split [of _ k] h by auto
  have oN: "?O \<inter> N = {}" "?O \<inter> ?F' = {}" using sum a(2) b by blast+
  from a(1) sum have "ledger_held (led(k := x)) \<union> ?F' = T" unfolding held' by blast
  moreover have "ledger_held (led(k := x)) \<inter> ?F' = {}" unfolding held' using disj oN by blast
  moreover have "held_by (led(k := x)) j \<inter> held_by (led(k := x)) j' = {}" if "j \<noteq> j'" for j j'
  proof -
    have N: "j \<noteq> k \<Longrightarrow> held_by led j \<inter> N = {}" for j using oN(1) by blast
    have "held_by led j \<inter> held_by led j' = {}" using i(3) that by blast
    with that N [of j] N [of j'] show ?thesis unfolding h
      by (cases "j = k"; cases "j' = k") (simp_all add: Int_commute)
  qed
  moreover have "AGetNamespace a = fst j \<and> distinct (map Address (alloc_addresses a))" if "(led(k := x)) j = Some a" for j a
    using that i(4) x by (metis fun_upd_apply)
  ultimately show ?thesis using wf unfolding ledger_inv_def prod.case by blast
qed

lemma ledger_inv_same:
  assumes "ledger_inv T (led, s)" and "availability_wf (availablesPools s')"
    and "free_ips (availablesPools s') = free_ips (availablesPools s)"
  shows "ledger_inv T (led, s')"
  using assms by (simp add: ledger_inv_def)

lemma ledger_inv_add:
  assumes inv: "ledger_inv T (led, s)" and fresh: "\<And>x. x \<in> T \<Longrightarrow> fst x \<noteq> PGetName p"
    and av: "availablesPools s' = addOrReplaceAvailabilityPool p (availablesPools s)"
  shows "ledger_inv (pool_entries p \<union> T) (led, s')"
proof -
  let ?F = "free_ips (availablesPools s)"
  from inv have i: "availability_wf (availablesPools s)" "ledger_held led \<union> ?F = T" "ledger_held led \<inter> ?F = {}"
    "\<forall>k k'. k \<noteq> k' \<longrightarrow> held_by led k \<inter> held_by led k' = {}"
    "\<forall>k a. led k = Some a \<longrightarrow> AGetNamespace a = fst k \<and> distinct (map Address (alloc_addresses a))"
    unfolding ledger_inv_def prod.case by blast+
  from fresh i(2) have "{e \<in> ?F. fst e \<noteq> PGetName p} = ?F" by auto
  with addOrReplace_spec(1) [OF i(1), of p] addOrReplace_empty [of p]
  have F: "free_ips (availablesPools s') = ?F \<union> pool_entries p"
    unfolding av by (cases "pool_addresses p = []") (simp_all add: pool_entries_def)
  have wf: "availability_wf (availablesPools s')" unfolding av using i(1) by (rule addOrReplace_wf)
  have "fst x = PGetName p" if "x \<in> pool_entries p" for x using that by (auto simp: pool_entries_def)
  with fresh have new: "pool_entries p \<inter> T = {}" by blast
  have "ledger_held led \<union> (?F \<union> pool_entries p) = pool_entries p \<union> T" using i(2) by blast
  moreover have "ledger_held led \<inter> (?F \<union> pool_entries p) = {}" using i(2,3) new by blast
  ultimately show ?thesis unfolding ledger_inv_def prod.case F using wf i(4,5) by blast
qed

lemma ledger_entry:
  assumes "ledger_inv T (led, s)" and "led k = Some a"
  shows "AGetNamespace a = fst k" and "distinct (map Address (alloc_addresses a))"
    and "held_by led k = pairs (alloc_addresses a)" and "pairs (alloc_addresses a) \<subseteq> T"
    and "pairs (alloc_addresses a) \<inter> free_ips (availablesPools s) = {}"
proof -
  show h: "held_by led k = pairs (alloc_addresses a)" using assms(2) by (simp add: held_by_def)
  from assms show "AGetNamespace a = fst k" and "distinct (map Address (alloc_addresses a))"
    unfolding ledger_inv_def prod.case by blast+
  have "held_by led k \<subseteq> ledger_held led" unfolding ledger_held_def by blast
  with assms(1) show "pairs (alloc_addresses a) \<subseteq> T" and "pairs (alloc_addresses a) \<inter> free_ips (availablesPools s) = {}"
    unfolding ledger_inv_def h by blast+
qed

text \<open>The whole invariant: the accounting over the addresses of the pools added so far, pools that
  are listed under their own names and namespaces, and allocations that only have addresses of
  pools that admit their namespace.\<close>

definition ledger_ok :: "PersistentIPPool list \<Rightarrow> PersistentIPPool set \<times> ledger \<times> 'w sys \<Rightarrow> bool" where
  "ledger_ok ps = (\<lambda>(A, led, s).
     A \<subseteq> set ps \<and> ledger_inv (\<Union> (pool_entries ` A)) (led, s) \<and>
     pool_ids (availablesPools s) \<subseteq> pool_ids ps \<and>
     (\<forall>k a. led k = Some a \<longrightarrow> (\<forall>x \<in> pairs (alloc_addresses a). admits (pool_ids ps) (fst k) (fst x))))"

lemma ledger_ok_owns:
  assumes "cached_pools E ps" and "ledger_ok ps (A, led, s)"
  shows "store_owns E ns {e \<in> free_ips (availablesPools s). snd e \<in> set ips \<and>
      admits (pool_ids (availablesPools s)) ns (fst e)}"
    and "led k = Some a \<Longrightarrow> store_owns E (fst k) (pairs (alloc_addresses a))"
proof -
  from assms(2) have A: "\<Union> (pool_entries ` A) \<subseteq> \<Union> (pool_entries ` set ps)"
    and inv: "ledger_inv (\<Union> (pool_entries ` A)) (led, s)" and ids: "pool_ids (availablesPools s) \<subseteq> pool_ids ps"
    and adm: "\<forall>k a. led k = Some a \<longrightarrow> (\<forall>x \<in> pairs (alloc_addresses a). admits (pool_ids ps) (fst k) (fst x))"
    unfolding ledger_ok_def prod.case by blast+
  have "free_ips (availablesPools s) \<subseteq> \<Union> (pool_entries ` A)" using inv unfolding ledger_inv_def prod.case by blast
  with A ids show "store_owns E ns {e \<in> free_ips (availablesPools s). snd e \<in> set ips \<and>
      admits (pool_ids (availablesPools s)) ns (fst e)}"
    by (intro cached_pools_own [OF assms(1)]) (auto intro: admits_mono)
  show "store_owns E (fst k) (pairs (alloc_addresses a))" if "led k = Some a"
    using ledger_entry(4) [OF inv that] A adm that by (intro cached_pools_own [OF assms(1)]) blast+
qed

context clouds_integration begin

text \<open>What a step does to the ledger itself.\<close>

lemma ledger_step_accounting:
  assumes R: "retry_ok (retry_allocation E)" and api: "api_echoes E" and c: "cached_pools E ps"
    and step: "ledger_step E GetCloudAPI (A, led, s) (A', led', s')" and ok: "ledger_ok ps (A, led, s)"
  shows "A' \<subseteq> set ps \<and> ledger_inv (\<Union> (pool_entries ` A')) (led', s')"
proof -
  from ok have inv: "ledger_inv (\<Union> (pool_entries ` A)) (led, s)" and A: "A \<subseteq> set ps" by (simp_all add: ledger_ok_def)
  from inv have wf: "availability_wf (availablesPools s)" by (simp add: ledger_inv_def)
  note own = ledger_ok_owns [OF c ok]
  from step show ?thesis
  proof cases
    case (pool_added p)
    from pool_added(3) c have p: "p \<in> set ps" unfolding cached_pools_def by auto
    from persistent_addPool_availability [of E p s s'] pool_added(5)
    have av: "availablesPools s' = addOrReplaceAvailabilityPool p (availablesPools s)" by simp
    have fresh: "fst x \<noteq> PGetName p" if "x \<in> \<Union> (pool_entries ` A)" for x
    proof
      assume "fst x = PGetName p"
      with that obtain q where "q \<in> A" "PGetName q = PGetName p" by (auto simp: pool_entries_def)
      with c p A have "q = p" unfolding cached_pools_def distinct_map inj_on_def by blast
      with \<open>q \<in> A\<close> pool_added(4) show False by blast
    qed
    from ledger_inv_add [OF inv fresh] av have "ledger_inv (pool_entries p \<union> \<Union> (pool_entries ` A)) (led, s')" by simp
    with p A pool_added(1,2) show ?thesis by simp
  next
    case (create ns n ips a aerr)
    obtain bs t0 t1 where b: "persistent_buildAllocations E ns None ips s = Some ((bs, aerr), t0)"
      and cr: "CreateAllocation E ns n PersistentIP bs t0 = Some ((Some a, None), t1)"
      by (rule createPersistentAllocation_cases [OF create(5)])
    obtain as s1 t where cr': "CreateAllocation E ns n PersistentIP as s1 = Some ((Some a, None), t)"
      and sub: "pairs as \<subseteq> free_ips (availablesPools s)"
      and f': "free_ips (availablesPools s') = (if (None :: go_error option) = None
        then free_ips (availablesPools s) - pairs as else free_ips (availablesPools s))"
      and wf': "availability_wf (availablesPools s')"
      by (rule createPersistentAllocation_accounting [OF create(5) wf own(1)])
    then have f: "free_ips (availablesPools s') = free_ips (availablesPools s) - pairs as" by simp
    have as: "alloc_addresses a = as" "AGetNamespace a = ns" "alloc_addresses a = bs"
      using CreateAllocation_echo [OF R api cr'] CreateAllocation_echo [OF R api cr] by simp_all
    from buildAllocations_distinct [OF b [unfolded persistent_buildAllocations_def]] create(4) as
    have d: "distinct (map Address (alloc_addresses a))" by auto
    have none: "held_by led (ns, n) = {}" using create(3) by (simp add: held_by_def)
    have "ledger_inv (\<Union> (pool_entries ` A)) (led', s')" unfolding create(2)
      by (rule ledger_inv_upd [OF inv wf' refl]) (use f sub as d none in auto)
    with A create(1) show ?thesis by simp
  next
    case (refused ns n ips r aerr err)
    obtain as where "free_ips (availablesPools s') = (if Some err = None
        then free_ips (availablesPools s) - pairs as else free_ips (availablesPools s))"
      and "availability_wf (availablesPools s')"
      by (rule createPersistentAllocation_accounting [OF refused(3) wf own(1)])
    with A refused(1,2) show ?thesis by (auto intro: ledger_inv_same [OF inv])
  next
    case (patch ns n cur ips a removed aerr)
    note e = ledger_entry [OF inv patch(3)]
    obtain as s1 where
      b: "persistent_buildAllocations E ns (Some cur) ips s = Some ((as, aerr), s1)"
      and sum: "pairs as \<union> free_ips (availablesPools s') = pairs (alloc_addresses cur) \<union> free_ips (availablesPools s)"
      and disj: "pairs as \<inter> free_ips (availablesPools s') = {}"
      and "pairs (removed_allocations as (alloc_addresses cur)) \<subseteq> free_ips (availablesPools s')"
      and wf': "availability_wf (availablesPools s')"
      by (rule patch_accounting [OF patch(5) wf own(2) [OF patch(3), unfolded fst_conv] e(2,5)])
    from patch_echo [OF R api patch(5) b] e(1) have a: "alloc_addresses a = as" "AGetNamespace a = ns" by simp_all
    from buildAllocations_distinct [OF b [unfolded persistent_buildAllocations_def]] patch(4) a
    have d: "distinct (map Address (alloc_addresses a))" by auto
    have "ledger_inv (\<Union> (pool_entries ` A)) (led', s')" unfolding patch(2)
      by (rule ledger_inv_upd [OF inv wf' refl]) (use sum disj a d e(3) in auto)
    with A patch(1) show ?thesis by simp
  next
    case (move k a r err)
    note e = ledger_entry [OF inv move(3)] and m = move_echo [OF R api move(4)]
    let ?b = "case r of Some b \<Rightarrow> b | None \<Rightarrow> a"
    have b: "map alloc_pair (alloc_addresses ?b) = map alloc_pair (alloc_addresses a) \<and> AGetNamespace ?b = AGetNamespace a"
      using m(2) by (cases r) simp_all
    have addr: "map Address as = map snd (map alloc_pair as)" for as by (simp add: alloc_pair_def)
    from b have pb: "pairs (alloc_addresses ?b) = pairs (alloc_addresses a)" by (metis set_map)
    from b e(2) have d: "distinct (map Address (alloc_addresses ?b))" unfolding addr by simp
    have "ledger_inv (\<Union> (pool_entries ` A)) (led', s')" unfolding move(2)
      by (rule ledger_inv_upd [OF inv _ refl]) (use m(1) wf pb d b e in auto)
    with A move(1) show ?thesis by simp
  next
    case (ensure k a err)
    from EnsureIPAllocation_leaves_pools [OF ensure(4) wf] ledger_entry(5) [OF inv ensure(3)]
    have "free_ips (availablesPools s') = free_ips (availablesPools s)" "availability_wf (availablesPools s')" by blast+
    with A ensure(1,2) show ?thesis by (auto intro: ledger_inv_same [OF inv])
  next
    case (deallocate k a)
    note e = ledger_entry [OF inv deallocate(3)]
    from own(2) [OF deallocate(3)] e(1) have "store_owns E (AGetNamespace a) (pairs (alloc_addresses a))" by simp
    note sp = persistent_deallocate_loop_spec [OF deallocate(4) [unfolded DeallocateAllocation_def] wf this]
    have "ledger_inv (\<Union> (pool_entries ` A)) (led', s')" unfolding deallocate(2)
      by (intro ledger_inv_upd [OF inv _ refl]) (use sp e(3) in auto)
    with A deallocate(1) show ?thesis by simp
  next
    case elsewhere
    with A inv show ?thesis by (simp add: ledger_inv_def)
  qed
qed

lemma ledger_step_ids:
  assumes c: "cached_pools E ps" and step: "ledger_step E GetCloudAPI (A, led, s) (A', led', s')"
    and ids: "pool_ids (availablesPools s) \<subseteq> pool_ids ps"
  shows "pool_ids (availablesPools s') \<subseteq> pool_ids ps"
  using step
proof cases
  case (pool_added p)
  from pool_added(3) c have "pool_id p \<in> pool_ids ps" unfolding cached_pools_def pool_ids_def by auto
  with persistent_addPool_availability [of E p s s'] pool_added(5) addOrReplace_ids [of p "availablesPools s"] ids
  show ?thesis by auto
next
  case create
  with createPersistentAllocation_ids [OF _ cached_pools_ids [OF c] ids] show ?thesis by blast
next
  case refused
  with createPersistentAllocation_ids [OF _ cached_pools_ids [OF c] ids] show ?thesis by blast
next
  case patch
  with CheckAndPatchAllocation_ids [OF _ cached_pools_ids [OF c] ids] show ?thesis by blast
next
  case move
  with move_pools ids show ?thesis by metis
next
  case ensure
  with EnsureIPAllocation_ids ids show ?thesis by (metis subset_trans)
next
  case deallocate
  with persistent_deallocate_loop_ids [OF _ cached_pools_ids [OF c] ids]
  show ?thesis unfolding DeallocateAllocation_def by blast
next
  case elsewhere
  with ids show ?thesis by simp
qed

lemma ledger_step_admitted:
  assumes R: "retry_ok (retry_allocation E)" and api: "api_echoes E"
    and step: "ledger_step E GetCloudAPI (A, led, s) (A', led', s')" and ok: "ledger_ok ps (A, led, s)"
  shows "led' k = Some a' \<Longrightarrow> x \<in> pairs (alloc_addresses a') \<Longrightarrow> admits (pool_ids ps) (fst k) (fst x)"
proof -
  from ok have ids: "pool_ids (availablesPools s) \<subseteq> pool_ids ps"
    and old: "\<forall>k a. led k = Some a \<longrightarrow> (\<forall>x \<in> pairs (alloc_addresses a). admits (pool_ids ps) (fst k) (fst x))"
    unfolding ledger_ok_def prod.case by blast+
  have upd: "\<forall>k a'. led' k = Some a' \<longrightarrow> (\<forall>x \<in> pairs (alloc_addresses a'). admits (pool_ids ps) (fst k) (fst x))"
    if "led' = led(j \<mapsto> b)" "\<forall>x \<in> pairs (alloc_addresses b). admits (pool_ids ps) (fst j) (fst x)" for j b
    using that old by (metis fun_upd_apply option.inject)
  from step have "\<forall>k a'. led' k = Some a' \<longrightarrow> (\<forall>x \<in> pairs (alloc_addresses a'). admits (pool_ids ps) (fst k) (fst x))"
  proof cases
    case (create ns n ips a aerr)
    obtain as s1 t where b: "persistent_buildAllocations E ns None ips s = Some ((as, aerr), s1)"
      and cr: "CreateAllocation E ns n PersistentIP as s1 = Some ((Some a, None), t)"
      by (rule createPersistentAllocation_cases [OF create(5)])
    have "admits (pool_ids ps) ns (fst x)" if "x \<in> pairs as" for x
      using buildAllocations_ids(2) [OF b that] ids by (auto intro: admits_mono)
    with CreateAllocation_echo(1) [OF R api cr] show ?thesis by (intro upd [OF create(2)]) simp
  next
    case (patch ns n cur ips a removed aerr)
    obtain as s1 where b: "persistent_buildAllocations E ns (Some cur) ips s = Some ((as, aerr), s1)"
      by (rule persistent_Check_cases [OF patch(5)])
    have "admits (pool_ids ps) ns (fst x)" if "x \<in> pairs as" for x
      using buildAllocations_ids(2) [OF b that] old patch(3) ids by (metis admits_mono fst_conv option.inject)
    with patch_echo(1) [OF R api patch(5) b] show ?thesis by (intro upd [OF patch(2)]) simp
  next
    case (move k a r err)
    let ?b = "case r of Some b \<Rightarrow> b | None \<Rightarrow> a"
    have "map alloc_pair (alloc_addresses ?b) = map alloc_pair (alloc_addresses a)"
      using move_echo(2) [OF R api move(4)] by (cases r) simp_all
    then have "pairs (alloc_addresses ?b) = pairs (alloc_addresses a)" by (metis set_map)
    moreover from old move(3) have "\<forall>x \<in> pairs (alloc_addresses a). admits (pool_ids ps) (fst k) (fst x)" by blast
    ultimately show ?thesis by (intro upd [OF move(2)]) simp
  next
    case (deallocate k a)
    with old show ?thesis by auto
  qed (use old in simp_all)
  then show "led' k = Some a' \<Longrightarrow> x \<in> pairs (alloc_addresses a') \<Longrightarrow> admits (pool_ids ps) (fst k) (fst x)" by blast
qed

lemma ledger_step_ok:
  assumes "retry_ok (retry_allocation E)" and "api_echoes E" and "cached_pools E ps"
    and "ledger_step E GetCloudAPI x y" and "ledger_ok ps x"
  shows "ledger_ok ps y"
proof -
  obtain A led s A' led' s' where x: "x = (A, led, s)" and y: "y = (A', led', s')" by (metis prod.exhaust)
  note st = assms(4) [unfolded x y] and ok = assms(5) [unfolded x]
  have "pool_ids (availablesPools s) \<subseteq> pool_ids ps" using ok unfolding ledger_ok_def prod.case by blast
  from ledger_step_ids [OF assms(3) st this] ledger_step_accounting [OF assms(1-3) st ok]
    ledger_step_admitted [OF assms(1,2) st ok]
  show ?thesis unfolding y ledger_ok_def prod.case by blast
qed

lemma ledger_run_ok:
  assumes "retry_ok (retry_allocation E)" and "api_echoes E" and "cached_pools E ps"
    and "(ledger_step E GetCloudAPI)\<^sup>*\<^sup>* x y" and "ledger_ok ps x"
  shows "ledger_ok ps y"
  using assms(4,5) by (induction rule: rtranclp_induct) (auto intro: ledger_step_ok [OF assms(1-3)])

end

lemma ledger_ok_start: "availablesPools s = [] \<Longrightarrow> ledger_ok ps ({}, Map.empty, s)"
  by (simp add: ledger_ok_def ledger_inv_def ledger_held_def held_by_def availability_wf_def)

end
