(* ===== verification/Example_Ledger.thy ===== *)
theory Example_Ledger
  imports Ledger Example_Cluster
begin

text \<open>A pool for one namespace only.\<close>

definition shop_ips :: PersistentIPPool where
  "shop_ips = (let p = plain_pool ''q'' [''198.51.100.7''] in p\<lparr>PSpec := (PSpec p)\<lparr>PAllowedNamespaces := [''shop'']\<rparr>\<rparr>)"

text \<open>The API server of the example cluster answers a write as the ledger supposes.\<close>

lemma find_SomeD: "find P xs = Some x \<Longrightarrow> x \<in> set xs \<and> P x"
  by (auto simp: find_Some_iff)

lemma demo_put:
  assumes "rq_verb rq = PUT" and "rq_body rq = ObjBody new"
  shows "demo_rest_allocation rq c =
    (case find (is_allocation rq) (ClAllocations c) of None \<Rightarrow> (Inl Example_Cluster.not_found, c)
     | Some a \<Rightarrow> (Inr (merge_allocation rq new a),
         c\<lparr>ClAllocations := map (\<lambda>x. if is_allocation rq x then merge_allocation rq new x else x) (ClAllocations c)\<rparr>))"
  using assms by (simp add: demo_rest_allocation_def split: option.split)

lemma demo_echoes:
  assumes E: "rest_allocation E = demo_rest_allocation"
  shows "api_echoes E"
proof -
  have c: "same_spec a a'" if "IPAllocations_Create E (AGetNamespace a) a w = ((a', None), w')" for a a' w w'
    using that by (auto simp: IPAllocations_Create_def demo_rest_allocation_def same_spec_def allocation_requests
        base_request_def into_def E split: if_split_asm)
  have u: "same_spec a a' \<and> (\<forall>st m b w2. IPAllocations_UpdateStatus E (AGetNamespace a') (set_alloc_status st m a') w' = ((b, None), w2) \<longrightarrow>
           same_spec a' b)" if "IPAllocations_Update E (AGetNamespace a) a w = ((a', None), w')" for a a' w w'
  proof -
    let ?P = "\<lambda>x. AGetNamespace x = AGetNamespace a \<and> AGetName x = AGetName a"
    let ?m = "\<lambda>x. a\<lparr>AStatus := AStatus x\<rparr>"
    let ?l = "map (\<lambda>x. if ?P x then ?m x else x) (ClAllocations w)"
    let ?rq = "IPAllocations_Update_request (AGetNamespace a) a"
    have P: "is_allocation ?rq = ?P" "merge_allocation ?rq a = ?m" "rq_verb ?rq = PUT" "rq_body ?rq = ObjBody a"
      by (auto simp: is_allocation_def merge_allocation_def IPAllocations_Update_request_def base_request_def fun_eq_iff)
    have "\<exists>x :: IPAllocation. a' = ?m x \<and> w' = w\<lparr>ClAllocations := ?l\<rparr>"
    proof (cases "find ?P (ClAllocations w)")
      case None
      with that show ?thesis unfolding IPAllocations_Update_def E demo_put [OF P(3,4)] P(1,2) by (simp add: into_def)
    next
      case (Some x)
      with that show ?thesis unfolding IPAllocations_Update_def E demo_put [OF P(3,4)] P(1,2)
        by (intro exI [of _ x]) (simp add: into_def)
    qed
    then obtain x :: IPAllocation where a': "a' = ?m x" and w': "w' = w\<lparr>ClAllocations := ?l\<rparr>" by blast
    have "same_spec a' b"
      if s: "IPAllocations_UpdateStatus E (AGetNamespace a') (set_alloc_status st m a') w' = ((b, None), w2)" for st m b w2
    proof -
      let ?rq = "IPAllocations_UpdateStatus_request (AGetNamespace a') (set_alloc_status st m a')"
      have Q: "is_allocation ?rq = ?P" "merge_allocation ?rq (set_alloc_status st m a') = (\<lambda>y. y\<lparr>AStatus := AStatus (set_alloc_status st m a')\<rparr>)"
        "rq_verb ?rq = PUT" "rq_body ?rq = ObjBody (set_alloc_status st m a')"
        by (auto simp: is_allocation_def merge_allocation_def IPAllocations_UpdateStatus_request_def base_request_def a' fun_eq_iff)
      from s obtain y where f: "find ?P ?l = Some y"
        and b: "b = y\<lparr>AStatus := AStatus (set_alloc_status st m a')\<rparr>"
        unfolding IPAllocations_UpdateStatus_def E demo_put [OF Q(3,4)] Q(1,2) w'
        by (auto simp: into_def split: option.split_asm)
      from find_SomeD [OF f] have "ASpec y = ASpec a" "AGetNamespace y = AGetNamespace a" by (auto split: if_split_asm)
      then show ?thesis by (simp add: same_spec_def a' b)
    qed
    then show ?thesis by (auto simp: same_spec_def a')
  qed
  show ?thesis unfolding api_echoes_def using c u by blast
qed

end
