(* ===== verification/Informers.thy ===== *)
theory Informers
  imports Typed_Client Crd
begin

text \<open>
  The generated informers and listers
  (\<open>pkg/client/informers/externalversions\<close>, \<open>pkg/client/listers/loadbalancing/v1alpha1\<close>):
  the informer of a type as what \<open>cache.NewSharedIndexInformer\<close> is given, the shared factory
  with its maps of informers and of started informers, the typed accessors and
  \<open>ForResource\<close>, and the listers over an index of client-go. The factory is a state machine
  whose invariant \<open>factory_inv\<close> says that a type has one informer and that it is run once;
  \<open>allocation_lister_Get\<close> relates the two ways to read an index.
\<close>

section \<open>List and watch\<close>

record ListOptions =
  LabelSelector :: string
  FieldSelector :: string
  TimeoutSeconds :: "int option"

type_synonym TweakListOptionsFunc = "ListOptions \<Rightarrow> ListOptions"

datatype reflect_type = EphemeralIPPoolType | IPAllocationType | PersistentIPPoolType | OtherType string

text \<open>A request of one of the typed clients, with the options that become its parameters.\<close>

datatype list_request =
    EphemeralIPPoolRequest "EphemeralIPPool rest_request" ListOptions
  | IPAllocationRequest "IPAllocation rest_request" ListOptions
  | PersistentIPPoolRequest "PersistentIPPool rest_request" ListOptions

text \<open>What \<open>cache.NewSharedIndexInformer\<close> is given.\<close>

record shared_informer =
  ListFunc :: "ListOptions \<Rightarrow> list_request"
  WatchFunc :: "ListOptions \<Rightarrow> list_request"
  ObjectType :: reflect_type
  ResyncPeriod :: int
  Indexers :: "string list"

definition tweaked :: "TweakListOptionsFunc option \<Rightarrow> ListOptions \<Rightarrow> ListOptions" where
  "tweaked tweakListOptions options = (case tweakListOptions of None \<Rightarrow> options | Some t \<Rightarrow> t options)"

definition NewFilteredIPAllocationInformer ::
  "string \<Rightarrow> int \<Rightarrow> string list \<Rightarrow> TweakListOptionsFunc option \<Rightarrow> shared_informer" where
  "NewFilteredIPAllocationInformer namespace resyncPeriod indexers tweakListOptions =
     \<lparr>ListFunc = (\<lambda>options. let options = tweaked tweakListOptions options
        in IPAllocationRequest (IPAllocations_List_request namespace (TimeoutSeconds options)) options),
      WatchFunc = (\<lambda>options. let options = tweaked tweakListOptions options
        in IPAllocationRequest (IPAllocations_Watch_request namespace (TimeoutSeconds options)) options),
      ObjectType = IPAllocationType, ResyncPeriod = resyncPeriod, Indexers = indexers\<rparr>"

definition NewIPAllocationInformer :: "string \<Rightarrow> int \<Rightarrow> string list \<Rightarrow> shared_informer" where
  "NewIPAllocationInformer namespace resyncPeriod indexers =
     NewFilteredIPAllocationInformer namespace resyncPeriod indexers None"

definition NewFilteredEphemeralIPPoolInformer ::
  "int \<Rightarrow> string list \<Rightarrow> TweakListOptionsFunc option \<Rightarrow> shared_informer" where
  "NewFilteredEphemeralIPPoolInformer resyncPeriod indexers tweakListOptions =
     \<lparr>ListFunc = (\<lambda>options. let options = tweaked tweakListOptions options
        in EphemeralIPPoolRequest (EphemeralIPPools_List_request (TimeoutSeconds options)) options),
      WatchFunc = (\<lambda>options. let options = tweaked tweakListOptions options
        in EphemeralIPPoolRequest (EphemeralIPPools_Watch_request (TimeoutSeconds options)) options),
      ObjectType = EphemeralIPPoolType, ResyncPeriod = resyncPeriod, Indexers = indexers\<rparr>"

definition NewEphemeralIPPoolInformer :: "int \<Rightarrow> string list \<Rightarrow> shared_informer" where
  "NewEphemeralIPPoolInformer resyncPeriod indexers =
     NewFilteredEphemeralIPPoolInformer resyncPeriod indexers None"

definition NewFilteredPersistentIPPoolInformer ::
  "int \<Rightarrow> string list \<Rightarrow> TweakListOptionsFunc option \<Rightarrow> shared_informer" where
  "NewFilteredPersistentIPPoolInformer resyncPeriod indexers tweakListOptions =
     \<lparr>ListFunc = (\<lambda>options. let options = tweaked tweakListOptions options
        in PersistentIPPoolRequest (PersistentIPPools_List_request (TimeoutSeconds options)) options),
      WatchFunc = (\<lambda>options. let options = tweaked tweakListOptions options
        in PersistentIPPoolRequest (PersistentIPPools_Watch_request (TimeoutSeconds options)) options),
      ObjectType = PersistentIPPoolType, ResyncPeriod = resyncPeriod, Indexers = indexers\<rparr>"

definition NewPersistentIPPoolInformer :: "int \<Rightarrow> string list \<Rightarrow> shared_informer" where
  "NewPersistentIPPoolInformer resyncPeriod indexers =
     NewFilteredPersistentIPPoolInformer resyncPeriod indexers None"

section \<open>The factory\<close>

text \<open>An informer is a pointer: \<open>created\<close> lists the informers the factory has made, and a
  pointer is an index into it. \<open>running\<close> lists the pointers of the \<open>go informer.Run(stopCh)\<close>
  in the order they were spawned. The lock makes every operation a single step.\<close>

record factory =
  f_namespace :: string
  f_tweakListOptions :: "TweakListOptionsFunc option"
  f_defaultResync :: int
  f_customResync :: "reflect_type \<Rightarrow> int option"
  f_informers :: "reflect_type \<Rightarrow> nat option"
  f_startedInformers :: "reflect_type \<Rightarrow> bool"
  created :: "shared_informer list"
  running :: "nat list"

text \<open>The options. The configuration map is given by its entries in the order of the loop:
  the objects of the map are keys by their type only.\<close>

definition WithCustomResyncConfig :: "(reflect_type \<times> int) list \<Rightarrow> factory \<Rightarrow> factory" where
  "WithCustomResyncConfig resyncConfig f =
     foldl (\<lambda>f (k, v). f\<lparr>f_customResync := (f_customResync f)(k \<mapsto> v)\<rparr>) f resyncConfig"

definition WithTweakListOptions :: "TweakListOptionsFunc option \<Rightarrow> factory \<Rightarrow> factory" where
  "WithTweakListOptions tweakListOptions f = f\<lparr>f_tweakListOptions := tweakListOptions\<rparr>"

definition WithNamespace :: "string \<Rightarrow> factory \<Rightarrow> factory" where
  "WithNamespace namespace f = f\<lparr>f_namespace := namespace\<rparr>"

definition NewSharedInformerFactoryWithOptions :: "int \<Rightarrow> (factory \<Rightarrow> factory) list \<Rightarrow> factory" where
  "NewSharedInformerFactoryWithOptions defaultResync options =
     foldl (\<lambda>f opt. opt f)
       \<lparr>f_namespace = '''', f_tweakListOptions = None, f_defaultResync = defaultResync,
        f_customResync = (\<lambda>_. None), f_informers = (\<lambda>_. None), f_startedInformers = (\<lambda>_. False),
        created = [], running = []\<rparr> options"

definition NewSharedInformerFactory :: "int \<Rightarrow> factory" where
  "NewSharedInformerFactory defaultResync = NewSharedInformerFactoryWithOptions defaultResync []"

definition NewFilteredSharedInformerFactory ::
  "int \<Rightarrow> string \<Rightarrow> TweakListOptionsFunc option \<Rightarrow> factory" where
  "NewFilteredSharedInformerFactory defaultResync namespace tweakListOptions =
     NewSharedInformerFactoryWithOptions defaultResync
       [WithNamespace namespace, WithTweakListOptions tweakListOptions]"

text \<open>\<open>Start\<close> ranges over the map of informers: \<open>order\<close> is the order of the loop.\<close>

fun factory_Start :: "reflect_type list \<Rightarrow> factory \<Rightarrow> factory" where
  "factory_Start [] f = f"
| "factory_Start (informerType # order) f =
     (if \<not> f_startedInformers f informerType then
        factory_Start order
          (f\<lparr>running := running f @ [the (f_informers f informerType)],
             f_startedInformers := (f_startedInformers f)(informerType := True)\<rparr>)
      else factory_Start order f)"

text \<open>The informers whose caches are waited for; \<open>synced\<close> is \<open>cache.WaitForCacheSync\<close>.\<close>

definition factory_WaitForCacheSync :: "(nat \<Rightarrow> bool) \<Rightarrow> factory \<Rightarrow> reflect_type \<Rightarrow> bool option" where
  "factory_WaitForCacheSync synced f informType =
     (case f_informers f informType of
        Some informer \<Rightarrow> (if f_startedInformers f informType then Some (synced informer) else None)
      | None \<Rightarrow> None)"

definition InformerFor :: "reflect_type \<Rightarrow> (int \<Rightarrow> shared_informer) \<Rightarrow> factory \<Rightarrow> nat \<times> factory" where
  "InformerFor informerType newFunc f =
     (case f_informers f informerType of
        Some informer \<Rightarrow> (informer, f)
      | None \<Rightarrow>
          let resyncPeriod = (case f_customResync f informerType of None \<Rightarrow> f_defaultResync f | Some v \<Rightarrow> v);
              informer = length (created f)
          in (informer, f\<lparr>created := created f @ [newFunc resyncPeriod],
                          f_informers := (f_informers f)(informerType \<mapsto> informer)\<rparr>))"

section \<open>The typed informers\<close>

text \<open>The accessors hand the namespace and the filter of the factory down to the informers;
  those of the pools, which are not namespaced, get the filter only.\<close>

record group_access =
  g_namespace :: string
  g_tweakListOptions :: "TweakListOptionsFunc option"

definition factory_Loadbalancing :: "factory \<Rightarrow> group_access" where
  "factory_Loadbalancing f = \<lparr>g_namespace = f_namespace f, g_tweakListOptions = f_tweakListOptions f\<rparr>"

definition group_V1alpha1 :: "group_access \<Rightarrow> group_access" where
  "group_V1alpha1 g = \<lparr>g_namespace = g_namespace g, g_tweakListOptions = g_tweakListOptions g\<rparr>"

definition version_EphemeralIPPools :: "group_access \<Rightarrow> group_access" where
  "version_EphemeralIPPools v = \<lparr>g_namespace = '''', g_tweakListOptions = g_tweakListOptions v\<rparr>"

definition version_IPAllocations :: "group_access \<Rightarrow> group_access" where
  "version_IPAllocations v = \<lparr>g_namespace = g_namespace v, g_tweakListOptions = g_tweakListOptions v\<rparr>"

definition version_PersistentIPPools :: "group_access \<Rightarrow> group_access" where
  "version_PersistentIPPools v = \<lparr>g_namespace = '''', g_tweakListOptions = g_tweakListOptions v\<rparr>"

definition ephemeralIPPool_defaultInformer :: "group_access \<Rightarrow> int \<Rightarrow> shared_informer" where
  "ephemeralIPPool_defaultInformer a resyncPeriod =
     NewFilteredEphemeralIPPoolInformer resyncPeriod [''namespace''] (g_tweakListOptions a)"

definition iPAllocation_defaultInformer :: "group_access \<Rightarrow> int \<Rightarrow> shared_informer" where
  "iPAllocation_defaultInformer a resyncPeriod =
     NewFilteredIPAllocationInformer (g_namespace a) resyncPeriod [''namespace''] (g_tweakListOptions a)"

definition persistentIPPool_defaultInformer :: "group_access \<Rightarrow> int \<Rightarrow> shared_informer" where
  "persistentIPPool_defaultInformer a resyncPeriod =
     NewFilteredPersistentIPPoolInformer resyncPeriod [''namespace''] (g_tweakListOptions a)"

definition ephemeralIPPool_Informer :: "group_access \<Rightarrow> factory \<Rightarrow> nat \<times> factory" where
  "ephemeralIPPool_Informer a = InformerFor EphemeralIPPoolType (ephemeralIPPool_defaultInformer a)"

definition iPAllocation_Informer :: "group_access \<Rightarrow> factory \<Rightarrow> nat \<times> factory" where
  "iPAllocation_Informer a = InformerFor IPAllocationType (iPAllocation_defaultInformer a)"

definition persistentIPPool_Informer :: "group_access \<Rightarrow> factory \<Rightarrow> nat \<times> factory" where
  "persistentIPPool_Informer a = InformerFor PersistentIPPoolType (persistentIPPool_defaultInformer a)"

text \<open>\<open>ForResource\<close>: a resource is its group, version and name.\<close>

definition ForResource ::
  "string \<times> string \<times> string \<Rightarrow> factory \<Rightarrow> (go_error + (string \<times> string) \<times> nat) \<times> factory" where
  "ForResource resource f =
     (let v = group_V1alpha1 (factory_Loadbalancing f);
          gvr = (\<lambda>name. (CRDGroup, CRDVersion, name));
          generic = (\<lambda>(informer, f). (Inr ((fst resource, snd (snd resource)), informer), f))
      in if resource = gvr ''ephemeralippools'' then
           generic (ephemeralIPPool_Informer (version_EphemeralIPPools v) f)
         else if resource = gvr ''ipallocations'' then
           generic (iPAllocation_Informer (version_IPAllocations v) f)
         else if resource = gvr ''persistentippools'' then
           generic (persistentIPPool_Informer (version_PersistentIPPools v) f)
         else (Inl (Errorf (''no informer found for '' @ fst resource @ ''/'' @ fst (snd resource) @
                 '', Resource='' @ snd (snd resource))), f))"

section \<open>The factory as a state machine\<close>

definition factory_version :: "factory \<Rightarrow> group_access" where
  "factory_version f = group_V1alpha1 (factory_Loadbalancing f)"

inductive factory_step :: "factory \<Rightarrow> factory \<Rightarrow> bool" where
  ephemeral: "factory_step f (snd (ephemeralIPPool_Informer (version_EphemeralIPPools (factory_version f)) f))"
| allocation: "factory_step f (snd (iPAllocation_Informer (version_IPAllocations (factory_version f)) f))"
| persistent: "factory_step f (snd (persistentIPPool_Informer (version_PersistentIPPools (factory_version f)) f))"
| resource: "factory_step f (snd (ForResource r f))"
| start: "distinct order \<Longrightarrow> set order = dom (f_informers f) \<Longrightarrow> factory_step f (factory_Start order f)"

inductive_cases factory_stepE: "factory_step f f'"

text \<open>A factory as its constructors leave it, and the informer it makes for a type.\<close>

definition new_factory :: "factory \<Rightarrow> bool" where
  "new_factory f \<longleftrightarrow> f_informers f = (\<lambda>_. None) \<and> f_startedInformers f = (\<lambda>_. False)
     \<and> created f = [] \<and> running f = []"

definition factory_resync :: "factory \<Rightarrow> reflect_type \<Rightarrow> int" where
  "factory_resync f ty = (case f_customResync f ty of None \<Rightarrow> f_defaultResync f | Some v \<Rightarrow> v)"

fun factory_default :: "factory \<Rightarrow> reflect_type \<Rightarrow> shared_informer option" where
  "factory_default f EphemeralIPPoolType = Some (NewFilteredEphemeralIPPoolInformer
     (factory_resync f EphemeralIPPoolType) [''namespace''] (f_tweakListOptions f))"
| "factory_default f IPAllocationType = Some (NewFilteredIPAllocationInformer (f_namespace f)
     (factory_resync f IPAllocationType) [''namespace''] (f_tweakListOptions f))"
| "factory_default f PersistentIPPoolType = Some (NewFilteredPersistentIPPoolInformer
     (factory_resync f PersistentIPPoolType) [''namespace''] (f_tweakListOptions f))"
| "factory_default f (OtherType t) = None"

lemma factory_default_type: "factory_default f ty = Some s \<Longrightarrow> ObjectType s = ty"
  by (cases ty) (auto simp: NewFilteredEphemeralIPPoolInformer_def NewFilteredIPAllocationInformer_def
      NewFilteredPersistentIPPoolInformer_def)

lemma new_factory_options:
  "new_factory (NewSharedInformerFactoryWithOptions resync [])"
  "new_factory f \<Longrightarrow> new_factory (WithNamespace ns f)"
  "new_factory f \<Longrightarrow> new_factory (WithTweakListOptions t f)"
  by (simp_all add: new_factory_def NewSharedInformerFactoryWithOptions_def WithNamespace_def WithTweakListOptions_def)

lemma new_factory_resync: "new_factory f \<Longrightarrow> new_factory (WithCustomResyncConfig rs f)"
proof (induction rs arbitrary: f)
  case Nil
  then show ?case by (simp add: WithCustomResyncConfig_def)
next
  case (Cons r rs)
  from Cons.prems have "new_factory (f\<lparr>f_customResync := (f_customResync f)(fst r \<mapsto> snd r)\<rparr>)"
    by (simp add: new_factory_def)
  from Cons.IH [OF this] show ?case
    by (simp add: WithCustomResyncConfig_def split_beta)
qed

text \<open>Every type has at most one informer, made with the settings of the factory; the
  started types are those whose informer runs, and none runs twice.\<close>

definition same_config :: "factory \<Rightarrow> factory \<Rightarrow> bool" where
  "same_config f f' \<longleftrightarrow> f_namespace f' = f_namespace f \<and> f_tweakListOptions f' = f_tweakListOptions f
     \<and> f_defaultResync f' = f_defaultResync f \<and> f_customResync f' = f_customResync f"

definition informers_ok :: "factory \<Rightarrow> bool" where
  "informers_ok f \<longleftrightarrow>
     (\<forall>ty i. f_informers f ty = Some i \<longrightarrow>
        i < length (created f) \<and> factory_default f ty = Some (created f ! i))
     \<and> (\<forall>i < length (created f). f_informers f (ObjectType (created f ! i)) = Some i)"

definition started_ok :: "factory \<Rightarrow> bool" where
  "started_ok f \<longleftrightarrow> distinct (running f) \<and> set (running f) \<subseteq> {..<length (created f)}
     \<and> (\<forall>ty. f_startedInformers f ty \<longleftrightarrow> (\<exists>i. f_informers f ty = Some i \<and> i \<in> set (running f)))"

definition factory_inv :: "factory \<Rightarrow> bool" where
  "factory_inv f \<longleftrightarrow> informers_ok f \<and> started_ok f"

text \<open>What a step may do to the informers: keep them and add to them.\<close>

definition grows :: "factory \<Rightarrow> factory \<Rightarrow> bool" where
  "grows f f' \<longleftrightarrow> same_config f f' \<and> f_informers f \<subseteq>\<^sub>m f_informers f' \<and> (\<exists>xs. created f' = created f @ xs)
     \<and> (\<exists>rs. running f' = running f @ rs)"

lemma grows_refl [simp]: "grows f f"
  by (simp add: grows_def same_config_def)

lemma grows_trans: "grows f f' \<Longrightarrow> grows f' f'' \<Longrightarrow> grows f f''"
  by (auto simp: grows_def same_config_def intro: map_le_trans)

lemma factory_default_config: "same_config f f' \<Longrightarrow> factory_default f' ty = factory_default f ty"
  by (cases ty) (simp_all add: same_config_def factory_resync_def split: option.split)

lemma informers_inj:
  assumes "informers_ok f" and "f_informers f a = Some i" and "f_informers f b = Some i"
  shows "a = b"
  using assms by (metis informers_ok_def factory_default_type)

lemma InformerFor_ok:
  assumes inv: "factory_inv f" and new: "factory_default f ty = Some (nf (factory_resync f ty))"
  shows "factory_inv (snd (InformerFor ty nf f)) \<and> grows f (snd (InformerFor ty nf f))
    \<and> f_informers (snd (InformerFor ty nf f)) ty = Some (fst (InformerFor ty nf f))"
proof (cases "f_informers f ty")
  case (Some i)
  with inv show ?thesis by (simp add: InformerFor_def)
next
  case None
  let ?n = "length (created f)" and ?f = "snd (InformerFor ty nf f)"
  have f': "?f = f\<lparr>created := created f @ [nf (factory_resync f ty)], f_informers := (f_informers f)(ty \<mapsto> ?n)\<rparr>"
    and i: "fst (InformerFor ty nf f) = ?n"
    using None by (simp_all add: InformerFor_def factory_resync_def Let_def)
  have g: "grows f ?f"
    using None by (auto simp: f' grows_def same_config_def map_le_def)
  then have d: "factory_default ?f t = factory_default f t" for t
    by (auto simp: grows_def intro: factory_default_config)
  have ok: "informers_ok f" and st: "started_ok f"
    using inv by (simp_all add: factory_inv_def)
  have "informers_ok ?f"
    unfolding informers_ok_def d
    using ok new factory_default_type [OF new] None
    by (auto simp: f' informers_ok_def nth_append less_Suc_eq)
  moreover have "started_ok ?f"
    using st None by (force simp: f' started_ok_def)
  ultimately show ?thesis
    using g i by (simp add: factory_inv_def f')
qed

lemma factory_Start_ok:
  assumes "factory_inv f" and "set order \<subseteq> dom (f_informers f)"
  shows "factory_inv (factory_Start order f) \<and> grows f (factory_Start order f)
    \<and> f_informers (factory_Start order f) = f_informers f
    \<and> (\<forall>ty \<in> set order. f_startedInformers (factory_Start order f) ty)
    \<and> (\<forall>ty. f_startedInformers f ty \<longrightarrow> f_startedInformers (factory_Start order f) ty)"
  using assms
proof (induction order arbitrary: f)
  case Nil
  then show ?case by simp
next
  case (Cons ty order)
  show ?case
  proof (cases "f_startedInformers f ty")
    case True
    with Cons show ?thesis by auto
  next
    case False
    from Cons.prems(2) obtain i where i: "f_informers f ty = Some i" by auto
    let ?f = "f\<lparr>running := running f @ [i], f_startedInformers := (f_startedInformers f)(ty := True)\<rparr>"
    have ok: "informers_ok f" and st: "started_ok f"
      using Cons.prems(1) by (simp_all add: factory_inv_def)
    have g: "grows f ?f"
      by (simp add: grows_def same_config_def)
    then have "factory_default ?f t = factory_default f t" for t
      by (auto simp: grows_def intro: factory_default_config)
    with ok have "informers_ok ?f"
      by (simp add: informers_ok_def)
    have ok': "informers_ok ?f" by fact
    have "i < length (created f)" and "i \<notin> set (running f)"
      using ok st i False by (auto simp: informers_ok_def started_ok_def)
    moreover have "f_startedInformers ?f t \<longleftrightarrow> (\<exists>j. f_informers ?f t = Some j \<and> j \<in> set (running ?f))" for t
    proof (cases "t = ty")
      case True
      with i show ?thesis by auto
    next
      case False
      with informers_inj [OF ok i, of t] have "f_informers f t \<noteq> Some i" by auto
      with False st show ?thesis by (auto simp: started_ok_def)
    qed
    ultimately have "started_ok ?f"
      using st unfolding started_ok_def by (intro conjI allI) simp_all
    with ok' have "factory_inv ?f"
      by (simp add: factory_inv_def)
    moreover have "set order \<subseteq> dom (f_informers ?f)"
      using Cons.prems(2) by simp
    ultimately show ?thesis
      using Cons.IH [of ?f] False i grows_trans [OF g] by auto
  qed
qed

lemmas typed_informer_defs =
  ephemeralIPPool_Informer_def iPAllocation_Informer_def persistentIPPool_Informer_def
  ephemeralIPPool_defaultInformer_def iPAllocation_defaultInformer_def persistentIPPool_defaultInformer_def
  version_EphemeralIPPools_def version_IPAllocations_def version_PersistentIPPools_def
  group_V1alpha1_def factory_Loadbalancing_def factory_version_def

lemma typed_informers_ok:
  assumes "factory_inv f"
  shows "factory_inv (snd (ephemeralIPPool_Informer (version_EphemeralIPPools (factory_version f)) f))
      \<and> grows f (snd (ephemeralIPPool_Informer (version_EphemeralIPPools (factory_version f)) f))"
    and "factory_inv (snd (iPAllocation_Informer (version_IPAllocations (factory_version f)) f))
      \<and> grows f (snd (iPAllocation_Informer (version_IPAllocations (factory_version f)) f))"
    and "factory_inv (snd (persistentIPPool_Informer (version_PersistentIPPools (factory_version f)) f))
      \<and> grows f (snd (persistentIPPool_Informer (version_PersistentIPPools (factory_version f)) f))"
  unfolding ephemeralIPPool_Informer_def iPAllocation_Informer_def persistentIPPool_Informer_def
  by (rule InformerFor_ok [OF assms, THEN conjunct1, THEN conjI]
        InformerFor_ok [OF assms, THEN conjunct2, THEN conjunct1],
      simp add: typed_informer_defs)+

lemma ForResource_cases:
  "snd (ForResource r f) \<in>
     {f, snd (ephemeralIPPool_Informer (version_EphemeralIPPools (factory_version f)) f),
      snd (iPAllocation_Informer (version_IPAllocations (factory_version f)) f),
      snd (persistentIPPool_Informer (version_PersistentIPPools (factory_version f)) f)}"
  by (auto simp: ForResource_def factory_version_def Let_def split_beta)

lemma factory_step_ok:
  assumes "factory_step f f'" and inv: "factory_inv f"
  shows "factory_inv f' \<and> grows f f'"
  using assms(1)
proof (cases rule: factory_step.cases)
  case (resource r)
  with ForResource_cases [of r f] typed_informers_ok [OF inv] inv show ?thesis by auto
next
  case (start order)
  with factory_Start_ok [OF inv, of order] show ?thesis by simp
qed (use typed_informers_ok [OF inv] in simp_all)

lemma new_factory_inv: "new_factory f \<Longrightarrow> factory_inv f"
  by (simp add: new_factory_def factory_inv_def informers_ok_def started_ok_def)

lemma factory_steps_ok:
  assumes "factory_step\<^sup>*\<^sup>* f f'" and "factory_inv f"
  shows "factory_inv f' \<and> grows f f'"
  using assms(1)
proof (induction rule: rtranclp_induct)
  case base
  with assms(2) show ?case by simp
next
  case (step g h)
  with factory_step_ok [of g h] grows_trans [of f g h] show ?case by blast
qed

section \<open>Listers\<close>

text \<open>The listers read an index of client-go, a parameter: the values \<open>cache.ListAll\<close> and
  \<open>cache.ListAllByNamespace\<close> hand to the append function with the error they return, and
  \<open>GetByKey\<close>. Each value is asserted to be of the type of the lister; \<open>None\<close> is the panic
  of that assertion.\<close>

type_synonym selector = "(string \<times> string) list \<Rightarrow> bool"

record 'ix index_lib =
  ListAll :: "'ix \<Rightarrow> selector \<Rightarrow> k8s_obj list \<times> go_error option"
  ListAllByNamespace :: "'ix \<Rightarrow> string \<Rightarrow> selector \<Rightarrow> k8s_obj list \<times> go_error option"
  GetByKey :: "'ix \<Rightarrow> string \<Rightarrow> k8s_obj option \<times> go_error option"

fun as_IPAllocation :: "k8s_obj \<Rightarrow> IPAllocation option" where
  "as_IPAllocation (IPAllocationObj a) = Some a"
| "as_IPAllocation _ = None"

fun as_PersistentIPPool :: "k8s_obj \<Rightarrow> PersistentIPPool option" where
  "as_PersistentIPPool (PersistentIPPoolObj p) = Some p"
| "as_PersistentIPPool _ = None"

fun as_EphemeralIPPool :: "k8s_obj \<Rightarrow> EphemeralIPPool option" where
  "as_EphemeralIPPool (EphemeralIPPoolObj p) = Some p"
| "as_EphemeralIPPool _ = None"

text \<open>\<open>errors.NewNotFound(v1alpha1.Resource(res), name)\<close>.\<close>

definition Resource :: "string \<Rightarrow> string \<times> string" where
  "Resource resource = (CRDGroup, resource)"

definition NewNotFound :: "string \<times> string \<Rightarrow> string \<Rightarrow> go_error" where
  "NewNotFound gr name =
     Ext (ApiStatus NotFound (snd gr @ ''.'' @ fst gr @ '' '' @ [CHR 0x22] @ name @ [CHR 0x22] @ '' not found''))"

definition iPAllocationLister_List ::
  "'ix index_lib \<Rightarrow> 'ix \<Rightarrow> selector \<Rightarrow> (IPAllocation list \<times> go_error option) option" where
  "iPAllocationLister_List lib indexer selector =
     do {
       let (ms, err) = ListAll lib indexer selector;
       ret \<leftarrow> those (map as_IPAllocation ms);
       Some (ret, err)
     }"

definition iPAllocationLister_IPAllocations :: "'ix \<Rightarrow> string \<Rightarrow> 'ix \<times> string" where
  "iPAllocationLister_IPAllocations indexer namespace = (indexer, namespace)"

definition iPAllocationNamespaceLister_List ::
  "'ix index_lib \<Rightarrow> 'ix \<times> string \<Rightarrow> selector \<Rightarrow> (IPAllocation list \<times> go_error option) option" where
  "iPAllocationNamespaceLister_List lib s selector =
     do {
       let (ms, err) = ListAllByNamespace lib (fst s) (snd s) selector;
       ret \<leftarrow> those (map as_IPAllocation ms);
       Some (ret, err)
     }"

definition iPAllocationNamespaceLister_Get ::
  "'ix index_lib \<Rightarrow> 'ix \<times> string \<Rightarrow> string \<Rightarrow> (IPAllocation option \<times> go_error option) option" where
  "iPAllocationNamespaceLister_Get lib s name =
     (let (obj, err) = GetByKey lib (fst s) (snd s @ ''/'' @ name)
      in if err \<noteq> None then Some (None, err)
         else case obj of
                None \<Rightarrow> Some (None, Some (NewNotFound (Resource ''ipallocation'') name))
              | Some x \<Rightarrow> do { a \<leftarrow> as_IPAllocation x; Some (Some a, None) })"

definition persistentIPPoolLister_List ::
  "'ix index_lib \<Rightarrow> 'ix \<Rightarrow> selector \<Rightarrow> (PersistentIPPool list \<times> go_error option) option" where
  "persistentIPPoolLister_List lib indexer selector =
     do {
       let (ms, err) = ListAll lib indexer selector;
       ret \<leftarrow> those (map as_PersistentIPPool ms);
       Some (ret, err)
     }"

definition persistentIPPoolLister_Get ::
  "'ix index_lib \<Rightarrow> 'ix \<Rightarrow> string \<Rightarrow> (PersistentIPPool option \<times> go_error option) option" where
  "persistentIPPoolLister_Get lib indexer name =
     (let (obj, err) = GetByKey lib indexer name
      in if err \<noteq> None then Some (None, err)
         else case obj of
                None \<Rightarrow> Some (None, Some (NewNotFound (Resource ''persistentippool'') name))
              | Some x \<Rightarrow> do { p \<leftarrow> as_PersistentIPPool x; Some (Some p, None) })"

definition ephemeralIPPoolLister_List ::
  "'ix index_lib \<Rightarrow> 'ix \<Rightarrow> selector \<Rightarrow> (EphemeralIPPool list \<times> go_error option) option" where
  "ephemeralIPPoolLister_List lib indexer selector =
     do {
       let (ms, err) = ListAll lib indexer selector;
       ret \<leftarrow> those (map as_EphemeralIPPool ms);
       Some (ret, err)
     }"

definition ephemeralIPPoolLister_Get ::
  "'ix index_lib \<Rightarrow> 'ix \<Rightarrow> string \<Rightarrow> (EphemeralIPPool option \<times> go_error option) option" where
  "ephemeralIPPoolLister_Get lib indexer name =
     (let (obj, err) = GetByKey lib indexer name
      in if err \<noteq> None then Some (None, err)
         else case obj of
                None \<Rightarrow> Some (None, Some (NewNotFound (Resource ''ephemeralippool'') name))
              | Some x \<Rightarrow> do { p \<leftarrow> as_EphemeralIPPool x; Some (Some p, None) })"

text \<open>The listers of the typed informers read the index of the shared informer.\<close>

definition ephemeralIPPool_Lister :: "(nat \<Rightarrow> 'ix) \<Rightarrow> group_access \<Rightarrow> factory \<Rightarrow> 'ix \<times> factory" where
  "ephemeralIPPool_Lister GetIndexer a f = (let (informer, f) = ephemeralIPPool_Informer a f in (GetIndexer informer, f))"

definition iPAllocation_Lister :: "(nat \<Rightarrow> 'ix) \<Rightarrow> group_access \<Rightarrow> factory \<Rightarrow> 'ix \<times> factory" where
  "iPAllocation_Lister GetIndexer a f = (let (informer, f) = iPAllocation_Informer a f in (GetIndexer informer, f))"

definition persistentIPPool_Lister :: "(nat \<Rightarrow> 'ix) \<Rightarrow> group_access \<Rightarrow> factory \<Rightarrow> 'ix \<times> factory" where
  "persistentIPPool_Lister GetIndexer a f = (let (informer, f) = persistentIPPool_Informer a f in (GetIndexer informer, f))"

text \<open>An index of allocations as client-go documents it: one entry per namespace and name,
  listed by selector, by namespace, and found by key.\<close>

definition index_of :: "'ix index_lib \<Rightarrow> 'ix \<Rightarrow> IPAllocation list \<Rightarrow> bool" where
  "index_of lib ix as \<longleftrightarrow>
     distinct (map (\<lambda>a. obj_key (AGetNamespace a) (AGetName a)) as)
     \<and> (\<forall>sel. ListAll lib ix sel = (map IPAllocationObj (filter (\<lambda>a. sel (Labels (AMeta a))) as), None))
     \<and> (\<forall>ns sel. ListAllByNamespace lib ix ns sel =
          (map IPAllocationObj (filter (\<lambda>a. AGetNamespace a = ns \<and> sel (Labels (AMeta a))) as), None))
     \<and> (\<forall>k. GetByKey lib ix k =
          (map_option IPAllocationObj (List.find (\<lambda>a. obj_key (AGetNamespace a) (AGetName a) = k) as), None))"

lemma those_as_IPAllocation: "those (map as_IPAllocation (map IPAllocationObj as)) = Some as"
  by (induction as) simp_all

lemma allocation_listers:
  assumes "index_of lib ix as"
  shows "iPAllocationLister_List lib ix sel = Some (filter (\<lambda>a. sel (Labels (AMeta a))) as, None)"
    and "iPAllocationNamespaceLister_List lib (iPAllocationLister_IPAllocations ix ns) sel =
      Some (filter (\<lambda>a. AGetNamespace a = ns \<and> sel (Labels (AMeta a))) as, None)"
  using assms
  by (simp_all add: index_of_def iPAllocationLister_List_def iPAllocationNamespaceLister_List_def
      iPAllocationLister_IPAllocations_def those_as_IPAllocation del: map_map list.map)

text \<open>\<open>Get\<close> finds what \<open>List\<close> lists, for namespaces without a slash.\<close>

lemma find_unique:
  assumes "distinct (map f xs)" and "x \<in> set xs"
  shows "List.find (\<lambda>y. f y = f x) xs = Some x"
  using assms by (induction xs) (auto simp: image_iff)

lemma allocation_lister_Get:
  assumes ix: "index_of lib ix as" and slash: "CHR ''/'' \<notin> set ns"
    and "\<And>a. a \<in> set as \<Longrightarrow> CHR ''/'' \<notin> set (AGetNamespace a)"
  shows "iPAllocationNamespaceLister_Get lib (iPAllocationLister_IPAllocations ix ns) name = Some (r, e) \<longleftrightarrow>
    (\<exists>a \<in> set as. AGetNamespace a = ns \<and> AGetName a = name \<and> r = Some a \<and> e = None)
    \<or> ((\<forall>a \<in> set as. AGetNamespace a = ns \<longrightarrow> AGetName a \<noteq> name) \<and> r = None
       \<and> e = Some (NewNotFound (Resource ''ipallocation'') name))"
proof -
  let ?k = "\<lambda>a. obj_key (AGetNamespace a) (AGetName a)"
  have key: "?k a = obj_key ns name \<longleftrightarrow> AGetNamespace a = ns \<and> AGetName a = name" if "a \<in> set as" for a
    using obj_key_inject [OF assms(3) [OF that] slash] by auto
  have get: "iPAllocationNamespaceLister_Get lib (iPAllocationLister_IPAllocations ix ns) name =
      (case List.find (\<lambda>a. ?k a = obj_key ns name) as of
         None \<Rightarrow> Some (None, Some (NewNotFound (Resource ''ipallocation'') name)) | Some a \<Rightarrow> Some (Some a, None))"
    using ix by (simp add: iPAllocationNamespaceLister_Get_def index_of_def iPAllocationLister_IPAllocations_def
        obj_key_def split: option.split)
  show ?thesis
  proof (cases "List.find (\<lambda>a. ?k a = obj_key ns name) as")
    case None
    then have "\<forall>a \<in> set as. ?k a \<noteq> obj_key ns name"
      by (simp add: find_None_iff)
    with None get key show ?thesis by auto
  next
    case (Some a)
    then have a: "a \<in> set as" and k: "?k a = obj_key ns name"
      by (auto simp: find_Some_iff)
    have "b = a" if "b \<in> set as" and "AGetNamespace b = ns \<and> AGetName b = name" for b
      using find_unique [of ?k as b] that ix Some key [OF that(1)] by (auto simp: index_of_def)
    moreover have n: "AGetNamespace a = ns \<and> AGetName a = name"
      using key [OF a] k by blast
    ultimately have "(\<exists>b \<in> set as. AGetNamespace b = ns \<and> AGetName b = name \<and> r = Some b \<and> e = None)
        \<longleftrightarrow> r = Some a \<and> e = None"
      using a by blast
    moreover have "\<not> (\<forall>b \<in> set as. AGetNamespace b = ns \<longrightarrow> AGetName b \<noteq> name)"
      using a n by blast
    moreover have "iPAllocationNamespaceLister_Get lib (iPAllocationLister_IPAllocations ix ns) name = Some (Some a, None)"
      unfolding get Some by simp
    ultimately show ?thesis by (simp only: option.inject prod.inject) blast
  qed
qed

section \<open>What the factory guarantees\<close>

lemma informer_unique:
  assumes "new_factory f0" and "factory_step\<^sup>*\<^sup>* f0 f"
  shows "distinct (running f)"
    and "f_informers f ty = Some i \<Longrightarrow> factory_default f0 ty = Some (created f ! i)"
    and "f_informers f ty = Some i \<Longrightarrow> f_informers f ty' = Some i \<Longrightarrow> ty' = ty"
proof -
  have inv: "factory_inv f" and g: "grows f0 f"
    using factory_steps_ok [OF assms(2) new_factory_inv [OF assms(1)]] by simp_all
  show "distinct (running f)"
    using inv by (simp add: factory_inv_def started_ok_def)
  show "f_informers f ty = Some i \<Longrightarrow> factory_default f0 ty = Some (created f ! i)"
    using inv g factory_default_config [of f0 f ty] by (auto simp: factory_inv_def informers_ok_def grows_def)
  show "f_informers f ty = Some i \<Longrightarrow> f_informers f ty' = Some i \<Longrightarrow> ty' = ty"
    using informers_inj [of f ty i ty'] inv by (simp add: factory_inv_def)
qed

lemma informer_kept:
  assumes "new_factory f0" and "factory_step\<^sup>*\<^sup>* f0 f" and "factory_step\<^sup>*\<^sup>* f f'"
    and "f_informers f ty = Some i"
  shows "f_informers f' ty = Some i \<and> created f' ! i = created f ! i"
proof -
  have inv: "factory_inv f"
    using factory_steps_ok [OF assms(2) new_factory_inv [OF assms(1)]] by simp
  with factory_steps_ok [OF assms(3)] have "grows f f'" by simp
  then obtain xs where m: "f_informers f \<subseteq>\<^sub>m f_informers f'" and "created f' = created f @ xs"
    by (auto simp: grows_def)
  moreover have "i < length (created f)"
    using inv assms(4) by (auto simp: factory_inv_def informers_ok_def)
  moreover have "f_informers f' ty = Some i"
    using m assms(4) by (force simp: map_le_def)
  ultimately show ?thesis by (simp add: nth_append)
qed

lemma all_started:
  assumes "factory_inv f" and "set order = dom (f_informers f)"
  shows "set (running (factory_Start order f)) = {i. \<exists>ty. f_informers f ty = Some i}"
proof -
  let ?f = "factory_Start order f"
  have ok: "informers_ok ?f" "started_ok ?f" and keep: "f_informers ?f = f_informers f"
    and all: "\<And>ty. ty \<in> dom (f_informers f) \<Longrightarrow> f_startedInformers ?f ty"
    using factory_Start_ok [of f order] assms by (auto simp: factory_inv_def)
  show ?thesis
  proof (intro equalityI subsetI)
    fix i assume "i \<in> set (running ?f)"
    with ok(2) have "i < length (created ?f)" by (auto simp: started_ok_def)
    with ok(1) keep show "i \<in> {i. \<exists>ty. f_informers f ty = Some i}" by (auto simp: informers_ok_def)
  next
    fix i assume "i \<in> {i. \<exists>ty. f_informers f ty = Some i}"
    then obtain ty where "f_informers f ty = Some i" by blast
    with all [of ty] ok(2) keep show "i \<in> set (running ?f)" by (auto simp: started_ok_def)
  qed
qed

end
