(* ===== verification/Fake_Client.thy ===== *)
theory Fake_Client
  imports Informers
begin

text \<open>
  The generated fake clients of the three custom resources
  (\<open>pkg/client/clientset/versioned/typed/loadbalancing/v1alpha1/fake\<close>), which the tests of
  the repository run the controller on. A method builds an action and hands it to
  \<open>testing.Fake\<close> of client-go, a parameter; the constructors of actions are those of
  client-go, and \<open>action_request\<close> says which REST request an action stands for. The
  theorems compare these with the requests of the real clients in \<open>Typed_Client\<close>.
\<close>

section \<open>Actions\<close>

type_synonym gvr = "string \<times> string \<times> string"

datatype 'b action =
    NewGetAction gvr string string
  | NewRootGetAction gvr string
  | NewListAction gvr gvr string ListOptions
  | NewRootListAction gvr gvr ListOptions
  | NewWatchAction gvr string ListOptions
  | NewRootWatchAction gvr ListOptions
  | NewCreateAction gvr string 'b
  | NewRootCreateAction gvr 'b
  | NewUpdateAction gvr string 'b
  | NewRootUpdateAction gvr 'b
  | NewUpdateSubresourceAction gvr string string 'b
  | NewRootUpdateSubresourceAction gvr string 'b
  | NewDeleteAction gvr string string
  | NewRootDeleteAction gvr string
  | NewDeleteCollectionAction gvr string ListOptions
  | NewRootDeleteCollectionAction gvr ListOptions
  | NewPatchSubresourceAction gvr string string string string "string list"
  | NewRootPatchSubresourceAction gvr string string string "string list"

text \<open>Objects of the tracker behind the fake, and the results of \<open>Invokes\<close>.\<close>

datatype fake_object =
    FIPAllocation IPAllocation
  | FIPAllocationList "IPAllocation list"
  | FPersistentIPPool PersistentIPPool
  | FPersistentIPPoolList "PersistentIPPool list"
  | FEphemeralIPPool EphemeralIPPool
  | FEphemeralIPPoolList "EphemeralIPPool list"
  | FOther string

record ('w, 's) testing_Fake =
  Invokes :: "fake_object action \<Rightarrow> fake_object \<Rightarrow> 's \<Rightarrow> (fake_object option \<times> go_error option) \<times> 's"
  InvokesWatch :: "fake_object action \<Rightarrow> 's \<Rightarrow> ('w option \<times> go_error option) \<times> 's"
  ExtractFromListOptions :: "ListOptions \<Rightarrow> selector option"

definition zero_PersistentIPPool :: PersistentIPPool where
  "zero_PersistentIPPool =
     \<lparr>PMeta = zero_ObjectMeta,
      PSpec = \<lparr>Addresses = [], PAllowedNamespaces = [], PCloudIntegration = None, POptions = None\<rparr>,
      PStatus = \<lparr>PoolState = '''', PoolMessage = ''''\<rparr>\<rparr>"

definition zero_EphemeralIPPool :: EphemeralIPPool where
  "zero_EphemeralIPPool =
     \<lparr>EMeta = zero_ObjectMeta,
      ESpec = \<lparr>EAllowedNamespaces = [], ECloudIntegration = None, EOptions = None\<rparr>,
      EStatus = \<lparr>PoolState = '''', PoolMessage = ''''\<rparr>\<rparr>"

section \<open>fake_loadbalancing_client.go\<close>

text \<open>The clients hold the fake, that of the allocations its namespace too.\<close>

definition FakeLoadbalancingV1alpha1_IPAllocations ::
  "('w, 's) testing_Fake \<Rightarrow> string \<Rightarrow> ('w, 's) testing_Fake \<times> string" where
  "FakeLoadbalancingV1alpha1_IPAllocations c namespace = (c, namespace)"

definition FakeLoadbalancingV1alpha1_PersistentIPPools :: "('w, 's) testing_Fake \<Rightarrow> ('w, 's) testing_Fake" where
  "FakeLoadbalancingV1alpha1_PersistentIPPools c = c"

definition FakeLoadbalancingV1alpha1_EphemeralIPPools :: "('w, 's) testing_Fake \<Rightarrow> ('w, 's) testing_Fake" where
  "FakeLoadbalancingV1alpha1_EphemeralIPPools c = c"

text \<open>A method asserts the type of the object it gets back, unless it is nil; \<open>None\<close> is the
  panic of that assertion.\<close>

fun typed_result :: "(fake_object \<Rightarrow> 'a option) \<Rightarrow> (fake_object option \<times> go_error option) \<times> 's \<Rightarrow>
    (('a option \<times> go_error option) \<times> 's) option" where
  "typed_result as ((None, err), s) = Some ((None, err), s)"
| "typed_result as ((Some obj, err), s) = do { x \<leftarrow> as obj; Some ((Some x, err), s) }"

definition selected :: "('w, 's) testing_Fake \<Rightarrow> ListOptions \<Rightarrow> ('a \<Rightarrow> (string \<times> string) list) \<Rightarrow> 'a list \<Rightarrow> 'a list" where
  "selected c opts labels items =
     (let label = (case ExtractFromListOptions c opts of None \<Rightarrow> (\<lambda>_. True) | Some l \<Rightarrow> l)
      in filter (\<lambda>item. label (labels item)) items)"

section \<open>fake_ipallocation.go\<close>

definition ipallocationsResource :: gvr where
  "ipallocationsResource = (''loadbalancing.plenus.io'', ''v1alpha1'', ''ipallocations'')"

definition ipallocationsKind :: gvr where
  "ipallocationsKind = (''loadbalancing.plenus.io'', ''v1alpha1'', ''IPAllocation'')"

fun fake_as_IPAllocation :: "fake_object \<Rightarrow> IPAllocation option" where
  "fake_as_IPAllocation (FIPAllocation x) = Some x"
| "fake_as_IPAllocation _ = None"

fun fake_as_IPAllocationList :: "fake_object \<Rightarrow> IPAllocation list option" where
  "fake_as_IPAllocationList (FIPAllocationList x) = Some x"
| "fake_as_IPAllocationList _ = None"

definition FakeIPAllocations_Get_action :: "string \<Rightarrow> string \<Rightarrow> fake_object action" where
  "FakeIPAllocations_Get_action ns name = NewGetAction ipallocationsResource ns name"

definition FakeIPAllocations_List_action :: "string \<Rightarrow> ListOptions \<Rightarrow> fake_object action" where
  "FakeIPAllocations_List_action ns opts = NewListAction ipallocationsResource ipallocationsKind ns opts"

definition FakeIPAllocations_Watch_action :: "string \<Rightarrow> ListOptions \<Rightarrow> fake_object action" where
  "FakeIPAllocations_Watch_action ns opts = NewWatchAction ipallocationsResource ns opts"

definition FakeIPAllocations_Create_action :: "string \<Rightarrow> IPAllocation \<Rightarrow> fake_object action" where
  "FakeIPAllocations_Create_action ns obj = NewCreateAction ipallocationsResource ns (FIPAllocation obj)"

definition FakeIPAllocations_Update_action :: "string \<Rightarrow> IPAllocation \<Rightarrow> fake_object action" where
  "FakeIPAllocations_Update_action ns obj = NewUpdateAction ipallocationsResource ns (FIPAllocation obj)"

definition FakeIPAllocations_UpdateStatus_action :: "string \<Rightarrow> IPAllocation \<Rightarrow> fake_object action" where
  "FakeIPAllocations_UpdateStatus_action ns obj = NewUpdateSubresourceAction ipallocationsResource ''status'' ns (FIPAllocation obj)"

definition FakeIPAllocations_Delete_action :: "string \<Rightarrow> string \<Rightarrow> fake_object action" where
  "FakeIPAllocations_Delete_action ns name = NewDeleteAction ipallocationsResource ns name"

definition FakeIPAllocations_DeleteCollection_action :: "string \<Rightarrow> ListOptions \<Rightarrow> fake_object action" where
  "FakeIPAllocations_DeleteCollection_action ns listOptions = NewDeleteCollectionAction ipallocationsResource ns listOptions"

definition FakeIPAllocations_Patch_action :: "string \<Rightarrow> string \<Rightarrow> string \<Rightarrow> string \<Rightarrow> string list \<Rightarrow> fake_object action" where
  "FakeIPAllocations_Patch_action ns name pt data subresources = NewPatchSubresourceAction ipallocationsResource ns name pt data subresources"

definition FakeIPAllocations_Get ::
  "('w, 's) testing_Fake \<times> string \<Rightarrow> string \<Rightarrow> 's \<Rightarrow> ((IPAllocation option \<times> go_error option) \<times> 's) option" where
  "FakeIPAllocations_Get c name s =
     typed_result fake_as_IPAllocation (Invokes (fst c) (FakeIPAllocations_Get_action (snd c) name) (FIPAllocation zero_IPAllocation) s)"

definition FakeIPAllocations_Create ::
  "('w, 's) testing_Fake \<times> string \<Rightarrow> IPAllocation \<Rightarrow> 's \<Rightarrow> ((IPAllocation option \<times> go_error option) \<times> 's) option" where
  "FakeIPAllocations_Create c obj s =
     typed_result fake_as_IPAllocation (Invokes (fst c) (FakeIPAllocations_Create_action (snd c) obj) (FIPAllocation zero_IPAllocation) s)"

definition FakeIPAllocations_Update ::
  "('w, 's) testing_Fake \<times> string \<Rightarrow> IPAllocation \<Rightarrow> 's \<Rightarrow> ((IPAllocation option \<times> go_error option) \<times> 's) option" where
  "FakeIPAllocations_Update c obj s =
     typed_result fake_as_IPAllocation (Invokes (fst c) (FakeIPAllocations_Update_action (snd c) obj) (FIPAllocation zero_IPAllocation) s)"

definition FakeIPAllocations_UpdateStatus ::
  "('w, 's) testing_Fake \<times> string \<Rightarrow> IPAllocation \<Rightarrow> 's \<Rightarrow> ((IPAllocation option \<times> go_error option) \<times> 's) option" where
  "FakeIPAllocations_UpdateStatus c obj s =
     typed_result fake_as_IPAllocation (Invokes (fst c) (FakeIPAllocations_UpdateStatus_action (snd c) obj) (FIPAllocation zero_IPAllocation) s)"

definition FakeIPAllocations_Patch ::
  "('w, 's) testing_Fake \<times> string \<Rightarrow> string \<Rightarrow> string \<Rightarrow> string \<Rightarrow> string list \<Rightarrow> 's \<Rightarrow> ((IPAllocation option \<times> go_error option) \<times> 's) option" where
  "FakeIPAllocations_Patch c name pt data subresources s =
     typed_result fake_as_IPAllocation (Invokes (fst c) (FakeIPAllocations_Patch_action (snd c) name pt data subresources) (FIPAllocation zero_IPAllocation) s)"

definition FakeIPAllocations_List ::
  "('w, 's) testing_Fake \<times> string \<Rightarrow> ListOptions \<Rightarrow> 's \<Rightarrow> ((IPAllocation list option \<times> go_error option) \<times> 's) option" where
  "FakeIPAllocations_List c opts s =
     do {
       ((items, err), s) \<leftarrow> typed_result fake_as_IPAllocationList (Invokes (fst c) (FakeIPAllocations_List_action (snd c) opts) (FIPAllocationList []) s);
       Some ((map_option (selected (fst c) opts (\<lambda>item. Labels (AMeta item))) items, err), s)
     }"

definition FakeIPAllocations_Watch ::
  "('w, 's) testing_Fake \<times> string \<Rightarrow> ListOptions \<Rightarrow> 's \<Rightarrow> ('w option \<times> go_error option) \<times> 's" where
  "FakeIPAllocations_Watch c opts s = InvokesWatch (fst c) (FakeIPAllocations_Watch_action (snd c) opts) s"

definition FakeIPAllocations_Delete :: "('w, 's) testing_Fake \<times> string \<Rightarrow> string \<Rightarrow> 's \<Rightarrow> go_error option \<times> 's" where
  "FakeIPAllocations_Delete c name s =
     (let ((_, err), s) = Invokes (fst c) (FakeIPAllocations_Delete_action (snd c) name) (FIPAllocation zero_IPAllocation) s in (err, s))"

definition FakeIPAllocations_DeleteCollection :: "('w, 's) testing_Fake \<times> string \<Rightarrow> ListOptions \<Rightarrow> 's \<Rightarrow> go_error option \<times> 's" where
  "FakeIPAllocations_DeleteCollection c listOptions s =
     (let action = FakeIPAllocations_DeleteCollection_action (snd c) listOptions;
          ((_, err), s) = Invokes (fst c) action (FIPAllocationList []) s in (err, s))"

section \<open>fake_persistentippool.go\<close>

definition persistentippoolsResource :: gvr where
  "persistentippoolsResource = (''loadbalancing.plenus.io'', ''v1alpha1'', ''persistentippools'')"

definition persistentippoolsKind :: gvr where
  "persistentippoolsKind = (''loadbalancing.plenus.io'', ''v1alpha1'', ''PersistentIPPool'')"

fun fake_as_PersistentIPPool :: "fake_object \<Rightarrow> PersistentIPPool option" where
  "fake_as_PersistentIPPool (FPersistentIPPool x) = Some x"
| "fake_as_PersistentIPPool _ = None"

fun fake_as_PersistentIPPoolList :: "fake_object \<Rightarrow> PersistentIPPool list option" where
  "fake_as_PersistentIPPoolList (FPersistentIPPoolList x) = Some x"
| "fake_as_PersistentIPPoolList _ = None"

definition FakePersistentIPPools_Get_action :: "string \<Rightarrow> fake_object action" where
  "FakePersistentIPPools_Get_action name = NewRootGetAction persistentippoolsResource name"

definition FakePersistentIPPools_List_action :: "ListOptions \<Rightarrow> fake_object action" where
  "FakePersistentIPPools_List_action opts = NewRootListAction persistentippoolsResource persistentippoolsKind opts"

definition FakePersistentIPPools_Watch_action :: "ListOptions \<Rightarrow> fake_object action" where
  "FakePersistentIPPools_Watch_action opts = NewRootWatchAction persistentippoolsResource opts"

definition FakePersistentIPPools_Create_action :: "PersistentIPPool \<Rightarrow> fake_object action" where
  "FakePersistentIPPools_Create_action obj = NewRootCreateAction persistentippoolsResource (FPersistentIPPool obj)"

definition FakePersistentIPPools_Update_action :: "PersistentIPPool \<Rightarrow> fake_object action" where
  "FakePersistentIPPools_Update_action obj = NewRootUpdateAction persistentippoolsResource (FPersistentIPPool obj)"

definition FakePersistentIPPools_UpdateStatus_action :: "PersistentIPPool \<Rightarrow> fake_object action" where
  "FakePersistentIPPools_UpdateStatus_action obj = NewRootUpdateSubresourceAction persistentippoolsResource ''status'' (FPersistentIPPool obj)"

definition FakePersistentIPPools_Delete_action :: "string \<Rightarrow> fake_object action" where
  "FakePersistentIPPools_Delete_action name = NewRootDeleteAction persistentippoolsResource name"

definition FakePersistentIPPools_DeleteCollection_action :: "ListOptions \<Rightarrow> fake_object action" where
  "FakePersistentIPPools_DeleteCollection_action listOptions = NewRootDeleteCollectionAction persistentippoolsResource listOptions"

definition FakePersistentIPPools_Patch_action :: "string \<Rightarrow> string \<Rightarrow> string \<Rightarrow> string list \<Rightarrow> fake_object action" where
  "FakePersistentIPPools_Patch_action name pt data subresources = NewRootPatchSubresourceAction persistentippoolsResource name pt data subresources"

definition FakePersistentIPPools_Get ::
  "('w, 's) testing_Fake \<Rightarrow> string \<Rightarrow> 's \<Rightarrow> ((PersistentIPPool option \<times> go_error option) \<times> 's) option" where
  "FakePersistentIPPools_Get c name s =
     typed_result fake_as_PersistentIPPool (Invokes c (FakePersistentIPPools_Get_action name) (FPersistentIPPool zero_PersistentIPPool) s)"

definition FakePersistentIPPools_Create ::
  "('w, 's) testing_Fake \<Rightarrow> PersistentIPPool \<Rightarrow> 's \<Rightarrow> ((PersistentIPPool option \<times> go_error option) \<times> 's) option" where
  "FakePersistentIPPools_Create c obj s =
     typed_result fake_as_PersistentIPPool (Invokes c (FakePersistentIPPools_Create_action obj) (FPersistentIPPool zero_PersistentIPPool) s)"

definition FakePersistentIPPools_Update ::
  "('w, 's) testing_Fake \<Rightarrow> PersistentIPPool \<Rightarrow> 's \<Rightarrow> ((PersistentIPPool option \<times> go_error option) \<times> 's) option" where
  "FakePersistentIPPools_Update c obj s =
     typed_result fake_as_PersistentIPPool (Invokes c (FakePersistentIPPools_Update_action obj) (FPersistentIPPool zero_PersistentIPPool) s)"

definition FakePersistentIPPools_UpdateStatus ::
  "('w, 's) testing_Fake \<Rightarrow> PersistentIPPool \<Rightarrow> 's \<Rightarrow> ((PersistentIPPool option \<times> go_error option) \<times> 's) option" where
  "FakePersistentIPPools_UpdateStatus c obj s =
     typed_result fake_as_PersistentIPPool (Invokes c (FakePersistentIPPools_UpdateStatus_action obj) (FPersistentIPPool zero_PersistentIPPool) s)"

definition FakePersistentIPPools_Patch ::
  "('w, 's) testing_Fake \<Rightarrow> string \<Rightarrow> string \<Rightarrow> string \<Rightarrow> string list \<Rightarrow> 's \<Rightarrow> ((PersistentIPPool option \<times> go_error option) \<times> 's) option" where
  "FakePersistentIPPools_Patch c name pt data subresources s =
     typed_result fake_as_PersistentIPPool (Invokes c (FakePersistentIPPools_Patch_action name pt data subresources) (FPersistentIPPool zero_PersistentIPPool) s)"

definition FakePersistentIPPools_List ::
  "('w, 's) testing_Fake \<Rightarrow> ListOptions \<Rightarrow> 's \<Rightarrow> ((PersistentIPPool list option \<times> go_error option) \<times> 's) option" where
  "FakePersistentIPPools_List c opts s =
     do {
       ((items, err), s) \<leftarrow> typed_result fake_as_PersistentIPPoolList (Invokes c (FakePersistentIPPools_List_action opts) (FPersistentIPPoolList []) s);
       Some ((map_option (selected c opts (\<lambda>item. Labels (PMeta item))) items, err), s)
     }"

definition FakePersistentIPPools_Watch ::
  "('w, 's) testing_Fake \<Rightarrow> ListOptions \<Rightarrow> 's \<Rightarrow> ('w option \<times> go_error option) \<times> 's" where
  "FakePersistentIPPools_Watch c opts s = InvokesWatch c (FakePersistentIPPools_Watch_action opts) s"

definition FakePersistentIPPools_Delete :: "('w, 's) testing_Fake \<Rightarrow> string \<Rightarrow> 's \<Rightarrow> go_error option \<times> 's" where
  "FakePersistentIPPools_Delete c name s =
     (let ((_, err), s) = Invokes c (FakePersistentIPPools_Delete_action name) (FPersistentIPPool zero_PersistentIPPool) s in (err, s))"

definition FakePersistentIPPools_DeleteCollection :: "('w, 's) testing_Fake \<Rightarrow> ListOptions \<Rightarrow> 's \<Rightarrow> go_error option \<times> 's" where
  "FakePersistentIPPools_DeleteCollection c listOptions s =
     (let action = FakePersistentIPPools_DeleteCollection_action listOptions;
          ((_, err), s) = Invokes c action (FPersistentIPPoolList []) s in (err, s))"

section \<open>fake_ephemeralippool.go\<close>

definition ephemeralippoolsResource :: gvr where
  "ephemeralippoolsResource = (''loadbalancing.plenus.io'', ''v1alpha1'', ''ephemeralippools'')"

definition ephemeralippoolsKind :: gvr where
  "ephemeralippoolsKind = (''loadbalancing.plenus.io'', ''v1alpha1'', ''EphemeralIPPool'')"

fun fake_as_EphemeralIPPool :: "fake_object \<Rightarrow> EphemeralIPPool option" where
  "fake_as_EphemeralIPPool (FEphemeralIPPool x) = Some x"
| "fake_as_EphemeralIPPool _ = None"

fun fake_as_EphemeralIPPoolList :: "fake_object \<Rightarrow> EphemeralIPPool list option" where
  "fake_as_EphemeralIPPoolList (FEphemeralIPPoolList x) = Some x"
| "fake_as_EphemeralIPPoolList _ = None"

definition FakeEphemeralIPPools_Get_action :: "string \<Rightarrow> fake_object action" where
  "FakeEphemeralIPPools_Get_action name = NewRootGetAction ephemeralippoolsResource name"

definition FakeEphemeralIPPools_List_action :: "ListOptions \<Rightarrow> fake_object action" where
  "FakeEphemeralIPPools_List_action opts = NewRootListAction ephemeralippoolsResource ephemeralippoolsKind opts"

definition FakeEphemeralIPPools_Watch_action :: "ListOptions \<Rightarrow> fake_object action" where
  "FakeEphemeralIPPools_Watch_action opts = NewRootWatchAction ephemeralippoolsResource opts"

definition FakeEphemeralIPPools_Create_action :: "EphemeralIPPool \<Rightarrow> fake_object action" where
  "FakeEphemeralIPPools_Create_action obj = NewRootCreateAction ephemeralippoolsResource (FEphemeralIPPool obj)"

definition FakeEphemeralIPPools_Update_action :: "EphemeralIPPool \<Rightarrow> fake_object action" where
  "FakeEphemeralIPPools_Update_action obj = NewRootUpdateAction ephemeralippoolsResource (FEphemeralIPPool obj)"

definition FakeEphemeralIPPools_UpdateStatus_action :: "EphemeralIPPool \<Rightarrow> fake_object action" where
  "FakeEphemeralIPPools_UpdateStatus_action obj = NewRootUpdateSubresourceAction ephemeralippoolsResource ''status'' (FEphemeralIPPool obj)"

definition FakeEphemeralIPPools_Delete_action :: "string \<Rightarrow> fake_object action" where
  "FakeEphemeralIPPools_Delete_action name = NewRootDeleteAction ephemeralippoolsResource name"

definition FakeEphemeralIPPools_DeleteCollection_action :: "ListOptions \<Rightarrow> fake_object action" where
  "FakeEphemeralIPPools_DeleteCollection_action listOptions = NewRootDeleteCollectionAction ephemeralippoolsResource listOptions"

definition FakeEphemeralIPPools_Patch_action :: "string \<Rightarrow> string \<Rightarrow> string \<Rightarrow> string list \<Rightarrow> fake_object action" where
  "FakeEphemeralIPPools_Patch_action name pt data subresources = NewRootPatchSubresourceAction ephemeralippoolsResource name pt data subresources"

definition FakeEphemeralIPPools_Get ::
  "('w, 's) testing_Fake \<Rightarrow> string \<Rightarrow> 's \<Rightarrow> ((EphemeralIPPool option \<times> go_error option) \<times> 's) option" where
  "FakeEphemeralIPPools_Get c name s =
     typed_result fake_as_EphemeralIPPool (Invokes c (FakeEphemeralIPPools_Get_action name) (FEphemeralIPPool zero_EphemeralIPPool) s)"

definition FakeEphemeralIPPools_Create ::
  "('w, 's) testing_Fake \<Rightarrow> EphemeralIPPool \<Rightarrow> 's \<Rightarrow> ((EphemeralIPPool option \<times> go_error option) \<times> 's) option" where
  "FakeEphemeralIPPools_Create c obj s =
     typed_result fake_as_EphemeralIPPool (Invokes c (FakeEphemeralIPPools_Create_action obj) (FEphemeralIPPool zero_EphemeralIPPool) s)"

definition FakeEphemeralIPPools_Update ::
  "('w, 's) testing_Fake \<Rightarrow> EphemeralIPPool \<Rightarrow> 's \<Rightarrow> ((EphemeralIPPool option \<times> go_error option) \<times> 's) option" where
  "FakeEphemeralIPPools_Update c obj s =
     typed_result fake_as_EphemeralIPPool (Invokes c (FakeEphemeralIPPools_Update_action obj) (FEphemeralIPPool zero_EphemeralIPPool) s)"

definition FakeEphemeralIPPools_UpdateStatus ::
  "('w, 's) testing_Fake \<Rightarrow> EphemeralIPPool \<Rightarrow> 's \<Rightarrow> ((EphemeralIPPool option \<times> go_error option) \<times> 's) option" where
  "FakeEphemeralIPPools_UpdateStatus c obj s =
     typed_result fake_as_EphemeralIPPool (Invokes c (FakeEphemeralIPPools_UpdateStatus_action obj) (FEphemeralIPPool zero_EphemeralIPPool) s)"

definition FakeEphemeralIPPools_Patch ::
  "('w, 's) testing_Fake \<Rightarrow> string \<Rightarrow> string \<Rightarrow> string \<Rightarrow> string list \<Rightarrow> 's \<Rightarrow> ((EphemeralIPPool option \<times> go_error option) \<times> 's) option" where
  "FakeEphemeralIPPools_Patch c name pt data subresources s =
     typed_result fake_as_EphemeralIPPool (Invokes c (FakeEphemeralIPPools_Patch_action name pt data subresources) (FEphemeralIPPool zero_EphemeralIPPool) s)"

definition FakeEphemeralIPPools_List ::
  "('w, 's) testing_Fake \<Rightarrow> ListOptions \<Rightarrow> 's \<Rightarrow> ((EphemeralIPPool list option \<times> go_error option) \<times> 's) option" where
  "FakeEphemeralIPPools_List c opts s =
     do {
       ((items, err), s) \<leftarrow> typed_result fake_as_EphemeralIPPoolList (Invokes c (FakeEphemeralIPPools_List_action opts) (FEphemeralIPPoolList []) s);
       Some ((map_option (selected c opts (\<lambda>item. Labels (EMeta item))) items, err), s)
     }"

definition FakeEphemeralIPPools_Watch ::
  "('w, 's) testing_Fake \<Rightarrow> ListOptions \<Rightarrow> 's \<Rightarrow> ('w option \<times> go_error option) \<times> 's" where
  "FakeEphemeralIPPools_Watch c opts s = InvokesWatch c (FakeEphemeralIPPools_Watch_action opts) s"

definition FakeEphemeralIPPools_Delete :: "('w, 's) testing_Fake \<Rightarrow> string \<Rightarrow> 's \<Rightarrow> go_error option \<times> 's" where
  "FakeEphemeralIPPools_Delete c name s =
     (let ((_, err), s) = Invokes c (FakeEphemeralIPPools_Delete_action name) (FEphemeralIPPool zero_EphemeralIPPool) s in (err, s))"

definition FakeEphemeralIPPools_DeleteCollection :: "('w, 's) testing_Fake \<Rightarrow> ListOptions \<Rightarrow> 's \<Rightarrow> go_error option \<times> 's" where
  "FakeEphemeralIPPools_DeleteCollection c listOptions s =
     (let action = FakeEphemeralIPPools_DeleteCollection_action listOptions;
          ((_, err), s) = Invokes c action (FEphemeralIPPoolList []) s in (err, s))"

section \<open>The requests the actions stand for\<close>

fun object_name :: "fake_object \<Rightarrow> string" where
  "object_name (FIPAllocation a) = Name (AMeta a)"
| "object_name (FPersistentIPPool p) = Name (PMeta p)"
| "object_name (FEphemeralIPPool p) = Name (EMeta p)"
| "object_name _ = ''''"

definition action_base :: "verb \<Rightarrow> string option \<Rightarrow> gvr \<Rightarrow> fake_object rest_request" where
  "action_base v ns r = base_request v ns (snd (snd r))"

fun list_action :: "verb \<Rightarrow> string option \<Rightarrow> gvr \<Rightarrow> ListOptions \<Rightarrow> fake_object rest_request" where
  "list_action v ns r opts = (action_base v ns r)\<lparr>rq_timeout := Some (list_timeout (TimeoutSeconds opts))\<rparr>"

fun patch_action :: "string option \<Rightarrow> gvr \<Rightarrow> string \<Rightarrow> string \<Rightarrow> string \<Rightarrow> string list \<Rightarrow> fake_object rest_request" where
  "patch_action ns r name pt data subs =
     (action_base (PATCH pt) ns r)\<lparr>rq_name := Some name, rq_subresources := subs, rq_body := RawBody data\<rparr>"

fun put_action :: "string option \<Rightarrow> gvr \<Rightarrow> string list \<Rightarrow> fake_object \<Rightarrow> fake_object rest_request" where
  "put_action ns r subs obj =
     (action_base PUT ns r)\<lparr>rq_name := Some (object_name obj), rq_subresources := subs, rq_body := ObjBody obj\<rparr>"

fun action_request :: "fake_object action \<Rightarrow> fake_object rest_request" where
  "action_request (NewGetAction r ns name) = (action_base GET (Some ns) r)\<lparr>rq_name := Some name\<rparr>"
| "action_request (NewRootGetAction r name) = (action_base GET None r)\<lparr>rq_name := Some name\<rparr>"
| "action_request (NewListAction r k ns opts) = list_action GET (Some ns) r opts"
| "action_request (NewRootListAction r k opts) = list_action GET None r opts"
| "action_request (NewWatchAction r ns opts) = (list_action GET (Some ns) r opts)\<lparr>rq_watch := True\<rparr>"
| "action_request (NewRootWatchAction r opts) = (list_action GET None r opts)\<lparr>rq_watch := True\<rparr>"
| "action_request (NewCreateAction r ns obj) = (action_base POST (Some ns) r)\<lparr>rq_body := ObjBody obj\<rparr>"
| "action_request (NewRootCreateAction r obj) = (action_base POST None r)\<lparr>rq_body := ObjBody obj\<rparr>"
| "action_request (NewUpdateAction r ns obj) = put_action (Some ns) r [] obj"
| "action_request (NewRootUpdateAction r obj) = put_action None r [] obj"
| "action_request (NewUpdateSubresourceAction r sub ns obj) = put_action (Some ns) r [sub] obj"
| "action_request (NewRootUpdateSubresourceAction r sub obj) = put_action None r [sub] obj"
| "action_request (NewDeleteAction r ns name) =
     (action_base DELETE (Some ns) r)\<lparr>rq_name := Some name, rq_body := OptionsBody\<rparr>"
| "action_request (NewRootDeleteAction r name) =
     (action_base DELETE None r)\<lparr>rq_name := Some name, rq_body := OptionsBody\<rparr>"
| "action_request (NewDeleteCollectionAction r ns opts) = (list_action DELETE (Some ns) r opts)\<lparr>rq_body := OptionsBody\<rparr>"
| "action_request (NewRootDeleteCollectionAction r opts) = (list_action DELETE None r opts)\<lparr>rq_body := OptionsBody\<rparr>"
| "action_request (NewPatchSubresourceAction r ns name pt data subs) = patch_action (Some ns) r name pt data subs"
| "action_request (NewRootPatchSubresourceAction r name pt data subs) = patch_action None r name pt data subs"

text \<open>A request of a real client, its body as an object of the fake.\<close>

definition request_as :: "('b \<Rightarrow> fake_object) \<Rightarrow> 'b rest_request \<Rightarrow> fake_object rest_request" where
  "request_as f r =
     \<lparr>rq_verb = rq_verb r, rq_namespace = rq_namespace r, rq_resource = rq_resource r, rq_name = rq_name r,
      rq_subresources = rq_subresources r, rq_body = map_rest_body f (rq_body r), rq_watch = rq_watch r,
      rq_timeout = rq_timeout r\<rparr>"

lemma FakeIPAllocations_requests:
  "action_request (FakeIPAllocations_Get_action ns name) = request_as FIPAllocation (IPAllocations_Get_request ns name)"
  "action_request (FakeIPAllocations_List_action ns opts) = request_as FIPAllocation (IPAllocations_List_request ns (TimeoutSeconds opts))"
  "action_request (FakeIPAllocations_Watch_action ns opts) = request_as FIPAllocation (IPAllocations_Watch_request ns (TimeoutSeconds opts))"
  "action_request (FakeIPAllocations_Create_action ns obj) = request_as FIPAllocation (IPAllocations_Create_request ns obj)"
  "action_request (FakeIPAllocations_Update_action ns obj) = request_as FIPAllocation (IPAllocations_Update_request ns obj)"
  "action_request (FakeIPAllocations_UpdateStatus_action ns obj) = request_as FIPAllocation (IPAllocations_UpdateStatus_request ns obj)"
  "action_request (FakeIPAllocations_Delete_action ns name) = request_as FIPAllocation (IPAllocations_Delete_request ns name)"
  "action_request (FakeIPAllocations_DeleteCollection_action ns opts) =
     request_as FIPAllocation (IPAllocations_DeleteCollection_request ns (TimeoutSeconds opts))"
  "action_request (FakeIPAllocations_Patch_action ns name pt data subs) = request_as FIPAllocation (IPAllocations_Patch_request ns name pt data subs)"
  by (simp_all add: request_as_def action_base_def base_request_def ipallocationsResource_def
      FakeIPAllocations_Get_action_def IPAllocations_Get_request_def FakeIPAllocations_List_action_def IPAllocations_List_request_def FakeIPAllocations_Watch_action_def IPAllocations_Watch_request_def FakeIPAllocations_Create_action_def IPAllocations_Create_request_def FakeIPAllocations_Update_action_def IPAllocations_Update_request_def FakeIPAllocations_UpdateStatus_action_def IPAllocations_UpdateStatus_request_def FakeIPAllocations_Delete_action_def IPAllocations_Delete_request_def FakeIPAllocations_DeleteCollection_action_def IPAllocations_DeleteCollection_request_def FakeIPAllocations_Patch_action_def IPAllocations_Patch_request_def)

lemma FakePersistentIPPools_requests:
  "action_request (FakePersistentIPPools_Get_action name) = request_as FPersistentIPPool (PersistentIPPools_Get_request name)"
  "action_request (FakePersistentIPPools_List_action opts) = request_as FPersistentIPPool (PersistentIPPools_List_request (TimeoutSeconds opts))"
  "action_request (FakePersistentIPPools_Watch_action opts) = request_as FPersistentIPPool (PersistentIPPools_Watch_request (TimeoutSeconds opts))"
  "action_request (FakePersistentIPPools_Create_action obj) = request_as FPersistentIPPool (PersistentIPPools_Create_request obj)"
  "action_request (FakePersistentIPPools_Update_action obj) = request_as FPersistentIPPool (PersistentIPPools_Update_request obj)"
  "action_request (FakePersistentIPPools_UpdateStatus_action obj) = request_as FPersistentIPPool (PersistentIPPools_UpdateStatus_request obj)"
  "action_request (FakePersistentIPPools_Delete_action name) = request_as FPersistentIPPool (PersistentIPPools_Delete_request name)"
  "action_request (FakePersistentIPPools_DeleteCollection_action opts) =
     request_as FPersistentIPPool (PersistentIPPools_DeleteCollection_request (TimeoutSeconds opts))"
  "action_request (FakePersistentIPPools_Patch_action name pt data subs) = request_as FPersistentIPPool (PersistentIPPools_Patch_request name pt data subs)"
  by (simp_all add: request_as_def action_base_def base_request_def persistentippoolsResource_def
      FakePersistentIPPools_Get_action_def PersistentIPPools_Get_request_def FakePersistentIPPools_List_action_def PersistentIPPools_List_request_def FakePersistentIPPools_Watch_action_def PersistentIPPools_Watch_request_def FakePersistentIPPools_Create_action_def PersistentIPPools_Create_request_def FakePersistentIPPools_Update_action_def PersistentIPPools_Update_request_def FakePersistentIPPools_UpdateStatus_action_def PersistentIPPools_UpdateStatus_request_def FakePersistentIPPools_Delete_action_def PersistentIPPools_Delete_request_def FakePersistentIPPools_DeleteCollection_action_def PersistentIPPools_DeleteCollection_request_def FakePersistentIPPools_Patch_action_def PersistentIPPools_Patch_request_def)

lemma FakeEphemeralIPPools_requests:
  "action_request (FakeEphemeralIPPools_Get_action name) = request_as FEphemeralIPPool (EphemeralIPPools_Get_request name)"
  "action_request (FakeEphemeralIPPools_List_action opts) = request_as FEphemeralIPPool (EphemeralIPPools_List_request (TimeoutSeconds opts))"
  "action_request (FakeEphemeralIPPools_Watch_action opts) = request_as FEphemeralIPPool (EphemeralIPPools_Watch_request (TimeoutSeconds opts))"
  "action_request (FakeEphemeralIPPools_Create_action obj) = request_as FEphemeralIPPool (EphemeralIPPools_Create_request obj)"
  "action_request (FakeEphemeralIPPools_Update_action obj) = request_as FEphemeralIPPool (EphemeralIPPools_Update_request obj)"
  "action_request (FakeEphemeralIPPools_UpdateStatus_action obj) = request_as FEphemeralIPPool (EphemeralIPPools_UpdateStatus_request obj)"
  "action_request (FakeEphemeralIPPools_Delete_action name) = request_as FEphemeralIPPool (EphemeralIPPools_Delete_request name)"
  "action_request (FakeEphemeralIPPools_DeleteCollection_action opts) =
     request_as FEphemeralIPPool (EphemeralIPPools_DeleteCollection_request (TimeoutSeconds opts))"
  "action_request (FakeEphemeralIPPools_Patch_action name pt data subs) = request_as FEphemeralIPPool (EphemeralIPPools_Patch_request name pt data subs)"
  by (simp_all add: request_as_def action_base_def base_request_def ephemeralippoolsResource_def
      FakeEphemeralIPPools_Get_action_def EphemeralIPPools_Get_request_def FakeEphemeralIPPools_List_action_def EphemeralIPPools_List_request_def FakeEphemeralIPPools_Watch_action_def EphemeralIPPools_Watch_request_def FakeEphemeralIPPools_Create_action_def EphemeralIPPools_Create_request_def FakeEphemeralIPPools_Update_action_def EphemeralIPPools_Update_request_def FakeEphemeralIPPools_UpdateStatus_action_def EphemeralIPPools_UpdateStatus_request_def FakeEphemeralIPPools_Delete_action_def EphemeralIPPools_Delete_request_def FakeEphemeralIPPools_DeleteCollection_action_def EphemeralIPPools_DeleteCollection_request_def FakeEphemeralIPPools_Patch_action_def EphemeralIPPools_Patch_request_def)

end
