(* ===== verification/Clientset.thy ===== *)
theory Clientset
  imports Fake_Client Complex_Main
begin

text \<open>
  The construction of the clients: the generated client of the API group
  (\<open>typed/loadbalancing/v1alpha1/loadbalancing_client.go\<close>), the clientset around it
  (\<open>clientset/versioned/clientset.go\<close>), its test double (\<open>clientset/versioned/fake\<close>), the
  registration of the types in a scheme (\<open>clientset/versioned/scheme\<close>, the \<open>register\<close> files of
  the API package) and the package variables of \<open>pkg/controller/clients\<close>. What client-go and
  apimachinery do with a configuration or a scheme are parameters (\<open>rest_lib\<close>, \<open>scheme_lib\<close>,
  \<open>tracker_lib\<close>). A \<open>*rest.Config\<close> that a function copies first is passed by value.
\<close>

section \<open>The scheme\<close>

type_synonym group_version = "string \<times> string"

definition SchemeGroupVersion :: group_version where
  "SchemeGroupVersion = (CRDGroup, CRDVersion)"

text \<open>\<open>AddKnownTypes\<close> registers objects, here by their kinds, under a version; \<open>AddToGroupVersion\<close>
  is that of the package \<open>meta/v1\<close>.\<close>

record 's scheme_lib =
  NewScheme :: 's
  AddKnownTypes :: "group_version \<Rightarrow> string list \<Rightarrow> 's \<Rightarrow> 's"
  AddToGroupVersion :: "group_version \<Rightarrow> 's \<Rightarrow> 's"

type_synonym 's scheme_builder = "('s \<Rightarrow> go_error option \<times> 's) list"

text \<open>\<open>runtime.SchemeBuilder\<close>: all functions in order, up to the first that fails.\<close>

fun SchemeBuilder_AddToScheme :: "'s scheme_builder \<Rightarrow> 's \<Rightarrow> go_error option \<times> 's" where
  "SchemeBuilder_AddToScheme [] s = (None, s)"
| "SchemeBuilder_AddToScheme (f # sb) s =
     (let (err, s) = f s in if err \<noteq> None then (err, s) else SchemeBuilder_AddToScheme sb s)"

definition addIPAllocationKnownTypes :: "'s scheme_lib \<Rightarrow> 's \<Rightarrow> go_error option \<times> 's" where
  "addIPAllocationKnownTypes R s =
     (let s = AddKnownTypes R SchemeGroupVersion [''IPAllocation'', ''IPAllocationList''] s;
          s = AddToGroupVersion R SchemeGroupVersion s
      in (None, s))"

definition addEphemeralIPPoolKnownTypes :: "'s scheme_lib \<Rightarrow> 's \<Rightarrow> go_error option \<times> 's" where
  "addEphemeralIPPoolKnownTypes R s =
     (let s = AddKnownTypes R SchemeGroupVersion [''EphemeralIPPool'', ''EphemeralIPPoolList''] s;
          s = AddToGroupVersion R SchemeGroupVersion s
      in (None, s))"

definition addPersistentIPPoolKnownTypes :: "'s scheme_lib \<Rightarrow> 's \<Rightarrow> go_error option \<times> 's" where
  "addPersistentIPPoolKnownTypes R s =
     (let s = AddKnownTypes R SchemeGroupVersion [''PersistentIPPool'', ''PersistentIPPoolList''] s;
          s = AddToGroupVersion R SchemeGroupVersion s
      in (None, s))"

text \<open>The builder of the API package as its \<open>init\<close> leaves it.\<close>

definition v1alpha1_SchemeBuilder :: "'s scheme_lib \<Rightarrow> 's scheme_builder" where
  "v1alpha1_SchemeBuilder R =
     [] @ [addIPAllocationKnownTypes R] @ [addEphemeralIPPoolKnownTypes R] @ [addPersistentIPPoolKnownTypes R]"

definition v1alpha1_AddToScheme :: "'s scheme_lib \<Rightarrow> 's \<Rightarrow> go_error option \<times> 's" where
  "v1alpha1_AddToScheme R = SchemeBuilder_AddToScheme (v1alpha1_SchemeBuilder R)"

definition localSchemeBuilder :: "'s scheme_lib \<Rightarrow> 's scheme_builder" where
  "localSchemeBuilder R = [v1alpha1_AddToScheme R]"

definition clientset_AddToScheme :: "'s scheme_lib \<Rightarrow> 's \<Rightarrow> go_error option \<times> 's" where
  "clientset_AddToScheme R = SchemeBuilder_AddToScheme (localSchemeBuilder R)"

text \<open>The scheme of the clientset after the package's \<open>init\<close>; \<open>Must\<close> panics on an error.\<close>

definition Scheme :: "'s scheme_lib \<Rightarrow> 's option" where
  "Scheme R =
     (let s = AddToGroupVersion R ('''', ''v1'') (NewScheme R);
          (err, s) = clientset_AddToScheme R s
      in if err \<noteq> None then None else Some s)"

lemmas scheme_defs = Scheme_def clientset_AddToScheme_def localSchemeBuilder_def v1alpha1_AddToScheme_def
  v1alpha1_SchemeBuilder_def addIPAllocationKnownTypes_def addEphemeralIPPoolKnownTypes_def
  addPersistentIPPoolKnownTypes_def

text \<open>A scheme that remembers what was registered.\<close>

definition list_scheme :: "(group_version \<times> string) list scheme_lib" where
  "list_scheme = \<lparr>NewScheme = [], AddKnownTypes = (\<lambda>gv kinds s. s @ map (Pair gv) kinds),
     AddToGroupVersion = (\<lambda>gv s. s)\<rparr>"

lemma Scheme_kinds:
  "Scheme list_scheme = Some (map (Pair (''loadbalancing.plenus.io'', ''v1alpha1''))
     [''IPAllocation'', ''IPAllocationList'', ''EphemeralIPPool'', ''EphemeralIPPoolList'',
      ''PersistentIPPool'', ''PersistentIPPoolList''])"
  by (simp add: scheme_defs list_scheme_def Let_def SchemeGroupVersion_def CRDGroup_def CRDVersion_def)

section \<open>Configurations\<close>

datatype rate_limiter = TokenBucketRateLimiter rat int | OtherRateLimiter string

record rest_config =
  Host :: string
  APIPath :: string
  GroupVersion :: "group_version option"
  NegotiatedSerializer :: "string option"
  UserAgent :: string
  QPS :: rat
  Burst :: int
  RateLimiter :: "rate_limiter option"
  WrapTransport :: "string list"   \<comment> \<open>wrappers of the transport, by name\<close>

text \<open>\<open>'r\<close>, \<open>'d\<close>: REST clients and discovery clients.\<close>

record ('r, 'd) rest_lib =
  RESTClientFor :: "rest_config \<Rightarrow> go_error + 'r"
  DefaultKubernetesUserAgent :: string
  NewDiscoveryClientForConfig :: "rest_config \<Rightarrow> go_error + 'd"
  NewDiscoveryClient :: "'r \<Rightarrow> 'd"

section \<open>loadbalancing_client.go\<close>

record 'r LoadbalancingV1alpha1Client =
  restClient :: 'r

definition setConfigDefaults :: "('r, 'd) rest_lib \<Rightarrow> rest_config \<Rightarrow> go_error option \<times> rest_config" where
  "setConfigDefaults L config =
     (let gv = SchemeGroupVersion;
          config = config\<lparr>GroupVersion := Some gv\<rparr>;
          config = config\<lparr>APIPath := ''/apis''\<rparr>;
          config = config\<lparr>NegotiatedSerializer := Some ''scheme.Codecs''\<rparr>;
          config = (if UserAgent config = '''' then config\<lparr>UserAgent := DefaultKubernetesUserAgent L\<rparr> else config)
      in (None, config))"

definition v1alpha1_NewForConfig ::
  "('r, 'd) rest_lib \<Rightarrow> rest_config \<Rightarrow> go_error + 'r LoadbalancingV1alpha1Client" where
  "v1alpha1_NewForConfig L c =
     (let config = c;
          (err, config) = setConfigDefaults L config
      in case err of
           Some e \<Rightarrow> Inl e
         | None \<Rightarrow>
             (case RESTClientFor L config of
                Inl e \<Rightarrow> Inl e
              | Inr client \<Rightarrow> Inr \<lparr>restClient = client\<rparr>))"

definition v1alpha1_NewForConfigOrDie ::
  "('r, 'd) rest_lib \<Rightarrow> rest_config \<Rightarrow> 'r LoadbalancingV1alpha1Client option" where
  "v1alpha1_NewForConfigOrDie L c =
     (case v1alpha1_NewForConfig L c of Inl e \<Rightarrow> None | Inr client \<Rightarrow> Some client)"

definition v1alpha1_New :: "'r \<Rightarrow> 'r LoadbalancingV1alpha1Client" where
  "v1alpha1_New c = \<lparr>restClient = c\<rparr>"

definition v1alpha1_RESTClient :: "'r LoadbalancingV1alpha1Client option \<Rightarrow> 'r option" where
  "v1alpha1_RESTClient c = (case c of None \<Rightarrow> None | Some c \<Rightarrow> Some (restClient c))"

text \<open>The clients of the resources: the REST client, that of the allocations with a namespace.\<close>

definition newIPAllocations :: "'r LoadbalancingV1alpha1Client option \<Rightarrow> string \<Rightarrow> 'r option \<times> string" where
  "newIPAllocations c namespace = (v1alpha1_RESTClient c, namespace)"

definition newEphemeralIPPools :: "'r LoadbalancingV1alpha1Client option \<Rightarrow> 'r option" where
  "newEphemeralIPPools c = v1alpha1_RESTClient c"

definition newPersistentIPPools :: "'r LoadbalancingV1alpha1Client option \<Rightarrow> 'r option" where
  "newPersistentIPPools c = v1alpha1_RESTClient c"

definition client_EphemeralIPPools :: "'r LoadbalancingV1alpha1Client option \<Rightarrow> 'r option" where
  "client_EphemeralIPPools c = newEphemeralIPPools c"

definition client_IPAllocations :: "'r LoadbalancingV1alpha1Client option \<Rightarrow> string \<Rightarrow> 'r option \<times> string" where
  "client_IPAllocations c namespace = newIPAllocations c namespace"

definition client_PersistentIPPools :: "'r LoadbalancingV1alpha1Client option \<Rightarrow> 'r option" where
  "client_PersistentIPPools c = newPersistentIPPools c"

section \<open>clientset.go\<close>

record ('r, 'd) Clientset =
  DiscoveryClient :: 'd
  loadbalancingV1alpha1 :: "'r LoadbalancingV1alpha1Client"

definition Clientset_LoadbalancingV1alpha1 :: "('r, 'd) Clientset \<Rightarrow> 'r LoadbalancingV1alpha1Client" where
  "Clientset_LoadbalancingV1alpha1 c = loadbalancingV1alpha1 c"

definition Clientset_Discovery :: "('r, 'd) Clientset option \<Rightarrow> 'd option" where
  "Clientset_Discovery c = (case c of None \<Rightarrow> None | Some c \<Rightarrow> Some (DiscoveryClient c))"

definition ErrBurst :: go_error where
  "ErrBurst = Errorf
     ''Burst is required to be greater than 0 when RateLimiter is not set and QPS is set to greater than 0''"

definition limited_config :: "rest_config \<Rightarrow> go_error + rest_config" where
  "limited_config c =
     (let configShallowCopy = c
      in if RateLimiter configShallowCopy = None \<and> QPS configShallowCopy > 0 then
           (if Burst configShallowCopy \<le> 0 then Inl ErrBurst
            else Inr (configShallowCopy\<lparr>RateLimiter :=
              Some (TokenBucketRateLimiter (QPS configShallowCopy) (Burst configShallowCopy))\<rparr>))
         else Inr configShallowCopy)"

definition Clientset_NewForConfig :: "('r, 'd) rest_lib \<Rightarrow> rest_config \<Rightarrow> go_error + ('r, 'd) Clientset" where
  "Clientset_NewForConfig L c =
     (case limited_config c of
        Inl e \<Rightarrow> Inl e
      | Inr configShallowCopy \<Rightarrow>
          (case v1alpha1_NewForConfig L configShallowCopy of
             Inl e \<Rightarrow> Inl e
           | Inr lb \<Rightarrow>
               (case NewDiscoveryClientForConfig L configShallowCopy of
                  Inl e \<Rightarrow> Inl e
                | Inr dc \<Rightarrow> Inr \<lparr>DiscoveryClient = dc, loadbalancingV1alpha1 = lb\<rparr>)))"

definition Clientset_NewForConfigOrDie :: "('r, 'd) rest_lib \<Rightarrow> rest_config \<Rightarrow> ('r, 'd) Clientset option" where
  "Clientset_NewForConfigOrDie L c =
     do {
       lb \<leftarrow> v1alpha1_NewForConfigOrDie L c;
       dc \<leftarrow> (case NewDiscoveryClientForConfig L c of Inl e \<Rightarrow> None | Inr dc \<Rightarrow> Some dc);
       Some \<lparr>DiscoveryClient = dc, loadbalancingV1alpha1 = lb\<rparr>
     }"

definition Clientset_New :: "('r, 'd) rest_lib \<Rightarrow> 'r \<Rightarrow> ('r, 'd) Clientset" where
  "Clientset_New L c = \<lparr>DiscoveryClient = NewDiscoveryClient L c, loadbalancingV1alpha1 = v1alpha1_New c\<rparr>"

section \<open>clients.go\<close>

text \<open>\<open>'k\<close>, \<open>'x\<close>: the clientsets of client-go and of the API extensions.\<close>

record ('r, 'd, 'k, 'x) client_vars =
  k8sClientset :: "'k option"
  extensionClientset :: "'x option"
  plenuslbClientset :: "('r, 'd) Clientset option"
  clients_config :: "rest_config option"

definition no_clients :: "('r, 'd, 'k, 'x) client_vars" where
  "no_clients = \<lparr>k8sClientset = None, extensionClientset = None, plenuslbClientset = None, clients_config = None\<rparr>"

record ('r, 'd, 'k, 'x) cluster_lib = "('r, 'd) rest_lib" +
  InClusterConfig :: "go_error + rest_config"
  k8s_NewForConfigOrDie :: "rest_config \<Rightarrow> 'k option"
  extension_NewForConfigOrDie :: "rest_config \<Rightarrow> 'x option"

definition GetK8sClient :: "('r, 'd, 'k, 'x) client_vars \<Rightarrow> 'k option" where
  "GetK8sClient v = k8sClientset v"

definition GetExtensionClient :: "('r, 'd, 'k, 'x) client_vars \<Rightarrow> 'x option" where
  "GetExtensionClient v = extensionClientset v"

definition GetPlenuslbClient :: "('r, 'd, 'k, 'x) client_vars \<Rightarrow> ('r, 'd) Clientset option" where
  "GetPlenuslbClient v = plenuslbClientset v"

definition GetInClusterConfig :: "('r, 'd, 'k, 'x) client_vars \<Rightarrow> rest_config option" where
  "GetInClusterConfig v = clients_config v"

text \<open>\<open>klog.Fatalf\<close> and the panic of an \<open>OrDie\<close> end the process.\<close>

definition CreateClientsOrDie ::
  "('r, 'd, 'k, 'x) cluster_lib \<Rightarrow> ('r, 'd, 'k, 'x) client_vars \<Rightarrow> ('r, 'd, 'k, 'x) client_vars option" where
  "CreateClientsOrDie L v =
     (case InClusterConfig L of
        Inl e \<Rightarrow> None
      | Inr config \<Rightarrow>
          do {
            let v = v\<lparr>clients_config := Some config\<rparr>;
            k \<leftarrow> k8s_NewForConfigOrDie L config;
            let v = v\<lparr>k8sClientset := Some k\<rparr>;
            p \<leftarrow> Clientset_NewForConfigOrDie (rest_lib.truncate L) config;
            let v = v\<lparr>plenuslbClientset := Some p\<rparr>;
            x \<leftarrow> extension_NewForConfigOrDie L config;
            Some (v\<lparr>extensionClientset := Some x\<rparr>)
          })"

section \<open>The fake clientset\<close>

text \<open>Its package has a scheme of its own, filled by its \<open>init\<close>.\<close>

definition fake_localSchemeBuilder :: "'s scheme_lib \<Rightarrow> 's scheme_builder" where
  "fake_localSchemeBuilder R = [v1alpha1_AddToScheme R]"

definition fake_AddToScheme :: "'s scheme_lib \<Rightarrow> 's \<Rightarrow> go_error option \<times> 's" where
  "fake_AddToScheme R = SchemeBuilder_AddToScheme (fake_localSchemeBuilder R)"

definition fake_scheme :: "'s scheme_lib \<Rightarrow> 's option" where
  "fake_scheme R =
     (let s = AddToGroupVersion R ('''', ''v1'') (NewScheme R);
          (err, s) = fake_AddToScheme R s
      in if err \<noteq> None then None else Some s)"

text \<open>\<open>client-go/testing\<close>: the tracker of objects \<open>'t\<close>, made from a scheme, and \<open>Fake\<close>, \<open>'f\<close>, to which
  reactors are added. There is one tracker, which a reactor gets as it is when an action arrives.\<close>

type_synonym ('t, 'h) watch_reaction = "gvr \<Rightarrow> string \<Rightarrow> 't \<Rightarrow> bool \<times> 'h option \<times> go_error option"

record ('t, 'o, 'h, 'f, 'a, 's) tracker_lib =
  NewObjectTracker :: "'s \<Rightarrow> 't"
  tracker_Add :: "'o \<Rightarrow> 't \<Rightarrow> go_error option \<times> 't"
  tracker_Watch :: "'t \<Rightarrow> gvr \<Rightarrow> string \<Rightarrow> go_error + 'h"
  zero_Fake :: 'f
  ObjectReaction :: 'a
  AddReactor :: "string \<Rightarrow> string \<Rightarrow> 'a \<Rightarrow> 'f \<Rightarrow> 'f"
  AddWatchReactor :: "string \<Rightarrow> ('t, 'h) watch_reaction \<Rightarrow> 'f \<Rightarrow> 'f"

record ('t, 'f) fake_Clientset =
  embedded_Fake :: 'f
  tracker :: 't

fun add_objects :: "('t, 'o, 'h, 'f, 'a, 's) tracker_lib \<Rightarrow> 'o list \<Rightarrow> 't \<Rightarrow> 't option" where
  "add_objects T [] tr = Some tr"
| "add_objects T (obj # objects) tr =
     (let (err, tr) = tracker_Add T obj tr in if err \<noteq> None then None else add_objects T objects tr)"

definition watch_tracker :: "('t, 'o, 'h, 'f, 'a, 's) tracker_lib \<Rightarrow> ('t, 'h) watch_reaction" where
  "watch_tracker T gvr ns tr =
     (case tracker_Watch T tr gvr ns of
        Inl err \<Rightarrow> (False, None, Some err)
      | Inr watch \<Rightarrow> (True, Some watch, None))"

definition NewSimpleClientset ::
  "('t, 'o, 'h, 'f, 'a, 's) tracker_lib \<Rightarrow> 's scheme_lib \<Rightarrow> 'o list \<Rightarrow> ('t, 'f) fake_Clientset option" where
  "NewSimpleClientset T R objects =
     do {
       s \<leftarrow> fake_scheme R;
       tr \<leftarrow> add_objects T objects (NewObjectTracker T s);
       let cs = \<lparr>embedded_Fake = zero_Fake T, tracker = tr\<rparr>;
       let cs = cs\<lparr>embedded_Fake := AddReactor T ''*'' ''*'' (ObjectReaction T) (embedded_Fake cs)\<rparr>;
       let cs = cs\<lparr>embedded_Fake := AddWatchReactor T ''*'' (watch_tracker T) (embedded_Fake cs)\<rparr>;
       Some cs
     }"

text \<open>The clients of the fake clientset hold a pointer to its \<open>Fake\<close>.\<close>

datatype 'f fake_discovery = FakeDiscovery 'f

definition fake_Discovery :: "('t, 'f) fake_Clientset \<Rightarrow> 'f fake_discovery" where
  "fake_Discovery c = FakeDiscovery (embedded_Fake c)"

definition fake_Tracker :: "('t, 'f) fake_Clientset \<Rightarrow> 't" where
  "fake_Tracker c = tracker c"

definition fake_LoadbalancingV1alpha1 :: "('t, 'f) fake_Clientset \<Rightarrow> 'f" where
  "fake_LoadbalancingV1alpha1 c = embedded_Fake c"

text \<open>A nil pointer, which the caller gets as an interface that is not nil.\<close>

definition FakeLoadbalancingV1alpha1_RESTClient :: "'f \<Rightarrow> 'r option" where
  "FakeLoadbalancingV1alpha1_RESTClient c = None"

section \<open>Lemmas\<close>

text \<open>The defaults: whatever the caller set, the client speaks to this group's API; the caller's
  user agent and limits are kept.\<close>

lemma setConfigDefaults_spec:
  assumes "setConfigDefaults L c = (err, c')"
  shows "err = None" and "GroupVersion c' = Some SchemeGroupVersion" and "APIPath c' = ''/apis''"
    and "Host c' = Host c" and "QPS c' = QPS c" and "Burst c' = Burst c" and "RateLimiter c' = RateLimiter c"
    and "WrapTransport c' = WrapTransport c"
    and "UserAgent c' = (if UserAgent c = '''' then DefaultKubernetesUserAgent L else UserAgent c)"
  using assms by (auto simp: setConfigDefaults_def Let_def)

lemma v1alpha1_NewForConfig_client:
  "v1alpha1_NewForConfig L c = Inr client \<longleftrightarrow>
     RESTClientFor L (snd (setConfigDefaults L c)) = Inr (restClient client)"
  by (cases client) (auto simp: v1alpha1_NewForConfig_def setConfigDefaults_def Let_def split: sum.split)

text \<open>\<open>NewForConfig\<close> gives both clients one limiter, made from the configuration.\<close>

lemma limited_config_cases:
  "limited_config c = Inl e \<longleftrightarrow> e = ErrBurst \<and> RateLimiter c = None \<and> 0 < QPS c \<and> Burst c \<le> 0"
  "limited_config c = Inr c' \<Longrightarrow> RateLimiter c = None \<Longrightarrow> 0 < QPS c \<Longrightarrow>
     RateLimiter c' = Some (TokenBucketRateLimiter (QPS c) (Burst c)) \<and> 0 < Burst c"
  "limited_config c = Inr c' \<Longrightarrow> WrapTransport c' = WrapTransport c"
  by (auto simp: limited_config_def Let_def split: if_split_asm)

text \<open>\<open>NewForConfigOrDie\<close>, which the controller uses, leaves the limits to each client.\<close>

lemma NewForConfigOrDie_agrees:
  assumes "RateLimiter c \<noteq> None \<or> QPS c \<le> 0"
  shows "Clientset_NewForConfigOrDie L c = (case Clientset_NewForConfig L c of Inl e \<Rightarrow> None | Inr cs \<Rightarrow> Some cs)"
proof -
  from assms have "limited_config c = Inr c" by (auto simp: limited_config_def Let_def)
  then show ?thesis
    by (auto simp: Clientset_NewForConfigOrDie_def Clientset_NewForConfig_def v1alpha1_NewForConfigOrDie_def
        split: sum.split)
qed

lemma CreateClientsOrDie_built:
  assumes "CreateClientsOrDie L v = Some v'"
  shows "\<exists>config. InClusterConfig L = Inr config \<and> clients_config v' = Some config \<and>
    k8sClientset v' = k8s_NewForConfigOrDie L config \<and> k8sClientset v' \<noteq> None \<and>
    extensionClientset v' = extension_NewForConfigOrDie L config \<and> extensionClientset v' \<noteq> None \<and>
    plenuslbClientset v' = Clientset_NewForConfigOrDie (rest_lib.truncate L) config \<and> plenuslbClientset v' \<noteq> None"
  using assms by (auto simp: CreateClientsOrDie_def Let_def elim!: bind_SomeE split: sum.split_asm)

lemma add_objects_panics:
  "add_objects T objects tr = None \<longleftrightarrow>
     (\<exists>pre obj post tr1 e. objects = pre @ obj # post \<and> add_objects T pre tr = Some tr1 \<and> fst (tracker_Add T obj tr1) = Some e)"
proof (induction objects arbitrary: tr)
  case Nil
  then show ?case by simp
next
  case (Cons x xs)
  obtain err tr1 where a: "tracker_Add T x tr = (err, tr1)" by (metis prod.exhaust)
  show ?case
  proof (cases err)
    case None
    with a have step: "add_objects T (x # ys) tr = add_objects T ys tr1" for ys by simp
    show ?thesis
    proof
      assume "add_objects T (x # xs) tr = None"
      with step have "add_objects T xs tr1 = None" by simp
      with Cons.IH [of tr1] obtain pre obj post tr2 e where "xs = pre @ obj # post"
        "add_objects T pre tr1 = Some tr2" "fst (tracker_Add T obj tr2) = Some e" by blast
      with step show "\<exists>pre obj post tr1 e. x # xs = pre @ obj # post \<and> add_objects T pre tr = Some tr1 \<and>
          fst (tracker_Add T obj tr1) = Some e" by (intro exI [of _ "x # pre"]) auto
    next
      assume "\<exists>pre obj post tr1 e. x # xs = pre @ obj # post \<and> add_objects T pre tr = Some tr1 \<and>
        fst (tracker_Add T obj tr1) = Some e"
      then obtain pre obj post tr2 e where p: "x # xs = pre @ obj # post" "add_objects T pre tr = Some tr2"
        "fst (tracker_Add T obj tr2) = Some e" by blast
      from p a None obtain pre' where "pre = x # pre'" by (cases pre) auto
      with p step Cons.IH [of tr1] show "add_objects T (x # xs) tr = None" by auto
    qed
  next
    case (Some e)
    with a show ?thesis by (auto intro!: exI [of _ "[]"])
  qed
qed

text \<open>The scheme of the fake has the types of the real one, and a fake is made unless an object is
  refused; it reacts to everything with the one tracker.\<close>

lemma fake_scheme_same: "fake_scheme R = Scheme R"
  by (simp add: scheme_defs fake_scheme_def fake_AddToScheme_def fake_localSchemeBuilder_def)

lemma NewSimpleClientset_made:
  "NewSimpleClientset T R objects = Some cs \<longleftrightarrow>
     (\<exists>s. Scheme R = Some s \<and> add_objects T objects (NewObjectTracker T s) = Some (fake_Tracker cs)) \<and>
     fake_LoadbalancingV1alpha1 cs =
       AddWatchReactor T ''*'' (watch_tracker T) (AddReactor T ''*'' ''*'' (ObjectReaction T) (zero_Fake T))"
  by (cases cs) (auto simp: NewSimpleClientset_def fake_scheme_same fake_Tracker_def
      fake_LoadbalancingV1alpha1_def Let_def elim!: bind_SomeE)

end
