(* ===== verification/Tools.thy ===== *)
theory Tools
  imports Backoff Utils
begin

text \<open>
  \<open>tools/backoffCalculator.go\<close> (the printing of a duration) and the probes of
  \<open>pkg/utils/k8shealth/k8sHealth.go\<close>. The floats of the calculator only divide and floor
  numbers of seconds, which is integer division for any input below \<open>2^40\<close>; they are
  natural numbers here.
\<close>

definition plural :: "nat \<Rightarrow> string \<Rightarrow> string" where
  "plural n singular =
     (if n = 1 \<or> n = 0 then itoa n @ '' '' @ singular @ '' ''
      else itoa n @ '' '' @ singular @ ''s '')"

definition human_parts :: "nat \<Rightarrow> nat \<times> nat \<times> nat \<times> nat \<times> nat \<times> nat \<times> nat" where
  "human_parts input =
     (let years = input div 60 div 60 div 24 div 7 div 30 div 12;
          seconds = input mod (60 * 60 * 24 * 7 * 30 * 12);
          months = seconds div 60 div 60 div 24 div 7 div 30;
          seconds = input mod (60 * 60 * 24 * 7 * 30);
          weeks = seconds div 60 div 60 div 24 div 7;
          seconds = input mod (60 * 60 * 24 * 7);
          days = seconds div 60 div 60 div 24;
          seconds = input mod (60 * 60 * 24);
          hours = seconds div 60 div 60;
          seconds = input mod (60 * 60);
          minutes = seconds div 60;
          seconds = input mod 60
      in (years, months, weeks, days, hours, minutes, seconds))"

definition secondsToHuman :: "nat \<Rightarrow> string" where
  "secondsToHuman input =
     (let (years, months, weeks, days, hours, minutes, seconds) = human_parts input
      in if years > 0 then
           plural years ''year'' @ plural months ''month'' @ plural weeks ''week'' @ plural days ''day'' @
           plural hours ''hour'' @ plural minutes ''minute'' @ plural seconds ''second''
         else if months > 0 then
           plural months ''month'' @ plural weeks ''week'' @ plural days ''day'' @
           plural hours ''hour'' @ plural minutes ''minute'' @ plural seconds ''second''
         else if weeks > 0 then
           plural weeks ''week'' @ plural days ''day'' @
           plural hours ''hour'' @ plural minutes ''minute'' @ plural seconds ''second''
         else if days > 0 then
           plural days ''day'' @ plural hours ''hour'' @ plural minutes ''minute'' @ plural seconds ''second''
         else if hours > 0 then
           plural hours ''hour'' @ plural minutes ''minute'' @ plural seconds ''second''
         else if minutes > 0 then plural minutes ''minute'' @ plural seconds ''second''
         else plural seconds ''second'')"

text \<open>The seven numbers are the mixed-radix digits of the input: nothing is lost, and each is
  below its radix. (A month is thirty weeks there, and a year twelve of these.)\<close>

lemma mod_mult_div: "0 < a \<Longrightarrow> n mod (a * b) div a = n div a mod (b::nat)"
  by (simp add: mod_mult2_eq)

lemma human_parts_digits:
  "human_parts n =
    (n div 60 div 60 div 24 div 7 div 30 div 12, n div 60 div 60 div 24 div 7 div 30 mod 12,
     n div 60 div 60 div 24 div 7 mod 30, n div 60 div 60 div 24 mod 7, n div 60 div 60 mod 24,
     n div 60 mod 60, n mod 60)"
  using mod_mult_div [of 60 n 60] mod_mult_div [of "60 * 60" n 24] mod_mult_div [of "60 * 60 * 24" n 7]
    mod_mult_div [of "60 * 60 * 24 * 7" n 30] mod_mult_div [of "60 * 60 * 24 * 7 * 30" n 12]
  by (simp add: human_parts_def Let_def div_mult2_eq [symmetric])

lemma human_parts_spec:
  assumes "human_parts n = (y, mo, w, d, h, mi, s)"
  shows "n = ((((((y * 12 + mo) * 30 + w) * 7 + d) * 24 + h) * 60 + mi) * 60 + s)"
    and "mo < 12 \<and> w < 30 \<and> d < 7 \<and> h < 24 \<and> mi < 60 \<and> s < 60"
proof -
  from assms have eqs: "s = n mod 60" "mi = n div 60 mod 60" "h = n div 60 div 60 mod 24"
    "d = n div 60 div 60 div 24 mod 7" "w = n div 60 div 60 div 24 div 7 mod 30"
    "mo = n div 60 div 60 div 24 div 7 div 30 mod 12" "y = n div 60 div 60 div 24 div 7 div 30 div 12"
    unfolding human_parts_digits by auto
  show "n = ((((((y * 12 + mo) * 30 + w) * 7 + d) * 24 + h) * 60 + mi) * 60 + s)"
    unfolding eqs by (simp only: div_mult_mod_eq)
  show "mo < 12 \<and> w < 30 \<and> d < 7 \<and> h < 24 \<and> mi < 60 \<and> s < 60"
    unfolding eqs by simp
qed

section \<open>Probes\<close>

definition health_handler :: "bool \<Rightarrow> nat \<times> string" where
  "health_handler isHealth = (if isHealth then (200, ''ok'') else (500, ''dead''))"

definition ready_handler :: "bool \<Rightarrow> nat \<times> string" where
  "ready_handler isReady = (if isReady then (200, ''ok'') else (423, ''not-ready''))"

definition HealthHandlers :: "(string \<Rightarrow> string) \<Rightarrow> bool \<Rightarrow> bool \<Rightarrow> string \<Rightarrow> (nat \<times> string) option" where
  "HealthHandlers env_of isHealth isReady path =
     do {
       _ \<leftarrow> HealthPort env_of;
       Some (if path = ''/health'' then health_handler isHealth
             else if path = ''/ready'' then ready_handler isReady
             else (404, ''404 page not found'' @ [CHR 0x0A]))
     }"

end
