(* ===== verification/Grpc_Service.thy ===== *)
theory Grpc_Service
  imports Node_Calls
begin

text \<open>
  The generated gRPC service between the controller and the operators
  (\<open>pkg/proto/v1alpha1/generated/plenuslb.pb.go\<close>): the getters of the messages, the client
  stubs, the handlers and the table of the service. Marshalling and the transport are
  libraries: \<open>Invoke\<close> is a parameter, and \<open>delivers\<close> says that a call that succeeds has
  been handled by the method the table has under its name, with the message that was sent.
  \<open>stub_served\<close> derives from it what \<open>Node_Calls\<close> assumes of the controller's environment.
\<close>

section \<open>Messages\<close>

datatype message =
    AddressInfoMsg AddressInfo
  | CleanupInfoMsg "AddressInfo list"
  | ResultMsg grpc_result
  | PingMsg string
  | PongMsg string
  | EmptyMsg

datatype message_type = AddressInfoType | CleanupInfoType | ResultType | PingType | PongType | EmptyType

fun type_of_message :: "message \<Rightarrow> message_type" where
  "type_of_message (AddressInfoMsg _) = AddressInfoType"
| "type_of_message (CleanupInfoMsg _) = CleanupInfoType"
| "type_of_message (ResultMsg _) = ResultType"
| "type_of_message (PingMsg _) = PingType"
| "type_of_message (PongMsg _) = PongType"
| "type_of_message EmptyMsg = EmptyType"

text \<open>The getters are safe on a nil message.\<close>

definition AddressInfo_GetAddress :: "AddressInfo option \<Rightarrow> string" where
  "AddressInfo_GetAddress m = (case m of Some m \<Rightarrow> InfoAddress m | None \<Rightarrow> '''')"

definition AddressInfo_GetInterface :: "AddressInfo option \<Rightarrow> string" where
  "AddressInfo_GetInterface m = (case m of Some m \<Rightarrow> InfoInterface m | None \<Rightarrow> '''')"

definition CleanupInfo_GetKeepThese :: "AddressInfo list option \<Rightarrow> AddressInfo list" where
  "CleanupInfo_GetKeepThese m = (case m of Some m \<Rightarrow> m | None \<Rightarrow> [])"

definition Result_GetDone :: "grpc_result option \<Rightarrow> bool" where
  "Result_GetDone m = (case m of Some m \<Rightarrow> Done m | None \<Rightarrow> False)"

definition Result_GetMessage :: "grpc_result option \<Rightarrow> string" where
  "Result_GetMessage m = (case m of Some m \<Rightarrow> ResultMessage m | None \<Rightarrow> '''')"

definition Ping_GetMessage :: "string option \<Rightarrow> string" where
  "Ping_GetMessage m = (case m of Some m \<Rightarrow> m | None \<Rightarrow> '''')"

definition Pong_GetMessage :: "string option \<Rightarrow> string" where
  "Pong_GetMessage m = (case m of Some m \<Rightarrow> m | None \<Rightarrow> '''')"

fun as_AddressInfo :: "message \<Rightarrow> AddressInfo option" where
  "as_AddressInfo (AddressInfoMsg x) = Some x"
| "as_AddressInfo _ = None"

fun as_CleanupInfo :: "message \<Rightarrow> AddressInfo list option" where
  "as_CleanupInfo (CleanupInfoMsg x) = Some x"
| "as_CleanupInfo _ = None"

fun as_Result :: "message \<Rightarrow> grpc_result option" where
  "as_Result (ResultMsg x) = Some x"
| "as_Result _ = None"

fun as_Ping :: "message \<Rightarrow> string option" where
  "as_Ping (PingMsg x) = Some x"
| "as_Ping _ = None"

fun as_Pong :: "message \<Rightarrow> string option" where
  "as_Pong (PongMsg x) = Some x"
| "as_Pong _ = None"

section \<open>Client\<close>

text \<open>\<open>grpc.Invoke\<close> fills \<open>out\<close>, which has the type of the reply. \<open>None\<close>: a message that is
  not of that type, which Go's types exclude.\<close>

type_synonym 'w invoker = "string \<Rightarrow> message \<Rightarrow> message_type \<Rightarrow> 'w \<Rightarrow> (ext_error + message) \<times> 'w"

fun reply_as :: "(message \<Rightarrow> 'r option) \<Rightarrow> (ext_error + message) \<times> 'w \<Rightarrow> ((ext_error + 'r) \<times> 'w) option" where
  "reply_as as (Inl err, w) = Some (Inl err, w)"
| "reply_as as (Inr out, w) = do { r \<leftarrow> as out; Some (Inr r, w) }"

definition plenusLbClient_AddAddress ::
  "'w invoker \<Rightarrow> AddressInfo \<Rightarrow> 'w \<Rightarrow> ((ext_error + grpc_result) \<times> 'w) option" where
  "plenusLbClient_AddAddress Invoke in_AddressInfo w =
     reply_as as_Result (Invoke ''/plenuslbV1Alpha1.PlenusLb/AddAddress'' (AddressInfoMsg in_AddressInfo) ResultType w)"

definition plenusLbClient_RemoveAddress ::
  "'w invoker \<Rightarrow> AddressInfo \<Rightarrow> 'w \<Rightarrow> ((ext_error + grpc_result) \<times> 'w) option" where
  "plenusLbClient_RemoveAddress Invoke in_AddressInfo w =
     reply_as as_Result (Invoke ''/plenuslbV1Alpha1.PlenusLb/RemoveAddress'' (AddressInfoMsg in_AddressInfo) ResultType w)"

definition plenusLbClient_HealthProbe ::
  "'w invoker \<Rightarrow> string \<Rightarrow> 'w \<Rightarrow> ((ext_error + string) \<times> 'w) option" where
  "plenusLbClient_HealthProbe Invoke in_Ping w =
     reply_as as_Pong (Invoke ''/plenuslbV1Alpha1.PlenusLb/HealthProbe'' (PingMsg in_Ping) PongType w)"

definition plenusLbClient_Cleanup ::
  "'w invoker \<Rightarrow> AddressInfo list \<Rightarrow> 'w \<Rightarrow> ((ext_error + grpc_result) \<times> 'w) option" where
  "plenusLbClient_Cleanup Invoke in_CleanupInfo w =
     reply_as as_Result (Invoke ''/plenuslbV1Alpha1.PlenusLb/Cleanup'' (CleanupInfoMsg in_CleanupInfo) ResultType w)"

section \<open>Server\<close>

record 'v PlenusLbServer =
  Srv_AddAddress :: "AddressInfo \<Rightarrow> 'v \<Rightarrow> (ext_error + grpc_result) \<times> 'v"
  Srv_RemoveAddress :: "AddressInfo \<Rightarrow> 'v \<Rightarrow> (ext_error + grpc_result) \<times> 'v"
  Srv_HealthProbe :: "string \<Rightarrow> 'v \<Rightarrow> (ext_error + string) \<times> 'v"
  Srv_Cleanup :: "AddressInfo list \<Rightarrow> 'v \<Rightarrow> (ext_error + grpc_result) \<times> 'v"

text \<open>A handler decodes the request and calls the method, through the interceptor where
  there is one. \<open>None\<close>: a panic, of a failed type assertion.\<close>

type_synonym decoder = "message_type \<Rightarrow> ext_error + message"
type_synonym 'v outcome = "((ext_error + message) \<times> 'v) option"
type_synonym 'v interceptor = "message \<Rightarrow> string \<Rightarrow> (message \<Rightarrow> 'v \<Rightarrow> 'v outcome) \<Rightarrow> 'v \<Rightarrow> 'v outcome"
type_synonym 'v handler = "'v PlenusLbServer \<Rightarrow> decoder \<Rightarrow> 'v interceptor option \<Rightarrow> 'v \<Rightarrow> 'v outcome"

fun reply_msg :: "('r \<Rightarrow> message) \<Rightarrow> (ext_error + 'r) \<times> 'v \<Rightarrow> (ext_error + message) \<times> 'v" where
  "reply_msg f (Inl err, v) = (Inl err, v)"
| "reply_msg f (Inr r, v) = (Inr (f r), v)"

definition PlenusLb_AddAddress_Handler :: "'v handler" where
  "PlenusLb_AddAddress_Handler srv dec interceptor v =
     (case dec AddressInfoType of
        Inl err \<Rightarrow> Some (Inl err, v)
      | Inr msg \<Rightarrow>
          (let handler = (\<lambda>req v. do {
                 x \<leftarrow> as_AddressInfo req;
                 Some (reply_msg ResultMsg (Srv_AddAddress srv x v)) })
           in case interceptor of
                None \<Rightarrow> handler msg v
              | Some ic \<Rightarrow> ic msg ''/plenuslbV1Alpha1.PlenusLb/AddAddress'' handler v))"

definition PlenusLb_RemoveAddress_Handler :: "'v handler" where
  "PlenusLb_RemoveAddress_Handler srv dec interceptor v =
     (case dec AddressInfoType of
        Inl err \<Rightarrow> Some (Inl err, v)
      | Inr msg \<Rightarrow>
          (let handler = (\<lambda>req v. do {
                 x \<leftarrow> as_AddressInfo req;
                 Some (reply_msg ResultMsg (Srv_RemoveAddress srv x v)) })
           in case interceptor of
                None \<Rightarrow> handler msg v
              | Some ic \<Rightarrow> ic msg ''/plenuslbV1Alpha1.PlenusLb/RemoveAddress'' handler v))"

definition PlenusLb_HealthProbe_Handler :: "'v handler" where
  "PlenusLb_HealthProbe_Handler srv dec interceptor v =
     (case dec PingType of
        Inl err \<Rightarrow> Some (Inl err, v)
      | Inr msg \<Rightarrow>
          (let handler = (\<lambda>req v. do {
                 x \<leftarrow> as_Ping req;
                 Some (reply_msg PongMsg (Srv_HealthProbe srv x v)) })
           in case interceptor of
                None \<Rightarrow> handler msg v
              | Some ic \<Rightarrow> ic msg ''/plenuslbV1Alpha1.PlenusLb/HealthProbe'' handler v))"

definition PlenusLb_Cleanup_Handler :: "'v handler" where
  "PlenusLb_Cleanup_Handler srv dec interceptor v =
     (case dec CleanupInfoType of
        Inl err \<Rightarrow> Some (Inl err, v)
      | Inr msg \<Rightarrow>
          (let handler = (\<lambda>req v. do {
                 x \<leftarrow> as_CleanupInfo req;
                 Some (reply_msg ResultMsg (Srv_Cleanup srv x v)) })
           in case interceptor of
                None \<Rightarrow> handler msg v
              | Some ic \<Rightarrow> ic msg ''/plenuslbV1Alpha1.PlenusLb/Cleanup'' handler v))"

record 'v ServiceDesc =
  ServiceName :: string
  Methods :: "(string \<times> 'v handler) list"

definition PlenusLb_serviceDesc :: "'v ServiceDesc" where
  "PlenusLb_serviceDesc =
     \<lparr>ServiceName = ''plenuslbV1Alpha1.PlenusLb'',
      Methods = [(''AddAddress'', PlenusLb_AddAddress_Handler),
                 (''RemoveAddress'', PlenusLb_RemoveAddress_Handler),
                 (''HealthProbe'', PlenusLb_HealthProbe_Handler),
                 (''Cleanup'', PlenusLb_Cleanup_Handler)]\<rparr>"

definition RegisterPlenusLbServer ::
  "('v ServiceDesc \<times> 'v PlenusLbServer) list \<Rightarrow> 'v PlenusLbServer \<Rightarrow> ('v ServiceDesc \<times> 'v PlenusLbServer) list" where
  "RegisterPlenusLbServer s srv = (PlenusLb_serviceDesc, srv) # s"

text \<open>The server of the operator (\<open>pkg/operator/server/server.go\<close>) as an implementation.\<close>

definition operator_server :: "'w netlink \<Rightarrow> string \<Rightarrow> 'w node PlenusLbServer" where
  "operator_server NL myNodeName =
     \<lparr>Srv_AddAddress = server_AddAddress NL myNodeName,
      Srv_RemoveAddress = server_RemoveAddress NL myNodeName,
      Srv_HealthProbe = (\<lambda>ping v. (Inr (HealthProbe ping), v)),
      Srv_Cleanup = server_Cleanup NL\<rparr>"

section \<open>Transport\<close>

definition decoder_of :: "message \<Rightarrow> decoder" where
  "decoder_of msg ty = (if type_of_message msg = ty then Inr msg else Inl (GrpcStatus ''Internal'' ''bad message''))"

definition delivers ::
  "'w invoker \<Rightarrow> 'v ServiceDesc \<Rightarrow> 'v PlenusLbServer \<Rightarrow> ('w \<Rightarrow> 'v) \<Rightarrow> bool" where
  "delivers Invoke desc srv peer \<longleftrightarrow>
     (\<forall>full_name msg ty w out w'. Invoke full_name msg ty w = (Inr out, w') \<longrightarrow>
        (\<exists>name handler. full_name = ''/'' @ ServiceName desc @ ''/'' @ name
           \<and> map_of (Methods desc) name = Some handler
           \<and> handler srv (decoder_of msg) None (peer w) = Some (Inr out, peer w')))"

text \<open>The name of a method determines its handler.\<close>

lemma delivered:
  assumes "delivers Invoke PlenusLb_serviceDesc srv peer"
    and "Invoke (''/plenuslbV1Alpha1.PlenusLb/'' @ name) msg ty w = (Inr out, w')"
  shows "\<exists>handler. map_of (Methods PlenusLb_serviceDesc) name = Some handler
    \<and> handler srv (decoder_of msg) None (peer w) = Some (Inr out, peer w')"
proof -
  from assms obtain n handler where "''/plenuslbV1Alpha1.PlenusLb/'' @ name = ''/'' @ ServiceName (PlenusLb_serviceDesc :: 'b ServiceDesc) @ ''/'' @ n"
    and "map_of (Methods PlenusLb_serviceDesc) n = Some handler"
    and "handler srv (decoder_of msg) None (peer w) = Some (Inr out, peer w')"
    unfolding delivers_def by blast
  moreover from this(1) have "n = name"
    by (simp add: PlenusLb_serviceDesc_def)
  ultimately show ?thesis by blast
qed

lemma reply_as_SomeE:
  assumes "reply_as as x = Some (Inr r, w)"
  obtains out where "x = (Inr out, w)" and "as out = Some r"
  using assms by (cases x; cases "fst x") (auto elim!: bind_SomeE)

lemma AddAddress_call:
  assumes "delivers Invoke PlenusLb_serviceDesc srv peer" and "plenusLbClient_AddAddress Invoke x w = Some (Inr r, w')"
  shows "Srv_AddAddress srv x (peer w) = (Inr r, peer w')"
proof -
  obtain out where out: "Invoke (''/plenuslbV1Alpha1.PlenusLb/'' @ ''AddAddress'') (AddressInfoMsg x) ResultType w = (Inr out, w')"
    and r: "as_Result out = Some r"
    using assms(2) by (auto simp: plenusLbClient_AddAddress_def elim!: reply_as_SomeE)
  from delivered [OF assms(1) out] have "reply_msg ResultMsg (Srv_AddAddress srv x (peer w)) = (Inr out, peer w')"
    by (auto simp: PlenusLb_serviceDesc_def PlenusLb_AddAddress_Handler_def decoder_of_def Let_def)
  with r show ?thesis
    by (cases "Srv_AddAddress srv x (peer w)"; cases "fst (Srv_AddAddress srv x (peer w))") auto
qed

lemma RemoveAddress_call:
  assumes "delivers Invoke PlenusLb_serviceDesc srv peer" and "plenusLbClient_RemoveAddress Invoke x w = Some (Inr r, w')"
  shows "Srv_RemoveAddress srv x (peer w) = (Inr r, peer w')"
proof -
  obtain out where out: "Invoke (''/plenuslbV1Alpha1.PlenusLb/'' @ ''RemoveAddress'') (AddressInfoMsg x) ResultType w = (Inr out, w')"
    and r: "as_Result out = Some r"
    using assms(2) by (auto simp: plenusLbClient_RemoveAddress_def elim!: reply_as_SomeE)
  from delivered [OF assms(1) out] have "reply_msg ResultMsg (Srv_RemoveAddress srv x (peer w)) = (Inr out, peer w')"
    by (auto simp: PlenusLb_serviceDesc_def PlenusLb_RemoveAddress_Handler_def decoder_of_def Let_def)
  with r show ?thesis
    by (cases "Srv_RemoveAddress srv x (peer w)"; cases "fst (Srv_RemoveAddress srv x (peer w))") auto
qed

lemma HealthProbe_call:
  assumes "delivers Invoke PlenusLb_serviceDesc srv peer" and "plenusLbClient_HealthProbe Invoke x w = Some (Inr r, w')"
  shows "Srv_HealthProbe srv x (peer w) = (Inr r, peer w')"
proof -
  obtain out where out: "Invoke (''/plenuslbV1Alpha1.PlenusLb/'' @ ''HealthProbe'') (PingMsg x) PongType w = (Inr out, w')"
    and r: "as_Pong out = Some r"
    using assms(2) by (auto simp: plenusLbClient_HealthProbe_def elim!: reply_as_SomeE)
  from delivered [OF assms(1) out] have "reply_msg PongMsg (Srv_HealthProbe srv x (peer w)) = (Inr out, peer w')"
    by (auto simp: PlenusLb_serviceDesc_def PlenusLb_HealthProbe_Handler_def decoder_of_def Let_def)
  with r show ?thesis
    by (cases "Srv_HealthProbe srv x (peer w)"; cases "fst (Srv_HealthProbe srv x (peer w))") auto
qed

lemma Cleanup_call:
  assumes "delivers Invoke PlenusLb_serviceDesc srv peer" and "plenusLbClient_Cleanup Invoke x w = Some (Inr r, w')"
  shows "Srv_Cleanup srv x (peer w) = (Inr r, peer w')"
proof -
  obtain out where out: "Invoke (''/plenuslbV1Alpha1.PlenusLb/'' @ ''Cleanup'') (CleanupInfoMsg x) ResultType w = (Inr out, w')"
    and r: "as_Result out = Some r"
    using assms(2) by (auto simp: plenusLbClient_Cleanup_def elim!: reply_as_SomeE)
  from delivered [OF assms(1) out] have "reply_msg ResultMsg (Srv_Cleanup srv x (peer w)) = (Inr out, peer w')"
    by (auto simp: PlenusLb_serviceDesc_def PlenusLb_Cleanup_Handler_def decoder_of_def Let_def)
  with r show ?thesis
    by (cases "Srv_Cleanup srv x (peer w)"; cases "fst (Srv_Cleanup srv x (peer w))") auto
qed

text \<open>So an environment whose calls are the stubs is served by the operators.\<close>

definition stub_calls :: "'w env \<Rightarrow> (string \<Rightarrow> 'w invoker) \<Rightarrow> bool" where
  "stub_calls E Invoke \<longleftrightarrow> (\<forall>t info w. \<exists>r w'. plenusLbClient_AddAddress (Invoke t) info w = Some (r, w')
     \<and> grpc_AddAddress E t info w = (case r of Inl err \<Rightarrow> Some err | Inr _ \<Rightarrow> None, w'))"

lemma stub_served:
  assumes "stub_calls E Invoke"
    and "\<And>t. delivers (Invoke t) PlenusLb_serviceDesc (operator_server NL (names t)) (\<lambda>w. nodes w t)"
  shows "grpc_served E nodes NL"
  unfolding grpc_served_def
proof (intro allI impI)
  fix t info w w'
  assume "grpc_AddAddress E t info w = (None, w')"
  moreover obtain q u where q: "plenusLbClient_AddAddress (Invoke t) info w = Some (q, u)"
    and "grpc_AddAddress E t info w = (case q of Inl err \<Rightarrow> Some err | Inr _ \<Rightarrow> None, u)"
    using assms(1) unfolding stub_calls_def by blast
  ultimately obtain r where "plenusLbClient_AddAddress (Invoke t) info w = Some (Inr r, w')"
    by (cases q) auto
  from AddAddress_call [OF assms(2) this] show "\<exists>me r. server_AddAddress NL me info (nodes w t) = (Inr r, nodes w' t)"
    by (auto simp: operator_server_def)
qed

section \<open>An example\<close>

text \<open>A transport without loss between a controller and one operator: the world is the node.\<close>

definition direct_Invoke :: "'v PlenusLbServer \<Rightarrow> 'v invoker" where
  "direct_Invoke srv full_name msg ty v =
     (case List.find (\<lambda>m. full_name = ''/'' @ ServiceName (PlenusLb_serviceDesc :: 'v ServiceDesc) @ ''/'' @ fst m)
             (Methods PlenusLb_serviceDesc) of
        None \<Rightarrow> (Inl (GrpcStatus ''Unimplemented'' full_name), v)
      | Some m \<Rightarrow> (case snd m srv (decoder_of msg) None v of
            None \<Rightarrow> (Inl (GrpcStatus ''Unavailable'' full_name), v)
          | Some r \<Rightarrow> r))"

lemma direct_delivers:
  fixes srv :: "'v PlenusLbServer"
  shows "delivers (direct_Invoke srv) PlenusLb_serviceDesc srv (\<lambda>v. v)"
proof -
  have "\<exists>name handler. full_name = ''/'' @ ServiceName (PlenusLb_serviceDesc :: 'v ServiceDesc) @ ''/'' @ name
      \<and> map_of (Methods PlenusLb_serviceDesc) name = Some handler
      \<and> handler srv (decoder_of msg) None v = Some (Inr out, v')"
    if i: "direct_Invoke srv full_name msg ty v = (Inr out, v')" for full_name msg ty v out v'
  proof -
    from i obtain m where f: "List.find (\<lambda>m. full_name = ''/'' @ ServiceName (PlenusLb_serviceDesc :: 'v ServiceDesc) @ ''/'' @ fst m)
        (Methods PlenusLb_serviceDesc) = Some m" and h: "snd m srv (decoder_of msg) None v = Some (Inr out, v')"
      by (auto simp: direct_Invoke_def split: option.split_asm)
    from f have "m \<in> set (Methods PlenusLb_serviceDesc)"
      and n: "full_name = ''/'' @ ServiceName (PlenusLb_serviceDesc :: 'v ServiceDesc) @ ''/'' @ fst m"
      by (auto simp: find_Some_iff)
    from this(1) have "map_of (Methods PlenusLb_serviceDesc) (fst m) = Some (snd m)"
      by (auto simp: PlenusLb_serviceDesc_def)
    with n h show ?thesis
      by (intro exI [of _ "fst m"] exI [of _ "snd m"]) simp
  qed
  then show ?thesis
    by (simp add: delivers_def)
qed

end
