(* ===== verification/Main_Programs.thy ===== *)
theory Main_Programs
  imports Leader Clientset Tools Grpc_Service Node_Watch
begin

text \<open>
  The two processes, \<open>pkg/cmd/controller/main.go\<close> and \<open>pkg/cmd/operator/main.go\<close>: in which order
  they create clients, read their environment, start the parts that the other theories model,
  and end. \<open>None\<close> is an end by \<open>klog.Fatal\<close> or a panic. The handlers of the probes are in
  \<open>Tools\<close>, the election in \<open>Leader\<close>.
\<close>

text \<open>The goroutines a process starts, in order. The one of the stop handler waits for a signal; the
  operator has one that declares it ready after some seconds, whatever has happened.\<close>

datatype goroutine = StopHandler | DoLeaderElectionTask | HealthHandlersTask | ReadyAfterSeconds nat

section \<open>The controller\<close>

record ('r, 'd, 'k, 'x) controller_process =
  client_vars :: "('r, 'd, 'k, 'x) client_vars"
  lead :: Election
  context_done :: bool
  IsReady :: bool
  started :: "goroutine list"

text \<open>\<open>config.Wrap\<close> adds a wrapper of the transport to the configuration it is called on.\<close>

definition Wrap :: "string \<Rightarrow> rest_config \<Rightarrow> rest_config" where
  "Wrap wrapper config = config\<lparr>WrapTransport := WrapTransport config @ [wrapper]\<rparr>"

definition controller_createStopHandler ::
  "rest_config \<Rightarrow> ('r, 'd, 'k, 'x) controller_process \<Rightarrow> ('r, 'd, 'k, 'x) controller_process" where
  "controller_createStopHandler config p =
     p\<lparr>client_vars := (client_vars p)\<lparr>clients_config := Some (Wrap ''ContextCanceller'' config)\<rparr>,
       started := started p @ [StopHandler]\<rparr>"

text \<open>The goroutine of the stop handler, on a signal.\<close>

definition controller_signal :: "('r, 'd, 'k, 'x) controller_process \<Rightarrow> ('r, 'd, 'k, 'x) controller_process" where
  "controller_signal p = p\<lparr>context_done := True\<rparr>"

definition controller_start ::
  "('r, 'd, 'k, 'x) cluster_lib \<Rightarrow> (string \<Rightarrow> string) \<Rightarrow> ('r, 'd, 'k, 'x) controller_process option" where
  "controller_start K env_of =
     do {
       v \<leftarrow> CreateClientsOrDie K no_clients;
       config \<leftarrow> GetInClusterConfig v;
       let ident = env_of ''MY_POD_NAME'';
       if ident = '''' then None
       else do {
         let leaseLockNamespace = env_of ''MY_POD_NAMESPACE'';
         if leaseLockNamespace = '''' then None
         else do {
           let p = \<lparr>client_vars = v, lead = Election_Init leaseLockNamespace ident, context_done = False,
             IsReady = False, started = []\<rparr>;
           let p = controller_createStopHandler config p;
           let p = p\<lparr>started := started p @ [DoLeaderElectionTask]\<rparr>;
           let p = p\<lparr>started := started p @ [HealthHandlersTask]\<rparr>;
           Some (p\<lparr>IsReady := True\<rparr>)
         }
       }
     }"

text \<open>\<open>main\<close> returns, with exit code 0, once the election has sent on \<open>leaderStop\<close>.\<close>

definition controller_main ::
  "('r, 'd, 'k, 'x) cluster_lib \<Rightarrow> (string \<Rightarrow> string) \<Rightarrow> 'w env \<Rightarrow> 'w lease_client \<Rightarrow> bool \<Rightarrow>
   ('w callbacks \<Rightarrow> bool \<Rightarrow> 'w sys \<Rightarrow> 'w sys) \<Rightarrow> 'w sys \<Rightarrow>
   ((process \<times> ('r, 'd, 'k, 'x) controller_process) \<times> 'w sys) option" where
  "controller_main K env_of E L elected led s =
     do {
       p \<leftarrow> controller_start K env_of;
       ((proc, le, leaderStop), s) \<leftarrow> DoLeaderElection E L elected led (lead p) s;
       Some ((if leaderStop then Exited 0 else proc, p\<lparr>lead := le\<rparr>), s)
     }"

section \<open>The operator\<close>

text \<open>The package variable \<open>myNodeName\<close> of the server.\<close>

definition server_init :: "(string \<Rightarrow> string) \<Rightarrow> string option" where
  "server_init env_of = (let n = env_of ''MY_NODE_NAME'' in if n = '''' then None else Some n)"

record 'v operator_process =
  listen_addr :: string
  registered :: "('v node ServiceDesc \<times> 'v node PlenusLbServer) list"
  watching :: "'v agent"
  operator_started :: "goroutine list"
  graceful_stop :: bool   \<comment> \<open>\<open>GracefulStop\<close> was called on the gRPC server\<close>

definition operator_createStopHandler :: "goroutine list \<Rightarrow> goroutine list" where
  "operator_createStopHandler tasks = tasks @ [StopHandler]"

text \<open>The goroutine of the stop handler, on a signal.\<close>

definition operator_signal :: "'v operator_process \<Rightarrow> 'v operator_process" where
  "operator_signal p = p\<lparr>graceful_stop := True\<rparr>"

text \<open>The results of \<open>net.Listen\<close> and of the subscription are the environment's.\<close>

definition operator_start ::
  "'v netlink \<Rightarrow> (string \<Rightarrow> string) \<Rightarrow> (string \<Rightarrow> string \<Rightarrow> ext_error option) \<Rightarrow> ext_error option \<Rightarrow> 'v node \<Rightarrow>
   'v operator_process option" where
  "operator_start NL env_of listen subscription n =
     do {
       myNodeName \<leftarrow> server_init env_of;
       let address = '':'' @ itoa 10000;
       if listen ''tcp'' address \<noteq> None then None
       else do {
         let grpcServer = [];
         let networkServer = operator_server NL myNodeName;
         let grpcServer = RegisterPlenusLbServer grpcServer networkServer;
         let tasks = [HealthHandlersTask];
         let tasks = operator_createStopHandler tasks;
         let tasks = tasks @ [ReadyAfterSeconds 2];
         a \<leftarrow> observer_Run subscription n;
         Some \<lparr>listen_addr = address, registered = grpcServer, watching = a, operator_started = tasks,
           graceful_stop = False\<rparr>
       }
     }"

text \<open>What \<open>Serve\<close> returns is the environment's; \<open>graceful_serve\<close> is its documentation: nil once
  \<open>GracefulStop\<close> has been called, and an error otherwise (while it serves it does not return).\<close>

definition graceful_serve :: "(bool \<Rightarrow> ext_error option) \<Rightarrow> bool" where
  "graceful_serve serve \<longleftrightarrow> (\<forall>b. serve b = None \<longleftrightarrow> b)"

definition operator_main ::
  "'v netlink \<Rightarrow> (string \<Rightarrow> string) \<Rightarrow> (string \<Rightarrow> string \<Rightarrow> ext_error option) \<Rightarrow> ext_error option \<Rightarrow>
   (bool \<Rightarrow> ext_error option) \<Rightarrow> bool \<Rightarrow> 'v node \<Rightarrow> process option" where
  "operator_main NL env_of listen subscription serve signalled n =
     do {
       p \<leftarrow> operator_start NL env_of listen subscription n;
       let p = (if signalled then operator_signal p else p);
       let err = serve (graceful_stop p);
       if err \<noteq> None then None else Some (Exited 0)
     }"

section \<open>Lemmas\<close>

text \<open>The clients are built before the configuration is wrapped, from copies of it: the wrapper that
  should stop their requests when the context ends is in none of them.\<close>

lemma controller_start_clients:
  assumes "controller_start K env_of = Some p"
  shows "\<exists>config. InClusterConfig K = Inr config \<and>
    plenuslbClientset (client_vars p) = Clientset_NewForConfigOrDie (rest_lib.truncate K) config \<and>
    k8sClientset (client_vars p) = k8s_NewForConfigOrDie K config \<and>
    extensionClientset (client_vars p) = extension_NewForConfigOrDie K config \<and>
    clients_config (client_vars p) = Some (Wrap ''ContextCanceller'' config) \<and>
    lead p = Election_Init (env_of ''MY_POD_NAMESPACE'') (env_of ''MY_POD_NAME'') \<and>
    env_of ''MY_POD_NAMESPACE'' \<noteq> '''' \<and> env_of ''MY_POD_NAME'' \<noteq> '''' \<and> IsReady p"
proof -
  from assms obtain v config where v: "CreateClientsOrDie K no_clients = Some v" "GetInClusterConfig v = Some config"
    and e: "env_of ''MY_POD_NAMESPACE'' \<noteq> ''''" "env_of ''MY_POD_NAME'' \<noteq> ''''"
    and p: "p = \<lparr>client_vars = v\<lparr>clients_config := Some (Wrap ''ContextCanceller'' config)\<rparr>,
        lead = Election_Init (env_of ''MY_POD_NAMESPACE'') (env_of ''MY_POD_NAME''), context_done = False,
        IsReady = True, started = [StopHandler, DoLeaderElectionTask, HealthHandlersTask]\<rparr>"
    by (auto simp: controller_start_def controller_createStopHandler_def Let_def elim!: bind_SomeE split: if_split_asm)
  from CreateClientsOrDie_built [OF v(1)] v(2) e show ?thesis
    by (auto simp: p GetInClusterConfig_def)
qed

lemma Wrap_differs: "Wrap wrapper config \<noteq> config"
proof
  assume "Wrap wrapper config = config"
  then have "WrapTransport (Wrap wrapper config) = WrapTransport config" by simp
  then show False by (simp add: Wrap_def)
qed

lemma operator_start_ok:
  assumes "operator_start NL env_of listen subscription n = Some p"
  shows "subscription = None" and "listen ''tcp'' (listen_addr p) = None" and "env_of ''MY_NODE_NAME'' \<noteq> ''''"
    and "registered p = [(PlenusLb_serviceDesc, operator_server NL (env_of ''MY_NODE_NAME''))]"
    and "watching p = \<lparr>agent_node = n, chAddrUpdate = 0\<rparr>"
    and "\<not> graceful_stop p"
  using assms
  by (auto simp: operator_start_def server_init_def RegisterPlenusLbServer_def observer_Run_def
      subscribeAddrUpdate_def Let_def elim!: bind_SomeE split: if_split_asm)

text \<open>An operator that has started ends with exit code 0 after a signal, and only then.\<close>

lemma operator_main_ends:
  assumes "operator_start NL env_of listen subscription n = Some p" and "graceful_serve serve"
  shows "operator_main NL env_of listen subscription serve signalled n = (if signalled then Some (Exited 0) else None)"
proof (cases signalled)
  case True
  from assms(2) have "serve True = None" by (simp add: graceful_serve_def)
  with True show ?thesis by (simp add: operator_main_def assms(1) operator_signal_def)
next
  case False
  from assms(2) have "serve False \<noteq> None" by (simp add: graceful_serve_def)
  with False operator_start_ok(6) [OF assms(1)] show ?thesis by (simp add: operator_main_def assms(1))
qed

end
