(* ===== verification/Controller_Frames.thy ===== *)
theory Controller_Frames
  imports Leader
begin

text \<open>
  What the operations on allocations and services leave alone: they change the cluster, the
  availability list and the lock map, but neither the life cycle of the operators, nor the
  channels, nor the list of the allocations that are being retried.
\<close>

section \<open>Operations that leave the life cycle, the channels and the error list alone\<close>

definition calm_part ::
  "'w sys \<Rightarrow> string list \<times> bool \<times> bool \<times> chan_state \<times> bus_event list" where
  "calm_part s = (errorAllocationsBackoffDict s, deployed s, operatorNodesStoreBuilt s, stopWatch s, bus s)"

definition calm :: "'w sys \<Rightarrow> 'w sys \<Rightarrow> bool" where
  "calm s s' \<longleftrightarrow> calm_part s' = calm_part s"

lemma calm_refl [simp, intro]: "calm s s"
  by (simp add: calm_def)

lemma calm_trans [trans]: "calm s s' \<Longrightarrow> calm s' s'' \<Longrightarrow> calm s s''"
  by (simp add: calm_def)

lemma world_only_calm: "world_only s s' \<Longrightarrow> calm s s'"
  by (simp add: calm_def calm_part_def world_only_fields)

lemma calm_part_updates [simp]:
  "calm_part (s\<lparr>availablesPools := aps\<rparr>) = calm_part s" "calm_part (s\<lparr>world := w\<rparr>) = calm_part s"
  "calm_part (s\<lparr>lockedObjects := m\<rparr>) = calm_part s" "calm_part (release_ip E p ns a s) = calm_part s"
  "calm_part (RemoveFromLock al s) = calm_part s"
  by (simp_all add: calm_part_def release_ip_def RemoveFromLock_def)

lemma calm_part_release_all [simp]: "calm_part (release_all E ns as s) = calm_part s"
  unfolding release_all_def by (induction as arbitrary: s) simp_all

lemma use_ip_calm: "use_ip ns a s = (r, s') \<Longrightarrow> calm s s'"
  by (auto simp: use_ip_def calm_def split: prod.split_asm)

lemma persistent_pool_for_ip_calm: "persistent_pool_for_ip E ns al ip e s = Some (r, s') \<Longrightarrow> calm s s'"
  by (auto simp: persistent_pool_for_ip_def Let_def elim!: bind_SomeE split: asm_splits sum.split_asm
      dest: use_ip_calm)

lemma persistent_build_calm:
  "persistent_buildAllocations_loop E ns al ips as e s = Some (r, s') \<Longrightarrow> calm s s'"
proof (induction ips arbitrary: as e s)
  case Nil
  then show ?case by simp
next
  case (Cons ip ips)
  then show ?case
    by (auto simp: calm_def elim!: bind_SomeE split: asm_splits
        dest!: Cons.IH persistent_pool_for_ip_calm world_only_calm [OF addOperatorNode_spec(1)])
qed

lemmas calm_writes = world_only_calm [OF CreateAllocation_world_only]
  world_only_calm [OF UpdateAllocation_world_only] world_only_calm [OF FindAllocation_world_only]
  world_only_calm [OF DeleteAllocationByName_world_only] status_world_only [THEN world_only_calm]
  world_only_calm [OF RemoveServiceIngressIPs_world_only] world_only_calm [OF FindService_world_only]
  world_only_calm [OF updateServiceIngressWithIps_world_only] world_only_calm [OF record_failure_world_only]
  world_only_calm [OF FindAllocationByName_world_only] world_only_calm [OF RemoveAddressFromNode_world_only]

lemma createPersistentAllocation_calm:
  "createPersistentAllocation E ns n ips s = Some (r, s') \<Longrightarrow> calm s s'"
  by (auto simp: createPersistentAllocation_def persistent_buildAllocations_def Let_def calm_def
      elim!: bind_SomeE split: asm_splits dest!: persistent_build_calm calm_writes)

lemma EnsurePersistentAllocation_calm:
  "EnsurePersistentAllocation E ns n ips s = Some (r, s') \<Longrightarrow> calm s s'"
  by (auto simp: EnsurePersistentAllocation_def calm_def elim!: bind_SomeE split: asm_splits
      dest!: createPersistentAllocation_calm calm_writes)

lemma persistent_CheckAndPatch_calm:
  "persistent_CheckAndPatchAllocation E ns n ips al s = Some (r, s') \<Longrightarrow> calm s s'"
  by (auto simp: persistent_CheckAndPatchAllocation_def persistent_buildAllocations_def Let_def
      calm_def elim!: bind_SomeE split: asm_splits dest!: persistent_build_calm calm_writes)

lemma persistent_change_nodes_calm:
  "persistent_change_nodes E as e s = Some (r, s') \<Longrightarrow> calm s s'"
proof (induction as arbitrary: e s r)
  case Nil
  then show ?case by simp
next
  case (Cons a as)
  then show ?case
    by (auto simp: calm_def elim!: bind_SomeE split: asm_splits
        dest!: Cons.IH world_only_calm [OF random_operator_name_world_only] world_only_calm [OF getRandomNode_world_only])
qed

lemma ephemeral_change_nodes_calm:
  "ephemeral_change_nodes E as e s = Some (r, s') \<Longrightarrow> calm s s'"
proof (induction as arbitrary: e s r)
  case Nil
  then show ?case by simp
next
  case (Cons a as)
  then show ?case
    by (auto simp: calm_def ephemeral_getRandomNode_eq elim!: bind_SomeE split: asm_splits
        dest!: Cons.IH world_only_calm [OF random_operator_name_world_only] world_only_calm [OF getRandomNode_world_only])
qed

lemma ChangeAllocationNode_calm:
  "persistent_ChangeAllocationNode E al s = Some (r, s') \<Longrightarrow> calm s s'"
  "ephemeral_ChangeAllocationNode E al s = Some (r, s') \<Longrightarrow> calm s s'"
  by (auto simp: persistent_ChangeAllocationNode_def ephemeral_ChangeAllocationNode_def
      finish_change_node_def calm_def elim!: bind_SomeE split: asm_splits
      dest!: persistent_change_nodes_calm ephemeral_change_nodes_calm calm_writes)

context clouds_integration begin

lemma deallocate_loop_calm:
  "persistent_deallocate_loop E GetCloudAPI ns as s = Some s' \<Longrightarrow> calm s s'"
proof (induction as arbitrary: s)
  case Nil
  then show ?case by simp
next
  case (Cons a as)
  then show ?case
    by (auto simp: calm_def Let_def elim!: bind_SomeE split: asm_splits
        dest!: Cons.IH calm_writes world_only_calm [OF deallocate_cloud_world_only])
qed

lemma createEphemeralAllocation_calm:
  "createEphemeralAllocation E GetCloudAPI ns n s = Some (r, s') \<Longrightarrow> calm s s'"
  by (auto simp: createEphemeralAllocation_def calm_def elim!: bind_SomeE split: asm_splits
      dest!: world_only_calm [OF ephemeral_buildAllocations_world_only] calm_writes)

lemma EnsureEphemeralAllocation_calm:
  "EnsureEphemeralAllocation E GetCloudAPI ns n s = Some (r, s') \<Longrightarrow> calm s s'"
  by (auto simp: EnsureEphemeralAllocation_def calm_def elim!: bind_SomeE split: asm_splits
      dest!: createEphemeralAllocation_calm calm_writes)

lemma CreateAllocationForService_calm:
  "CreateAllocationForService E GetCloudAPI sv s = Some (r, s') \<Longrightarrow> calm s s'"
  by (auto simp: CreateAllocationForService_def calm_def elim!: bind_SomeE split: asm_splits
      dest!: EnsureEphemeralAllocation_calm EnsurePersistentAllocation_calm)

lemma cleanup_removed_calm: "cleanup_removed E GetCloudAPI ns as s = Some s' \<Longrightarrow> calm s s'"
proof (induction as arbitrary: s)
  case Nil
  then show ?case by simp
next
  case (Cons a as)
  then show ?case
    by (auto simp: calm_def Let_def elim!: bind_SomeE split: asm_splits
        dest!: Cons.IH world_only_calm [OF persistent_DeallocateAddress_world_only])
qed

lemma ReconcileAllocation_calm:
  "ReconcileAllocation E GetCloudAPI sv al s = Some (r, s') \<Longrightarrow> calm s s'"
  by (auto simp: ReconcileAllocation_def reconcilePersistentAllocation_def reconcileEphemeralAllocation_def
      Let_def calm_def elim!: bind_SomeE split: asm_splits
      dest!: persistent_CheckAndPatch_calm cleanup_removed_calm calm_writes
        world_only_calm [OF ephemeral_CheckAndPatch_world_only] world_only_calm [OF changeAllocationType_world_only]
        world_only_calm [OF serviceIsNoLonger_world_only])

lemma ensure_addresses_calm:
  "ensure_addresses E GetCloudAPI al as ips s = Some (r, s') \<Longrightarrow> calm s s'"
proof (induction as arbitrary: ips s)
  case Nil
  then show ?case by simp
next
  case (Cons a as)
  then show ?case
    by (auto simp: calm_def Let_def elim!: bind_SomeE split: asm_splits
        dest!: Cons.IH world_only_calm [OF allocateAddress_world_only] calm_writes)
qed

lemma EnsureIPAllocation_calm:
  "EnsureIPAllocation E GetCloudAPI al s = Some (r, s') \<Longrightarrow> calm s s'"
  by (auto simp: EnsureIPAllocation_def Let_def calm_def elim!: bind_SomeE split: asm_splits sum.split_asm
      dest!: ensure_addresses_calm calm_writes)

lemma reconcile_and_ensure_calm:
  "reconcile_and_ensure E GetCloudAPI al s = Some (r, s') \<Longrightarrow> calm s s'"
  by (auto simp: reconcile_and_ensure_def calm_def elim!: bind_SomeE split: asm_splits
      dest!: ReconcileAllocation_calm EnsureIPAllocation_calm calm_writes)

end

end
