(* ===== verification/Controller.thy ===== *)
theory Controller
  imports Controller_Frames
begin

text \<open>
  The controller as one transition system: the informers deliver events to the handlers, the
  handlers start goroutines, the listeners take events off the channels, the goroutines run,
  in any order, and the rest of the cluster changes in between. A handler, a turn of a
  listener and a goroutine is one step, except that during the sleeps inside a goroutine
  (waiting for a lock, or between two retries of an allocation in error) the rest of the
  system may have moved: of those moments only the invariant is known. Events that arrive
  while the process still starts are taken as delivered when it has started.
\<close>

section \<open>The invariant\<close>

text \<open>While the operators count as deployed their pod store exists and the stop channel is
  open; the list of error allocations that are being retried has no duplicates.\<close>

definition ctl_inv :: "'w sys \<Rightarrow> bool" where
  "ctl_inv s \<longleftrightarrow> operator_inv s \<and> distinct (errorAllocationsBackoffDict s)"

lemma calm_inv: "calm s s' \<Longrightarrow> ctl_inv s \<Longrightarrow> ctl_inv s'"
  by (simp add: calm_def calm_part_def ctl_inv_def operator_inv_def)

lemma ctl_inv_updates [simp]:
  "ctl_inv (s\<lparr>availablesPools := aps\<rparr>) = ctl_inv s" "ctl_inv (s\<lparr>world := w\<rparr>) = ctl_inv s"
  "ctl_inv (s\<lparr>lockedObjects := m\<rparr>) = ctl_inv s" "ctl_inv (s\<lparr>bus := b\<rparr>) = ctl_inv s"
  "ctl_inv (RemoveFromLock al s) = ctl_inv s"
  by (simp_all add: ctl_inv_def operator_inv_def RemoveFromLock_def)

text \<open>What is known of the moments a goroutine sleeps: the rest of the system keeps the
  invariant.\<close>

definition sleeps_keep :: "'w env \<Rightarrow> bool" where
  "sleeps_keep E \<longleftrightarrow>
     (\<exists>n d. (\<forall>s. ctl_inv s \<longrightarrow> ctl_inv (d s)) \<and> (\<forall>P f s. retry_lock E P f s = retry_loop n d P f s)) \<and>
     (\<forall>d s. ctl_inv s \<longrightarrow> ctl_inv (retry_sleep E d s)) \<and>
     (\<forall>d j s. ctl_inv s \<longrightarrow> ctl_inv (snd (jitter E d j s)))"

lemma retry_loop_keeps:
  assumes "\<And>s r s'. f s = Some (r, s') \<Longrightarrow> I s \<Longrightarrow> I s'" and "\<And>s. I s \<Longrightarrow> I (d s)"
  shows "retry_loop n d P f s = Some (r, s') \<Longrightarrow> I s \<Longrightarrow> I s'"
proof (induction n arbitrary: s)
  case 0
  then show ?case using assms(1)
    by (subst (asm) retry_loop.simps) (auto split: asm_splits)
next
  case (Suc n)
  from Suc.prems(1) consider e t where "f s = Some (Some e, t)" "retry_loop n d P f (d t) = Some (r, s')"
    | "f s = Some (r, s')"
    by (subst (asm) retry_loop.simps) (auto split: asm_splits)
  then show ?case by cases (use assms Suc in blast)+
qed

lemma Step_keeps:
  assumes "\<And>d j s. I s \<Longrightarrow> I (snd (jit d j s))" and "Step jit b s = (r, s')" and "I s"
  shows "I s'"
  using assms(2,3) assms(1) [of s "Duration b" "Jitter b"]
  by (auto simp: Step_def Let_def split: prod.split_asm if_split_asm)

lemma loop_keeps:
  assumes cond: "\<And>s r s'. cond s = Some (r, s') \<Longrightarrow> I s \<Longrightarrow> I s'"
    and jit: "\<And>d j s. I s \<Longrightarrow> I (snd (jit d j s))" and sleep: "\<And>d s. I s \<Longrightarrow> I (sleep d s)"
    and "ExponentialBackoffWithForeverCap jit sleep b cond s = Some (r, s')" and "I s"
  shows "I s'"
  using assms(4,5)
proof (induction "nat (Steps b)" arbitrary: b s rule: less_induct)
  case less
  show ?case
  proof (cases "Steps b > 0")
    case False
    with less.prems show ?thesis by (subst (asm) ExponentialBackoffWithForeverCap.simps) simp
  next
    case True
    with less.prems(1) obtain ok err s1 where c1: "cond s = Some ((ok, err), s1)"
      by (subst (asm) ExponentialBackoffWithForeverCap.simps) (auto split: option.splits)
    from cond [OF this less.prems(2)] have I1: "I s1" .
    show ?thesis
    proof (cases "err \<noteq> None \<or> ok \<or> Steps b = 1")
      case True
      with less.prems c1 \<open>Steps b > 0\<close> have "s' = s1"
        by (subst (asm) ExponentialBackoffWithForeverCap.simps) (auto split: if_splits)
      with I1 show ?thesis by simp
    next
      case False
      obtain d b' s2 where st: "Step jit b s1 = ((d, b'), s2)" by (metis prod.exhaust)
      from False less.prems c1 st True
      have rest: "ExponentialBackoffWithForeverCap jit sleep b' cond (sleep d s2) = Some (r, s')"
        by (subst (asm) ExponentialBackoffWithForeverCap.simps) (auto simp: Let_def)
      have "Steps b' = Steps b - 1" using Step_Steps [OF st True] .
      with True have "nat (Steps b') < nat (Steps b)" by simp
      from less.hyps [OF this rest] sleep [OF Step_keeps [where I = I, OF jit st I1]] show ?thesis by blast
    qed
  qed
qed

lemma OnErrorForever_keeps:
  assumes fn: "\<And>s r s'. fn s = Some (r, s') \<Longrightarrow> I s \<Longrightarrow> I s'"
    and jit: "\<And>d j s. I s \<Longrightarrow> I (snd (jit d j s))" and sleep: "\<And>d s. I s \<Longrightarrow> I (sleep d s)"
    and res: "OnErrorForever jit sleep b P fn s = Some (r, s')" and "I s"
  shows "I s'"
proof -
  let ?j = "\<lambda>d f (l :: go_error option, s). let (d, s) = jit d f s in (d, l, s)"
  let ?s = "\<lambda>d (l :: go_error option, s). (l, sleep d s)"
  from res obtain err l where
    loop: "ExponentialBackoffWithForeverCap ?j ?s b (forever_condition P fn) (None, s) = Some (err, l, s')"
    by (auto simp: OnErrorForever_def elim!: bind_SomeE split: if_splits)
  have c: "I (snd u')" if "forever_condition P fn u = Some (x, u')" "I (snd u)" for u x u'
    using that fn by (cases u) (auto simp: forever_condition_def split: option.split_asm if_split_asm)
  have j: "I (snd (snd (?j d f u)))" if "I (snd u)" for d f u
    using that jit [of "snd u" d f] by (cases u) (simp add: split_beta)
  have sl: "I (snd (?s d u))" if "I (snd u)" for d u
    using that sleep by (cases u) simp
  from loop_keeps [where I = "\<lambda>u. I (snd u)", OF c j sl loop] \<open>I s\<close> show ?thesis by simp
qed

section \<open>Locks and goroutines\<close>

lemma lock_attempt_keeps: "lock_attempt al who s = Some (r, s') \<Longrightarrow> ctl_inv s \<Longrightarrow> ctl_inv s'"
  by (auto simp: lock_attempt_def Let_def split: prod.split_asm if_split_asm)

lemma Acquire_keeps:
  assumes K: "sleeps_keep E" and "AcquireAllocationLock E who al s = Some (r, s')" and "ctl_inv s"
  shows "ctl_inv s'"
proof -
  from K obtain n d where d: "\<And>s. ctl_inv s \<Longrightarrow> ctl_inv (d s)"
    and R: "\<And>P f s. retry_lock E P f s = retry_loop n d P f s"
    unfolding sleeps_keep_def by blast
  from assms(2) have "retry_loop n d errIsObjectLocked (lock_attempt al who) s = Some (r, s')"
    by (auto simp: AcquireAllocationLock_def R elim!: bind_SomeE split: if_split_asm)
  from retry_loop_keeps [where I = ctl_inv, OF lock_attempt_keeps d this assms(3)] show ?thesis .
qed

lemma with_lock_keeps:
  assumes K: "sleeps_keep E" and "with_lock E line al body s = Some (r, s')" and "ctl_inv s"
    and body: "\<And>s r s'. body s = Some (r, s') \<Longrightarrow> ctl_inv s \<Longrightarrow> ctl_inv s'"
  shows "ctl_inv s'"
proof -
  from assms(2) obtain err t where a: "AcquireAllocationLock E
      (trace ''pkg/controller/allocationswatcher/allocationswatcher.go'' line) al s = Some (err, t)"
    and rest: "s' = t \<or> (\<exists>t'. body t = Some (r, t') \<and> s' = RemoveFromLock al t')"
    by (auto simp: with_lock_def elim!: bind_SomeE split: if_split_asm)
  from Acquire_keeps [OF K a assms(3)] have "ctl_inv t" .
  with rest body show ?thesis by auto
qed

lemma error_list_keeps [simp]:
  "ctl_inv s \<Longrightarrow> ctl_inv (s\<lparr>errorAllocationsBackoffDict :=
     RemoveErrorAllocationFromProcessingList al (errorAllocationsBackoffDict s)\<rparr>)"
  "ctl_inv s \<Longrightarrow> ctl_inv (s\<lparr>errorAllocationsBackoffDict :=
     AddErrorAllocationToProcessingList al (errorAllocationsBackoffDict s)\<rparr>)"
  by (simp_all add: ctl_inv_def operator_inv_def RemoveError_distinct AddError_distinct)

context clouds_integration begin

lemmas inv_calls = calm_writes [THEN calm_inv] reconcile_and_ensure_calm [THEN calm_inv]
  EnsureIPAllocation_calm [THEN calm_inv] ChangeAllocationNode_calm [THEN calm_inv]
  CreateAllocationForService_calm [THEN calm_inv]

lemma error_attempt_keeps:
  assumes K: "sleeps_keep E" and "error_attempt E GetCloudAPI al s = Some (r, s')" and "ctl_inv s"
  shows "ctl_inv s'"
  using assms(2) unfolding error_attempt_def
  by (rule with_lock_keeps [OF K _ assms(3)])
    (auto simp: Let_def elim!: bind_SomeE split: asm_splits sum.split_asm dest: inv_calls)

lemma Success_keeps:
  assumes K: "sleeps_keep E" and "processAllocationStatusSuccess E GetCloudAPI al s = Some (r, s')"
    and "ctl_inv s"
  shows "ctl_inv s'"
  using assms(2) unfolding processAllocationStatusSuccess_def
  by (rule with_lock_keeps [OF K _ assms(3)])
    (auto simp: Let_def elim!: bind_SomeE split: asm_splits sum.split_asm dest: inv_calls)

lemma Pending_keeps:
  assumes K: "sleeps_keep E" and "processAllocationStatusPending E GetCloudAPI al s = Some (r, s')"
    and "ctl_inv s"
  shows "ctl_inv s'"
  using assms(2) unfolding processAllocationStatusPending_def
  by (rule with_lock_keeps [OF K _ assms(3)])
    (auto simp: Let_def elim!: bind_SomeE split: asm_splits sum.split_asm dest: inv_calls)

lemma NodeError_keeps:
  assumes K: "sleeps_keep E" and "processAllocationNodeError E al s = Some (r, s')" and "ctl_inv s"
  shows "ctl_inv s'"
  using assms(2) unfolding processAllocationNodeError_def
  by (rule with_lock_keeps [OF K _ assms(3)])
    (auto simp: Let_def elim!: bind_SomeE split: asm_splits sum.split_asm dest: inv_calls)

lemma Error_keeps:
  assumes K: "sleeps_keep E" and "processAllocationStatusError E GetCloudAPI al s = Some (r, s')"
    and "ctl_inv s"
  shows "ctl_inv s'"
proof (cases "IsErrorAllocationAlreadyProcessing al s")
  case True
  with assms show ?thesis by (simp add: processAllocationStatusError_def)
next
  case False
  let ?s = "s\<lparr>errorAllocationsBackoffDict :=
    AddErrorAllocationToProcessingList al (errorAllocationsBackoffDict s)\<rparr>"
  from assms(2) False obtain e t where
    loop: "OnErrorForever (jitter E) (retry_sleep E) ErrorBackoff (\<lambda>err. True) (error_attempt E GetCloudAPI al) ?s
      = Some (e, t)"
    by (auto simp: processAllocationStatusError_def elim!: bind_SomeE)
  have "ctl_inv t"
    by (rule OnErrorForever_keeps [where I = ctl_inv, OF error_attempt_keeps [OF K] _ _ loop])
      (use K assms(3) in \<open>auto simp: sleeps_keep_def\<close>)
  with assms(2) False loop show ?thesis
    by (auto simp: processAllocationStatusError_def Let_def elim!: bind_SomeE
        split: asm_splits sum.split_asm dest: inv_calls)
qed

lemma Deleted_keeps:
  assumes K: "sleeps_keep E" and "process_deleted E GetCloudAPI al s = Some (r, s')" and "ctl_inv s"
  shows "ctl_inv s'"
  using assms(2) unfolding process_deleted_def
  by (rule with_lock_keeps [OF K _ assms(3)])
    (auto simp: DeallocateAllocation_def ephemeral_DeallocateAddress_def Let_def elim!: bind_SomeE
      split: asm_splits dest!: deallocate_loop_calm [THEN calm_inv]
        world_only_calm [OF ephemeral_deallocate_loop_world_only, THEN calm_inv] inv_calls)

lemma run_allocation_task_keeps:
  "sleeps_keep E \<Longrightarrow> run_allocation_task E GetCloudAPI task s = Some (r, s') \<Longrightarrow> ctl_inv s \<Longrightarrow> ctl_inv s'"
  by (cases task) (auto simp: run_allocation_task_def
      dest: Success_keeps Pending_keeps NodeError_keeps Error_keeps Deleted_keeps)

lemma run_service_task_keeps:
  "run_service_task E GetCloudAPI task s = Some (r, s') \<Longrightarrow> ctl_inv s \<Longrightarrow> ctl_inv s'"
  by (cases task) (auto simp: run_service_task_def dest: ReconcileAllocation_calm [THEN calm_inv] inv_calls)

end

section \<open>Handlers and listeners\<close>

lemma serviceChanged_keeps:
  assumes K: "sleeps_keep E" and "serviceChanged E sv s = Some (ts, s')" and "ctl_inv s"
  shows "ctl_inv s'"
proof -
  obtain al err t where f: "FindAllocation E (SGetNamespace sv) (SGetName sv) s = ((al, err), t)"
    by (metis prod.exhaust)
  from calm_inv [OF world_only_calm [OF FindAllocation_world_only [OF f]] assms(3)] have "ctl_inv t" .
  with assms(2) f show ?thesis
    by (auto simp: serviceChanged_def elim!: bind_SomeE split: asm_splits dest!: Acquire_keeps [OF K])
qed

lemma services_handler_keeps:
  assumes "sleeps_keep E" and "services_handler E ev s = Some (ts, s')" and "ctl_inv s"
  shows "ctl_inv s'"
  using assms
  by (cases "(E, ev, s)" rule: services_handler.cases)
    (auto simp: serviceDeleted_def split: if_splits dest: serviceChanged_keeps
      intro: calm_inv [OF world_only_calm [OF DeleteAllocationByName_world_only [OF surjective_pairing]]])

lemma errors_of_deploy:
  "DeployOrDie E s = Some (r, s') \<Longrightarrow> errorAllocationsBackoffDict s' = errorAllocationsBackoffDict s"
  "Delete E s = Some (r, s') \<Longrightarrow> errorAllocationsBackoffDict s' = errorAllocationsBackoffDict s"
  "checkIfOperatorIsDeployedAndUpdatedOrDie E s = Some (x, s') \<Longrightarrow>
     errorAllocationsBackoffDict s' = errorAllocationsBackoffDict s"
  by (auto simp: DeployOrDie_def Delete_def checkIfOperatorIsDeployedAndUpdatedOrDie_def onw_eq Let_def
      WhatchControllerNodes_def buildOperatorNodesWatcher_def elim!: bind_SomeE split: asm_splits sum.split_asm
      dest!: updateOperator_world_only simp: world_only_fields)

lemma Deploy_keeps:
  "DeployOrDie E s = Some (r, s') \<Longrightarrow> ctl_inv s \<Longrightarrow> ctl_inv s'"
  "Delete E s = Some (x, s') \<Longrightarrow> ctl_inv s \<Longrightarrow> ctl_inv s'"
  by (simp_all add: ctl_inv_def errors_of_deploy DeployOrDie_inv(1) Delete_inv(1))

lemma stillRequired_keeps:
  "checkIfOperatorIsStillRequiredOrDie E s = Some s' \<Longrightarrow> ctl_inv s \<Longrightarrow> ctl_inv s'"
  using stillRequired_inv(1) [of E s s'] unfolding ctl_inv_def
  by (auto simp: checkIfOperatorIsStillRequiredOrDie_def errors_of_deploy elim!: bind_SomeE split: asm_splits)

lemma pool_handlers_keep:
  "persistent_pools_handler E ev s = Some s' \<Longrightarrow> ctl_inv s \<Longrightarrow> ctl_inv s'"
  "ephemeral_pools_handler E ev s = Some s' \<Longrightarrow> ctl_inv s \<Longrightarrow> ctl_inv s'"
  "operator_nodes_handler E ev s = Some s' \<Longrightarrow> ctl_inv s \<Longrightarrow> ctl_inv s'"
proof -
  show "persistent_pools_handler E ev s = Some s' \<Longrightarrow> ctl_inv s \<Longrightarrow> ctl_inv s'"
    by (cases "(E, ev, s)" rule: persistent_pools_handler.cases)
      (auto simp: persistent_removePool_def persistent_modifyPool_def persistent_addPool_def Let_def
        elim!: bind_SomeE split: if_split_asm dest: Deploy_keeps)
  show "ephemeral_pools_handler E ev s = Some s' \<Longrightarrow> ctl_inv s \<Longrightarrow> ctl_inv s'"
    by (cases "(E, ev, s)" rule: ephemeral_pools_handler.cases)
      (auto simp: ephemeral_removePool_def ephemeral_modifyPool_def ephemeral_addPool_def
        elim!: bind_SomeE split: if_split_asm dest: Deploy_keeps)
  show "operator_nodes_handler E ev s = Some s' \<Longrightarrow> ctl_inv s \<Longrightarrow> ctl_inv s'"
    by (cases "(E, ev, s)" rule: operator_nodes_handler.cases)
      (auto simp: newOperatorNode_pod_def operatorNodeLost_pod_def split: if_splits dest: stillRequired_keeps)
qed

lemma send_status_keeps: "send_status E a s = (r, s') \<Longrightarrow> ctl_inv s \<Longrightarrow> ctl_inv s'"
  by (blast intro: calm_inv world_only_calm send_status_world_only)

lemma fold_send_keeps: "ctl_inv s \<Longrightarrow> ctl_inv (fold (\<lambda>a s. snd (send_status E a s)) as s)"
  by (induction as arbitrary: s) (auto intro: send_status_keeps [OF surjective_pairing])

text \<open>Every callback the two packages register.\<close>

lemma callbacks_keep:
  "operatorNodeLost E n s = Some s' \<Longrightarrow> ctl_inv s \<Longrightarrow> ctl_inv s'"
  "newOperatorNode E n s = Some s' \<Longrightarrow> ctl_inv s \<Longrightarrow> ctl_inv s'"
  "watcher_persistentPoolModified E p s = Some s' \<Longrightarrow> ctl_inv s \<Longrightarrow> ctl_inv s'"
  "watcher_ephemeralPoolModified E q s = Some s' \<Longrightarrow> ctl_inv s \<Longrightarrow> ctl_inv s'"
  "watcher_persistentPoolRemoved E p s = Some s' \<Longrightarrow> ctl_inv s \<Longrightarrow> ctl_inv s'"
  "watcher_ephemeralPoolRemoved E q s = Some s' \<Longrightarrow> ctl_inv s \<Longrightarrow> ctl_inv s'"
  "controller_persistentPoolModified E p s = Some s' \<Longrightarrow> ctl_inv s \<Longrightarrow> ctl_inv s'"
  "controller_ephemeralPoolModified E q s = Some s' \<Longrightarrow> ctl_inv s \<Longrightarrow> ctl_inv s'"
  "controller_persistentPoolRemoved E p s = Some s' \<Longrightarrow> ctl_inv s \<Longrightarrow> ctl_inv s'"
  "controller_ephemeralPoolRemoved E q s = Some s' \<Longrightarrow> ctl_inv s \<Longrightarrow> ctl_inv s'"
  by (auto simp: operatorNodeLost_def lost_allocations_eq fold_send_keeps newOperatorNode_def
      watcher_persistentPoolModified_def watcher_ephemeralPoolModified_def
      watcher_persistentPoolRemoved_def deallocateDeletedAddresses_def
      watcher_ephemeralPoolRemoved_def deallocateAddressesOfPool_def
      controller_persistentPoolModified_def controller_ephemeralPoolModified_def
      controller_persistentPoolRemoved_def controller_ephemeralPoolRemoved_def Let_def
      elim!: bind_SomeE split: if_split_asm dest!: DoCleanup_world_only remove_from_allocations_world_only
      dest: Deploy_keeps calm_inv [OF world_only_calm])

lemma run_callbacks_keep:
  assumes "run_callbacks cbs x s = Some s'" and "ctl_inv s"
    and "\<And>cb s s'. cb \<in> set cbs \<Longrightarrow> cb x s = Some s' \<Longrightarrow> ctl_inv s \<Longrightarrow> ctl_inv s'"
  shows "ctl_inv s'"
  using assms by (induction cbs arbitrary: s) (auto elim!: bind_SomeE)

lemma listen_turn_keeps:
  assumes "listen_turn sel cbs s = Some s'" and "ctl_inv s"
    and "\<And>cb x s s'. cb \<in> set cbs \<Longrightarrow> cb x s = Some s' \<Longrightarrow> ctl_inv s \<Longrightarrow> ctl_inv s'"
  shows "ctl_inv s'"
proof (cases "receive sel (bus s)")
  case None
  with assms show ?thesis by (simp add: listen_turn_def)
next
  case (Some r)
  then obtain x es where r: "receive sel (bus s) = Some (x, es)" by (cases r) auto
  with assms(1) have "run_callbacks cbs x (s\<lparr>bus := es\<rparr>) = Some s'" by (simp add: listen_turn_def)
  from run_callbacks_keep [OF this _ assms(3)] assms(2) show ?thesis by simp
qed

section \<open>Start\<close>

text \<open>The package variables of a new process.\<close>

definition initial_sys :: "'w \<Rightarrow> 'w sys" where
  "initial_sys w =
     \<lparr>world = w, availablesPools = [], lockedObjects = Map.empty, errorAllocationsBackoffDict = [],
      deployed = False, operatorNodesStoreBuilt = False, stopWatch = ChanNil, bus = []\<rparr>"

lemma Operator_Init_keeps:
  assumes "Operator_Init E s = Some s'" and "ctl_inv s"
  shows "ctl_inv s'"
proof -
  have "errorAllocationsBackoffDict s' = errorAllocationsBackoffDict s"
    using assms(1)
    by (auto simp: Operator_Init_def WhatchControllerNodes_def buildOperatorNodesWatcher_def
        warmupControllerNodesCacheOrDie_def onw_eq elim!: bind_SomeE split: asm_splits
        dest!: errors_of_deploy(3))
  with assms Operator_Init_inv [OF assms(1)] show ?thesis by (simp add: ctl_inv_def)
qed

lemma warmup_pools_keeps: "warmup_pools E as objs s = Some s' \<Longrightarrow> ctl_inv s \<Longrightarrow> ctl_inv s'"
proof (induction objs arbitrary: s)
  case Nil
  then show ?case by simp
next
  case (Cons obj objs)
  then show ?case
    by (auto simp: persistent_addPool_def Let_def elim!: bind_SomeE split: k8s_obj.split_asm if_split_asm
        dest!: Cons.IH dest: Deploy_keeps)
qed

lemma persistent_Init_keeps: "persistent_Init E s = Some s' \<Longrightarrow> ctl_inv s \<Longrightarrow> ctl_inv s'"
  by (auto simp: persistent_Init_def persistent_createIPPoolsWatcher_def Let_def onw_eq
      persistent_warmupIPPoolsCacheOrDie_def warmupIPAvailabilityOrDie_def elim!: bind_SomeE
      split: asm_splits dest!: warmup_pools_keeps)

lemma ephemeral_Init_keeps: "ephemeral_Init E s = Some s' \<Longrightarrow> ctl_inv s \<Longrightarrow> ctl_inv s'"
  by (auto simp: ephemeral_Init_def ephemeral_createIPPoolsWatcher_def ephemeral_warmupIPPoolsCacheOrDie_def
      Let_def onw_eq split: asm_splits)

lemma OnStartedLeading_keeps:
  assumes "OnStartedLeading E L le s = Some (r, s')" and "ctl_inv s"
  shows "ctl_inv s'"
  using assms
  by (auto simp: OnStartedLeading_def Let_def onw_eq Service_Watcher_Init_def buildServicesWatcher_def
      WatchServices_def WatchAllocations_def Allocations_Watcher_Init_def buildAllocationsWhatcher_def
      persistent_WatchIPPools_def ephemeral_WatchIPPools_def
      elim!: bind_SomeE split: asm_splits
      dest!: Operator_Init_keeps persistent_Init_keeps ephemeral_Init_keeps)

lemma OnStartedLeading_callbacks:
  assumes "OnStartedLeading E L le s = Some ((le', CB, sy), s')"
  shows "CB = Pools_Controller_Init E (fst (Allocations_Watcher_Init E no_callbacks s))"
  using assms
  by (auto simp: OnStartedLeading_def Let_def Allocations_Watcher_Init_def
      elim!: bind_SomeE split: asm_splits)

section \<open>The transition system\<close>

datatype ctl_task = ServiceTask service_task | AllocationTask allocation_task

definition run_task :: "'w env \<Rightarrow> 'w clouds \<Rightarrow> ctl_task \<Rightarrow> 'w sys \<Rightarrow> 'w sys option" where
  "run_task E C task s =
     (case task of
        ServiceTask t \<Rightarrow> map_option snd (run_service_task E C t s)
      | AllocationTask t \<Rightarrow> map_option snd (run_allocation_task E C t s))"

text \<open>
  The controller that leads: the state, and the goroutines that were started and have not
  run. A step that panics (\<open>None\<close>) has no successor: the process is gone.
\<close>

inductive ctl_step ::
  "'w env \<Rightarrow> 'w clouds \<Rightarrow> 'w callbacks \<Rightarrow> 'w sys \<times> ctl_task list \<Rightarrow> 'w sys \<times> ctl_task list \<Rightarrow> bool"
  for E :: "'w env" and C :: "'w clouds" and CB :: "'w callbacks" where
  cluster_moves: "ctl_step E C CB (s, tasks) (s\<lparr>world := w\<rparr>, tasks)"
| service_event: "services_handler E ev s = Some (ts, s') \<Longrightarrow>
     ctl_step E C CB (s, tasks) (s', tasks @ map ServiceTask ts)"
| allocation_event: "ctl_step E C CB (s, tasks) (s, tasks @ map AllocationTask (allocations_handler ev))"
| persistent_pool_event: "persistent_pools_handler E ev s = Some s' \<Longrightarrow>
     ctl_step E C CB (s, tasks) (s', tasks)"
| ephemeral_pool_event: "ephemeral_pools_handler E ev s = Some s' \<Longrightarrow>
     ctl_step E C CB (s, tasks) (s', tasks)"
| operator_pod_event: "operatorNodesStoreBuilt s \<Longrightarrow> operator_nodes_handler E ev s = Some s' \<Longrightarrow>
     ctl_step E C CB (s, tasks) (s', tasks)"
| listener: "listen \<in> {ListenModifiedPersistentPoolsChan, ListenDeletedPersistentPoolsChan,
       ListenModifiedEphemeralPoolsChan, ListenDeletedEphemeralPoolsChan, ListenOperatorNodeLostChan,
       ListenNewOperatorNodeChan} \<Longrightarrow>
     listen CB s = Some s' \<Longrightarrow> ctl_step E C CB (s, tasks) (s', tasks)"
| goroutine: "run_task E C t s = Some s' \<Longrightarrow>
     ctl_step E C CB (s, ts1 @ t # ts2) (s', ts1 @ ts2)"

inductive_cases ctl_stepE: "ctl_step E C CB x y"

text \<open>What a process that started to lead in a cluster \<open>w\<close> can come to.\<close>

definition ctl_reachable ::
  "'w env \<Rightarrow> 'w clouds \<Rightarrow> 'w lease_client \<Rightarrow> Election \<Rightarrow> 'w \<Rightarrow> 'w sys \<times> ctl_task list \<Rightarrow> bool" where
  "ctl_reachable E C L le w x \<longleftrightarrow>
     (\<exists>le' CB s0. OnStartedLeading E L le (initial_sys w) = Some ((le', CB, True), s0) \<and>
        (ctl_step E C CB)\<^sup>*\<^sup>* (s0, []) x)"

lemma listeners_keep:
  assumes CB: "CB = Pools_Controller_Init E (fst (Allocations_Watcher_Init E no_callbacks s0))"
    and L: "listen \<in> {ListenModifiedPersistentPoolsChan, ListenDeletedPersistentPoolsChan,
       ListenModifiedEphemeralPoolsChan, ListenDeletedEphemeralPoolsChan, ListenOperatorNodeLostChan,
       ListenNewOperatorNodeChan}"
    and "listen CB s = Some s'" and "ctl_inv s"
  shows "ctl_inv s'"
proof -
  note R = registered_callbacks [OF surjective_pairing, of E s0, folded CB]
  from L assms(3) consider
      "listen_turn sel_persistent_modified (onPoolModifiedCB CB) s = Some s'"
    | "listen_turn sel_persistent_deleted (onPoolDeletedCB CB) s = Some s'"
    | "listen_turn sel_ephemeral_modified (onEphemeralPoolModifiedCB CB) s = Some s'"
    | "listen_turn sel_ephemeral_deleted (onEphemeralPoolDeletedCB CB) s = Some s'"
    | "listen_turn sel_node_lost [operatorNodeLost E] s = Some s'"
    | "listen_turn sel_new_node [newOperatorNode E] s = Some s'"
    by (auto simp: R ListenModifiedPersistentPoolsChan_def ListenDeletedPersistentPoolsChan_def
        ListenModifiedEphemeralPoolsChan_def ListenDeletedEphemeralPoolsChan_def
        ListenOperatorNodeLostChan_def ListenNewOperatorNodeChan_def)
  then show ?thesis
    by cases (erule listen_turn_keeps [OF _ assms(4)], auto simp: R dest: callbacks_keep)+
qed

context clouds_integration begin

lemma ctl_step_keeps:
  assumes K: "sleeps_keep E" and CB: "CB = Pools_Controller_Init E (fst (Allocations_Watcher_Init E no_callbacks s0))"
    and "ctl_step E GetCloudAPI CB x y" and "ctl_inv (fst x)"
  shows "ctl_inv (fst y)"
  using assms(3)
proof cases
  case (listener listen s s' tasks)
  with listeners_keep [OF CB] assms(4) show ?thesis by simp
next
  case (goroutine t s s' ts1 ts2)
  with assms(4) show ?thesis
    by (auto simp: run_task_def split: ctl_task.split_asm
        dest: run_service_task_keeps run_allocation_task_keeps [OF K])
qed (use assms(4) in \<open>auto dest: services_handler_keeps [OF K] pool_handlers_keep\<close>)

lemma ctl_reachable_inv:
  assumes K: "sleeps_keep E" and "ctl_reachable E GetCloudAPI L le w x"
  shows "ctl_inv (fst x)"
proof -
  from assms(2) obtain le' CB s0 where start: "OnStartedLeading E L le (initial_sys w) = Some ((le', CB, True), s0)"
    and run: "(ctl_step E GetCloudAPI CB)\<^sup>*\<^sup>* (s0, []) x"
    unfolding ctl_reachable_def by blast
  note CB = OnStartedLeading_callbacks [OF start]
  have "ctl_inv (initial_sys w)" by (simp add: ctl_inv_def operator_inv_def initial_sys_def)
  with OnStartedLeading_keeps [OF start] have "ctl_inv s0" by simp
  from run show ?thesis
    by (induction rule: rtranclp_induct) (use \<open>ctl_inv s0\<close> in \<open>auto intro: ctl_step_keeps [OF K CB]\<close>)
qed

end

end
