(* ===== verification/Example_Start.thy ===== *)
theory Example_Start
  imports Controller Example_Cluster
begin

text \<open>
  The controller starts to lead in the example cluster, in which one pool asks for an
  interface: the definitions of the resources are created and the operators deployed.
\<close>

definition pool_cluster :: cluster where
  "pool_cluster = empty_cluster\<lparr>ClPersistent := [host_pool ''p'' [''192.0.2.1'']], ClPods := [ready_pod ''node1'']\<rparr>"

lemma sleeps_keep_demo: "sleeps_keep demo"
  unfolding sleeps_keep_def by (intro conjI exI [of _ 9] exI [of _ id]) simp_all

lemma demo_crd:
  assumes "\<forall>d \<in> set (ClCRDs c). Name (CRDMeta d) \<noteq> Name (CRDMeta crd)"
  shows "CreateOrUpdateCRD demo (Name (CRDMeta crd)) crd c =
    (None, c\<lparr>ClCRDs := ClCRDs c @ [established crd]\<rparr>)"
proof -
  let ?P = "\<lambda>d. Name (CRDMeta d) = Name (CRDMeta crd)"
  have v: "ParseInt 64 ''18'' = Some 18"
    by (simp add: ParseInt_def parse_uint_def is_digit_def dec_val_def digit_val_def)
  have "find ?P (ds @ [established crd]) = Some (established crd)" if "\<forall>d \<in> set ds. \<not> ?P d" for ds
    using that by (induction ds) (auto simp: established_def)
  note this [OF assms]
  moreover have "find ?P (ClCRDs c) = None" using assms by (simp add: find_None_iff)
  ultimately show ?thesis
    by (simp add: CreateOrUpdateCRD_def createCRDV1_def ForCRD_def crd_condition_def demo_crd_get_def v
        established_def crdReady_iff not_found_def)
qed

lemma crd_names:
  "Name (CRDMeta persistent_getV1Definition) = FullPersistentIPPoolCRDName"
  "Name (CRDMeta ephemeral_getV1Definition) = FullEphemeralIPPoolCRDName"
  "Name (CRDMeta allocation_getV1Definition) = FullIPAllocationCRDName"
  "FullPersistentIPPoolCRDName \<noteq> FullEphemeralIPPoolCRDName"
  "FullIPAllocationCRDName \<noteq> FullPersistentIPPoolCRDName"
  "FullIPAllocationCRDName \<noteq> FullEphemeralIPPoolCRDName"
  "Name (CRDMeta (established d)) = Name (CRDMeta d)"
  by (simp_all add: persistent_getV1Definition_def ephemeral_getV1Definition_def allocation_getV1Definition_def
      crd_definition_def FullPersistentIPPoolCRDName_def FullEphemeralIPPoolCRDName_def FullIPAllocationCRDName_def
      PersistentIPPoolCRDPlural_def EphemeralIPPoolCRDPlural_def IPAllocationCRDPlural_def CRDGroup_def established_def)

lemmas demo_crds = demo_crd [of _ persistent_getV1Definition, unfolded crd_names(1)]
  demo_crd [of _ ephemeral_getV1Definition, unfolded crd_names(2)]
  demo_crd [of _ allocation_getV1Definition, unfolded crd_names(3)]

lemma demo_lists:
  "PersistentIPPools_List demo c = ((ClPersistent c, None), c)"
  "EphemeralIPPools_List demo c = ((ClEphemeral c, None), c)"
  "IPAllocations_List demo ns c = ((ClAllocations c, None), c)"
  by (simp_all add: PersistentIPPools_List_def EphemeralIPPools_List_def IPAllocations_List_def into_def demo_def)

lemma demo_add: "fold (\<lambda>x. informer_add demo r (f x)) xs c = c"
  by (induction xs) simp_all

section \<open>Evaluation of the start\<close>

lemmas eval_cluster = pool_cluster_def demo_objects onw_def demo_crds crd_names demo_lists demo_add

lemmas eval_start = OnStartedLeading_def allocation_CreateOrUpdateCRD_def persistent_CreateOrUpdateCRD_def
  ephemeral_CreateOrUpdateCRD_def initial_sys_def Operator_Init_def myNamespace_def operator_image_def
  imagePullSecret_def checkIfOperatorIsDeployedAndUpdatedOrDie_def demo_daemonset_get_def not_found_def
  Allocations_Watcher_Init_def demo_lease_def

lemmas eval_persistent_init = persistent_Init_def persistent_createIPPoolsWatcher_def
  persistent_warmupIPPoolsCacheOrDie_def warmupIPAvailabilityOrDie_def persistent_addPool_def
  addOrReplaceAvailabilityPool_def processIPAvailability_def allocated_ips_def

lemmas eval_watchers = ephemeral_Init_def ephemeral_warmupIPPoolsCacheOrDie_def
  ephemeral_createIPPoolsWatcher_def Service_Watcher_Init_def buildServicesWatcher_def WatchServices_def
  WatchAllocations_def buildAllocationsWhatcher_def persistent_WatchIPPools_def ephemeral_WatchIPPools_def

lemma demo_starts:
  obtains le CB s where "OnStartedLeading demo demo_lease (Election_Init ''plenuslb'' ''a'') (initial_sys pool_cluster) =
      Some ((le, CB, True), s)" and "deployed s"
proof -
  have "\<exists>le CB s. OnStartedLeading demo demo_lease (Election_Init ''plenuslb'' ''a'') (initial_sys pool_cluster) =
      Some ((le, CB, True), s) \<and> deployed s"
    by (simp add: eval_start eval_persistent_init eval_watchers eval_cluster eval_pools eval_deploy)
  then show ?thesis by (blast intro: that)
qed

end
