(* ===== verification/Example_Process.thy ===== *)
theory Example_Process
  imports Main_Programs Example_Start
begin

text \<open>A controller process in the example cluster: its libraries, its environment and its start.\<close>

definition demo_config :: rest_config where
  "demo_config = \<lparr>Host = ''https://10.0.0.1'', APIPath = '''', GroupVersion = None, NegotiatedSerializer = None,
     UserAgent = '''', QPS = 0, Burst = 0, RateLimiter = None, WrapTransport = []\<rparr>"

definition demo_cluster_lib :: "(rest_config, rest_config, rest_config, rest_config) cluster_lib" where
  "demo_cluster_lib = \<lparr>RESTClientFor = Inr, DefaultKubernetesUserAgent = ''plenuslb'', NewDiscoveryClientForConfig = Inr,
     NewDiscoveryClient = (\<lambda>c. c), InClusterConfig = Inr demo_config, k8s_NewForConfigOrDie = Some,
     extension_NewForConfigOrDie = Some\<rparr>"

definition demo_pod_env :: "string \<Rightarrow> string" where
  "demo_pod_env v = (if v = ''MY_POD_NAMESPACE'' then ''plenuslb'' else if v = ''MY_POD_NAME'' then ''a'' else '''')"

lemma demo_controller_starts:
  "\<exists>p. controller_start demo_cluster_lib demo_pod_env = Some p \<and> lead p = Election_Init ''plenuslb'' ''a''"
  by (simp add: controller_start_def CreateClientsOrDie_def Clientset_NewForConfigOrDie_def v1alpha1_NewForConfigOrDie_def
      v1alpha1_NewForConfig_def setConfigDefaults_def rest_lib.truncate_def demo_cluster_lib_def demo_pod_env_def
      GetInClusterConfig_def controller_createStopHandler_def Let_def)

end
