(* ===== verification/Backoff_Calculator.thy ===== *)
theory Backoff_Calculator
  imports Tools
begin

text \<open>
  The rest of \<open>tools/backoffCalculator.go\<close>: its copy of the controller's unbounded backoff,
  with the sleep replaced by adding the step to \<open>maxRetrytime\<close> and printing it, and its
  \<open>main\<close>. The struct is the one of \<open>Backoff\<close>. \<open>calc_loop_eq\<close> relates the copy to the
  original, \<open>calc_main_prints\<close> says what the program prints, and the last section compares
  the sleeps of its 20 steps with those of the controller's 552.
\<close>

text \<open>float64 addition and division by an integer, rounded to 53 bits: the quotient is computed
  to more than 64 bits with the remainder as a sticky bit.\<close>

definition fl_add :: "fl \<Rightarrow> fl \<Rightarrow> fl" where
  "fl_add x y =
     (let E = max (snd x) (snd y)
      in fl_round (fst x * 2 ^ (E - snd x) + fst y * 2 ^ (E - snd y), E))"

definition fl_div_nat :: "fl \<Rightarrow> nat \<Rightarrow> fl" where
  "fl_div_nat x n =
     (let s = 64 + bit_len n; q = fst x * 2 ^ s div n; r = fst x * 2 ^ s mod n
      in fl_round (2 * q + (if r = 0 then 0 else 1), snd x + s + 1))"

text \<open>\<open>%.0f\<close>: the nearest integer, ties to even.\<close>

definition fl_nearest :: "fl \<Rightarrow> nat" where
  "fl_nearest x =
     (let q = fst x div 2 ^ snd x; r = fst x mod 2 ^ snd x
      in if 2 * r > 2 ^ snd x \<or> (2 * r = 2 ^ snd x \<and> odd q) then q + 1 else q)"

text \<open>\<open>time.Duration.Seconds\<close>.\<close>

definition Seconds :: "nat \<Rightarrow> fl" where
  "Seconds d = fl_add (fl_of_nat (d div 1000000000)) (fl_div_nat (fl_of_nat (d mod 1000000000)) 1000000000)"

definition calc_Step :: "'s jitterer \<Rightarrow> ForeverBackoff \<Rightarrow> 's \<Rightarrow> (nat \<times> ForeverBackoff) \<times> 's" where
  "calc_Step wait_Jitter b s =
     (if Steps b < 1 then
        (if fst (Jitter b) > 0 then
           (let (d, s) = wait_Jitter (Duration b) (Jitter b) s in ((d, b), s))
         else ((Duration b, b), s))
      else
        (let b = b\<lparr>Steps := Steps b - 1\<rparr>;
             duration = Duration b;
             b = (if fst (Factor b) \<noteq> 0 then
                    (let b = b\<lparr>Duration := fl_trunc (fl_mult (fl_of_nat (Duration b)) (Factor b))\<rparr>
                     in if Cap b > 0 \<and> Duration b > Cap b then b\<lparr>Duration := Cap b\<rparr> else b)
                  else b)
         in if fst (Jitter b) > 0 then
              (let (duration, s) = wait_Jitter duration (Jitter b) s in ((duration, b), s))
            else ((duration, b), s)))"

lemma calc_Step_eq: "calc_Step = Step"
  by (intro ext) (simp add: calc_Step_def Step_def next_duration_def Let_def)

record 's calc =
  maxRetrytime :: fl
  printed :: "nat list"
  lib :: 's

definition calc_jitter :: "'s jitterer \<Rightarrow> 's calc jitterer" where
  "calc_jitter wait_Jitter d f c = (let (e, s) = wait_Jitter d f (lib c) in (e, c\<lparr>lib := s\<rparr>))"

definition add_step :: "nat \<Rightarrow> 's calc \<Rightarrow> 's calc" where
  "add_step step c =
     c\<lparr>maxRetrytime := fl_add (maxRetrytime c) (Seconds step), printed := printed c @ [step]\<rparr>"

function calc_ExponentialBackoffWithForeverCap ::
  "'s jitterer \<Rightarrow> ForeverBackoff \<Rightarrow> 's calc condition \<Rightarrow> 's calc \<Rightarrow> (go_error option \<times> 's calc) option" where
  "calc_ExponentialBackoffWithForeverCap wait_Jitter backoff condition c =
     (if \<not> 0 < Steps backoff then Some (Some ErrWaitTimeout, c)
      else case condition c of
             None \<Rightarrow> None
           | Some ((ok, err), c) \<Rightarrow>
               (if err \<noteq> None \<or> ok then Some (err, c)
                else if Steps backoff = 1 then Some (Some ErrWaitTimeout, c)
                else (let r = calc_Step (calc_jitter wait_Jitter) backoff c
                      in calc_ExponentialBackoffWithForeverCap wait_Jitter (snd (fst r)) condition
                           (add_step (fst (fst r)) (snd r)))))"
  by pat_completeness auto
termination
proof (relation "measure (\<lambda>(j, b, cond, c). nat (Steps b))", goal_cases)
  case 1
  then show ?case by simp
next
  case (2 j b cond c x2 a c2 ok err x)
  then show ?case
    using Step_Steps [of "calc_jitter j" b c2 "fst (fst x)" "snd (fst x)" "snd x"]
    by (simp add: calc_Step_eq)
qed

declare calc_ExponentialBackoffWithForeverCap.simps [simp del]

lemma calc_loop_eq:
  "calc_ExponentialBackoffWithForeverCap j b cond c =
   ExponentialBackoffWithForeverCap (calc_jitter j) add_step b cond c"
proof (induction j b cond c rule: calc_ExponentialBackoffWithForeverCap.induct)
  case (1 j b cond c)
  then show ?case
    by (subst calc_ExponentialBackoffWithForeverCap.simps, subst ExponentialBackoffWithForeverCap.simps)
      (simp add: calc_Step_eq split: option.split prod.split)
qed

definition calc_condition ::
  "(go_error \<Rightarrow> bool) \<Rightarrow> 's body \<Rightarrow> (go_error option \<times> 's) calc condition" where
  "calc_condition errorFunc fn = (\<lambda>c. case fn (snd (lib c)) of
     None \<Rightarrow> None
   | Some (None, s) \<Rightarrow> Some ((True, None), c\<lparr>lib := (fst (lib c), s)\<rparr>)
   | Some (Some err, s) \<Rightarrow>
       (if errorFunc err then Some ((False, None), c\<lparr>lib := (Some err, s)\<rparr>)
        else Some ((False, Some err), c\<lparr>lib := (fst (lib c), s)\<rparr>)))"

definition calc_OnErrorForever ::
  "'s jitterer \<Rightarrow> ForeverBackoff \<Rightarrow> (go_error \<Rightarrow> bool) \<Rightarrow> 's body \<Rightarrow> (go_error option \<times> 's) calc \<Rightarrow>
   (go_error option \<times> (go_error option \<times> 's) calc) option" where
  "calc_OnErrorForever wait_Jitter backoff errorFunc fn c =
     do {
       (err, c) \<leftarrow> calc_ExponentialBackoffWithForeverCap
                    (\<lambda>d f (l, s). let (e, s) = wait_Jitter d f s in (e, l, s))
                    backoff (calc_condition errorFunc fn) (c\<lparr>lib := (None, snd (lib c))\<rparr>);
       if err = Some ErrWaitTimeout then Some (fst (lib c), c) else Some (err, c)
     }"

text \<open>The digits of \<open>%.0f\<close> are read back by \<open>strconv.Atoi\<close>, which fails above \<open>2^63 - 1\<close>.\<close>

definition floatToInt :: "fl \<Rightarrow> nat" where
  "floatToInt f = (let i = fl_nearest f in if i < 2 ^ 63 then i else 0)"

definition calc_ErrorBackoff :: ForeverBackoff where
  "calc_ErrorBackoff =
     \<lparr>Duration = 1000000000, Factor = (5404319552844595, 52), Jitter = (7205759403792794, 55),
      Steps = 20, Cap = 300000000000\<rparr>"

text \<open>\<open>main\<close>: the sleeps it prints, and its last line.\<close>

definition calc_main :: "'s jitterer \<Rightarrow> 's \<Rightarrow> (nat list \<times> string) option" where
  "calc_main wait_Jitter s =
     do {
       (_, c) \<leftarrow> calc_OnErrorForever wait_Jitter calc_ErrorBackoff (\<lambda>err. True)
                  (\<lambda>s. Some (Some (Errorf ''err''), s)) \<lparr>maxRetrytime = (0, 0), printed = [], lib = (None, s)\<rparr>;
       Some (printed c, ''Total max retry time is '' @ secondsToHuman (floatToInt (maxRetrytime c)) @ [CHR 0x0A])
     }"

text \<open>The sleeps of a loop whose condition never holds, and what they add up to.\<close>

primrec jittered :: "'s jitterer \<Rightarrow> ForeverBackoff \<Rightarrow> nat \<Rightarrow> 's \<Rightarrow> nat list" where
  "jittered jit b 0 s = []"
| "jittered jit b (Suc n) s =
     (let (d, s) = jit (Duration b) (Jitter b) s in d # jittered jit (b\<lparr>Duration := next_duration b\<rparr>) n s)"

definition total_seconds :: "fl \<Rightarrow> nat list \<Rightarrow> fl" where
  "total_seconds t ds = foldl (\<lambda>t d. fl_add t (Seconds d)) t ds"

lemma length_jittered [simp]: "length (jittered jit b n s) = n"
  by (induction n arbitrary: b s) (auto simp: Let_def split: prod.split)

lemma jittered_cong: "jittered jit (b\<lparr>Steps := k\<rparr>) n s = jittered jit b n s"
proof (induction n arbitrary: b s)
  case (Suc n)
  have "next_duration (b\<lparr>Steps := k\<rparr>) = next_duration b"
    by (simp add: next_duration_def Let_def)
  moreover have "jittered jit (b\<lparr>Steps := k, Duration := d\<rparr>) n t = jittered jit (b\<lparr>Duration := d\<rparr>) n t" for d t
    using Suc.IH [of "b\<lparr>Duration := d\<rparr>" t] by (cases b) simp
  ultimately show ?case
    by (simp add: Let_def split: prod.split)
qed simp

lemma calc_loop_fails:
  fixes cond :: "(go_error option \<times> 's) calc condition"
  assumes cond: "\<And>c. \<exists>l. cond c = Some ((False, None), c\<lparr>lib := (l, snd (lib c))\<rparr>)"
    and "Steps b = int (Suc n)" and "fst (Jitter b) > 0" and "fst (Factor b) \<noteq> 0"
  shows "\<exists>c'. calc_ExponentialBackoffWithForeverCap (\<lambda>d f (l, s). let (e, s) = jit d f s in (e, l, s)) b cond c
      = Some (Some ErrWaitTimeout, c')
    \<and> printed c' = printed c @ jittered jit b n (snd (lib c))
    \<and> maxRetrytime c' = total_seconds (maxRetrytime c) (jittered jit b n (snd (lib c)))"
  using assms(2-)
proof (induction n arbitrary: b c)
  case 0
  with cond [of c] show ?case
    by (subst calc_ExponentialBackoffWithForeverCap.simps) (auto simp: total_seconds_def)
next
  case (Suc n)
  let ?j = "\<lambda>d f (l :: go_error option, s). let (e, s) = jit d f s in (e, l, s)"
  obtain l where c: "cond c = Some ((False, None), c\<lparr>lib := (l, snd (lib c))\<rparr>)"
    using cond by blast
  obtain d s where d: "jit (Duration b) (Jitter b) (snd (lib c)) = (d, s)" by fastforce
  let ?b = "b\<lparr>Steps := Steps b - 1, Duration := next_duration b\<rparr>"
  let ?c = "add_step d (c\<lparr>lib := (l, s)\<rparr>)"
  have nd: "next_duration (b\<lparr>Steps := k\<rparr>) = next_duration b" for k
    by (simp add: next_duration_def Let_def)
  have "calc_ExponentialBackoffWithForeverCap ?j b cond c = calc_ExponentialBackoffWithForeverCap ?j ?b cond ?c"
    using Suc.prems c d
    by (subst calc_ExponentialBackoffWithForeverCap.simps)
      (simp add: calc_Step_eq Step_def calc_jitter_def nd)
  moreover have "jittered jit ?b n s = jittered jit (b\<lparr>Duration := next_duration b\<rparr>) n s"
    using jittered_cong [of jit "Steps b - 1" "b\<lparr>Duration := next_duration b\<rparr>" n s] by (cases b) simp
  ultimately show ?case
    using Suc.IH [of ?b ?c] Suc.prems d by (simp add: add_step_def total_seconds_def)
qed

text \<open>What the program prints: the nineteen sleeps between twenty checks, and their sum.\<close>

lemma calc_main_prints:
  "calc_main jit s =
     (let ds = jittered jit calc_ErrorBackoff 19 s
      in Some (ds, ''Total max retry time is '' @ secondsToHuman (floatToInt (total_seconds (0, 0) ds)) @ [CHR 0x0A]))"
proof -
  have "\<exists>l. calc_condition (\<lambda>err. True) (\<lambda>s. Some (Some (Errorf ''err''), s)) c
      = Some ((False, None), c\<lparr>lib := (l, snd (lib c))\<rparr>)" for c :: "(go_error option \<times> 'a) calc"
    by (auto simp: calc_condition_def)
  from calc_loop_fails [OF this, of calc_ErrorBackoff 19 jit "\<lparr>maxRetrytime = (0, 0), printed = [], lib = (None, s)\<rparr>"]
  show ?thesis
    by (auto simp: calc_main_def calc_OnErrorForever_def calc_ErrorBackoff_def Let_def)
qed

text \<open>The sleeps without jitter.\<close>

lemma jittered_id: "jittered (\<lambda>d f s. (d, s)) b n s = map (schedule b) [0..<n]"
  by (induction n arbitrary: b) (simp_all add: upt_conv_Cons map_Suc_upt [symmetric] comp_def del: upt_Suc)

lemma schedule_Steps: "schedule (b\<lparr>Steps := k\<rparr>) n = schedule b n"
proof (induction n arbitrary: b)
  case (Suc n)
  have "next_duration (b\<lparr>Steps := k\<rparr>) = next_duration b"
    by (simp add: next_duration_def Let_def)
  moreover have "schedule (b\<lparr>Steps := k, Duration := d\<rparr>) n = schedule (b\<lparr>Duration := d\<rparr>) n" for d
    using Suc.IH [of "b\<lparr>Duration := d\<rparr>"] by (cases b) simp
  ultimately show ?case
    by simp
qed simp

lemma calc_schedule: "schedule calc_ErrorBackoff = schedule ErrorBackoff"
  using schedule_Steps [of 20 ErrorBackoff] by (intro ext) (simp add: ErrorBackoff_def calc_ErrorBackoff_def)

lemma schedule_capped: "schedule ErrorBackoff (32 + n) = 300000000000"
proof -
  have add: "schedule b (m + n) = schedule (b\<lparr>Duration := schedule b m\<rparr>) n" for b m
  proof (induction m arbitrary: b)
    case (Suc m)
    from Suc [of "b\<lparr>Duration := next_duration b\<rparr>"] show ?case by simp
  qed simp
  have "schedule (ErrorBackoff\<lparr>Duration := 300000000000\<rparr>) n = 300000000000"
    by (induction n) (simp_all add: schedule_eval ErrorBackoff_def)
  with add [of ErrorBackoff 32] show ?thesis
    by (simp only: ErrorBackoff_cap)
qed

lemma controller_sleeps:
  "155700 * 1000000000 \<le> (\<Sum>i<551. schedule ErrorBackoff i)" "(\<Sum>i<551. schedule ErrorBackoff i) \<le> 165300 * 1000000000"
proof -
  have "(\<Sum>i<m + n. f i) = (\<Sum>i<m. f i) + (\<Sum>i<n. f (m + i))" for f :: "nat \<Rightarrow> nat" and m n
    by (induction n) simp_all
  from this [of "schedule ErrorBackoff" 32 519]
  show "155700 * 1000000000 \<le> (\<Sum>i<551. schedule ErrorBackoff i)"
    by (simp add: schedule_capped)
  have "(\<Sum>i<551. schedule ErrorBackoff i) \<le> (\<Sum>i<551::nat. 300000000000)"
    using schedule_Cap [of ErrorBackoff] by (intro sum_mono) simp
  then show "(\<Sum>i<551. schedule ErrorBackoff i) \<le> 165300 * 1000000000"
    by simp
qed

lemma durations_numeral:
  "map (schedule b) [0..<numeral k] =
   Duration b # map (schedule (b\<lparr>Duration := next_duration b\<rparr>)) [0..<pred_numeral k]"
  by (simp add: numeral_eq_Suc upt_conv_Cons map_Suc_upt [symmetric] comp_def del: upt_Suc)

lemma calc_durations:
  "map (schedule ErrorBackoff) [0..<19] =
    [1000000000, 1200000000, 1440000000, 1728000000,
     2073600000, 2488320000, 2985984000, 3583180800, 4299816960, 5159780352,
     6191736422, 7430083706, 8916100447, 10699320536, 12839184643,
     15407021571, 18488425885, 22186111062, 26623333274]"
  by (simp add: durations_numeral schedule_eval ErrorBackoff_def)

text \<open>So the total the calculator announces is that of 155 seconds, while the 551 sleeps of the
  controller's \<open>ErrorBackoff\<close> take between 43 and 46 hours, before jitter.\<close>

lemma calc_sleeps: "sum_list (map (schedule calc_ErrorBackoff) [0..<19]) = 154739999658"
  unfolding calc_schedule calc_durations by simp

end
