(* ===== verification/Go_Heap.thy ===== *)
theory Go_Heap
  imports Go_Prelude
begin

text \<open>
  Pointers and slices of Go, for the generated deep copies: a heap of cells with the next
  free reference, pointers that may be nil, slices as windows of an array cell. A \<open>view\<close>
  reads what a value denotes together with the references it goes through; the locale
  \<open>deep_copy\<close> states what a copying function promises about views, and is closed under
  pointers and slices, so that the contract of a struct follows from that of its fields.
\<close>

type_synonym ref = nat

record 'c heap =
  Cells :: "ref \<Rightarrow> 'c option"
  Next :: ref

definition heap_ok :: "'c heap \<Rightarrow> bool" where
  "heap_ok h \<longleftrightarrow> (\<forall>r. Next h \<le> r \<longrightarrow> Cells h r = None)"

definition new_cell :: "'c \<Rightarrow> 'c heap \<Rightarrow> ref \<times> 'c heap" where
  "new_cell c h = (Next h, h\<lparr>Cells := (Cells h)(Next h \<mapsto> c), Next := Suc (Next h)\<rparr>)"

definition store_cell :: "ref \<Rightarrow> 'c \<Rightarrow> 'c heap \<Rightarrow> 'c heap" where
  "store_cell r c h = h\<lparr>Cells := (Cells h)(r \<mapsto> c)\<rparr>"

definition extends :: "'c heap \<Rightarrow> 'c heap \<Rightarrow> bool" where
  "extends h h' \<longleftrightarrow> Next h \<le> Next h' \<and> (\<forall>r < Next h. Cells h' r = Cells h r)"

lemma extends_refl [simp]: "extends h h"
  by (simp add: extends_def)

lemma extends_trans [trans]: "extends h h' \<Longrightarrow> extends h' h'' \<Longrightarrow> extends h h''"
  by (auto simp: extends_def)

lemma extends_Next: "extends h h' \<Longrightarrow> Next h \<le> Next h'"
  by (simp add: extends_def)

lemma new_cell_ok:
  assumes "heap_ok h" and "new_cell c h = (r, h')"
  shows "heap_ok h'" and "extends h h'" and "r = Next h" and "Next h' = Suc (Next h)"
    and "Cells h' r = Some c"
  using assms by (auto simp: new_cell_def heap_ok_def extends_def)

lemma store_Cells [simp]: "Cells (store_cell r c h) = (Cells h)(r \<mapsto> c)" "Next (store_cell r c h) = Next h"
  by (simp_all add: store_cell_def)

lemma store_ok: "heap_ok h \<Longrightarrow> r < Next h \<Longrightarrow> heap_ok (store_cell r c h)"
  by (auto simp: heap_ok_def)

lemma extends_store: "extends h h' \<Longrightarrow> Next h \<le> r \<Longrightarrow> extends h (store_cell r c h')"
  by (auto simp: extends_def)

text \<open>What a value denotes, and the references it owns.\<close>

type_synonym ('c, 'm, 'v) view = "'c heap \<Rightarrow> 'm \<Rightarrow> ('v \<times> ref set) option"
type_synonym ('c, 'm) copier = "'m \<Rightarrow> 'c heap \<Rightarrow> ('m \<times> 'c heap) option"

locale deep_copy =
  fixes view :: "('c, 'm, 'v) view" and copy :: "('c, 'm) copier"
  assumes view_local: "view h m = Some (v, F) \<Longrightarrow> (\<And>r. r \<in> F \<Longrightarrow> Cells h' r = Cells h r)
      \<Longrightarrow> view h' m = Some (v, F)"
    and view_cells: "view h m = Some (v, F) \<Longrightarrow> r \<in> F \<Longrightarrow> Cells h r \<noteq> None"
    and copies: "heap_ok h \<Longrightarrow> view h m = Some (v, F) \<Longrightarrow>
      \<exists>m' h' F'. copy m h = Some (m', h') \<and> heap_ok h' \<and> extends h h'
        \<and> view h' m' = Some (v, F') \<and> F' \<subseteq> {Next h..<Next h'}"
begin

lemma view_below: "heap_ok h \<Longrightarrow> view h m = Some (v, F) \<Longrightarrow> F \<subseteq> {..<Next h}"
  unfolding heap_ok_def using view_cells [of h m v F] by (meson lessThan_iff not_less subsetI)

lemma view_extends: "heap_ok h \<Longrightarrow> extends h h' \<Longrightarrow> view h m = Some (v, F) \<Longrightarrow> view h' m = Some (v, F)"
  using view_below [of h m v F] by (auto simp: extends_def intro!: view_local [of h m v F h'])

text \<open>The original reads as before, owns nothing the copy owns, and stays the same
  whatever is written into the cells of the copy; and the other way round.\<close>

theorem independent:
  assumes "heap_ok h" and "view h m = Some (v, F)"
  shows "\<exists>m' h' F'. copy m h = Some (m', h') \<and> heap_ok h'
    \<and> view h' m' = Some (v, F') \<and> view h' m = Some (v, F)
    \<and> F \<inter> F' = {}
    \<and> (\<forall>g. (\<forall>r. r \<notin> F' \<longrightarrow> Cells g r = Cells h' r) \<longrightarrow> view g m = Some (v, F))
    \<and> (\<forall>g. (\<forall>r. r \<notin> F \<longrightarrow> Cells g r = Cells h' r) \<longrightarrow> view g m' = Some (v, F'))"
proof -
  obtain m' h' F' where c: "copy m h = Some (m', h')" and h': "heap_ok h'" and e: "extends h h'"
    and v': "view h' m' = Some (v, F')" and "F' \<subseteq> {Next h..<Next h'}"
    using copies [OF assms] by blast
  moreover have v: "view h' m = Some (v, F)"
    using view_extends [OF assms(1) e assms(2)] .
  ultimately have d: "F \<inter> F' = {}"
    using view_below [OF assms] by fastforce
  have "view g m = Some (v, F)" if "\<forall>r. r \<notin> F' \<longrightarrow> Cells g r = Cells h' r" for g
    using that d by (intro view_local [OF v]) blast
  moreover have "view g m' = Some (v, F')" if "\<forall>r. r \<notin> F \<longrightarrow> Cells g r = Cells h' r" for g
    using that d by (intro view_local [OF v']) blast
  ultimately show ?thesis
    using c h' v v' d by blast
qed

end

section \<open>Values without references\<close>

definition flat_view :: "('m \<Rightarrow> 'v) \<Rightarrow> ('c, 'm, 'v) view" where
  "flat_view f h m = Some (f m, {})"

lemma flat_copy: "(\<And>m h. copy m h = Some (m, h)) \<Longrightarrow> deep_copy (flat_view f) copy"
  by unfold_locales (auto simp: flat_view_def)

section \<open>Pointers\<close>

text \<open>\<open>if in == nil \{ return nil \}\<close>, \<open>out := new(T)\<close>, \<open>in.DeepCopyInto(out)\<close>: every
  \<open>DeepCopyInto\<close> starts with \<open>*out = *in\<close>, which is what the new cell holds first.
  A cell type is an injection \<open>mk\<close> into the cells with its inverse \<open>un\<close>.\<close>

definition view_ptr :: "('c \<Rightarrow> 'm option) \<Rightarrow> ('c, 'm, 'v) view \<Rightarrow> ('c, ref option, 'v option) view" where
  "view_ptr un view h p = (case p of
     None \<Rightarrow> Some (None, {})
   | Some r \<Rightarrow> do {
       c \<leftarrow> Cells h r;
       m \<leftarrow> un c;
       (v, F) \<leftarrow> view h m;
       Some (Some v, insert r F) })"

definition copy_ptr :: "('m \<Rightarrow> 'c) \<Rightarrow> ('c \<Rightarrow> 'm option) \<Rightarrow> ('c, 'm) copier \<Rightarrow> ('c, ref option) copier" where
  "copy_ptr mk un copy p h = (case p of
     None \<Rightarrow> Some (None, h)
   | Some r \<Rightarrow> do {
       c \<leftarrow> Cells h r;
       m \<leftarrow> un c;
       let (q, h1) = new_cell (mk m) h;
       (m', h2) \<leftarrow> copy m h1;
       Some (Some q, store_cell q (mk m') h2) })"

context deep_copy begin

lemma ptr_view_local:
  "view_ptr un view h p = Some (v, F) \<Longrightarrow> (\<And>r. r \<in> F \<Longrightarrow> Cells h' r = Cells h r)
    \<Longrightarrow> view_ptr un view h' p = Some (v, F)"
proof (cases p)
  case None
  then show "view_ptr un view h p = Some (v, F) \<Longrightarrow> view_ptr un view h' p = Some (v, F)"
    by (simp add: view_ptr_def)
next
  case (Some q)
  assume "view_ptr un view h p = Some (v, F)" and eq: "\<And>r. r \<in> F \<Longrightarrow> Cells h' r = Cells h r"
  with Some obtain c m u G where "Cells h q = Some c" and "un c = Some m"
    and u: "view h m = Some (u, G)" and vF: "v = Some u" "F = insert q G"
    by (auto simp: view_ptr_def elim!: bind_SomeE)
  moreover have "view h' m = Some (u, G)"
    using eq vF by (intro view_local [OF u]) auto
  ultimately show "view_ptr un view h' p = Some (v, F)"
    using Some eq by (simp add: view_ptr_def)
qed

lemma ptr_view_cells:
  "view_ptr un view h p = Some (v, F) \<Longrightarrow> r \<in> F \<Longrightarrow> Cells h r \<noteq> None"
  by (auto simp: view_ptr_def split: option.split_asm elim!: bind_SomeE dest: view_cells)

lemma ptr_copies:
  assumes un: "\<And>m. un (mk m) = Some m"
    and h: "heap_ok h" and v: "view_ptr un view h p = Some (v, F)"
  shows "\<exists>p' h' F'. copy_ptr mk un copy p h = Some (p', h') \<and> heap_ok h' \<and> extends h h'
    \<and> view_ptr un view h' p' = Some (v, F') \<and> F' \<subseteq> {Next h..<Next h'}"
proof (cases p)
  case None
  with h v show ?thesis by (simp add: view_ptr_def copy_ptr_def)
next
  case (Some r)
  with v obtain c m u G where c: "Cells h r = Some c" and m: "un c = Some m"
    and u: "view h m = Some (u, G)" and vu: "v = Some u"
    by (auto simp: view_ptr_def elim!: bind_SomeE)
  obtain q h1 where n: "new_cell (mk m) h = (q, h1)" by fastforce
  note n1 = new_cell_ok [OF h n]
  have "view h1 m = Some (u, G)"
    using view_extends [OF h n1(2) u] .
  from copies [OF n1(1) this] obtain m' h2 G' where m': "copy m h1 = Some (m', h2)"
    and h2: "heap_ok h2" "extends h1 h2" "view h2 m' = Some (u, G')" "G' \<subseteq> {Next h1..<Next h2}"
    by blast
  have e: "extends h h2" and q: "q < Next h2" "q \<notin> G'"
    using n1 h2 by (auto intro: extends_trans dest: extends_Next)
  have "view (store_cell q (mk m') h2) m' = Some (u, G')"
    using q by (intro view_local [OF h2(3)]) auto
  then have "view_ptr un view (store_cell q (mk m') h2) (Some q) = Some (v, insert q G')"
    by (simp add: view_ptr_def un vu)
  moreover have "insert q G' \<subseteq> {Next h..<Next (store_cell q (mk m') h2)}"
    using n1 h2(2,4) q by (auto dest: extends_Next)
  ultimately show ?thesis
    using Some c m n m' h2 q n1 e
    by (auto simp: copy_ptr_def intro!: store_ok extends_store)
qed

theorem ptr_copy:
  assumes "\<And>m. un (mk m) = Some m"
  shows "deep_copy (view_ptr un view) (copy_ptr mk un copy)"
  by (rule deep_copy.intro)
    (fact ptr_view_local, fact ptr_view_cells, fact ptr_copies [OF assms])

end

section \<open>Slices\<close>

text \<open>A slice is nil or a window (offset and length) of an array.\<close>

datatype slice = NilSlice | Slice ref nat nat

definition slice_elems :: "('c \<Rightarrow> 'e list option) \<Rightarrow> 'c heap \<Rightarrow> slice \<Rightarrow> (ref \<times> 'e list) option option" where
  "slice_elems un h s = (case s of
     NilSlice \<Rightarrow> Some None
   | Slice a off n \<Rightarrow> do {
       c \<leftarrow> Cells h a;
       xs \<leftarrow> un c;
       if off + n \<le> length xs then Some (Some (a, take n (drop off xs))) else None })"

text \<open>The elements of a slice, each with the references it owns.\<close>

definition view_all :: "('m \<Rightarrow> ('v \<times> ref set) option) \<Rightarrow> 'm list \<Rightarrow> ('v list \<times> ref set) option" where
  "view_all f xs = map_option (\<lambda>ps. (map fst ps, \<Union> (snd ` set ps))) (those (map f xs))"

definition view_slice :: "('c \<Rightarrow> 'e list option) \<Rightarrow> ('c, 'e, 'v) view \<Rightarrow> ('c, slice, 'v list option) view" where
  "view_slice un view h s = do {
     e \<leftarrow> slice_elems un h s;
     case e of
       None \<Rightarrow> Some (None, {})
     | Some (a, xs) \<Rightarrow> do {
         (vs, F) \<leftarrow> view_all (view h) xs;
         Some (Some vs, insert a F) } }"

text \<open>\<open>*out = make([]string, len(*in))\<close>, \<open>copy(*out, *in)\<close>.\<close>

definition copy_strings :: "(string list \<Rightarrow> 'c) \<Rightarrow> ('c \<Rightarrow> string list option) \<Rightarrow> ('c, slice) copier" where
  "copy_strings mk un s h = (case s of
     NilSlice \<Rightarrow> Some (NilSlice, h)
   | Slice a off n \<Rightarrow> do {
       let (b, h1) = new_cell (mk (replicate n '''')) h;
       c \<leftarrow> Cells h1 a;
       xs \<leftarrow> un c;
       Some (Slice b 0 n, store_cell b (mk (take n (drop off xs))) h1) })"

text \<open>\<open>make\<close>, and the loop \<open>for i := range *in\<close> that copies element \<open>i\<close> of the window
  into slot \<open>i\<close> of the new array.\<close>

definition load_slot :: "('c \<Rightarrow> 'e list option) \<Rightarrow> ref \<Rightarrow> nat \<Rightarrow> 'c heap \<Rightarrow> 'e option" where
  "load_slot un a i h = do {
     c \<leftarrow> Cells h a;
     xs \<leftarrow> un c;
     if i < length xs then Some (xs ! i) else None }"

definition store_slot :: "('e list \<Rightarrow> 'c) \<Rightarrow> ('c \<Rightarrow> 'e list option) \<Rightarrow> ref \<Rightarrow> nat \<Rightarrow> 'e \<Rightarrow> 'c heap \<Rightarrow> 'c heap option" where
  "store_slot mk un b i y h = do {
     c \<leftarrow> Cells h b;
     ys \<leftarrow> un c;
     if i < length ys then Some (store_cell b (mk (ys[i := y])) h) else None }"

fun copy_slots ::
  "('e list \<Rightarrow> 'c) \<Rightarrow> ('c \<Rightarrow> 'e list option) \<Rightarrow> ('c, 'e) copier \<Rightarrow> ref \<Rightarrow> nat \<Rightarrow> ref \<Rightarrow> nat list \<Rightarrow> 'c heap
   \<Rightarrow> 'c heap option"
where
  "copy_slots mk un copy a off b [] h = Some h"
| "copy_slots mk un copy a off b (i # is) h = do {
     x \<leftarrow> load_slot un a (off + i) h;
     (y, h1) \<leftarrow> copy x h;
     h2 \<leftarrow> store_slot mk un b i y h1;
     copy_slots mk un copy a off b is h2 }"

definition copy_slice ::
  "('e list \<Rightarrow> 'c) \<Rightarrow> ('c \<Rightarrow> 'e list option) \<Rightarrow> 'e \<Rightarrow> ('c, 'e) copier \<Rightarrow> ('c, slice) copier"
where
  "copy_slice mk un zero copy s h = (case s of
     NilSlice \<Rightarrow> Some (NilSlice, h)
   | Slice a off n \<Rightarrow> do {
       let (b, h1) = new_cell (mk (replicate n zero)) h;
       h2 \<leftarrow> copy_slots mk un copy a off b [0..<n] h1;
       Some (Slice b 0 n, h2) })"

lemma those_map_Some: "those (map f xs) = Some ps \<longleftrightarrow> map f xs = map Some ps"
  by (induction xs arbitrary: ps) (auto split: option.splits simp: Cons_eq_map_conv)

lemma view_allE:
  assumes "view_all f xs = Some (vs, F)"
  obtains G where "length vs = length xs" and "\<And>i. i < length xs \<Longrightarrow> f (xs ! i) = Some (vs ! i, G i)"
    and "F = (\<Union>i<length xs. G i)"
proof -
  from assms obtain ps where ps: "map f xs = map Some ps" and v: "vs = map fst ps" "F = \<Union> (snd ` set ps)"
    by (auto simp: view_all_def those_map_Some)
  have l: "length ps = length xs"
    using arg_cong [OF ps, of length] by simp
  have "f (xs ! i) = Some (vs ! i, snd (ps ! i))" if "i < length xs" for i
    using arg_cong [OF ps, of "\<lambda>l. l ! i"] that l v by simp
  moreover have "F = (\<Union>i<length xs. snd (ps ! i))"
    using l v(2) by (auto simp: set_conv_nth)
  ultimately show ?thesis
    using that [of "\<lambda>i. snd (ps ! i)"] l v by simp
qed

lemma view_allI:
  assumes "length vs = length xs" and "\<And>i. i < length xs \<Longrightarrow> f (xs ! i) = Some (vs ! i, G i)"
  shows "view_all f xs = Some (vs, \<Union>i<length xs. G i)"
proof -
  let ?ps = "map (\<lambda>i. (vs ! i, G i)) [0..<length xs]"
  have "map f xs = map Some ?ps"
    by (rule nth_equalityI) (simp_all add: assms)
  then have "those (map f xs) = Some ?ps"
    by (simp only: those_map_Some)
  moreover have "map fst ?ps = vs"
    by (rule nth_equalityI) (simp_all add: assms)
  moreover have "\<Union> (snd ` set ?ps) = (\<Union>i<length xs. G i)"
    by auto
  ultimately show ?thesis
    by (simp only: view_all_def option.map)
qed

lemma view_all_local:
  assumes all: "view_all f xs = Some (vs, U)"
    and eq: "\<And>x v F. f x = Some (v, F) \<Longrightarrow> F \<subseteq> U \<Longrightarrow> g x = Some (v, F)"
  shows "view_all g xs = Some (vs, U)"
proof -
  obtain ps where ps: "map f xs = map Some ps" and U: "U = \<Union> (snd ` set ps)"
    using all by (auto simp: view_all_def those_map_Some)
  have "g x = f x" if "x \<in> set xs" for x
  proof -
    have "f x \<in> set (map f xs)"
      using that by simp
    then obtain p where "p \<in> set ps" and "f x = Some p"
      unfolding ps by auto
    then show ?thesis
      using eq [of x "fst p" "snd p"] U by (auto simp: Union_upper)
  qed
  then have "map g xs = map f xs"
    by (intro map_cong refl)
  with all show ?thesis
    by (simp only: view_all_def)
qed

text \<open>The window of a slice, as the loop sees it.\<close>

lemma slice_elems_SomeE:
  assumes "slice_elems un h (Slice a off n) = Some e"
  obtains c xs where "Cells h a = Some c" and "un c = Some xs" and "off + n \<le> length xs"
    and "e = Some (a, take n (drop off xs))"
  using assms by (auto simp: slice_elems_def split: if_split_asm elim!: bind_SomeE)

context deep_copy begin

lemma slice_view_local:
  assumes "view_slice un view h s = Some (v, F)" and "\<And>r. r \<in> F \<Longrightarrow> Cells h' r = Cells h r"
  shows "view_slice un view h' s = Some (v, F)"
proof (cases s)
  case NilSlice
  with assms(1) show ?thesis by (simp add: view_slice_def slice_elems_def)
next
  case (Slice a off n)
  with assms(1) obtain c xs vs U where c: "Cells h a = Some c" "un c = Some xs" "off + n \<le> length xs"
    and U: "view_all (view h) (take n (drop off xs)) = Some (vs, U)" and vF: "v = Some vs" "F = insert a U"
    by (auto simp: view_slice_def elim!: bind_SomeE slice_elems_SomeE)
  have "view_all (view h') (take n (drop off xs)) = Some (vs, U)"
    by (rule view_all_local [OF U], rule view_local, assumption) (use vF assms(2) in blast)
  with c vF assms(2) Slice show ?thesis
    by (simp add: view_slice_def slice_elems_def)
qed

lemma slice_view_cells:
  assumes "view_slice un view h s = Some (v, F)" and "r \<in> F"
  shows "Cells h r \<noteq> None"
proof (cases s)
  case NilSlice
  with assms show ?thesis by (simp add: view_slice_def slice_elems_def)
next
  case (Slice a off n)
  with assms(1) obtain c xs vs U where "Cells h a = Some c" "un c = Some xs" "off + n \<le> length xs"
    and U: "view_all (view h) (take n (drop off xs)) = Some (vs, U)" and "F = insert a U"
    by (auto simp: view_slice_def elim!: bind_SomeE slice_elems_SomeE)
  moreover have "Cells h r \<noteq> None" if "r \<in> U"
    using U that by (auto elim!: view_allE dest: view_cells)
  ultimately show ?thesis
    using assms(2) by auto
qed

end

text \<open>A value without references can be handed over as it is.\<close>

interpretation flat: deep_copy "flat_view f" "\<lambda>m h. Some (m, h)" for f
  by (rule flat_copy) simp

lemma view_all_flat: "view_all (flat_view f h) xs = Some (map f xs, {})"
proof -
  have "view_all (flat_view f h) xs = Some (map f xs, \<Union>i<length xs. {})"
    by (rule view_allI) (simp_all add: flat_view_def)
  then show ?thesis by simp
qed

theorem strings_copy:
  assumes un: "\<And>xs. un (mk xs) = Some xs"
  shows "deep_copy (view_slice un (flat_view (\<lambda>x. x))) (copy_strings mk un)"
proof (rule deep_copy.intro, fact flat.slice_view_local, fact flat.slice_view_cells)
  fix h :: "'a heap" and s v F
  assume h: "heap_ok h" and v: "view_slice un (flat_view (\<lambda>x. x)) h s = Some (v, F)"
  show "\<exists>s' h' F'. copy_strings mk un s h = Some (s', h') \<and> heap_ok h' \<and> extends h h'
    \<and> view_slice un (flat_view (\<lambda>x. x)) h' s' = Some (v, F') \<and> F' \<subseteq> {Next h..<Next h'}"
  proof (cases s)
    case NilSlice
    with h v show ?thesis
      by (simp add: view_slice_def slice_elems_def copy_strings_def)
  next
    case (Slice a off n)
    with v obtain c xs where c: "Cells h a = Some c" "un c = Some xs" "off + n \<le> length xs"
      and vs: "v = Some (take n (drop off xs))"
      by (auto simp: view_slice_def view_all_flat elim!: bind_SomeE slice_elems_SomeE)
    obtain b h1 where n: "new_cell (mk (replicate n '''')) h = (b, h1)" by fastforce
    note n1 = new_cell_ok [OF h n]
    have "a < Next h"
      using h c(1) by (force simp: heap_ok_def not_less [symmetric])
    then have "Cells h1 a = Some c"
      using n1(2) c(1) by (simp add: extends_def)
    then show ?thesis
      using Slice c n n1 vs
      by (auto simp: copy_strings_def view_slice_def slice_elems_def un view_all_flat
          intro!: store_ok extends_store)
  qed
qed

text \<open>The loop over the slots, with what holds after \<open>k\<close> of them.\<close>

definition slots_done ::
  "('c, 'e, 'v) view \<Rightarrow> ('e list \<Rightarrow> 'c) \<Rightarrow> 'v list \<Rightarrow> 'c heap \<Rightarrow> ref \<Rightarrow> nat \<Rightarrow> nat \<Rightarrow> 'c heap \<Rightarrow> 'e list \<Rightarrow> bool"
where
  "slots_done view mk vs h0 b n k h ys \<longleftrightarrow>
     heap_ok h \<and> extends h0 h \<and> b < Next h \<and> Cells h b = Some (mk ys) \<and> length ys = n
     \<and> (\<forall>i<k. \<exists>F. view h (ys ! i) = Some (vs ! i, F) \<and> F \<subseteq> {Suc b..<Next h})"

context deep_copy begin

lemma copy_slot_ok:
  assumes un: "\<And>xs. un (mk xs) = Some xs"
    and h0: "heap_ok h0" and c: "Cells h0 a = Some c" "un c = Some xs" "off + n \<le> length xs"
    and el: "view h0 (xs ! (off + k)) = Some (vs ! k, G)" and b: "Next h0 \<le> b" and k: "k < n"
    and inv: "slots_done view mk vs h0 b n k h ys"
  shows "\<exists>y h1. load_slot un a (off + k) h = Some (xs ! (off + k)) \<and> copy (xs ! (off + k)) h = Some (y, h1)
    \<and> store_slot mk un b k y h1 = Some (store_cell b (mk (ys[k := y])) h1)
    \<and> slots_done view mk vs h0 b n (Suc k) (store_cell b (mk (ys[k := y])) h1) (ys[k := y])"
proof -
  have h: "heap_ok h" and e: "extends h0 h" and bh: "b < Next h" "Cells h b = Some (mk ys)"
    and l: "length ys = n"
    and old: "\<And>i. i < k \<Longrightarrow> \<exists>F. view h (ys ! i) = Some (vs ! i, F) \<and> F \<subseteq> {Suc b..<Next h}"
    using inv by (auto simp: slots_done_def)
  have "a < Next h0"
    using h0 c(1) by (force simp: heap_ok_def not_less [symmetric])
  then have load: "load_slot un a (off + k) h = Some (xs ! (off + k))"
    using c k e by (simp add: load_slot_def extends_def)
  have "view h (xs ! (off + k)) = Some (vs ! k, G)"
    using view_extends [OF h0 e el] .
  from copies [OF h this] obtain y h1 F where y: "copy (xs ! (off + k)) h = Some (y, h1)"
    and h1: "heap_ok h1" "extends h h1" "view h1 y = Some (vs ! k, F)" "F \<subseteq> {Next h..<Next h1}"
    by blast
  let ?h2 = "store_cell b (mk (ys[k := y])) h1"
  have b1: "b < Next h1" "Cells h1 b = Some (mk ys)"
    using bh h1(2) by (auto simp: extends_def)
  have keep: "view ?h2 m = Some (u, U)" if "view h1 m = Some (u, U)" "U \<subseteq> {Suc b..<Next h1}" for m u U
    using that by (intro view_local [OF that(1)]) auto
  have F: "F \<subseteq> {Suc b..<Next h1}"
    using h1(4) bh(1) by auto
  have "\<exists>F. view ?h2 (ys[k := y] ! i) = Some (vs ! i, F) \<and> F \<subseteq> {Suc b..<Next h1}" if i: "i < Suc k" for i
  proof (cases "i = k")
    case True
    with keep [OF h1(3) F] F k l show ?thesis by auto
  next
    case False
    with i old obtain U where U: "view h (ys ! i) = Some (vs ! i, U)" "U \<subseteq> {Suc b..<Next h}"
      by (meson less_Suc_eq)
    moreover from this have "U \<subseteq> {Suc b..<Next h1}"
      using extends_Next [OF h1(2)] by auto
    ultimately show ?thesis
      using keep [OF view_extends [OF h h1(2)]] False by auto
  qed
  then have "slots_done view mk vs h0 b n (Suc k) ?h2 (ys[k := y])"
    using h1 e b1 b l
    by (auto simp: slots_done_def intro!: store_ok extends_store intro: extends_trans)
  moreover have "store_slot mk un b k y h1 = Some ?h2"
    using b1 l k by (simp add: store_slot_def un)
  ultimately show ?thesis
    using load y by blast
qed

lemma copy_slots_ok:
  assumes un: "\<And>xs. un (mk xs) = Some xs"
    and h0: "heap_ok h0" and c: "Cells h0 a = Some c" "un c = Some xs" "off + n \<le> length xs"
    and el: "\<And>i. i < n \<Longrightarrow> view h0 (xs ! (off + i)) = Some (vs ! i, G i)" and b: "Next h0 \<le> b"
    and "k \<le> n" and "slots_done view mk vs h0 b n k h ys"
  shows "\<exists>h' ys'. copy_slots mk un copy a off b [k..<n] h = Some h' \<and> slots_done view mk vs h0 b n n h' ys'"
  using assms(8-)
proof (induction k arbitrary: h ys rule: inc_induct)
  case base
  then show ?case by auto
next
  case (step k)
  from copy_slot_ok [OF un h0 c el [OF step.hyps(2)] b step.hyps(2) step.prems]
  obtain y h1 where "load_slot un a (off + k) h = Some (xs ! (off + k))"
    "copy (xs ! (off + k)) h = Some (y, h1)"
    "store_slot mk un b k y h1 = Some (store_cell b (mk (ys[k := y])) h1)"
    "slots_done view mk vs h0 b n (Suc k) (store_cell b (mk (ys[k := y])) h1) (ys[k := y])"
    by blast
  with step.IH [of "store_cell b (mk (ys[k := y])) h1" "ys[k := y]"] step.hyps show ?case
    by (simp add: upt_conv_Cons)
qed

theorem slice_copy:
  assumes un: "\<And>xs. un (mk xs) = Some xs"
  shows "deep_copy (view_slice un view) (copy_slice mk un zero copy)"
proof (rule deep_copy.intro, fact slice_view_local, fact slice_view_cells)
  fix h s v F
  assume h: "heap_ok h" and v: "view_slice un view h s = Some (v, F)"
  show "\<exists>s' h' F'. copy_slice mk un zero copy s h = Some (s', h') \<and> heap_ok h' \<and> extends h h'
    \<and> view_slice un view h' s' = Some (v, F') \<and> F' \<subseteq> {Next h..<Next h'}"
  proof (cases s)
    case NilSlice
    with h v show ?thesis
      by (simp add: view_slice_def slice_elems_def copy_slice_def)
  next
    case (Slice a off n)
    with v obtain c xs vs U where c: "Cells h a = Some c" "un c = Some xs" "off + n \<le> length xs"
      and U: "view_all (view h) (take n (drop off xs)) = Some (vs, U)" and vs: "v = Some vs"
      by (auto simp: view_slice_def elim!: bind_SomeE slice_elems_SomeE)
    from c(3) have len: "length (take n (drop off xs)) = n" by simp
    from U obtain G where lv: "length vs = n"
      and el: "\<And>i. i < n \<Longrightarrow> view h (xs ! (off + i)) = Some (vs ! i, G i)"
      using c(3) len by (auto elim!: view_allE)
    obtain b h1 where n: "new_cell (mk (replicate n zero)) h = (b, h1)" by fastforce
    note n1 = new_cell_ok [OF h n]
    have "slots_done view mk vs h b n 0 h1 (replicate n zero)"
      using n1 by (simp add: slots_done_def)
    from copy_slots_ok [OF un h c el _ _ this] n1 obtain h' ys
      where h': "copy_slots mk un copy a off b [0..<n] h1 = Some h'" and "slots_done view mk vs h b n n h' ys"
      by auto
    then have inv: "heap_ok h'" "extends h h'" "b < Next h'" "Cells h' b = Some (mk ys)" "length ys = n"
      and "\<And>i. i < n \<Longrightarrow> \<exists>F. view h' (ys ! i) = Some (vs ! i, F) \<and> F \<subseteq> {Suc b..<Next h'}"
      by (auto simp: slots_done_def)
    then obtain F where F: "\<And>i. i < n \<Longrightarrow> view h' (ys ! i) = Some (vs ! i, F i)"
      "\<And>i. i < n \<Longrightarrow> F i \<subseteq> {Suc b..<Next h'}"
      by metis
    then have "view_all (view h') ys = Some (vs, \<Union>i<n. F i)"
      using view_allI [of vs ys "view h'" F] lv inv(5) by simp
    then have "view_slice un view h' (Slice b 0 n) = Some (v, insert b (\<Union>i<n. F i))"
      using inv vs by (simp add: view_slice_def slice_elems_def un)
    moreover have "insert b (\<Union>i<n. F i) \<subseteq> {Next h..<Next h'}"
      using F(2) n1 inv(3) by fastforce
    ultimately show ?thesis
      using Slice n h' inv by (auto simp: copy_slice_def)
  qed
qed

end

section \<open>Structs\<close>

text \<open>Two fields copied one after the other, and a struct as the tuple of its fields that
  hold references.\<close>

definition view_pair :: "('c, 'a, 'v) view \<Rightarrow> ('c, 'b, 'w) view \<Rightarrow> ('c, 'a \<times> 'b, 'v \<times> 'w) view" where
  "view_pair va vb h = (\<lambda>(a, b). do {
     (v, A) \<leftarrow> va h a;
     (w, B) \<leftarrow> vb h b;
     Some ((v, w), A \<union> B) })"

definition copy_pair :: "('c, 'a) copier \<Rightarrow> ('c, 'b) copier \<Rightarrow> ('c, 'a \<times> 'b) copier" where
  "copy_pair ca cb = (\<lambda>(a, b) h. do {
     (a', h1) \<leftarrow> ca a h;
     (b', h2) \<leftarrow> cb b h1;
     Some ((a', b'), h2) })"

lemma view_pair_SomeE:
  assumes "view_pair va vb h (a, b) = Some (u, F)"
  obtains v A w B where "va h a = Some (v, A)" and "vb h b = Some (w, B)" and "u = (v, w)" and "F = A \<union> B"
  using assms by (auto simp: view_pair_def elim!: bind_SomeE)

theorem pair_copy:
  assumes a: "deep_copy va ca" and b: "deep_copy vb cb"
  shows "deep_copy (view_pair va vb) (copy_pair ca cb)"
proof (rule deep_copy.intro)
  fix h h' :: "'a heap" and m u F
  assume "view_pair va vb h m = Some (u, F)" and eq: "\<And>r. r \<in> F \<Longrightarrow> Cells h' r = Cells h r"
  moreover obtain x y where m: "m = (x, y)" by (cases m)
  ultimately obtain v A w B where v: "va h x = Some (v, A)" "vb h y = Some (w, B)"
    and F: "u = (v, w)" "F = A \<union> B"
    by (auto elim!: view_pair_SomeE)
  have "va h' x = Some (v, A)"
    by (rule deep_copy.view_local [OF a v(1)]) (simp add: eq F)
  moreover have "vb h' y = Some (w, B)"
    by (rule deep_copy.view_local [OF b v(2)]) (simp add: eq F)
  ultimately show "view_pair va vb h' m = Some (u, F)"
    by (simp add: view_pair_def m F)
next
  show "view_pair va vb h m = Some (u, F) \<Longrightarrow> r \<in> F \<Longrightarrow> Cells h r \<noteq> None" for h m u F r
    by (cases m) (auto elim!: view_pair_SomeE dest: deep_copy.view_cells [OF a] deep_copy.view_cells [OF b])
next
  fix h m u F
  assume h: "heap_ok h" and "view_pair va vb h m = Some (u, F)"
  moreover obtain x y where m: "m = (x, y)" by (cases m)
  ultimately obtain v A w B where v: "va h x = Some (v, A)" "vb h y = Some (w, B)"
    and F: "u = (v, w)" "F = A \<union> B"
    by (auto elim!: view_pair_SomeE)
  obtain x' h1 A' where x: "ca x h = Some (x', h1)" "heap_ok h1" "extends h h1" "va h1 x' = Some (v, A')"
    "A' \<subseteq> {Next h..<Next h1}"
    using deep_copy.copies [OF a h v(1)] by blast
  obtain y' h2 B' where y: "cb y h1 = Some (y', h2)" "heap_ok h2" "extends h1 h2" "vb h2 y' = Some (w, B')"
    "B' \<subseteq> {Next h1..<Next h2}"
    using deep_copy.copies [OF b x(2) deep_copy.view_extends [OF b h x(3) v(2)]] by blast
  have "va h2 x' = Some (v, A')"
    using deep_copy.view_extends [OF a x(2) y(3) x(4)] .
  then have "view_pair va vb h2 (x', y') = Some (u, A' \<union> B')"
    using y(4) by (simp add: view_pair_def F)
  moreover have "A' \<union> B' \<subseteq> {Next h..<Next h2}"
    using x(3,5) y(3,5) by (auto dest!: extends_Next)
  ultimately show "\<exists>m' h' F'. copy_pair ca cb m h = Some (m', h') \<and> heap_ok h' \<and> extends h h'
    \<and> view_pair va vb h' m' = Some (u, F') \<and> F' \<subseteq> {Next h..<Next h'}"
    using m x y by (auto simp: copy_pair_def intro: extends_trans)
qed

context deep_copy begin

theorem struct_copy:
  assumes vw: "\<And>h s. vw h s = map_option (\<lambda>(v, F). (pack s v, F)) (view h (tup s))"
    and cp: "\<And>s h. cp s h = map_option (\<lambda>(x, h'). (upd x s, h')) (copy (tup s) h)"
    and tup: "\<And>x s. tup (upd x s) = x" and pack: "\<And>x s v. pack (upd x s) v = pack s v"
  shows "deep_copy vw cp"
proof (rule deep_copy.intro)
  show "vw h s = Some (v, F) \<Longrightarrow> (\<And>r. r \<in> F \<Longrightarrow> Cells h' r = Cells h r) \<Longrightarrow> vw h' s = Some (v, F)"
    for h h' s v F
  proof -
    assume "vw h s = Some (v, F)" and eq: "\<And>r. r \<in> F \<Longrightarrow> Cells h' r = Cells h r"
    then obtain u where "view h (tup s) = Some (u, F)" and "v = pack s u"
      by (auto simp: vw)
    with view_local [OF this(1), of h'] eq show ?thesis
      by (simp add: vw)
  qed
  show "vw h s = Some (v, F) \<Longrightarrow> r \<in> F \<Longrightarrow> Cells h r \<noteq> None" for h s v F r
    by (auto simp: vw dest: view_cells)
  fix h s v F
  assume h: "heap_ok h" and "vw h s = Some (v, F)"
  then obtain u where "view h (tup s) = Some (u, F)" and v: "v = pack s u"
    by (auto simp: vw)
  from copies [OF h this(1)] v
  show "\<exists>s' h' F'. cp s h = Some (s', h') \<and> heap_ok h' \<and> extends h h'
    \<and> vw h' s' = Some (v, F') \<and> F' \<subseteq> {Next h..<Next h'}"
    by (force simp: vw cp tup pack)
qed

end

end
