(* ===== verification/Deep_Copy.thy ===== *)
theory Deep_Copy
  imports Go_Heap Api_Types
begin

text \<open>
  The generated deep copies of the custom resources
  (\<open>pkg/apis/loadbalancing/v1alpha1/zz_generated.deepcopy.go\<close>) on a heap. The structs are
  those of \<open>Api_Types\<close> with their pointers and slices as references; \<open>DeepCopyInto\<close> of a
  type takes the value of \<open>*in\<close> and returns the value of \<open>*out\<close> with the heap after it. The
  deep copies of \<open>ObjectMeta\<close> and \<open>ListMeta\<close> are code of the API machinery: they are a
  parameter \<open>mc\<close>, of which \<open>metadata_copied\<close> says that they are deep copies. The rest of
  the development passes the resources as values: the theorems here are why a
  \<open>DeepCopy\<close> of the source is the identity there.
\<close>

section \<open>The structs in memory\<close>

text \<open>A struct with type variables is used twice: with references in memory, and with
  what they denote (a nil slice is not an empty one, so slices denote an \<open>option\<close>).\<close>

record TypeMeta =
  Kind :: string
  APIVersion :: string

record 'l ObjectMeta_of =
  MName :: string
  MNamespace :: string
  MResourceVersion :: string
  MLabels :: 'l

record 'i ListMeta_of =
  LResourceVersion :: string
  LContinue :: string
  LRemainingItemCount :: 'i

record CloudIntegrations_mem =
  HetznerPtr :: "ref option"

record PoolOptions_mem =
  HostNetworkInterfacePtr :: "ref option"

record ('s, 'c, 'o) PersistentIPPoolSpec_of =
  DPAddresses :: 's
  DPAllowedNamespaces :: 's
  DPCloudIntegration :: 'c
  DPOptions :: 'o

record ('s, 'c, 'o) EphemeralIPPoolSpec_of =
  DEAllowedNamespaces :: 's
  DECloudIntegration :: 'c
  DEOptions :: 'o

record 'a IPAllocationSpec_of =
  DType :: IPType
  DAllocations :: 'a

record ('m, 's, 't) object_of =
  DTypeMeta :: TypeMeta
  DObjectMeta :: 'm
  DSpec :: 's
  DStatus :: 't

record ('m, 'i) list_of =
  DListTypeMeta :: TypeMeta
  DListMeta :: 'm
  DItems :: 'i

type_synonym ObjectMeta_mem = "ref option ObjectMeta_of"
type_synonym ListMeta_mem = "ref option ListMeta_of"
type_synonym PersistentIPPoolSpec_mem = "(slice, ref option, ref option) PersistentIPPoolSpec_of"
type_synonym EphemeralIPPoolSpec_mem = "(slice, ref option, ref option) EphemeralIPPoolSpec_of"
type_synonym IPAllocationSpec_mem = "slice IPAllocationSpec_of"
type_synonym PersistentIPPool_mem = "(ObjectMeta_mem, PersistentIPPoolSpec_mem, IPPoolStatus) object_of"
type_synonym EphemeralIPPool_mem = "(ObjectMeta_mem, EphemeralIPPoolSpec_mem, IPPoolStatus) object_of"
type_synonym IPAllocation_mem = "(ObjectMeta_mem, IPAllocationSpec_mem, IPAllocationStatus) object_of"
type_synonym list_mem = "(ListMeta_mem, slice) list_of"

datatype cell =
    HetznerCloudCell HetznerCloud
  | HostNetworkInterfaceCell HostNetworkInterfaceOptions
  | IPPoolStatusCell IPPoolStatus
  | IPAllocationStatusCell IPAllocationStatus
  | IPAllocationAddressesCell IPAllocationAddresses
  | CloudIntegrationsCell CloudIntegrations_mem
  | PoolOptionsCell PoolOptions_mem
  | PersistentIPPoolSpecCell PersistentIPPoolSpec_mem
  | EphemeralIPPoolSpecCell EphemeralIPPoolSpec_mem
  | IPAllocationSpecCell IPAllocationSpec_mem
  | PersistentIPPoolCell PersistentIPPool_mem
  | EphemeralIPPoolCell EphemeralIPPool_mem
  | IPAllocationCell IPAllocation_mem
  | PersistentIPPoolListCell list_mem
  | EphemeralIPPoolListCell list_mem
  | IPAllocationListCell list_mem
  | StringsCell "string list"             \<comment> \<open>an array of strings\<close>
  | PointersCell "ref option list"        \<comment> \<open>an array of pointers\<close>
  | IPAllocationsCell "IPAllocation_mem list"
  | LabelsCell "(string \<times> string) list"  \<comment> \<open>a map\<close>
  | Int64Cell int

text \<open>What the cell of a reference holds, at each type.\<close>

definition un_HetznerCloud :: "cell \<Rightarrow> (HetznerCloud) option" where
  "un_HetznerCloud c = (case c of HetznerCloudCell x \<Rightarrow> Some x | _ \<Rightarrow> None)"

definition un_HostNetworkInterface :: "cell \<Rightarrow> (HostNetworkInterfaceOptions) option" where
  "un_HostNetworkInterface c = (case c of HostNetworkInterfaceCell x \<Rightarrow> Some x | _ \<Rightarrow> None)"

definition un_IPPoolStatus :: "cell \<Rightarrow> (IPPoolStatus) option" where
  "un_IPPoolStatus c = (case c of IPPoolStatusCell x \<Rightarrow> Some x | _ \<Rightarrow> None)"

definition un_IPAllocationStatus :: "cell \<Rightarrow> (IPAllocationStatus) option" where
  "un_IPAllocationStatus c = (case c of IPAllocationStatusCell x \<Rightarrow> Some x | _ \<Rightarrow> None)"

definition un_IPAllocationAddresses :: "cell \<Rightarrow> (IPAllocationAddresses) option" where
  "un_IPAllocationAddresses c = (case c of IPAllocationAddressesCell x \<Rightarrow> Some x | _ \<Rightarrow> None)"

definition un_CloudIntegrations :: "cell \<Rightarrow> (CloudIntegrations_mem) option" where
  "un_CloudIntegrations c = (case c of CloudIntegrationsCell x \<Rightarrow> Some x | _ \<Rightarrow> None)"

definition un_PoolOptions :: "cell \<Rightarrow> (PoolOptions_mem) option" where
  "un_PoolOptions c = (case c of PoolOptionsCell x \<Rightarrow> Some x | _ \<Rightarrow> None)"

definition un_PersistentIPPoolSpec :: "cell \<Rightarrow> (PersistentIPPoolSpec_mem) option" where
  "un_PersistentIPPoolSpec c = (case c of PersistentIPPoolSpecCell x \<Rightarrow> Some x | _ \<Rightarrow> None)"

definition un_EphemeralIPPoolSpec :: "cell \<Rightarrow> (EphemeralIPPoolSpec_mem) option" where
  "un_EphemeralIPPoolSpec c = (case c of EphemeralIPPoolSpecCell x \<Rightarrow> Some x | _ \<Rightarrow> None)"

definition un_IPAllocationSpec :: "cell \<Rightarrow> (IPAllocationSpec_mem) option" where
  "un_IPAllocationSpec c = (case c of IPAllocationSpecCell x \<Rightarrow> Some x | _ \<Rightarrow> None)"

definition un_PersistentIPPool :: "cell \<Rightarrow> (PersistentIPPool_mem) option" where
  "un_PersistentIPPool c = (case c of PersistentIPPoolCell x \<Rightarrow> Some x | _ \<Rightarrow> None)"

definition un_EphemeralIPPool :: "cell \<Rightarrow> (EphemeralIPPool_mem) option" where
  "un_EphemeralIPPool c = (case c of EphemeralIPPoolCell x \<Rightarrow> Some x | _ \<Rightarrow> None)"

definition un_IPAllocation :: "cell \<Rightarrow> (IPAllocation_mem) option" where
  "un_IPAllocation c = (case c of IPAllocationCell x \<Rightarrow> Some x | _ \<Rightarrow> None)"

definition un_PersistentIPPoolList :: "cell \<Rightarrow> (list_mem) option" where
  "un_PersistentIPPoolList c = (case c of PersistentIPPoolListCell x \<Rightarrow> Some x | _ \<Rightarrow> None)"

definition un_EphemeralIPPoolList :: "cell \<Rightarrow> (list_mem) option" where
  "un_EphemeralIPPoolList c = (case c of EphemeralIPPoolListCell x \<Rightarrow> Some x | _ \<Rightarrow> None)"

definition un_IPAllocationList :: "cell \<Rightarrow> (list_mem) option" where
  "un_IPAllocationList c = (case c of IPAllocationListCell x \<Rightarrow> Some x | _ \<Rightarrow> None)"

definition un_Strings :: "cell \<Rightarrow> (string list) option" where
  "un_Strings c = (case c of StringsCell x \<Rightarrow> Some x | _ \<Rightarrow> None)"

definition un_Pointers :: "cell \<Rightarrow> (ref option list) option" where
  "un_Pointers c = (case c of PointersCell x \<Rightarrow> Some x | _ \<Rightarrow> None)"

definition un_IPAllocations :: "cell \<Rightarrow> (IPAllocation_mem list) option" where
  "un_IPAllocations c = (case c of IPAllocationsCell x \<Rightarrow> Some x | _ \<Rightarrow> None)"

definition un_Labels :: "cell \<Rightarrow> ((string \<times> string) list) option" where
  "un_Labels c = (case c of LabelsCell x \<Rightarrow> Some x | _ \<Rightarrow> None)"

definition un_Int64 :: "cell \<Rightarrow> (int) option" where
  "un_Int64 c = (case c of Int64Cell x \<Rightarrow> Some x | _ \<Rightarrow> None)"

lemma un_cells [simp]:
  "un_HetznerCloud (HetznerCloudCell x0) = Some x0"
  "un_HostNetworkInterface (HostNetworkInterfaceCell x1) = Some x1"
  "un_IPPoolStatus (IPPoolStatusCell x2) = Some x2"
  "un_IPAllocationStatus (IPAllocationStatusCell x3) = Some x3"
  "un_IPAllocationAddresses (IPAllocationAddressesCell x4) = Some x4"
  "un_CloudIntegrations (CloudIntegrationsCell x5) = Some x5"
  "un_PoolOptions (PoolOptionsCell x6) = Some x6"
  "un_PersistentIPPoolSpec (PersistentIPPoolSpecCell x7) = Some x7"
  "un_EphemeralIPPoolSpec (EphemeralIPPoolSpecCell x8) = Some x8"
  "un_IPAllocationSpec (IPAllocationSpecCell x9) = Some x9"
  "un_PersistentIPPool (PersistentIPPoolCell x10) = Some x10"
  "un_EphemeralIPPool (EphemeralIPPoolCell x11) = Some x11"
  "un_IPAllocation (IPAllocationCell x12) = Some x12"
  "un_PersistentIPPoolList (PersistentIPPoolListCell x13) = Some x13"
  "un_EphemeralIPPoolList (EphemeralIPPoolListCell x14) = Some x14"
  "un_IPAllocationList (IPAllocationListCell x15) = Some x15"
  "un_Strings (StringsCell x16) = Some x16"
  "un_Pointers (PointersCell x17) = Some x17"
  "un_IPAllocations (IPAllocationsCell x18) = Some x18"
  "un_Labels (LabelsCell x19) = Some x19"
  "un_Int64 (Int64Cell x20) = Some x20"
  by (simp_all add: un_HetznerCloud_def un_HostNetworkInterface_def un_IPPoolStatus_def un_IPAllocationStatus_def un_IPAllocationAddresses_def un_CloudIntegrations_def un_PoolOptions_def un_PersistentIPPoolSpec_def un_EphemeralIPPoolSpec_def un_IPAllocationSpec_def un_PersistentIPPool_def un_EphemeralIPPool_def un_IPAllocation_def un_PersistentIPPoolList_def un_EphemeralIPPoolList_def un_IPAllocationList_def un_Strings_def un_Pointers_def un_IPAllocations_def un_Labels_def un_Int64_def)

section \<open>What the structs denote\<close>

text \<open>Types without references denote themselves.\<close>

abbreviation same_view :: "(cell, 'm, 'm) view" where
  "same_view \<equiv> flat_view (\<lambda>x. x)"

definition view_ObjectMeta :: "(cell, ObjectMeta_mem, (string \<times> string) list option ObjectMeta_of) view" where
  "view_ObjectMeta h m = do {
     (l, L) \<leftarrow> view_ptr un_Labels same_view h (MLabels m);
     Some (\<lparr>MName = MName m, MNamespace = MNamespace m, MResourceVersion = MResourceVersion m, MLabels = l\<rparr>, L) }"

definition view_ListMeta :: "(cell, ListMeta_mem, int option ListMeta_of) view" where
  "view_ListMeta h m = do {
     (i, I) \<leftarrow> view_ptr un_Int64 same_view h (LRemainingItemCount m);
     Some (\<lparr>LResourceVersion = LResourceVersion m, LContinue = LContinue m, LRemainingItemCount = i\<rparr>, I) }"

definition view_CloudIntegrations :: "(cell, CloudIntegrations_mem, CloudIntegrations) view" where
  "view_CloudIntegrations h m = do {
     (z, Z) \<leftarrow> view_ptr un_HetznerCloud same_view h (HetznerPtr m);
     Some (\<lparr>Hetzner = z\<rparr>, Z) }"

definition view_PoolOptions :: "(cell, PoolOptions_mem, PoolOptions) view" where
  "view_PoolOptions h m = do {
     (i, I) \<leftarrow> view_ptr un_HostNetworkInterface same_view h (HostNetworkInterfacePtr m);
     Some (\<lparr>HostNetworkInterface = i\<rparr>, I) }"

definition view_strings :: "(cell, slice, string list option) view" where
  "view_strings = view_slice un_Strings same_view"

type_synonym PersistentIPPoolSpec_val =
  "(string list option, CloudIntegrations option, PoolOptions option) PersistentIPPoolSpec_of"
type_synonym EphemeralIPPoolSpec_val =
  "(string list option, CloudIntegrations option, PoolOptions option) EphemeralIPPoolSpec_of"
type_synonym IPAllocationSpec_val = "IPAllocationAddresses option list option IPAllocationSpec_of"
type_synonym ObjectMeta_val = "(string \<times> string) list option ObjectMeta_of"
type_synonym PersistentIPPool_val = "(ObjectMeta_val, PersistentIPPoolSpec_val, IPPoolStatus) object_of"
type_synonym EphemeralIPPool_val = "(ObjectMeta_val, EphemeralIPPoolSpec_val, IPPoolStatus) object_of"
type_synonym IPAllocation_val = "(ObjectMeta_val, IPAllocationSpec_val, IPAllocationStatus) object_of"

definition view_PersistentIPPoolSpec :: "(cell, PersistentIPPoolSpec_mem, PersistentIPPoolSpec_val) view" where
  "view_PersistentIPPoolSpec h m = do {
     (a, A) \<leftarrow> view_strings h (DPAddresses m);
     (n, N) \<leftarrow> view_strings h (DPAllowedNamespaces m);
     (c, C) \<leftarrow> view_ptr un_CloudIntegrations view_CloudIntegrations h (DPCloudIntegration m);
     (p, P) \<leftarrow> view_ptr un_PoolOptions view_PoolOptions h (DPOptions m);
     Some (\<lparr>DPAddresses = a, DPAllowedNamespaces = n, DPCloudIntegration = c, DPOptions = p\<rparr>,
           A \<union> (N \<union> (C \<union> P))) }"

definition view_EphemeralIPPoolSpec :: "(cell, EphemeralIPPoolSpec_mem, EphemeralIPPoolSpec_val) view" where
  "view_EphemeralIPPoolSpec h m = do {
     (n, N) \<leftarrow> view_strings h (DEAllowedNamespaces m);
     (c, C) \<leftarrow> view_ptr un_CloudIntegrations view_CloudIntegrations h (DECloudIntegration m);
     (p, P) \<leftarrow> view_ptr un_PoolOptions view_PoolOptions h (DEOptions m);
     Some (\<lparr>DEAllowedNamespaces = n, DECloudIntegration = c, DEOptions = p\<rparr>, N \<union> (C \<union> P)) }"

definition view_IPAllocationSpec :: "(cell, IPAllocationSpec_mem, IPAllocationSpec_val) view" where
  "view_IPAllocationSpec h m = do {
     (a, A) \<leftarrow> view_slice un_Pointers (view_ptr un_IPAllocationAddresses same_view) h (DAllocations m);
     Some (\<lparr>DType = DType m, DAllocations = a\<rparr>, A) }"

definition view_object ::
  "(cell, 's, 'v) view \<Rightarrow> (cell, (ObjectMeta_mem, 's, 't) object_of, (ObjectMeta_val, 'v, 't) object_of) view"
where
  "view_object spec h m = do {
     (b, B) \<leftarrow> view_ObjectMeta h (DObjectMeta m);
     (s, S) \<leftarrow> spec h (DSpec m);
     Some (\<lparr>DTypeMeta = DTypeMeta m, DObjectMeta = b, DSpec = s, DStatus = DStatus m\<rparr>, B \<union> S) }"

definition view_PersistentIPPool :: "(cell, PersistentIPPool_mem, PersistentIPPool_val) view" where
  "view_PersistentIPPool = view_object view_PersistentIPPoolSpec"

definition view_EphemeralIPPool :: "(cell, EphemeralIPPool_mem, EphemeralIPPool_val) view" where
  "view_EphemeralIPPool = view_object view_EphemeralIPPoolSpec"

definition view_IPAllocation :: "(cell, IPAllocation_mem, IPAllocation_val) view" where
  "view_IPAllocation = view_object view_IPAllocationSpec"

definition view_list ::
  "(cell, slice, 'v list option) view \<Rightarrow> (cell, list_mem, (int option ListMeta_of, 'v list option) list_of) view"
where
  "view_list items h m = do {
     (b, B) \<leftarrow> view_ListMeta h (DListMeta m);
     (s, S) \<leftarrow> items h (DItems m);
     Some (\<lparr>DListTypeMeta = DListTypeMeta m, DListMeta = b, DItems = s\<rparr>, B \<union> S) }"

definition view_PersistentIPPoolList ::
  "(cell, list_mem, (int option ListMeta_of, PersistentIPPool_val option list option) list_of) view"
where
  "view_PersistentIPPoolList =
     view_list (view_slice un_Pointers (view_ptr un_PersistentIPPool view_PersistentIPPool))"

definition view_EphemeralIPPoolList ::
  "(cell, list_mem, (int option ListMeta_of, EphemeralIPPool_val option list option) list_of) view"
where
  "view_EphemeralIPPoolList =
     view_list (view_slice un_Pointers (view_ptr un_EphemeralIPPool view_EphemeralIPPool))"

definition view_IPAllocationList ::
  "(cell, list_mem, (int option ListMeta_of, IPAllocation_val list option) list_of) view"
where
  "view_IPAllocationList = view_list (view_slice un_IPAllocations view_IPAllocation)"

section \<open>zz_generated.deepcopy.go\<close>

record meta_copiers =
  ObjectMeta_DeepCopyInto :: "(cell, ObjectMeta_mem) copier"
  ListMeta_DeepCopyInto :: "(cell, ListMeta_mem) copier"

text \<open>The assignment \<open>**out = **in\<close>.\<close>

abbreviation assign :: "(cell, 'm) copier" where
  "assign \<equiv> \<lambda>m h. Some (m, h)"

definition HetznerCloud_DeepCopyInto :: "(cell, HetznerCloud) copier" where
  "HetznerCloud_DeepCopyInto = (\<lambda>src h. let out = src in Some (out, h))"

definition HostNetworkInterfaceOptions_DeepCopyInto :: "(cell, HostNetworkInterfaceOptions) copier" where
  "HostNetworkInterfaceOptions_DeepCopyInto = (\<lambda>src h. let out = src in Some (out, h))"

definition IPPoolStatus_DeepCopyInto :: "(cell, IPPoolStatus) copier" where
  "IPPoolStatus_DeepCopyInto = (\<lambda>src h. let out = src in Some (out, h))"

definition IPAllocationStatus_DeepCopyInto :: "(cell, IPAllocationStatus) copier" where
  "IPAllocationStatus_DeepCopyInto = (\<lambda>src h. let out = src in Some (out, h))"

definition IPAllocationAddresses_DeepCopyInto :: "(cell, IPAllocationAddresses) copier" where
  "IPAllocationAddresses_DeepCopyInto = (\<lambda>src h. let out = src in Some (out, h))"

definition CloudIntegrations_DeepCopyInto :: "(cell, CloudIntegrations_mem) copier" where
  "CloudIntegrations_DeepCopyInto = (\<lambda>src h. do {
     let out = src;
     (p, h) \<leftarrow> copy_ptr HetznerCloudCell un_HetznerCloud assign (HetznerPtr src) h;
     Some (out\<lparr>HetznerPtr := p\<rparr>, h) })"

definition PoolOptions_DeepCopyInto :: "(cell, PoolOptions_mem) copier" where
  "PoolOptions_DeepCopyInto = (\<lambda>src h. do {
     let out = src;
     (p, h) \<leftarrow> copy_ptr HostNetworkInterfaceCell un_HostNetworkInterface assign
                 (HostNetworkInterfacePtr src) h;
     Some (out\<lparr>HostNetworkInterfacePtr := p\<rparr>, h) })"

definition PersistentIPPoolSpec_DeepCopyInto :: "(cell, PersistentIPPoolSpec_mem) copier" where
  "PersistentIPPoolSpec_DeepCopyInto = (\<lambda>src h. do {
     let out = src;
     (s, h) \<leftarrow> copy_strings StringsCell un_Strings (DPAddresses src) h;
     let out = out\<lparr>DPAddresses := s\<rparr>;
     (s, h) \<leftarrow> copy_strings StringsCell un_Strings (DPAllowedNamespaces src) h;
     let out = out\<lparr>DPAllowedNamespaces := s\<rparr>;
     (p, h) \<leftarrow> copy_ptr CloudIntegrationsCell un_CloudIntegrations CloudIntegrations_DeepCopyInto
                 (DPCloudIntegration src) h;
     let out = out\<lparr>DPCloudIntegration := p\<rparr>;
     (p, h) \<leftarrow> copy_ptr PoolOptionsCell un_PoolOptions PoolOptions_DeepCopyInto (DPOptions src) h;
     Some (out\<lparr>DPOptions := p\<rparr>, h) })"

definition EphemeralIPPoolSpec_DeepCopyInto :: "(cell, EphemeralIPPoolSpec_mem) copier" where
  "EphemeralIPPoolSpec_DeepCopyInto = (\<lambda>src h. do {
     let out = src;
     (s, h) \<leftarrow> copy_strings StringsCell un_Strings (DEAllowedNamespaces src) h;
     let out = out\<lparr>DEAllowedNamespaces := s\<rparr>;
     (p, h) \<leftarrow> copy_ptr CloudIntegrationsCell un_CloudIntegrations CloudIntegrations_DeepCopyInto
                 (DECloudIntegration src) h;
     let out = out\<lparr>DECloudIntegration := p\<rparr>;
     (p, h) \<leftarrow> copy_ptr PoolOptionsCell un_PoolOptions PoolOptions_DeepCopyInto (DEOptions src) h;
     Some (out\<lparr>DEOptions := p\<rparr>, h) })"

definition IPAllocationSpec_DeepCopyInto :: "(cell, IPAllocationSpec_mem) copier" where
  "IPAllocationSpec_DeepCopyInto = (\<lambda>src h. do {
     let out = src;
     (s, h) \<leftarrow> copy_slice PointersCell un_Pointers None
                 (copy_ptr IPAllocationAddressesCell un_IPAllocationAddresses assign) (DAllocations src) h;
     Some (out\<lparr>DAllocations := s\<rparr>, h) })"

definition EphemeralIPPool_DeepCopyInto :: "meta_copiers \<Rightarrow> (cell, EphemeralIPPool_mem) copier" where
  "EphemeralIPPool_DeepCopyInto mc = (\<lambda>src h. do {
     let out = src;
     let out = out\<lparr>DTypeMeta := DTypeMeta src\<rparr>;
     (m, h) \<leftarrow> ObjectMeta_DeepCopyInto mc (DObjectMeta src) h;
     let out = out\<lparr>DObjectMeta := m\<rparr>;
     (s, h) \<leftarrow> EphemeralIPPoolSpec_DeepCopyInto (DSpec src) h;
     let out = out\<lparr>DSpec := s\<rparr>;
     Some (out\<lparr>DStatus := DStatus src\<rparr>, h) })"

definition IPAllocation_DeepCopyInto :: "meta_copiers \<Rightarrow> (cell, IPAllocation_mem) copier" where
  "IPAllocation_DeepCopyInto mc = (\<lambda>src h. do {
     let out = src;
     let out = out\<lparr>DTypeMeta := DTypeMeta src\<rparr>;
     (m, h) \<leftarrow> ObjectMeta_DeepCopyInto mc (DObjectMeta src) h;
     let out = out\<lparr>DObjectMeta := m\<rparr>;
     (s, h) \<leftarrow> IPAllocationSpec_DeepCopyInto (DSpec src) h;
     let out = out\<lparr>DSpec := s\<rparr>;
     Some (out\<lparr>DStatus := DStatus src\<rparr>, h) })"

definition PersistentIPPool_DeepCopyInto :: "meta_copiers \<Rightarrow> (cell, PersistentIPPool_mem) copier" where
  "PersistentIPPool_DeepCopyInto mc = (\<lambda>src h. do {
     let out = src;
     let out = out\<lparr>DTypeMeta := DTypeMeta src\<rparr>;
     (m, h) \<leftarrow> ObjectMeta_DeepCopyInto mc (DObjectMeta src) h;
     let out = out\<lparr>DObjectMeta := m\<rparr>;
     (s, h) \<leftarrow> PersistentIPPoolSpec_DeepCopyInto (DSpec src) h;
     let out = out\<lparr>DSpec := s\<rparr>;
     Some (out\<lparr>DStatus := DStatus src\<rparr>, h) })"

text \<open>The element \<open>make\<close> puts into the array of an \<open>IPAllocationList\<close>.\<close>

definition zero_IPAllocation_mem :: IPAllocation_mem where
  "zero_IPAllocation_mem =
     \<lparr>DTypeMeta = \<lparr>Kind = '''', APIVersion = ''''\<rparr>,
      DObjectMeta = \<lparr>MName = '''', MNamespace = '''', MResourceVersion = '''', MLabels = None\<rparr>,
      DSpec = \<lparr>DType = IPTypeOther '''', DAllocations = NilSlice\<rparr>,
      DStatus = \<lparr>State = AllocationStatusEmpty, Message = ''''\<rparr>\<rparr>"

definition EphemeralIPPoolList_DeepCopyInto :: "meta_copiers \<Rightarrow> (cell, list_mem) copier" where
  "EphemeralIPPoolList_DeepCopyInto mc = (\<lambda>src h. do {
     let out = src;
     let out = out\<lparr>DListTypeMeta := DListTypeMeta src\<rparr>;
     (m, h) \<leftarrow> ListMeta_DeepCopyInto mc (DListMeta src) h;
     let out = out\<lparr>DListMeta := m\<rparr>;
     (s, h) \<leftarrow> copy_slice PointersCell un_Pointers None
                 (copy_ptr EphemeralIPPoolCell un_EphemeralIPPool (EphemeralIPPool_DeepCopyInto mc)) (DItems src) h;
     Some (out\<lparr>DItems := s\<rparr>, h) })"

definition IPAllocationList_DeepCopyInto :: "meta_copiers \<Rightarrow> (cell, list_mem) copier" where
  "IPAllocationList_DeepCopyInto mc = (\<lambda>src h. do {
     let out = src;
     let out = out\<lparr>DListTypeMeta := DListTypeMeta src\<rparr>;
     (m, h) \<leftarrow> ListMeta_DeepCopyInto mc (DListMeta src) h;
     let out = out\<lparr>DListMeta := m\<rparr>;
     (s, h) \<leftarrow> copy_slice IPAllocationsCell un_IPAllocations zero_IPAllocation_mem
                 (IPAllocation_DeepCopyInto mc) (DItems src) h;
     Some (out\<lparr>DItems := s\<rparr>, h) })"

definition PersistentIPPoolList_DeepCopyInto :: "meta_copiers \<Rightarrow> (cell, list_mem) copier" where
  "PersistentIPPoolList_DeepCopyInto mc = (\<lambda>src h. do {
     let out = src;
     let out = out\<lparr>DListTypeMeta := DListTypeMeta src\<rparr>;
     (m, h) \<leftarrow> ListMeta_DeepCopyInto mc (DListMeta src) h;
     let out = out\<lparr>DListMeta := m\<rparr>;
     (s, h) \<leftarrow> copy_slice PointersCell un_Pointers None
                 (copy_ptr PersistentIPPoolCell un_PersistentIPPool (PersistentIPPool_DeepCopyInto mc)) (DItems src) h;
     Some (out\<lparr>DItems := s\<rparr>, h) })"

subsection \<open>DeepCopy\<close>

text \<open>\<open>DeepCopy\<close> is nil for nil; otherwise it allocates and calls \<open>DeepCopyInto\<close>.\<close>

definition CloudIntegrations_DeepCopy :: "(cell, ref option) copier" where
  "CloudIntegrations_DeepCopy = copy_ptr CloudIntegrationsCell un_CloudIntegrations CloudIntegrations_DeepCopyInto"

definition HetznerCloud_DeepCopy :: "(cell, ref option) copier" where
  "HetznerCloud_DeepCopy = copy_ptr HetznerCloudCell un_HetznerCloud HetznerCloud_DeepCopyInto"

definition HostNetworkInterfaceOptions_DeepCopy :: "(cell, ref option) copier" where
  "HostNetworkInterfaceOptions_DeepCopy = copy_ptr HostNetworkInterfaceCell un_HostNetworkInterface HostNetworkInterfaceOptions_DeepCopyInto"

definition IPAllocationAddresses_DeepCopy :: "(cell, ref option) copier" where
  "IPAllocationAddresses_DeepCopy = copy_ptr IPAllocationAddressesCell un_IPAllocationAddresses IPAllocationAddresses_DeepCopyInto"

definition IPAllocationStatus_DeepCopy :: "(cell, ref option) copier" where
  "IPAllocationStatus_DeepCopy = copy_ptr IPAllocationStatusCell un_IPAllocationStatus IPAllocationStatus_DeepCopyInto"

definition IPPoolStatus_DeepCopy :: "(cell, ref option) copier" where
  "IPPoolStatus_DeepCopy = copy_ptr IPPoolStatusCell un_IPPoolStatus IPPoolStatus_DeepCopyInto"

definition PoolOptions_DeepCopy :: "(cell, ref option) copier" where
  "PoolOptions_DeepCopy = copy_ptr PoolOptionsCell un_PoolOptions PoolOptions_DeepCopyInto"

definition EphemeralIPPoolSpec_DeepCopy :: "(cell, ref option) copier" where
  "EphemeralIPPoolSpec_DeepCopy = copy_ptr EphemeralIPPoolSpecCell un_EphemeralIPPoolSpec EphemeralIPPoolSpec_DeepCopyInto"

definition IPAllocationSpec_DeepCopy :: "(cell, ref option) copier" where
  "IPAllocationSpec_DeepCopy = copy_ptr IPAllocationSpecCell un_IPAllocationSpec IPAllocationSpec_DeepCopyInto"

definition PersistentIPPoolSpec_DeepCopy :: "(cell, ref option) copier" where
  "PersistentIPPoolSpec_DeepCopy = copy_ptr PersistentIPPoolSpecCell un_PersistentIPPoolSpec PersistentIPPoolSpec_DeepCopyInto"

definition EphemeralIPPool_DeepCopy :: "meta_copiers \<Rightarrow> (cell, ref option) copier" where
  "EphemeralIPPool_DeepCopy mc = copy_ptr EphemeralIPPoolCell un_EphemeralIPPool (EphemeralIPPool_DeepCopyInto mc)"

definition EphemeralIPPoolList_DeepCopy :: "meta_copiers \<Rightarrow> (cell, ref option) copier" where
  "EphemeralIPPoolList_DeepCopy mc = copy_ptr EphemeralIPPoolListCell un_EphemeralIPPoolList (EphemeralIPPoolList_DeepCopyInto mc)"

definition IPAllocation_DeepCopy :: "meta_copiers \<Rightarrow> (cell, ref option) copier" where
  "IPAllocation_DeepCopy mc = copy_ptr IPAllocationCell un_IPAllocation (IPAllocation_DeepCopyInto mc)"

definition IPAllocationList_DeepCopy :: "meta_copiers \<Rightarrow> (cell, ref option) copier" where
  "IPAllocationList_DeepCopy mc = copy_ptr IPAllocationListCell un_IPAllocationList (IPAllocationList_DeepCopyInto mc)"

definition PersistentIPPool_DeepCopy :: "meta_copiers \<Rightarrow> (cell, ref option) copier" where
  "PersistentIPPool_DeepCopy mc = copy_ptr PersistentIPPoolCell un_PersistentIPPool (PersistentIPPool_DeepCopyInto mc)"

definition PersistentIPPoolList_DeepCopy :: "meta_copiers \<Rightarrow> (cell, ref option) copier" where
  "PersistentIPPoolList_DeepCopy mc = copy_ptr PersistentIPPoolListCell un_PersistentIPPoolList (PersistentIPPoolList_DeepCopyInto mc)"

subsection \<open>DeepCopyObject\<close>

text \<open>An interface value is nil, or a type with a pointer of that type, which may be nil:
  \<open>DeepCopyObject\<close> tests the pointer so as not to return the latter.\<close>

datatype runtime_Object = NilObject | RuntimeObject string "ref option"

definition EphemeralIPPool_DeepCopyObject :: "meta_copiers \<Rightarrow> ref option \<Rightarrow> cell heap \<Rightarrow> (runtime_Object \<times> cell heap) option" where
  "EphemeralIPPool_DeepCopyObject mc p h = do {
     (c, h) \<leftarrow> EphemeralIPPool_DeepCopy mc p h;
     if c \<noteq> None then Some (RuntimeObject ''EphemeralIPPool'' c, h) else Some (NilObject, h) }"

definition EphemeralIPPoolList_DeepCopyObject :: "meta_copiers \<Rightarrow> ref option \<Rightarrow> cell heap \<Rightarrow> (runtime_Object \<times> cell heap) option" where
  "EphemeralIPPoolList_DeepCopyObject mc p h = do {
     (c, h) \<leftarrow> EphemeralIPPoolList_DeepCopy mc p h;
     if c \<noteq> None then Some (RuntimeObject ''EphemeralIPPoolList'' c, h) else Some (NilObject, h) }"

definition IPAllocation_DeepCopyObject :: "meta_copiers \<Rightarrow> ref option \<Rightarrow> cell heap \<Rightarrow> (runtime_Object \<times> cell heap) option" where
  "IPAllocation_DeepCopyObject mc p h = do {
     (c, h) \<leftarrow> IPAllocation_DeepCopy mc p h;
     if c \<noteq> None then Some (RuntimeObject ''IPAllocation'' c, h) else Some (NilObject, h) }"

definition IPAllocationList_DeepCopyObject :: "meta_copiers \<Rightarrow> ref option \<Rightarrow> cell heap \<Rightarrow> (runtime_Object \<times> cell heap) option" where
  "IPAllocationList_DeepCopyObject mc p h = do {
     (c, h) \<leftarrow> IPAllocationList_DeepCopy mc p h;
     if c \<noteq> None then Some (RuntimeObject ''IPAllocationList'' c, h) else Some (NilObject, h) }"

definition PersistentIPPool_DeepCopyObject :: "meta_copiers \<Rightarrow> ref option \<Rightarrow> cell heap \<Rightarrow> (runtime_Object \<times> cell heap) option" where
  "PersistentIPPool_DeepCopyObject mc p h = do {
     (c, h) \<leftarrow> PersistentIPPool_DeepCopy mc p h;
     if c \<noteq> None then Some (RuntimeObject ''PersistentIPPool'' c, h) else Some (NilObject, h) }"

definition PersistentIPPoolList_DeepCopyObject :: "meta_copiers \<Rightarrow> ref option \<Rightarrow> cell heap \<Rightarrow> (runtime_Object \<times> cell heap) option" where
  "PersistentIPPoolList_DeepCopyObject mc p h = do {
     (c, h) \<leftarrow> PersistentIPPoolList_DeepCopy mc p h;
     if c \<noteq> None then Some (RuntimeObject ''PersistentIPPoolList'' c, h) else Some (NilObject, h) }"

section \<open>Every copy is deep\<close>

text \<open>The structs without references.\<close>

lemma assign_copy: "deep_copy same_view assign"
  by (rule flat_copy) simp

interpretation hetzner: deep_copy same_view HetznerCloud_DeepCopyInto
  by (rule flat_copy) (simp add: HetznerCloud_DeepCopyInto_def)

interpretation hostNetworkInterface: deep_copy same_view HostNetworkInterfaceOptions_DeepCopyInto
  by (rule flat_copy) (simp add: HostNetworkInterfaceOptions_DeepCopyInto_def)

interpretation poolStatus: deep_copy same_view IPPoolStatus_DeepCopyInto
  by (rule flat_copy) (simp add: IPPoolStatus_DeepCopyInto_def)

interpretation allocationStatus: deep_copy same_view IPAllocationStatus_DeepCopyInto
  by (rule flat_copy) (simp add: IPAllocationStatus_DeepCopyInto_def)

interpretation allocationAddresses: deep_copy same_view IPAllocationAddresses_DeepCopyInto
  by (rule flat_copy) (simp add: IPAllocationAddresses_DeepCopyInto_def)

interpretation strings: deep_copy view_strings "copy_strings StringsCell un_Strings"
  unfolding view_strings_def by (rule strings_copy) simp

text \<open>A struct that holds references is the tuple of them, copied one after the other.\<close>

lemmas copy_tuples = copy_pair_def view_pair_def Let_def map_option_case

interpretation cloudIntegrations: deep_copy view_CloudIntegrations CloudIntegrations_DeepCopyInto
proof -
  have "deep_copy (view_ptr un_HetznerCloud same_view) (copy_ptr HetznerCloudCell un_HetznerCloud assign)"
    by (rule deep_copy.ptr_copy [OF assign_copy]) simp
  then show "deep_copy view_CloudIntegrations CloudIntegrations_DeepCopyInto"
    by (rule deep_copy.struct_copy [where tup = HetznerPtr and upd = "\<lambda>p m. m\<lparr>HetznerPtr := p\<rparr>"
          and pack = "\<lambda>_ z. \<lparr>Hetzner = z\<rparr>"])
      (auto simp: view_CloudIntegrations_def CloudIntegrations_DeepCopyInto_def copy_tuples
        split: bind_splits option.splits)
qed

interpretation poolOptions: deep_copy view_PoolOptions PoolOptions_DeepCopyInto
proof -
  have "deep_copy (view_ptr un_HostNetworkInterface same_view)
      (copy_ptr HostNetworkInterfaceCell un_HostNetworkInterface assign)"
    by (rule deep_copy.ptr_copy [OF assign_copy]) simp
  then show "deep_copy view_PoolOptions PoolOptions_DeepCopyInto"
    by (rule deep_copy.struct_copy [where tup = HostNetworkInterfacePtr
          and upd = "\<lambda>p m. m\<lparr>HostNetworkInterfacePtr := p\<rparr>" and pack = "\<lambda>_ i. \<lparr>HostNetworkInterface = i\<rparr>"])
      (auto simp: view_PoolOptions_def PoolOptions_DeepCopyInto_def copy_tuples
        split: bind_splits option.splits)
qed

text \<open>The two pointers a pool specification ends with.\<close>

lemma cloud_and_options_copy:
  "deep_copy (view_pair (view_ptr un_CloudIntegrations view_CloudIntegrations)
                        (view_ptr un_PoolOptions view_PoolOptions))
     (copy_pair (copy_ptr CloudIntegrationsCell un_CloudIntegrations CloudIntegrations_DeepCopyInto)
                (copy_ptr PoolOptionsCell un_PoolOptions PoolOptions_DeepCopyInto))"
  by (intro pair_copy cloudIntegrations.ptr_copy poolOptions.ptr_copy) simp_all

interpretation ephemeralSpec: deep_copy view_EphemeralIPPoolSpec EphemeralIPPoolSpec_DeepCopyInto
  by (rule deep_copy.struct_copy [OF pair_copy [OF strings.deep_copy_axioms cloud_and_options_copy],
        where tup = "\<lambda>m. (DEAllowedNamespaces m, DECloudIntegration m, DEOptions m)"
          and upd = "\<lambda>(n, c, p) m. m\<lparr>DEAllowedNamespaces := n, DECloudIntegration := c, DEOptions := p\<rparr>"
          and pack = "\<lambda>_ (n, c, p). \<lparr>DEAllowedNamespaces = n, DECloudIntegration = c, DEOptions = p\<rparr>"])
    (auto simp: view_EphemeralIPPoolSpec_def EphemeralIPPoolSpec_DeepCopyInto_def copy_tuples
      split: bind_splits option.splits)

interpretation persistentSpec: deep_copy view_PersistentIPPoolSpec PersistentIPPoolSpec_DeepCopyInto
  by (rule deep_copy.struct_copy [OF pair_copy [OF strings.deep_copy_axioms
          pair_copy [OF strings.deep_copy_axioms cloud_and_options_copy]],
        where tup = "\<lambda>m. (DPAddresses m, DPAllowedNamespaces m, DPCloudIntegration m, DPOptions m)"
          and upd = "\<lambda>(a, n, c, p) m. m\<lparr>DPAddresses := a, DPAllowedNamespaces := n,
                        DPCloudIntegration := c, DPOptions := p\<rparr>"
          and pack = "\<lambda>_ (a, n, c, p). \<lparr>DPAddresses = a, DPAllowedNamespaces = n,
                        DPCloudIntegration = c, DPOptions = p\<rparr>"])
    (auto simp: view_PersistentIPPoolSpec_def PersistentIPPoolSpec_DeepCopyInto_def copy_tuples
      split: bind_splits option.splits)

interpretation allocationSpec: deep_copy view_IPAllocationSpec IPAllocationSpec_DeepCopyInto
proof -
  have "deep_copy (view_slice un_Pointers (view_ptr un_IPAllocationAddresses same_view))
      (copy_slice PointersCell un_Pointers None
        (copy_ptr IPAllocationAddressesCell un_IPAllocationAddresses assign))"
    by (intro deep_copy.slice_copy deep_copy.ptr_copy assign_copy) simp_all
  then show "deep_copy view_IPAllocationSpec IPAllocationSpec_DeepCopyInto"
    by (rule deep_copy.struct_copy [where tup = DAllocations and upd = "\<lambda>s m. m\<lparr>DAllocations := s\<rparr>"
          and pack = "\<lambda>m a. \<lparr>DType = DType m, DAllocations = a\<rparr>"])
      (auto simp: view_IPAllocationSpec_def IPAllocationSpec_DeepCopyInto_def copy_tuples
        split: bind_splits option.splits)
qed

text \<open>The copies of the metadata are those of the API machinery.\<close>

definition metadata_copied :: "meta_copiers \<Rightarrow> bool" where
  "metadata_copied mc \<longleftrightarrow>
     deep_copy view_ObjectMeta (ObjectMeta_DeepCopyInto mc) \<and> deep_copy view_ListMeta (ListMeta_DeepCopyInto mc)"

text \<open>The three resources differ in the specification only.\<close>

lemma object_copy:
  fixes copy :: "(cell, (ObjectMeta_mem, 's, 't) object_of) copier"
  assumes "metadata_copied mc" and "deep_copy spec cs"
    and "\<And>m h. copy m h = do {
        (b, h) \<leftarrow> ObjectMeta_DeepCopyInto mc (DObjectMeta m) h;
        (s, h) \<leftarrow> cs (DSpec m) h;
        Some (m\<lparr>DObjectMeta := b, DSpec := s\<rparr>, h) }"
  shows "deep_copy (view_object spec :: (cell, (ObjectMeta_mem, 's, 't) object_of, (ObjectMeta_val, 'v, 't) object_of) view) copy"
  by (rule deep_copy.struct_copy [OF pair_copy, where tup = "\<lambda>m. (DObjectMeta m, DSpec m)"
        and upd = "\<lambda>(b, s) m. m\<lparr>DObjectMeta := b, DSpec := s\<rparr>"
        and pack = "\<lambda>m (b, s). \<lparr>DTypeMeta = DTypeMeta m, DObjectMeta = b, DSpec = s, DStatus = DStatus m\<rparr>"])
    (use assms in \<open>auto simp: metadata_copied_def view_object_def copy_tuples split: bind_splits option.splits\<close>)

lemma list_copy:
  assumes "metadata_copied mc" and "deep_copy items ci"
    and "\<And>m h. copy m h = do {
        (b, h) \<leftarrow> ListMeta_DeepCopyInto mc (DListMeta m) h;
        (s, h) \<leftarrow> ci (DItems m) h;
        Some (m\<lparr>DListMeta := b, DItems := s\<rparr>, h) }"
  shows "deep_copy (view_list items) copy"
  by (rule deep_copy.struct_copy [OF pair_copy, where tup = "\<lambda>m. (DListMeta m, DItems m)"
        and upd = "\<lambda>(b, s) m. m\<lparr>DListMeta := b, DItems := s\<rparr>"
        and pack = "\<lambda>m (b, s). \<lparr>DListTypeMeta = DListTypeMeta m, DListMeta = b, DItems = s\<rparr>"])
    (use assms in \<open>auto simp: metadata_copied_def view_list_def copy_tuples split: bind_splits option.splits\<close>)

lemma resources_copy:
  assumes "metadata_copied mc"
  shows "deep_copy view_PersistentIPPool (PersistentIPPool_DeepCopyInto mc)"
    and "deep_copy view_EphemeralIPPool (EphemeralIPPool_DeepCopyInto mc)"
    and "deep_copy view_IPAllocation (IPAllocation_DeepCopyInto mc)"
  unfolding view_PersistentIPPool_def view_EphemeralIPPool_def view_IPAllocation_def
  by (rule object_copy [OF assms persistentSpec.deep_copy_axioms]
      object_copy [OF assms ephemeralSpec.deep_copy_axioms]
      object_copy [OF assms allocationSpec.deep_copy_axioms],
      simp add: PersistentIPPool_DeepCopyInto_def EphemeralIPPool_DeepCopyInto_def
        IPAllocation_DeepCopyInto_def Let_def)+

lemma lists_copy:
  assumes "metadata_copied mc"
  shows "deep_copy view_PersistentIPPoolList (PersistentIPPoolList_DeepCopyInto mc)"
    and "deep_copy view_EphemeralIPPoolList (EphemeralIPPoolList_DeepCopyInto mc)"
    and "deep_copy view_IPAllocationList (IPAllocationList_DeepCopyInto mc)"
proof -
  note r = resources_copy [OF assms]
  show "deep_copy view_PersistentIPPoolList (PersistentIPPoolList_DeepCopyInto mc)"
    unfolding view_PersistentIPPoolList_def
    by (rule list_copy [OF assms deep_copy.slice_copy [OF deep_copy.ptr_copy [OF r(1)]]])
      (simp_all add: PersistentIPPoolList_DeepCopyInto_def Let_def)
  show "deep_copy view_EphemeralIPPoolList (EphemeralIPPoolList_DeepCopyInto mc)"
    unfolding view_EphemeralIPPoolList_def
    by (rule list_copy [OF assms deep_copy.slice_copy [OF deep_copy.ptr_copy [OF r(2)]]])
      (simp_all add: EphemeralIPPoolList_DeepCopyInto_def Let_def)
  show "deep_copy view_IPAllocationList (IPAllocationList_DeepCopyInto mc)"
    unfolding view_IPAllocationList_def
    by (rule list_copy [OF assms deep_copy.slice_copy [OF r(3)]])
      (simp_all add: IPAllocationList_DeepCopyInto_def Let_def)
qed

lemma DeepCopy_copies:
  assumes "metadata_copied mc"
  shows "deep_copy (view_ptr un_PersistentIPPool view_PersistentIPPool) (PersistentIPPool_DeepCopy mc)"
    and "deep_copy (view_ptr un_EphemeralIPPool view_EphemeralIPPool) (EphemeralIPPool_DeepCopy mc)"
    and "deep_copy (view_ptr un_IPAllocation view_IPAllocation) (IPAllocation_DeepCopy mc)"
    and "deep_copy (view_ptr un_PersistentIPPoolList view_PersistentIPPoolList) (PersistentIPPoolList_DeepCopy mc)"
    and "deep_copy (view_ptr un_EphemeralIPPoolList view_EphemeralIPPoolList) (EphemeralIPPoolList_DeepCopy mc)"
    and "deep_copy (view_ptr un_IPAllocationList view_IPAllocationList) (IPAllocationList_DeepCopy mc)"
  unfolding PersistentIPPool_DeepCopy_def EphemeralIPPool_DeepCopy_def IPAllocation_DeepCopy_def
    PersistentIPPoolList_DeepCopy_def EphemeralIPPoolList_DeepCopy_def IPAllocationList_DeepCopy_def
  by (rule deep_copy.ptr_copy [OF resources_copy(1) [OF assms]]
      deep_copy.ptr_copy [OF resources_copy(2) [OF assms]]
      deep_copy.ptr_copy [OF resources_copy(3) [OF assms]]
      deep_copy.ptr_copy [OF lists_copy(1) [OF assms]]
      deep_copy.ptr_copy [OF lists_copy(2) [OF assms]]
      deep_copy.ptr_copy [OF lists_copy(3) [OF assms]], simp)+

text \<open>\<open>DeepCopyObject\<close>: nil gives the nil interface, never a nil pointer in an interface.\<close>

lemmas DeepCopyObject_defs =
  PersistentIPPool_DeepCopyObject_def EphemeralIPPool_DeepCopyObject_def IPAllocation_DeepCopyObject_def
  PersistentIPPoolList_DeepCopyObject_def EphemeralIPPoolList_DeepCopyObject_def
  IPAllocationList_DeepCopyObject_def

lemmas DeepCopy_defs =
  PersistentIPPool_DeepCopy_def EphemeralIPPool_DeepCopy_def IPAllocation_DeepCopy_def
  PersistentIPPoolList_DeepCopy_def EphemeralIPPoolList_DeepCopy_def IPAllocationList_DeepCopy_def

lemma copy_ptr_None [simp]: "copy_ptr mk un copy None h = Some (None, h)"
  by (simp add: copy_ptr_def)

lemma copy_ptr_Some: "copy_ptr mk un copy (Some r) h = Some (q, h') \<Longrightarrow> q \<noteq> None"
  by (auto simp: copy_ptr_def Let_def elim!: bind_SomeE split: prod.split_asm)

lemma DeepCopyObject_nil:
  "PersistentIPPool_DeepCopyObject mc None h = Some (NilObject, h)"
  "EphemeralIPPool_DeepCopyObject mc None h = Some (NilObject, h)"
  "IPAllocation_DeepCopyObject mc None h = Some (NilObject, h)"
  "PersistentIPPoolList_DeepCopyObject mc None h = Some (NilObject, h)"
  "EphemeralIPPoolList_DeepCopyObject mc None h = Some (NilObject, h)"
  "IPAllocationList_DeepCopyObject mc None h = Some (NilObject, h)"
  by (simp_all add: DeepCopyObject_defs DeepCopy_defs)

lemma IPAllocationList_DeepCopyObject_ok:
  assumes "metadata_copied mc" and "heap_ok h"
    and "view_ptr un_IPAllocationList view_IPAllocationList h (Some r) = Some (v, F)"
  shows "\<exists>q h' F'. IPAllocationList_DeepCopyObject mc (Some r) h = Some (RuntimeObject ''IPAllocationList'' (Some q), h')
    \<and> extends h h' \<and> view_ptr un_IPAllocationList view_IPAllocationList h' (Some q) = Some (v, F')
    \<and> F' \<subseteq> {Next h..<Next h'}"
proof -
  obtain q h' F' where c: "IPAllocationList_DeepCopy mc (Some r) h = Some (q, h')"
    and rest: "extends h h'" "view_ptr un_IPAllocationList view_IPAllocationList h' q = Some (v, F')"
      "F' \<subseteq> {Next h..<Next h'}"
    using deep_copy.copies [OF DeepCopy_copies(6) [OF assms(1)] assms(2,3)] by blast
  obtain a where "q = Some a"
    using c by (auto simp: IPAllocationList_DeepCopy_def dest: copy_ptr_Some)
  with c rest show ?thesis
    by (auto simp: IPAllocationList_DeepCopyObject_def)
qed

section \<open>The values of the development\<close>

text \<open>What \<open>Api_Types\<close> keeps of a value: a nil map or slice is an empty one there, and the
  addresses of an allocation are not nil.\<close>

definition ObjectMeta_value :: "ObjectMeta_val \<Rightarrow> ObjectMeta" where
  "ObjectMeta_value m =
     \<lparr>Name = MName m, Namespace = MNamespace m, Labels = case_option [] id (MLabels m),
      ResourceVersion = MResourceVersion m\<rparr>"

definition IPAllocation_value :: "IPAllocation_val \<Rightarrow> IPAllocation option" where
  "IPAllocation_value v = do {
     as \<leftarrow> those (case_option [] id (DAllocations (DSpec v)));
     Some \<lparr>AMeta = ObjectMeta_value (DObjectMeta v),
           ASpec = \<lparr>AllocationType = DType (DSpec v), Allocations = as\<rparr>,
           AStatus = DStatus v\<rparr> }"

definition PersistentIPPool_value :: "PersistentIPPool_val \<Rightarrow> PersistentIPPool" where
  "PersistentIPPool_value v =
     \<lparr>PMeta = ObjectMeta_value (DObjectMeta v),
      PSpec = \<lparr>Addresses = case_option [] id (DPAddresses (DSpec v)),
               PAllowedNamespaces = case_option [] id (DPAllowedNamespaces (DSpec v)),
               PCloudIntegration = DPCloudIntegration (DSpec v), POptions = DPOptions (DSpec v)\<rparr>,
      PStatus = DStatus v\<rparr>"

definition points_to_IPAllocation :: "cell heap \<Rightarrow> ref option \<Rightarrow> IPAllocation \<Rightarrow> bool" where
  "points_to_IPAllocation h p a \<longleftrightarrow>
     (\<exists>v F. view_ptr un_IPAllocation view_IPAllocation h p = Some (Some v, F) \<and> IPAllocation_value v = Some a)"

section \<open>Writing through a copy\<close>

text \<open>The body of the loop of \<open>ChangeAllocationNode\<close> ends with the writes
  \<open>allocation.NetworkInterface = netInterface\<close> and \<open>allocation.NodeName = nodeName\<close>
  through the pointer at index \<open>i\<close> of \<open>Spec.Allocations\<close>: the operation on the heap, which
  changes no cell the allocation does not own.\<close>

definition set_address_node :: "nat \<Rightarrow> string \<Rightarrow> string \<Rightarrow> ref option \<Rightarrow> cell heap \<Rightarrow> cell heap option" where
  "set_address_node i nodeName netInterface p h = do {
     r \<leftarrow> p;
     c \<leftarrow> Cells h r;
     a \<leftarrow> un_IPAllocation c;
     e \<leftarrow> slice_elems un_Pointers h (DAllocations (DSpec a));
     (_, ps) \<leftarrow> e;
     q \<leftarrow> (if i < length ps then ps ! i else None);
     c \<leftarrow> Cells h q;
     x \<leftarrow> un_IPAllocationAddresses c;
     Some (store_cell q (IPAllocationAddressesCell (x\<lparr>NetworkInterface := netInterface, NodeName := nodeName\<rparr>)) h) }"

lemma view_all_nth:
  assumes "view_all f xs = Some (vs, U)" and "i < length xs"
  shows "\<exists>F. f (xs ! i) = Some (vs ! i, F) \<and> F \<subseteq> U"
  using assms(1) by (rule view_allE) (use assms(2) in blast)

lemma set_address_node_frame:
  assumes v: "view_ptr un_IPAllocation view_IPAllocation h p = Some (Some v, F)"
    and w: "set_address_node i nodeName netInterface p h = Some g" and r: "r \<notin> F"
  shows "Cells g r = Cells h r"
proof -
  from w obtain s c a arr ps q where p: "p = Some s" "Cells h s = Some c" "un_IPAllocation c = Some a"
    and e: "slice_elems un_Pointers h (DAllocations (DSpec a)) = Some (Some (arr, ps))"
    and q: "i < length ps" "ps ! i = Some q" and g: "\<And>t. t \<noteq> q \<Longrightarrow> Cells g t = Cells h t"
    by (auto simp: set_address_node_def elim!: bind_SomeE split: if_split_asm prod.split_asm)
  from v p obtain sv S where "view_IPAllocationSpec h (DSpec a) = Some (sv, S)" and "S \<subseteq> F"
    by (auto simp: view_ptr_def view_IPAllocation_def view_object_def elim!: bind_SomeE)
  with e obtain vs U where U: "view_all (view_ptr un_IPAllocationAddresses same_view h) ps = Some (vs, U)"
    and "U \<subseteq> F"
    by (auto simp: view_IPAllocationSpec_def view_slice_def elim!: bind_SomeE split: prod.split_asm)
  moreover obtain G where G: "view_ptr un_IPAllocationAddresses same_view h (ps ! i) = Some (vs ! i, G)" "G \<subseteq> U"
    using view_all_nth [OF U q(1)] by blast
  moreover have "q \<in> G"
    using G(1) q(2) by (auto simp: view_ptr_def elim!: bind_SomeE)
  ultimately have "r \<noteq> q"
    using r by blast
  then show ?thesis by (rule g)
qed

section \<open>An example\<close>

text \<open>Copiers of the metadata that copy the label map and the pointer, and a heap with an
  allocation of one address.\<close>

definition demo_copiers :: meta_copiers where
  "demo_copiers =
     \<lparr>ObjectMeta_DeepCopyInto = (\<lambda>m h. do {
        (l, h) \<leftarrow> copy_ptr LabelsCell un_Labels assign (MLabels m) h;
        Some (m\<lparr>MLabels := l\<rparr>, h) }),
      ListMeta_DeepCopyInto = (\<lambda>m h. do {
        (i, h) \<leftarrow> copy_ptr Int64Cell un_Int64 assign (LRemainingItemCount m) h;
        Some (m\<lparr>LRemainingItemCount := i\<rparr>, h) })\<rparr>"

lemma demo_copiers_ok: "metadata_copied demo_copiers"
proof -
  have l: "deep_copy (view_ptr un_Labels same_view) (copy_ptr LabelsCell un_Labels assign)"
    and i: "deep_copy (view_ptr un_Int64 same_view) (copy_ptr Int64Cell un_Int64 assign)"
    by (rule deep_copy.ptr_copy [OF assign_copy], simp)+
  have "deep_copy view_ObjectMeta (ObjectMeta_DeepCopyInto demo_copiers)"
    by (rule deep_copy.struct_copy [OF l, where tup = MLabels and upd = "\<lambda>l m. m\<lparr>MLabels := l\<rparr>"
          and pack = "\<lambda>m l. \<lparr>MName = MName m, MNamespace = MNamespace m,
                        MResourceVersion = MResourceVersion m, MLabels = l\<rparr>"])
      (auto simp: view_ObjectMeta_def demo_copiers_def copy_tuples split: bind_splits option.splits)
  moreover have "deep_copy view_ListMeta (ListMeta_DeepCopyInto demo_copiers)"
    by (rule deep_copy.struct_copy [OF i, where tup = LRemainingItemCount
          and upd = "\<lambda>l m. m\<lparr>LRemainingItemCount := l\<rparr>"
          and pack = "\<lambda>m i. \<lparr>LResourceVersion = LResourceVersion m, LContinue = LContinue m,
                        LRemainingItemCount = i\<rparr>"])
      (auto simp: view_ListMeta_def demo_copiers_def copy_tuples split: bind_splits option.splits)
  ultimately show ?thesis
    by (simp add: metadata_copied_def)
qed

definition demo_address :: IPAllocationAddresses where
  "demo_address = zero_IPAllocationAddresses\<lparr>Address := ''10.0.0.1'', NodeName := ''n1'', Pool := ''p''\<rparr>"

definition demo_heap :: "cell heap" where
  "demo_heap = \<lparr>Cells = [
      0 \<mapsto> IPAllocationAddressesCell demo_address,
      1 \<mapsto> PointersCell [Some 0],
      2 \<mapsto> LabelsCell [(''owner'', ''test'')],
      3 \<mapsto> IPAllocationCell (zero_IPAllocation_mem
             \<lparr>DObjectMeta := \<lparr>MName = ''a'', MNamespace = ''ns'', MResourceVersion = ''7'', MLabels = Some 2\<rparr>,
              DSpec := \<lparr>DType = PersistentIP, DAllocations = Slice 1 0 1\<rparr>\<rparr>)],
    Next = 4\<rparr>"

lemma demo_heap_ok: "heap_ok demo_heap"
  by (simp add: heap_ok_def demo_heap_def)

definition demo_allocation_val :: IPAllocation_val where
  "demo_allocation_val =
     \<lparr>DTypeMeta = DTypeMeta zero_IPAllocation_mem,
      DObjectMeta = \<lparr>MName = ''a'', MNamespace = ''ns'', MResourceVersion = ''7'',
                     MLabels = Some [(''owner'', ''test'')]\<rparr>,
      DSpec = \<lparr>DType = PersistentIP, DAllocations = Some [Some demo_address]\<rparr>,
      DStatus = DStatus zero_IPAllocation_mem\<rparr>"

lemma demo_heap_view:
  "view_ptr un_IPAllocation view_IPAllocation demo_heap (Some 3) = Some (Some demo_allocation_val, {0, 1, 2, 3})"
  by (auto simp: demo_heap_def view_ptr_def view_IPAllocation_def view_object_def view_ObjectMeta_def
      flat_view_def view_IPAllocationSpec_def view_slice_def slice_elems_def view_all_def
      demo_allocation_val_def zero_IPAllocation_mem_def)

end
