(* ===== verification/Accounting_Failures.thy ===== *)
theory Accounting_Failures
  imports Ledger Events
begin

text \<open>
  Where the accounting of \<open>Ledger\<close> fails: a pool event that frees addresses in use (after a
  restart), a second release after another service took the address, and a pool that is gone but
  whose addresses are still given out.
\<close>

section \<open>The event of a pool after the warm-up\<close>

lemma warmup_pools_availability:
  "warmup_pools E allocations objs s = Some s' \<Longrightarrow> availability_wf (availablesPools s) \<Longrightarrow>
     availability_wf (availablesPools s')"
proof (induction objs arbitrary: s)
  case Nil
  then show ?case by simp
next
  case (Cons obj objs)
  show ?case
  proof (cases "\<exists>pool. obj = PersistentIPPoolObj pool")
    case True
    then obtain pool where obj: "obj = PersistentIPPoolObj pool" ..
    with Cons.prems(1) obtain t where t: "persistent_addPool E pool s = Some t"
      and rest: "warmup_pools E allocations objs
        (t\<lparr>availablesPools := processIPAvailability pool allocations (availablesPools t)\<rparr>) = Some s'"
      by (auto elim!: bind_SomeE)
    from Cons.IH [OF rest] persistent_addPool_availability [OF t] Cons.prems(2)
    show ?thesis by (simp add: processIPAvailability_wf addOrReplace_wf)
  next
    case False
    with Cons show ?thesis by (cases obj) auto
  qed
qed

lemma persistent_Init_availability:
  "persistent_Init E s = Some s' \<Longrightarrow> availability_wf (availablesPools s) \<Longrightarrow> availability_wf (availablesPools s')"
  by (auto simp: persistent_Init_def warmupIPAvailabilityOrDie_def persistent_warmupIPPoolsCacheOrDie_def
      persistent_createIPPoolsWatcher_def onw_eq Let_def elim!: bind_SomeE split: asm_splits
      dest!: warmup_pools_availability)

text \<open>Whatever the warm-up made of the allocations of the cluster, the event of a pool, which the
  informer delivers after it, makes every address of the pool free again.\<close>

lemma pool_event_frees:
  assumes h: "persistent_pools_handler E (AddEv (PersistentIPPoolObj p)) s = Some s'"
    and wf: "availability_wf (availablesPools s)" and ne: "pool_addresses p \<noteq> []"
  shows "pool_entries p \<subseteq> free_ips (availablesPools s')" and "p \<in> set (availablesPools s')"
proof -
  from h have a: "availablesPools s' = addOrReplaceAvailabilityPool p (availablesPools s)"
    by (simp add: persistent_addPool_availability)
  from addOrReplace_spec(1) [OF wf ne] a show "pool_entries p \<subseteq> free_ips (availablesPools s')" by simp
  show "p \<in> set (availablesPools s')"
    using ne searchAvailability_Some [of "PGetName p" "availablesPools s"]
    by (auto simp: a addOrReplaceAvailabilityPool_def set_update_memI split: option.split)
qed

section \<open>The second release\<close>

context clouds_integration begin

lemma cleanup_removed_frees:
  "cleanup_removed E GetCloudAPI ns as s = Some s' \<Longrightarrow> availability_wf (availablesPools s) \<Longrightarrow>
     store_owns E ns (pairs as) \<Longrightarrow>
     free_ips (availablesPools s') = pairs as \<union> free_ips (availablesPools s) \<and> availability_wf (availablesPools s')"
proof (induction as arbitrary: s)
  case Nil
  then show ?case by simp
next
  case (Cons x as)
  from Cons.prems(1) obtain r t where
    d: "persistent_DeallocateAddress E GetCloudAPI x (release_ip E (Pool x) ns (Address x) s) = Some (r, t)"
    and rest: "cleanup_removed E GetCloudAPI ns as t = Some s'"
    by (auto simp: Let_def elim!: bind_SomeE)
  from Cons.prems(3) have own: "pool_owns (persistent_store E s) (Pool x) ns (Address x)"
    and o: "store_owns E ns (pairs as)" by (auto simp: store_owns_def alloc_pair_def)
  from ReleaseIP_spec [OF Cons.prems(2) own] world_only_fields(1) [OF persistent_DeallocateAddress_world_only [OF d]]
  have "free_ips (availablesPools t) = insert (alloc_pair x) (free_ips (availablesPools s))"
    and "availability_wf (availablesPools t)" by (simp_all add: alloc_pair_def)
  with Cons.IH [OF rest _ o] show ?case by auto
qed

end

section \<open>A pool that is removed\<close>

text \<open>The requests about allocations that lead from one world to another.\<close>

definition allocation_requests_only :: "'w env \<Rightarrow> 'w \<Rightarrow> 'w \<Rightarrow> bool" where
  "allocation_requests_only E = (\<lambda>w w'. \<exists>rq. w' = snd (rest_allocation E rq w))\<^sup>*\<^sup>*"

lemma requests_refl [simp]: "allocation_requests_only E w w"
  by (simp add: allocation_requests_only_def)

lemma requests_trans: "allocation_requests_only E u v \<Longrightarrow> allocation_requests_only E v w \<Longrightarrow> allocation_requests_only E u w"
  unfolding allocation_requests_only_def by (rule rtranclp_trans)

lemma request_once: "allocation_requests_only E w (snd (rest_allocation E rq w))"
  unfolding allocation_requests_only_def by blast

lemma onw_requests:
  assumes "onw f s = (r, s')" and "\<And>w. allocation_requests_only E w (snd (f w))"
  shows "allocation_requests_only E (world s) (world s')"
  using assms unfolding onw_eq by (metis snd_conv sys.select_convs(1) sys.surjective sys.update_convs(1))

lemma write_requests:
  "allocation_requests_only E w (snd (IPAllocations_Update E ns a w))"
  "allocation_requests_only E w (snd (IPAllocations_UpdateStatus E ns a w))"
  by (simp_all add: IPAllocations_Update_def IPAllocations_UpdateStatus_def split_beta request_once)

lemma AddrDeleted_requests:
  "SetAllocationStatusAddrDeleted E a x s = Some (r, s') \<Longrightarrow> allocation_requests_only E (world s) (world s')"
  by (auto simp: SetAllocationStatusAddrDeleted_def send_status_def elim!: bind_SomeE split: asm_splits
      dest: onw_requests [OF _ write_requests(2)])

lemma RemoveAddress_requests:
  "RemoveAddressFromAllocation E a x s = Some (r, s') \<Longrightarrow> allocation_requests_only E (world s) (world s')"
  by (auto simp: RemoveAddressFromAllocation_def Let_def elim!: bind_SomeE split: asm_splits
      dest!: onw_requests [OF _ write_requests(1)] AddrDeleted_requests) (meson requests_trans)+

lemma remove_matching_requests:
  "remove_matching E P as a s = Some s' \<Longrightarrow> allocation_requests_only E (world s) (world s')"
proof (induction as arbitrary: a s)
  case Nil
  then show ?case by simp
next
  case (Cons x as)
  then show ?case
    by (auto elim!: bind_SomeE split: if_split_asm dest!: Cons.IH RemoveAddress_requests intro: requests_trans)
qed

lemma remove_from_allocations_requests:
  "remove_from_allocations E P objs s = Some s' \<Longrightarrow> allocation_requests_only E (world s) (world s')"
proof (induction objs arbitrary: s)
  case Nil
  then show ?case by simp
next
  case (Cons obj objs)
  then show ?case
    by (auto elim!: bind_SomeE split: k8s_obj.split_asm dest!: Cons.IH remove_matching_requests intro: requests_trans)
qed

lemma controller_removed_spec:
  assumes "controller_persistentPoolRemoved E p s = Some s'" and "operator_inv s"
  shows "availablesPools s' = availablesPools s" and "bus s' = bus s" and "operator_inv s'"
proof -
  from assms(1) have "s' = s \<or> controller_persistentPoolModified E p s = Some s'"
    by (simp add: controller_persistentPoolRemoved_def controller_persistentPoolModified_def split: if_split_asm)
  with assms(2) pool_modified_spec [of E p s s'] show "availablesPools s' = availablesPools s" and "bus s' = bus s"
    and "operator_inv s'" by auto
qed

text \<open>A free address of a pool that admits the namespace is found.\<close>

lemma listed_address_is_given:
  "q \<in> set aps \<Longrightarrow> namespace_allowed (PAllowedNamespaces (PSpec q)) ns \<Longrightarrow> a \<in> set (pool_addresses q) \<Longrightarrow>
     \<exists>pool. fst (UseIP ns a aps) = Inr pool"
  by (auto simp: UseIP_succeeds_iff)

end
