(* ===== verification/Spec2Isabelle.thy ===== *)
theory Spec2Isabelle
  imports Example_Node Example_Ledger Example_Process Backoff_Calculator Deep_Copy Fake_Client Accounting_Failures
begin

text \<open>
  A verification development for PlenusLB (\<open>src/pkg\<close>, \<open>src/tools\<close>), a controller that gives
  external addresses to Kubernetes services of type LoadBalancer on bare metal and on clouds.

  \<^bold>\<open>The program.\<close> A user declares pools of addresses: persistent pools list addresses, which
  services ask for by name (\<open>spec.externalIPs\<close>); ephemeral pools name a cloud from which an
  address is bought for a service that asks for none. The controller (elected leader among
  its replicas) watches services, pools and its own \<open>IPAllocation\<close> objects. The handler of
  service events creates or reconciles the allocation of a service, which records each address
  with its pool, node and interface; the handler of allocation events makes the addresses
  effective (\<open>EnsureIPAllocation\<close>): it assigns them on the cloud and asks the operator on the
  node, a pod of a daemon set the controller deploys, to add them to an interface, over gRPC.
  The operator keeps the list of its addresses and restores one that disappears. Goroutines
  that work on one allocation are kept apart by a lock with a backoff; an allocation in error
  is retried by a loop of its own; pools and operators that come and go are reported through
  channels. The clients of the custom resources, their informers and listers, the deep copies of
  the objects and the gRPC stubs between controller and operators are generated code.

  \<^bold>\<open>Theories and code.\<close> The theories follow the packages; definitions have the names of the
  Go functions, with a prefix where two packages share a name.
  \<^item> \<open>Go_Prelude\<close>: how Go is represented; lists, decimal numbers, the simplification sets.
  \<^item> \<open>Api_Types\<close>, \<open>K8s_Workloads\<close>: the custom resources (\<open>apis/loadbalancing/v1alpha1\<close>) and
    the fields used of Kubernetes objects.
  \<^item> \<open>Environment\<close>: the state \<open>sys\<close> (the package variables of the controller, each a field,
    and the outside \<open>world\<close>) and the parameters \<open>env\<close> (API server, informer caches, retry loops,
    gRPC, the Hetzner client, random numbers, process environment).
  \<^item> \<open>Typed_Client\<close>: the methods of the generated typed clients as the requests they send.
    \<open>Fake_Client\<close>: the fake clients the tests use, and the requests their actions stand for.
  \<^item> \<open>Clientset\<close>: how the clients are built from a configuration, the scheme, \<open>controller/clients\<close>.
  \<^item> \<open>Informers\<close>: the generated informers, their shared factory as a state machine
    (\<open>factory_step\<close>), and the listers.
  \<^item> \<open>Go_Heap\<close>, \<open>Deep_Copy\<close>: pointers and slices in a heap of cells, with the contract of a deep
    copy as the locale \<open>deep_copy\<close>, and all functions of \<open>zz_generated.deepcopy.go\<close>, which are
    interpreted in it. The other theories pass objects as values; these two show that this is sound
    where the code copies first.
  \<^item> \<open>Utils\<close>, \<open>Backoff\<close>, \<open>Wait\<close>: \<open>controller/utils\<close> and \<open>controller/wait\<close>.
  \<^item> \<open>Availability_Interface\<close>, \<open>Pools_Manager\<close>: the contract between allocator and pools manager
    as the locale \<open>ip_availability\<close>, and \<open>persistentips/poolsManager.go\<close>, which is interpreted in it.
  \<^item> \<open>Persistent_Allocator\<close>, \<open>Persistent_Watcher\<close>, \<open>Ephemeral_Allocator\<close> (with \<open>Net_IP\<close> for
    \<open>net.ParseIP\<close>): the packages \<open>persistentips\<close> and \<open>ephemeralips\<close>.
  \<^item> \<open>Ipallocations\<close>, \<open>Alloc_Lock\<close>, \<open>Services\<close>, \<open>Reconciler\<close>, \<open>Allocator\<close>, \<open>Service_Watcher\<close>,
    \<open>Allocations_Watcher\<close>: the packages that handle allocations.
  \<^item> \<open>Operator_List\<close>, \<open>Operator_Daemonset\<close>, \<open>Operator_Speaker\<close>, \<open>Pools_Controller\<close>, \<open>Events\<close>,
    \<open>Leader\<close>, \<open>Crd\<close>: the operators' life cycle, the channels, the start as leader, the
    definitions of the custom resources.
  \<^item> \<open>Clouds\<close>: \<open>pkg/clouds\<close>, with the locales \<open>cloud_api\<close> and \<open>clouds_integration\<close>, interpreted by
    the Hetzner client and the fake one.
  \<^item> \<open>Node_Agent\<close>, \<open>Node_Watch\<close>: the operator process (\<open>pkg/operator\<close>) over netlink, and its loop over
    netlink's notifications as a transition system (\<open>agent_step\<close>).
  \<^item> \<open>Node_Liveness\<close>: infinite executions of an operator and what they come to.
  \<^item> \<open>Tools\<close>, \<open>Backoff_Calculator\<close>: the health probes and \<open>tools/backoffCalculator.go\<close>.
  \<^item> \<open>Effects\<close>: which calls a run makes. \<open>Node_Calls\<close>: controller and operators together.
    \<open>Grpc_Service\<close>: the generated stubs and handlers between them, from which the assumption of
    \<open>Node_Calls\<close> on the calls (\<open>grpc_served\<close>) follows.
  \<^item> \<open>Ledger\<close>: who holds which address, over all operations and new pools in any order
    (\<open>ledger_step\<close>). \<open>Accounting_Failures\<close>: how pool events and a second release break it.
  \<^item> \<open>Controller_Frames\<close>, \<open>Controller\<close>: the controller that leads as a transition system (event
    handlers, listeners, goroutines in any order, \<open>ctl_step\<close>), its reachable states and invariant.
  \<^item> \<open>Main_Programs\<close>: the two processes of \<open>pkg/cmd\<close>.
  \<^item> \<open>Example_Cluster\<close>, \<open>Example_Node\<close>, \<open>Example_Start\<close>, \<open>Example_Ledger\<close>, \<open>Example_Process\<close>: a cluster
    and nodes in memory, a start of the controller and a process there, for the witnesses.

  \<^bold>\<open>How the code is represented.\<close> A function with effects takes and returns the state. \<open>None\<close> is
  a panic or the end of the process (\<open>klog.Fatal\<close>); an error that is returned is a value. A
  goroutine that is started is a task in the result, run by \<open>run_allocation_task\<close> or
  \<open>run_service_task\<close>; a function runs without interruption, except in \<open>Alloc_Lock\<close>, where the
  acquisition is split into its two map accesses and goroutines interleave. In \<open>Controller\<close>
  handlers and goroutines follow one another in any order; while a goroutine sleeps the rest of
  the system may move, and \<open>sleeps_keep\<close> says that it keeps the invariant then. Pointers that
  alias (the availability list holds pool pointers) are values that are updated in place in
  the list. Nil and empty slices are one value, so \<open>reflect.DeepEqual\<close> is equality. Log output
  is left out, except where it is the behaviour (the rate limit).

  \<^bold>\<open>Bounds and fuel.\<close> No definition has fuel of its own. The loops over slices are structural
  recursion; the backoff loop terminates by its step count. \<open>retry_ok\<close>, \<open>poll_ok\<close> and \<open>intn_ok\<close> state
  the documented behaviour of \<open>retry.OnError\<close>, \<open>wait.Poll\<close> and \<open>rand.Intn\<close>: they hold for loops of
  any number of steps, so nothing depends on a bound. Durations are nanoseconds; int64 values
  wrap where they can (\<open>wrap64\<close>), decimal parsing has the bounds of \<open>strconv\<close>.

  \<^bold>\<open>What the lemmas show.\<close> Claims C1 to C7: addresses are neither lost nor given out twice, over
  the whole life of pools and allocations (C1), by the pools manager, by the operations of the
  persistent allocator and by the events of the pools; the pools of the addresses in question
  must stay in the informer's cache for that. C8 to C10: where this accounting fails, that is after
  a restart, by a release that is done twice and with a pool that is deleted. C11 to C15: what a
  run of \<open>EnsureIPAllocation\<close> brings about, up to the interface of the node, and what its failures
  leave. C16 to C22: lock, list of retried allocations, backoff and its calculator. C23, C24:
  reconciliation and change of node. C25 to C31: events of nodes, services, operators and pools,
  (C28) the controller as a whole and (C29) as a process. C32: custom resource definitions. C33:
  the cloud. C34 to C36: the operator on a node, which heals and, left alone, comes to rest. C38 to
  C40: generated code, that is deep copies, informers and gRPC stubs. Some claims state what goes
  wrong: beside C8 to C10 the lock that does not exclude, the panics, the lookup error that
  deletes an allocation, the requests that outlive the shutdown (C29), the total of the
  calculator (C22), and the address that moves between pools (C37).

  \<^bold>\<open>Not modelled.\<close> The informers of client-go, which the controller uses directly (the caches are
  parameters), the REST client and transports, protobuf marshalling and descriptors, the tracker
  behind the fake clientset; flags, logging and random seeds of the main programs; \<open>sync.Mutex\<close>
  around operations that are modelled as one step.

  \<^bold>\<open>Plan.\<close> Done: all packages above, the interleaving of goroutines with the event handlers as a
  step relation, the accounting of addresses over all operations and the addition of pools (C1).
  Well-formedness of the availability list is not an invariant of the controller (C37), only
  where addresses keep their pool. Next: changes and removals of pools in the ledger, with the
  weaker accounting that C8 and C10 leave; bought addresses of ephemeral allocations (which are
  leaked where the object cannot be created).
\<close>

section \<open>The availability of persistent addresses\<close>



text \<open>
  Over any session of requests and returns, in any order, the addresses of the
  persistent pools are neither lost nor handed out twice: what clients hold and what is
  free stay disjoint, and together they are what they were at the start.
\<close>

lemma addresses_conserved:
  assumes "availability_wf aps" and "held \<inter> free_ips aps = {}"
    and "\<forall>e \<in> set es. av_event_ok (pool_owns store) e"
    and "av_run take_ip (\<lambda>p ns a. ReleaseIP store p ns a) es (held, aps) = (held', aps')"
  shows "availability_wf aps' \<and> held' \<inter> free_ips aps' = {} \<and>
    held' \<union> free_ips aps' = held \<union> free_ips aps"
  using assms by (rule av.run_conserves)

text \<open>
  Claim C2. \<open>UseIP\<close> succeeds exactly when some pool with free addresses admits the namespace and
  has the address; then the address, and nothing else, leaves the free set, from the pool
  it names. Otherwise nothing changes and the error is \<open>ErrNoIPAvailable\<close>.
\<close>

theorem UseIP_contract:
  assumes "availability_wf aps"
  shows "case UseIP ns a aps of
      (Inr pool, aps') \<Rightarrow> (PGetName pool, a) \<in> free_ips aps \<and>
        free_ips aps' = free_ips aps - {(PGetName pool, a)} \<and> availability_wf aps' \<and>
        namespace_allowed (PAllowedNamespaces (PSpec pool)) ns
    | (Inl e, aps') \<Rightarrow> e = ErrNoIPAvailable \<and> aps' = aps \<and>
        (\<forall>p \<in> set aps. namespace_allowed (PAllowedNamespaces (PSpec p)) ns \<longrightarrow> a \<notin> set (pool_addresses p))"
proof -
  obtain r aps' where u: "UseIP ns a aps = (r, aps')" by (metis prod.exhaust)
  show ?thesis
  proof (cases r)
    case (Inl e)
    with u UseIP_Inl [of ns a aps e aps'] UseIP_succeeds_iff [of ns a aps] show ?thesis by auto
  next
    case (Inr pool)
    with u UseIP_success [OF assms, of ns a pool aps'] show ?thesis by simp
  qed
qed

theorem UseIP_contract_witness:
  "availability_wf [two_ips] \<and> fst (UseIP ''web'' ''192.0.2.7'' [two_ips]) = Inl ErrNoIPAvailable \<and>
   (\<exists>pool aps'. UseIP ''web'' ''192.0.2.1'' [two_ips] = (Inr pool, aps') \<and>
      free_ips aps' = free_ips [two_ips] - {(PGetName pool, ''192.0.2.1'')})"
proof -
  have wf: "availability_wf [two_ips]" by (simp add: availability_wf_def demo_clusters)
  have no: "fst (UseIP ''web'' ''192.0.2.7'' [two_ips]) = Inl ErrNoIPAvailable"
    by (simp add: UseIP_def getAvailabilityPoolOfAddress_def namespace_allowed_def demo_clusters)
  obtain pool aps' where yes: "UseIP ''web'' ''192.0.2.1'' [two_ips] = (Inr pool, aps')"
    by (simp add: UseIP_def getAvailabilityPoolOfAddress_def namespace_allowed_def demo_clusters)
  from UseIP_contract [OF wf, of "''web''" "''192.0.2.1''"] yes wf no show ?thesis by auto
qed

text \<open>
  Claim C3. Releasing an address under the pool \<open>UseIP\<close> named restores the set of free addresses,
  also when it was the last one of its pool and the pool had left the list.
\<close>

theorem UseIP_ReleaseIP:
  assumes "availability_wf aps" and "UseIP ns a aps = (Inr pool, aps')"
    and "pool_owns store (PGetName pool) ns a"
  shows "free_ips (ReleaseIP store (PGetName pool) ns a aps') = free_ips aps \<and>
    availability_wf (ReleaseIP store (PGetName pool) ns a aps')"
  using av.hand_out_give_back_free [OF assms(1) _ assms(3), of aps'] assms(2)
  by (simp add: take_ip_def)

theorem UseIP_ReleaseIP_witness:
  "\<exists>pool aps'. UseIP ''web'' ''192.0.2.1'' [plain_pool ''p'' [''192.0.2.1'']] = (Inr pool, aps') \<and>
     aps' = [] \<and>
     free_ips (ReleaseIP [PersistentIPPoolObj two_ips] (PGetName pool) ''web'' ''192.0.2.1'' aps') =
       {(''p'', ''192.0.2.1'')}"
proof -
  let ?aps = "[plain_pool ''p'' [''192.0.2.1'']]"
  have u: "UseIP ''web'' ''192.0.2.1'' ?aps = (Inr (plain_pool ''p'' []), [])"
    by (simp add: UseIP_def getAvailabilityPoolOfAddress_def namespace_allowed_def removeIPFromPool_def
        removeAvailablePool_def swap_remove_def set_pool_addresses_def demo_clusters)
  have wf: "availability_wf ?aps" by (simp add: availability_wf_def demo_clusters)
  have own: "pool_owns [PersistentIPPoolObj two_ips] (PGetName (plain_pool ''p'' [])) ''web'' ''192.0.2.1''"
    by (simp add: pool_owns_def namespace_allowed_def demo_clusters)
  have "free_ips ?aps = {(''p'', ''192.0.2.1'')}" by (simp add: pool_entries_def demo_clusters)
  with UseIP_ReleaseIP [OF wf u own] u show ?thesis by simp
qed

text \<open>
  Claim C4. At start-up the controller adds a pool and then subtracts the allocated addresses.
  The result: of that pool exactly the addresses no allocation has are free and other pools
  are untouched, except where every address is allocated. Then the recomputation is
  skipped and the whole pool stays free.
\<close>

theorem warmup_availability:
  assumes "availability_wf aps" and "pool_addresses pool \<noteq> []"
  shows "free_ips (processIPAvailability pool allocations (addOrReplaceAvailabilityPool pool aps)) =
    {e \<in> free_ips aps. fst e \<noteq> PGetName pool} \<union>
    (if set (pool_addresses pool) \<subseteq> allocated_ips allocations then pool_entries pool
     else Pair (PGetName pool) ` (set (pool_addresses pool) - allocated_ips allocations))"
  using warmup_one_pool [OF assms(1), of pool allocations] assms(2) by simp

theorem warmup_availability_witness:
  "free_ips (processIPAvailability two_ips [alloc_of ''a'' [addr_on ''p'' ''n'' ''192.0.2.1''] AllocationStatusSuccess]
     (addOrReplaceAvailabilityPool two_ips [])) = {(''p'', ''192.0.2.2'')} \<and>
   free_ips (processIPAvailability two_ips
     [alloc_of ''a'' [addr_on ''p'' ''n'' ''192.0.2.1'', addr_on ''p'' ''n'' ''192.0.2.2''] AllocationStatusSuccess]
     (addOrReplaceAvailabilityPool two_ips [])) = {(''p'', ''192.0.2.1''), (''p'', ''192.0.2.2'')}"
proof -
  have wf: "availability_wf []" by (simp add: availability_wf_def)
  have ne: "pool_addresses two_ips \<noteq> []" by (simp add: demo_clusters)
  show ?thesis
    unfolding warmup_availability [OF wf ne]
    by (auto simp: allocated_ips_def pool_entries_def demo_clusters)
qed

text \<open>
  Claim C5. Creating a persistent allocation takes from the free addresses exactly those the
  new object records, all of them free before and each once; if the object cannot be
  created, every one of them is given back. (The pools that admit the namespace and have the
  addresses asked for must stay in the informer's cache meanwhile.)
\<close>

theorem createPersistentAllocation_conserves:
  assumes "createPersistentAllocation E ns name ips s = Some ((a, aerr, err), s')"
    and "availability_wf (availablesPools s)"
    and "store_owns E ns {e \<in> free_ips (availablesPools s). snd e \<in> set ips \<and>
      admits (pool_ids (availablesPools s)) ns (fst e)}"
  shows "\<exists>allocations s1 t.
    CreateAllocation E ns name PersistentIP allocations s1 = Some ((a, err), t) \<and>
    (aerr = None \<longrightarrow> map Address allocations = ips) \<and>
    pairs allocations \<subseteq> free_ips (availablesPools s) \<and> distinct (map alloc_pair allocations) \<and>
    free_ips (availablesPools s') =
      (if err = None then free_ips (availablesPools s) - pairs allocations else free_ips (availablesPools s))"
  using createPersistentAllocation_accounting [OF assms] by metis

theorem createPersistentAllocation_conserves_witness:
  "\<exists>a aerr s' allocations s1 t.
     createPersistentAllocation (fixed_pools [two_ips]) ''web'' ''site'' [''192.0.2.1'']
       (sys_of empty_cluster [two_ips]) = Some ((a, aerr, None), s') \<and>
     CreateAllocation (fixed_pools [two_ips]) ''web'' ''site'' PersistentIP allocations s1 = Some ((a, None), t) \<and>
     free_ips (availablesPools s') = {(''p'', ''192.0.2.1''), (''p'', ''192.0.2.2'')} - pairs allocations"
proof -
  let ?E = "fixed_pools [two_ips]" and ?s = "sys_of empty_cluster [two_ips]"
  have "createPersistentAllocation ?E ''web'' ''site'' [''192.0.2.1''] ?s \<noteq> None \<and>
    snd (snd (fst (the (createPersistentAllocation ?E ''web'' ''site'' [''192.0.2.1''] ?s)))) = None"
    by (simp add: eval_create eval_pools eval_api demo_clusters Let_def)
  then obtain a aerr s' where
    c: "createPersistentAllocation ?E ''web'' ''site'' [''192.0.2.1''] ?s = Some ((a, aerr, None), s')"
    by fastforce
  have wf: "availability_wf (availablesPools ?s)" by (simp add: availability_wf_def demo_clusters)
  have free: "free_ips (availablesPools ?s) = {(''p'', ''192.0.2.1''), (''p'', ''192.0.2.2'')}"
    by (auto simp: pool_entries_def demo_clusters)
  have own: "store_owns ?E ''web'' {e \<in> free_ips (availablesPools ?s). snd e \<in> set [''192.0.2.1''] \<and>
      admits (pool_ids (availablesPools ?s)) ''web'' (fst e)}"
    unfolding free by (auto simp: store_owns_def pool_owns_def namespace_allowed_def demo_clusters)
  from createPersistentAllocation_conserves [OF c wf own] c free show ?thesis by auto
qed

text \<open>
  Claim C6. Patching an allocation for the addresses its service now asks for moves addresses
  between the allocation and the free set and loses or duplicates none, in every outcome:
  also when the update of the object fails. (In that last case the addresses taken out are
  free although the stored object still records them.)
\<close>

theorem CheckAndPatchAllocation_conserves:
  assumes "persistent_CheckAndPatchAllocation E ns name ips cur s = Some ((res, removed, aerr, err), s')"
    and "availability_wf (availablesPools s)"
    and "store_owns E ns (pairs (alloc_addresses cur))"
    and "distinct (map Address (alloc_addresses cur))"
    and "pairs (alloc_addresses cur) \<inter> free_ips (availablesPools s) = {}"
  shows "\<exists>allocations s1.
    persistent_buildAllocations E ns (Some cur) ips s = Some ((allocations, aerr), s1) \<and>
    pairs allocations \<union> free_ips (availablesPools s') =
      pairs (alloc_addresses cur) \<union> free_ips (availablesPools s) \<and>
    pairs allocations \<inter> free_ips (availablesPools s') = {} \<and>
    pairs (removed_allocations allocations (alloc_addresses cur)) \<subseteq> free_ips (availablesPools s') \<and>
    availability_wf (availablesPools s')"
  using patch_accounting [OF assms] by metis

theorem CheckAndPatchAllocation_conserves_witness:
  "\<exists>res removed aerr err s' allocations.
     persistent_CheckAndPatchAllocation (fixed_pools [two_ips]) ''web'' ''site'' [''192.0.2.2'']
       (alloc_of ''site'' [addr_on ''p'' '''' ''192.0.2.1''] AllocationStatusSuccess)
       (sys_of empty_cluster [plain_pool ''p'' [''192.0.2.2'']]) = Some ((res, removed, aerr, err), s') \<and>
     err \<noteq> None \<and>
     pairs allocations \<union> free_ips (availablesPools s') = {(''p'', ''192.0.2.1''), (''p'', ''192.0.2.2'')} \<and>
     pairs allocations \<inter> free_ips (availablesPools s') = {}"
proof -
  let ?E = "fixed_pools [two_ips]"
  let ?cur = "alloc_of ''site'' [addr_on ''p'' '''' ''192.0.2.1''] AllocationStatusSuccess"
  let ?s = "sys_of empty_cluster [plain_pool ''p'' [''192.0.2.2'']]"
  have "\<exists>res removed aerr err s'. err \<noteq> None \<and>
      persistent_CheckAndPatchAllocation ?E ''web'' ''site'' [''192.0.2.2''] ?cur ?s =
        Some ((res, removed, aerr, err), s')"
    by (simp add: persistent_CheckAndPatchAllocation_def removed_allocations_def release_all_def
        eval_create eval_pools eval_api demo_clusters Let_def)
  then obtain res removed aerr err s' where e: "err \<noteq> None" and
    c: "persistent_CheckAndPatchAllocation ?E ''web'' ''site'' [''192.0.2.2''] ?cur ?s =
      Some ((res, removed, aerr, err), s')" by blast
  have held: "pairs (alloc_addresses ?cur) = {(''p'', ''192.0.2.1'')}"
    by (simp add: alloc_pair_def demo_clusters)
  have free: "free_ips (availablesPools ?s) = {(''p'', ''192.0.2.2'')}"
    by (simp add: pool_entries_def demo_clusters)
  have wf: "availability_wf (availablesPools ?s)" by (simp add: availability_wf_def demo_clusters)
  have own: "store_owns ?E ''web'' (pairs (alloc_addresses ?cur))"
    unfolding held by (simp add: store_owns_def pool_owns_def namespace_allowed_def demo_clusters)
  have d: "distinct (map Address (alloc_addresses ?cur))" by (simp add: demo_clusters)
  have dj: "pairs (alloc_addresses ?cur) \<inter> free_ips (availablesPools ?s) = {}" unfolding held free by simp
  from CheckAndPatchAllocation_conserves [OF c wf own d dj, unfolded held free] obtain allocations where
    u: "pairs allocations \<union> free_ips (availablesPools s') = {(''p'', ''192.0.2.1''), (''p'', ''192.0.2.2'')}"
    and i: "pairs allocations \<inter> free_ips (availablesPools s') = {}" by auto
  show ?thesis by (intro exI conjI, rule c, rule e, rule u, rule i)
qed

text \<open>
  Deallocating a persistent allocation gives back all its addresses, and no others,
  whether or not the operators and the cloud could be reached for their part.
\<close>

lemma DeallocateAllocation_returns:
  assumes "DeallocateAllocation E (Integration_GetCloudAPI E) a s = Some s'"
    and "availability_wf (availablesPools s)"
    and "store_owns E (AGetNamespace a) (pairs (alloc_addresses a))"
  shows "free_ips (availablesPools s') = pairs (alloc_addresses a) \<union> free_ips (availablesPools s) \<and>
    availability_wf (availablesPools s')"
  using hetzner_clouds.persistent_deallocate_loop_spec [OF assms(1) [unfolded DeallocateAllocation_def] assms(2,3)] .

text \<open>
  Claim C7. The events of the pool informer keep the state well-formed: pool names in the
  availability list stay distinct and no listed pool is empty; and whenever the operator
  is deployed its pod watcher exists and its stop channel is open.
\<close>

theorem pools_handler_invariant:
  assumes "persistent_pools_handler E ev s = Some s'"
    and "operator_inv s" and "availability_wf (availablesPools s)"
  shows "availability_wf (availablesPools s') \<and> operator_inv s'"
  using assms by (rule persistent_pools_handler_wf)

theorem pools_handler_invariant_witness:
  "\<exists>s'. persistent_pools_handler demo (AddEv (PersistentIPPoolObj (host_pool ''h'' [''192.0.2.3''])))
      (sys_of web_cluster [two_ips]) = Some s' \<and> deployed s' \<and>
    availability_wf (availablesPools s') \<and> operator_inv s'"
proof -
  let ?ev = "AddEv (PersistentIPPoolObj (host_pool ''h'' [''192.0.2.3'']))" and ?s = "sys_of web_cluster [two_ips]"
  have "\<exists>s'. persistent_pools_handler demo ?ev ?s = Some s' \<and> deployed s'"
    by (simp add: persistent_addPool_def addOrReplaceAvailabilityPool_def eval_pools eval_deploy
        demo_clusters)
  then obtain s' where h: "persistent_pools_handler demo ?ev ?s = Some s'" "deployed s'" by blast
  have i: "operator_inv ?s" by (simp add: operator_inv_def sys_of_def)
  have w: "availability_wf (availablesPools ?s)" by (simp add: availability_wf_def demo_clusters)
  from pools_handler_invariant [OF h(1) i w] h show ?thesis by auto
qed



text \<open>
  Claim C9. A reconciliation releases the addresses an allocation gives up twice, once while it is
  patched and once after it was updated: an address that another service has taken in between
  is then free although that service holds it, and the accounting of the ledger is broken.
\<close>

theorem cleanup_frees_address_of_another:
  assumes "persistent_CheckAndPatchAllocation E ns n ips cur s0 = Some ((res, removed, aerr, None), s1)"
    and "availability_wf (availablesPools s0)" and "store_owns E ns (pairs (alloc_addresses cur))"
    and "distinct (map Address (alloc_addresses cur))"
    and "pairs (alloc_addresses cur) \<inter> free_ips (availablesPools s0) = {}"
    and "ledger_inv T (led, s)" and "x \<in> set removed" and "alloc_pair x \<in> held_by led k"
    and "cleanup_removed E (Integration_GetCloudAPI E) ns removed s = Some s'"
  shows "alloc_pair x \<in> free_ips (availablesPools s1) \<and> alloc_pair x \<in> free_ips (availablesPools s') \<and>
    \<not> ledger_inv T (led, s')"
proof -
  obtain as t where b: "persistent_buildAllocations E ns (Some cur) ips s0 = Some ((as, aerr), t)"
    and free: "pairs (removed_allocations as (alloc_addresses cur)) \<subseteq> free_ips (availablesPools s1)"
    by (rule patch_accounting [OF assms(1-5)])
  obtain as' t' where b': "persistent_buildAllocations E ns (Some cur) ips s0 = Some ((as', aerr), t')"
    and r: "removed = removed_allocations as' (alloc_addresses cur)"
    using persistent_Check_cases [OF assms(1)] by metis
  from b b' r have r: "removed = removed_allocations as (alloc_addresses cur)" by simp
  then have "pairs removed \<subseteq> pairs (alloc_addresses cur)" by (auto simp: removed_allocations_def)
  with assms(3) have own: "store_owns E ns (pairs removed)" unfolding store_owns_def by blast
  from assms(6) have wf: "availability_wf (availablesPools s)" by (simp add: ledger_inv_def)
  from hetzner_clouds.cleanup_removed_frees [OF assms(9) wf own] assms(7)
  have f: "alloc_pair x \<in> free_ips (availablesPools s')" by blast
  from assms(8) have "alloc_pair x \<in> ledger_held led" unfolding ledger_held_def by blast
  with f have "\<not> ledger_inv T (led, s')" by (auto simp: ledger_inv_def)
  with f free r assms(7) show ?thesis by blast
qed

theorem cleanup_frees_address_of_another_witness:
  "\<exists>res removed aerr s1 a berr s2 s3.
     persistent_CheckAndPatchAllocation (fixed_pools [two_ips]) ''web'' ''site'' [''192.0.2.2'']
       (alloc_of ''site'' [addr_on ''p'' '''' ''192.0.2.1''] AllocationStatusSuccess)
       (sys_of (empty_cluster\<lparr>ClAllocations :=
          [alloc_of ''site'' [addr_on ''p'' '''' ''192.0.2.1''] AllocationStatusSuccess]\<rparr>) [plain_pool ''p'' [''192.0.2.2'']])
       = Some ((res, removed, aerr, None), s1) \<and>
     createPersistentAllocation (fixed_pools [two_ips]) ''web'' ''shop'' [''192.0.2.1''] s1 = Some ((Some a, berr, None), s2) \<and>
     (''p'', ''192.0.2.1'') \<in> pairs (alloc_addresses a) \<and>
     cleanup_removed (fixed_pools [two_ips]) (Integration_GetCloudAPI (fixed_pools [two_ips])) ''web'' removed s2 = Some s3 \<and>
     (''p'', ''192.0.2.1'') \<in> free_ips (availablesPools s3)"
proof -
  let ?E = "fixed_pools [two_ips]"
  let ?cur = "alloc_of ''site'' [addr_on ''p'' '''' ''192.0.2.1''] AllocationStatusSuccess"
  let ?s = "sys_of (empty_cluster\<lparr>ClAllocations := [?cur]\<rparr>) [plain_pool ''p'' [''192.0.2.2'']]"
  have "\<exists>res removed aerr s1 a berr s2 s3.
      persistent_CheckAndPatchAllocation ?E ''web'' ''site'' [''192.0.2.2''] ?cur ?s = Some ((res, removed, aerr, None), s1) \<and>
      removed = [addr_on ''p'' '''' ''192.0.2.1''] \<and>
      createPersistentAllocation ?E ''web'' ''shop'' [''192.0.2.1''] s1 = Some ((Some a, berr, None), s2) \<and>
      map alloc_pair (alloc_addresses a) = [(''p'', ''192.0.2.1'')] \<and> availablesPools s2 = [] \<and> AGetNamespace a = ''web'' \<and>
      cleanup_removed ?E (Integration_GetCloudAPI ?E) ''web'' removed s2 = Some s3"
    by (simp add: persistent_CheckAndPatchAllocation_def removed_allocations_def release_all_def alloc_pair_def
        persistent_DeallocateAddress_def eval_create eval_pools eval_api demo_clusters Let_def)
  then obtain res removed aerr s1 a berr s2 s3 where
    c: "persistent_CheckAndPatchAllocation ?E ''web'' ''site'' [''192.0.2.2''] ?cur ?s = Some ((res, removed, aerr, None), s1)"
    and r: "removed = [addr_on ''p'' '''' ''192.0.2.1'']"
    and cr: "createPersistentAllocation ?E ''web'' ''shop'' [''192.0.2.1''] s1 = Some ((Some a, berr, None), s2)"
    and a: "map alloc_pair (alloc_addresses a) = [(''p'', ''192.0.2.1'')]" "AGetNamespace a = ''web''"
    and s2: "availablesPools s2 = []"
    and cl: "cleanup_removed ?E (Integration_GetCloudAPI ?E) ''web'' removed s2 = Some s3"
    by (elim exE conjE) (rule that)
  let ?x = "addr_on ''p'' '''' ''192.0.2.1''" and ?led = "[(''web'', ''shop'') \<mapsto> a] :: ledger"
  from a(1) have pa: "pairs (alloc_addresses a) = {(''p'', ''192.0.2.1'')}" by (metis list.set(1,2) set_map)
  from a(1) have "length (alloc_addresses a) = 1" by (metis length_map length_Cons list.size(3) One_nat_def)
  then have d1: "distinct (map Address (alloc_addresses a))" by (cases "alloc_addresses a") auto
  have x: "alloc_pair ?x = (''p'', ''192.0.2.1'')" by (simp add: alloc_pair_def demo_clusters)
  have h: "held_by ?led = (\<lambda>k. if k = (''web'', ''shop'') then {(''p'', ''192.0.2.1'')} else {})"
    by (auto simp: held_by_def pa fun_eq_iff)
  have inv: "ledger_inv {(''p'', ''192.0.2.1'')} (?led, s2)"
    by (auto simp: ledger_inv_def ledger_held_def h s2 availability_wf_def a(2) d1 split: if_split_asm)
  have held: "pairs (alloc_addresses ?cur) = {(''p'', ''192.0.2.1'')}" by (simp add: alloc_pair_def demo_clusters)
  have free: "free_ips (availablesPools ?s) = {(''p'', ''192.0.2.2'')}" by (simp add: pool_entries_def demo_clusters)
  have wf: "availability_wf (availablesPools ?s)" by (simp add: availability_wf_def demo_clusters)
  have own: "store_owns ?E ''web'' (pairs (alloc_addresses ?cur))"
    unfolding held by (simp add: store_owns_def pool_owns_def namespace_allowed_def demo_clusters)
  have d: "distinct (map Address (alloc_addresses ?cur))" by (simp add: demo_clusters)
  have dj: "pairs (alloc_addresses ?cur) \<inter> free_ips (availablesPools ?s) = {}" unfolding held free by simp
  have xr: "?x \<in> set removed" using r by simp
  have xk: "alloc_pair ?x \<in> held_by ?led (''web'', ''shop'')" by (simp add: h x)
  from cleanup_frees_address_of_another [OF c wf own d dj inv xr xk cl]
  have fin: "(''p'', ''192.0.2.1'') \<in> free_ips (availablesPools s3)" unfolding x by (elim conjE)
  have mem: "(''p'', ''192.0.2.1'') \<in> pairs (alloc_addresses a)" unfolding pa by (rule singletonI)
  show ?thesis by (intro exI conjI, rule c, rule cr, rule mem, rule cl, rule fin)
qed









text \<open>
  Claim C14. Whatever stops the lookup of the service, be it that the service is gone, the
  cache is not synchronised or the API fails, \<open>EnsureIPAllocation\<close> deletes the allocation
  and reports success; the branch that should return the error is never reached.
\<close>

theorem EnsureIPAllocation_any_lookup_error:
  assumes "FindService E (AGetNamespace a) (AGetName a) s = ((sv, Some e), s1)"
  shows "EnsureIPAllocation E C a s =
    Some (None, snd (DeleteAllocationByName E (AGetNamespace a) (AGetName a) s1))"
  using assms by (rule EnsureIPAllocation_lookup_error)

theorem EnsureIPAllocation_any_lookup_error_witness:
  "\<exists>s'. EnsureIPAllocation (demo\<lparr>servicesHasSynced := (\<lambda>_. False),
        services_get := (\<lambda>ns n c. (Inl (PlainError ''timeout''), c))\<rparr>) demo_clouds
      (alloc_of ''site'' [addr_on ''p'' ''node1'' ''192.0.2.1''] AllocationStatusPending)
      (sys_of web_cluster []) = Some (None, s') \<and> ClServices (world s') \<noteq> [] \<and> ClAllocations (world s') = []"
proof -
  let ?E = "demo\<lparr>servicesHasSynced := (\<lambda>_. False), services_get := (\<lambda>ns n c. (Inl (PlainError ''timeout''), c))\<rparr>"
  let ?a = "alloc_of ''site'' [addr_on ''p'' ''node1'' ''192.0.2.1''] AllocationStatusPending"
  let ?s = "sys_of web_cluster []"
  have f: "FindService ?E (AGetNamespace ?a) (AGetName ?a) ?s = ((None, Some (Ext (PlainError ''timeout''))), ?s)"
    by (simp add: FindService_def onw_def demo_clusters)
  have "ClServices (world (snd (DeleteAllocationByName ?E (AGetNamespace ?a) (AGetName ?a) ?s))) \<noteq> [] \<and>
    ClAllocations (world (snd (DeleteAllocationByName ?E (AGetNamespace ?a) (AGetName ?a) ?s))) = []"
    by (simp add: DeleteAllocationByName_def eval_api demo_clusters)
  with EnsureIPAllocation_any_lookup_error [OF f, of demo_clouds] show ?thesis by blast
qed

text \<open>
  Claim C15. When an address cannot be made effective, the allocation's status is set before
  the error is returned, with one status request: to the node-error state naming the node
  where no operator was reachable, to the error state with the message otherwise.
\<close>

theorem ensure_addresses_records_failure:
  assumes "ensure_addresses E C a as ips s = Some (Inl e, s')"
  shows "\<exists>x \<in> set as. \<exists>t t'. allocateAddress E C (AllocationType (ASpec a)) x t = Some (Some e, t') \<and>
    world s' = snd (rest_allocation E
      (IPAllocations_UpdateStatus_request (AGetNamespace a) (failure_status a x e)) (world t'))"
  using assms by (rule ensure_addresses_failure)

theorem ensure_addresses_records_failure_witness:
  "\<exists>e s' t'. ensure_addresses demo demo_clouds
      (alloc_of ''site'' [addr_on ''q'' ''node1'' ''192.0.2.1''] AllocationStatusPending)
      [addr_on ''q'' ''node1'' ''192.0.2.1''] [] (sys_of web_cluster []) = Some (Inl e, s') \<and>
    world s' = snd (demo_rest_allocation (IPAllocations_UpdateStatus_request ''web''
      (failure_status (alloc_of ''site'' [addr_on ''q'' ''node1'' ''192.0.2.1''] AllocationStatusPending)
        (addr_on ''q'' ''node1'' ''192.0.2.1'') e)) (world (t' :: cluster sys)))"
proof -
  let ?x = "addr_on ''q'' ''node1'' ''192.0.2.1''" and ?s = "sys_of web_cluster []"
  let ?a = "alloc_of ''site'' [?x] AllocationStatusPending"
  have "\<exists>e s'. ensure_addresses demo demo_clouds ?a [?x] [] ?s = Some (Inl e, s')"
    by (simp add: record_failure_def eval_ensure eval_pools eval_api demo_clusters Let_def)
  then obtain e s' where h: "ensure_addresses demo demo_clouds ?a [?x] [] ?s = Some (Inl e, s')" by blast
  have ns: "AGetNamespace ?a = ''web''" by (simp add: demo_objects)
  from ensure_addresses_records_failure [OF h, unfolded ns] have "\<exists>t'. world s' = snd (demo_rest_allocation
      (IPAllocations_UpdateStatus_request ''web'' (failure_status ?a ?x e)) (world (t' :: cluster sys)))"
    by (simp only: bex_simps list.set insert_iff empty_iff simp_thms demo_simps) blast
  with h show ?thesis by blast
qed

section \<open>Locks and retries\<close>



text \<open>
  Claim C17. A goroutine that handles an allocation in the success, pending, node-error or
  deleted case gives the lock back on every path on which it returns, errors included; only
  where it never got the lock does somebody else still hold it.
\<close>

theorem goroutines_release_lock:
  assumes "retry_ok (retry_lock E)" and "run_allocation_task E C task s = Some (r, s')"
    and "task \<in> {SuccessTask a, PendingTask a, NodeErrorTask a, DeletedTask a}"
  shows "lockedObjects s' (alloc_key a) = None \<or> r = Some ErrObjectLocked"
  using assms(2,3)
  by (auto simp: run_allocation_task_def processAllocationStatusSuccess_def
      processAllocationStatusPending_def processAllocationNodeError_def process_deleted_def
      dest: with_lock_released [OF assms(1)])

theorem goroutines_release_lock_witness:
  "\<exists>s'. run_allocation_task demo demo_clouds (PendingTask (alloc_of ''gone'' [] AllocationStatusPending))
      (sys_of web_cluster []) = Some (Some ErrAllocationNotFound, s') \<and> lockedObjects s' ''web/gone'' = None"
proof -
  let ?a = "alloc_of ''gone'' [] AllocationStatusPending" and ?s = "sys_of web_cluster []"
  have k: "alloc_key ?a = ''web/gone''" by (simp add: obj_key_def demo_objects)
  have "\<exists>s'. run_allocation_task demo demo_clouds (PendingTask ?a) ?s = Some (Some ErrAllocationNotFound, s')"
    by (simp add: run_allocation_task_def processAllocationStatusPending_def with_lock_def
        AcquireAllocationLock_def lock_attempt_def isLocked_def FindAllocationByName_def
        eval_api demo_clusters)
  then obtain s' where t: "run_allocation_task demo demo_clouds (PendingTask ?a) ?s = Some (Some ErrAllocationNotFound, s')" ..
  from goroutines_release_lock [OF demo_ok(1) t, of ?a] have "lockedObjects s' (alloc_key ?a) = None" by simp
  with t show ?thesis unfolding k by blast
qed

text \<open>
  Claim C18. The lock does not exclude: its test and its write are two separate steps, and a
  state with two goroutines inside for the same allocation is reachable. Were they one step
  (\<open>LoadOrStore\<close>), no such state would be.
\<close>

theorem lock_does_not_exclude:
  assumes "i \<noteq> j" and "alloc_key (key i) = alloc_key (key j)"
  shows "(\<exists>s. lock_reachable (lock_step key who) s \<and> lpc s i = LInside \<and> lpc s j = LInside) \<and>
    (\<forall>s. lock_reachable (lock_step_atomic key who) s \<longrightarrow> \<not> (lpc s i = LInside \<and> lpc s j = LInside))"
  using lock_race_run [OF assms(1)] lock_reachable_atomic_inv assms
  unfolding lock_inv_def by meson

theorem lock_does_not_exclude_witness:
  "\<exists>s. lock_reachable (lock_step (\<lambda>_. alloc_of ''a'' [] AllocationStatusSuccess) (\<lambda>_. ''watcher'')) s \<and>
     lpc s 0 = LInside \<and> lpc s 1 = LInside"
  using lock_does_not_exclude [of "0 :: nat" 1 "\<lambda>_. alloc_of ''a'' [] AllocationStatusSuccess" "\<lambda>_. ''watcher''"]
  by simp

text \<open>
  The list of error allocations in processing stays free of duplicates; adding
  inserts exactly the allocation's key, removing takes exactly it out, wherever it stands.
\<close>

lemma backoff_list_spec:
  assumes "distinct dict"
  shows "distinct (AddErrorAllocationToProcessingList a dict) \<and>
    set (AddErrorAllocationToProcessingList a dict) = insert (alloc_key a) (set dict) \<and>
    distinct (RemoveErrorAllocationFromProcessingList a dict) \<and>
    set (RemoveErrorAllocationFromProcessingList a dict) = set dict - {alloc_key a}"
  using AddError_distinct [OF assms] RemoveError_distinct [OF assms]
  by (auto simp: AddErrorAllocationToProcessingList_def isErrorAllocationAlreadyProcessing_def)

text \<open>
  Claim C19. Retrying an allocation in error ends the process when its service now asks for
  the other type of allocation: the reconciliation deletes the object and returns nil for
  it, and the loop reads the status message of that nil.
\<close>

theorem retry_of_retyped_allocation_panics:
  assumes "retry_ok (retry_lock E)" and "lockedObjects s (alloc_key a) = None"
    and "\<not> IsErrorAllocationAlreadyProcessing a s"
    and "IPAllocations_Get E (AGetNamespace a) (AGetName a) (world s) = ((al, None), w1)"
    and "alloc_state al = AllocationStatusError" and "servicesHasSynced E w1"
    and "find_service (AGetNamespace al) (AGetName al) (servicesStore E w1) = (Some sv, None)"
    and "SType sv = ServiceTypeLoadBalancer"
    and "AllocationType (ASpec al) \<noteq> (if ExternalIPs sv = [] then EphemeralIP else PersistentIP)"
    and "IPAllocations_Delete E (AGetNamespace al) (AGetName al) w1 = (None, w2)"
  shows "processAllocationStatusError E C a s = None"
proof -
  let ?s = "s\<lparr>errorAllocationsBackoffDict := AddErrorAllocationToProcessingList a (errorAllocationsBackoffDict s)\<rparr>"
  have "error_attempt E C a ?s = None"
  proof (rule error_attempt_panics [OF assms(1)])
    fix t :: "'a sys" assume w: "world t = world ?s"
    have "FindAllocationByName E (AGetNamespace a) (AGetName a) t = (Inr al, t\<lparr>world := w1\<rparr>)"
      using assms(4) w by (simp add: FindAllocationByName_def onw_def)
    moreover have "reconcile_and_ensure E C al (t\<lparr>world := w1\<rparr>) = Some (Inr None, t\<lparr>world := w2\<rparr>)"
      using assms(6-10) by (simp add: reconcile_and_ensure_def FindService_def ReconcileAllocation_cases
          changeAllocationType_def DeleteAllocationByName_def onw_def)
    ultimately show "\<exists>al t1 t2. FindAllocationByName E (AGetNamespace a) (AGetName a) t = (Inr al, t1) \<and>
      alloc_state al = AllocationStatusError \<and> reconcile_and_ensure E C al t1 = Some (Inr None, t2)"
      using assms(5) by blast
  qed (simp add: assms(2))
  then show ?thesis using assms(3)
    by (simp add: processAllocationStatusError_def OnErrorForever_def forever_condition_def
        ExponentialBackoffWithForeverCap.simps [of _ _ ErrorBackoff])
qed

theorem retry_of_retyped_allocation_panics_witness:
  "processAllocationStatusError demo demo_clouds (alloc_of ''site'' [] AllocationStatusError)
     (sys_of (empty_cluster\<lparr>ClAllocations := [alloc_of ''site'' [] AllocationStatusError],
        ClServices := [lb_service ''site'' []]\<rparr>) []) = None"
proof -
  let ?al = "alloc_of ''site'' [] AllocationStatusError" and ?sv = "lb_service ''site'' []"
  let ?w = "empty_cluster\<lparr>ClAllocations := [?al], ClServices := [?sv]\<rparr>"
  have get: "IPAllocations_Get demo (AGetNamespace ?al) (AGetName ?al) (world (sys_of ?w [])) = ((?al, None), ?w)"
    by (simp add: eval_api demo_clusters)
  have del: "IPAllocations_Delete demo (AGetNamespace ?al) (AGetName ?al) ?w = (None, ?w\<lparr>ClAllocations := []\<rparr>)"
    by (simp add: eval_api demo_clusters)
  show ?thesis
    by (rule retry_of_retyped_allocation_panics [OF demo_ok(1) _ _ get _ _ _ _ _ del, where sv = ?sv])
      (simp_all add: IsErrorAllocationAlreadyProcessing_def isErrorAllocationAlreadyProcessing_def demo_clusters)
qed

text \<open>
  Claim C20. The backoff loop ends. With \<open>ErrorBackoff\<close> the body runs at most 552 times, and
  with at most 551 sleeps in between, each at most 20 percent over five minutes where the
  jitter is as documented, the time slept is below 2.3 days; the result is then the body's
  last error, or nil.
\<close>

theorem OnErrorForever_bounded:
  fixes runs slept :: "'s \<Rightarrow> nat"
  assumes "\<And>s. fn s \<noteq> None" and "\<And>s s'. fn s \<noteq> Some (Some ErrWaitTimeout, s')"
    and "\<And>s r s'. fn s = Some (r, s') \<Longrightarrow> runs s' \<le> runs s + 1 \<and> slept s' \<le> slept s"
    and "\<And>d e t t'. jit d (Jitter ErrorBackoff) t = (e, t') \<Longrightarrow> d \<le> 300000000000 \<Longrightarrow>
      runs (sleep e t') \<le> runs t \<and> slept (sleep e t') \<le> slept t + 360000000000"
  shows "\<exists>r s' s0. OnErrorForever jit sleep ErrorBackoff P fn s = Some (r, s') \<and> fn s0 = Some (r, s') \<and>
    runs s' \<le> runs s + 552 \<and> slept s' \<le> slept s + 551 * 360000000000"
proof -
  obtain r s' where res: "OnErrorForever jit sleep ErrorBackoff P fn s = Some (r, s')"
    using OnErrorForever_total [OF assms(1), where s = s and jit = jit and sleep = sleep and b = ErrorBackoff and P = P] by fastforce
  have "\<exists>s0. fn s0 = Some (r, s')" by (rule OnErrorForever_last [OF res _ assms(2)]) simp
  moreover have "runs s' \<le> runs s + nat (Steps ErrorBackoff) * 1 + (nat (Steps ErrorBackoff) - 1) * 0"
    by (rule OnErrorForever_cost [where fn = fn, OF _ _ res]) (use assms(3,4) in fastforce)+
  moreover have "slept s' \<le> slept s + nat (Steps ErrorBackoff) * 0 + (nat (Steps ErrorBackoff) - 1) * 360000000000"
    by (rule OnErrorForever_cost [where fn = fn, OF _ _ res]) (use assms(3,4) in fastforce)+
  ultimately show ?thesis using res by auto
qed

theorem OnErrorForever_bounded_witness:
  "\<exists>r n t. OnErrorForever (\<lambda>d j s. (d, s)) (\<lambda>d (n, t). (n, t + d)) ErrorBackoff (\<lambda>_. True)
     (\<lambda>(n, t). Some (Some ErrObjectLocked, (Suc n, t))) (0, 0) = Some (r, n, t) \<and>
     r = Some ErrObjectLocked \<and> n \<le> 552 \<and> t \<le> 551 * 360000000000"
proof -
  let ?fn = "\<lambda>(n :: nat, t :: nat). Some (Some ErrObjectLocked, (Suc n, t))"
  obtain r s' s0 where "OnErrorForever (\<lambda>d j s. (d, s)) (\<lambda>d (n, t). (n, t + d)) ErrorBackoff (\<lambda>_. True) ?fn (0, 0) = Some (r, s')"
    and "?fn s0 = Some (r, s')" and "fst s' \<le> 552" and "snd s' \<le> 551 * 360000000000"
    using OnErrorForever_bounded [of ?fn fst snd "\<lambda>d j s. (d, s)" "\<lambda>d (n, t). (n, t + d)" "\<lambda>_. True" "(0, 0)"]
    by force
  then show ?thesis by (cases s'; cases s0) auto
qed



section \<open>Reconciliation and the node of an address\<close>

text \<open>
  Claim C23. A reconciliation hands an allocation back only when the service is a load balancer
  and the allocation has the type its external addresses call for. Where the type differs,
  the one thing it does is the request that deletes the allocation, and it returns nil.
\<close>

theorem ReconcileAllocation_agrees:
  assumes "ReconcileAllocation E C service allocation s = Some ((res, err), s')"
  shows "(SType service = ServiceTypeLoadBalancer \<and>
      AllocationType (ASpec allocation) = (if ExternalIPs service = [] then EphemeralIP else PersistentIP)) \<or>
    res = None \<and> (SType service = ServiceTypeLoadBalancer \<longrightarrow> world s' =
      snd (rest_allocation E (IPAllocations_Delete_request (AGetNamespace allocation) (AGetName allocation)) (world s)))"
proof (cases "SType service = ServiceTypeLoadBalancer")
  case False
  with assms ReconcileAllocation_kept(1) [of E C service allocation s _ err s'] show ?thesis by (cases res) auto
next
  case lb: True
  show ?thesis
  proof (cases "AllocationType (ASpec allocation) = (if ExternalIPs service = [] then EphemeralIP else PersistentIP)")
    case True
    with lb show ?thesis by simp
  next
    case False
    with assms lb have "changeAllocationType E service allocation s = ((res, err), s')"
      by (simp add: ReconcileAllocation_cases del: if_split)
    from changeAllocationType_deletes [OF this] show ?thesis by simp
  qed
qed

theorem ReconcileAllocation_agrees_witness:
  "\<exists>s'. ReconcileAllocation demo demo_clouds (lb_service ''site'' []) (alloc_of ''site'' [] AllocationStatusSuccess)
     (sys_of web_cluster []) = Some ((None, None), s') \<and> ClAllocations (world s') = []"
proof -
  let ?a = "alloc_of ''site'' [] AllocationStatusSuccess" and ?s = "sys_of web_cluster []"
  have "\<exists>res s'. ReconcileAllocation demo demo_clouds (lb_service ''site'' []) ?a ?s = Some ((res, None), s')"
    by (simp add: ReconcileAllocation_cases changeAllocationType_def DeleteAllocationByName_def eval_api demo_clusters)
  then obtain res s' where r: "ReconcileAllocation demo demo_clouds (lb_service ''site'' []) ?a ?s = Some ((res, None), s')" by blast
  have "ClAllocations (snd (demo_rest_allocation (IPAllocations_Delete_request (AGetNamespace ?a) (AGetName ?a)) (world ?s))) = []"
    by (simp add: eval_api demo_clusters)
  with ReconcileAllocation_agrees [OF r] have "res = None" "ClAllocations (world s') = []"
    by (simp_all add: lb_service_def alloc_of_def)
  with r show ?thesis by blast
qed

text \<open>
  Claim C24. Moving an allocation to another node ends the process when the update of the
  object fails: the failed update yields nil, and the error status is set on that nil.
\<close>

theorem ChangeAllocationNode_panics:
  assumes "persistent_change_nodes E (alloc_addresses a) None s = Some ((allocations, allocationErr), s1)"
    and "UpdateAllocation E (set_alloc_addresses allocations a) s1 = Some ((None, Some e), s2)"
  shows "persistent_ChangeAllocationNode E a s = None"
  using assms finish_change_node_panics [of E "set_alloc_addresses allocations a" s1 e s2]
  by (simp add: persistent_ChangeAllocationNode_def)

theorem ChangeAllocationNode_panics_witness:
  "persistent_ChangeAllocationNode demo (alloc_of ''gone'' [] AllocationStatusNodeError) (sys_of empty_cluster []) = None"
proof -
  let ?a = "alloc_of ''gone'' [] AllocationStatusNodeError" and ?s = "sys_of empty_cluster []"
  have c: "persistent_change_nodes demo (alloc_addresses ?a) None ?s = Some (([], None), ?s)"
    by (simp add: demo_objects)
  have "\<exists>e s2. UpdateAllocation demo (set_alloc_addresses [] ?a) ?s = Some ((None, Some e), s2)"
    by (simp add: eval_api demo_objects)
  then obtain e s2 where u: "UpdateAllocation demo (set_alloc_addresses [] ?a) ?s = Some ((None, Some e), s2)" by blast
  show ?thesis by (rule ChangeAllocationNode_panics [OF c u])
qed

section \<open>Events of operators and pools\<close>

text \<open>
  Claim C25. When an operator's node is lost, exactly the cached allocations with an address on
  that node, in the order of the cache, are put in the node-error state with a message
  naming the node, each by one status request; the handler never panics and a failed
  request does not stop it.
\<close>

theorem operatorNodeLost_requests:
  "operatorNodeLost E n s = Some (fold (\<lambda>a s. snd (send_status E a s))
     (map (set_alloc_status AllocationStatusNodeError (''Cluster node '' @ n @ '' lost''))
       [a. IPAllocationObj a \<leftarrow> allocationStore E (world s), \<exists>x \<in> set (alloc_addresses a). NodeName x = n]) s)"
proof -
  have "List.map_filter (on_lost_node n) objs =
      map (set_alloc_status AllocationStatusNodeError (''Cluster node '' @ n @ '' lost''))
        [a. IPAllocationObj a \<leftarrow> objs, \<exists>x \<in> set (alloc_addresses a). NodeName x = n]" for objs
    by (induction objs) (auto simp: List.map_filter_simps split: k8s_obj.split)
  then show ?thesis by (simp add: operatorNodeLost_def lost_allocations_eq)
qed

text \<open>
  Claim C26. A new operator is told to clean up, and the addresses it is told to keep are
  exactly those of the cached allocations on its node, with the interface they are on.
\<close>

theorem newOperatorNode_keeps:
  assumes "newOperatorNode E n s = Some s'"
    and "SearchOperatorByClusterNodeName E n s = Some (Some op)"
  shows "\<exists>keep w err. grpc_dial E (OpAddress op @ '':'' @ OpPort op) (world s) = (None, w) \<and>
    grpc_Cleanup E (OpAddress op @ '':'' @ OpPort op) keep w = (err, world s') \<and>
    (\<forall>i. i \<in> set keep \<longleftrightarrow> (\<exists>a x. IPAllocationObj a \<in> set (allocationStore E (world s)) \<and>
       x \<in> set (alloc_addresses a) \<and> NodeName x = n \<and>
       i = \<lparr>InfoAddress = Address x, InfoInterface = NetworkInterface x\<rparr>))"
proof -
  let ?keep = "addresses_to_keep n (allocationStore E (world s))" and ?t = "OpAddress op @ '':'' @ OpPort op"
  from assms obtain w err where "grpc_dial E ?t (world s) = (None, w)" and "grpc_Cleanup E ?t ?keep w = (err, world s')"
    by (auto simp: newOperatorNode_def DoCleanup_def GrpcClientForNode_def onw_eq Let_def
        elim!: bind_SomeE split: asm_splits)
  then show ?thesis by (intro exI conjI allI) (assumption+, rule addresses_to_keep_iff)
qed

theorem newOperatorNode_keeps_witness:
  "\<exists>s' keep w err. newOperatorNode demo ''node1'' (sys_of web_cluster []) = Some s' \<and>
     grpc_Cleanup demo (''10.0.0.1'' @ '':'' @ itoa OperatorPort) keep w = (err, world s') \<and>
     \<lparr>InfoAddress = ''192.0.2.1'', InfoInterface = ''eth0''\<rparr> \<in> set keep"
proof -
  let ?s = "sys_of web_cluster []" and ?op = "GetNodeFromOperatorPod (ready_pod ''node1'')"
  have t: "OpAddress ?op @ '':'' @ OpPort ?op = ''10.0.0.1'' @ '':'' @ itoa OperatorPort"
    by (simp add: GetNodeFromOperatorPod_def ready_pod_def)
  have o: "SearchOperatorByClusterNodeName demo ''node1'' ?s = Some (Some ?op)"
    by (simp add: SearchOperatorByClusterNodeName_def GetOperatorsList_def GetNodeFromOperatorPod_def demo_clusters)
  have "newOperatorNode demo ''node1'' ?s \<noteq> None"
    by (simp add: newOperatorNode_def DoCleanup_def o GrpcClientForNode_def onw_def)
  then obtain s' where n: "newOperatorNode demo ''node1'' ?s = Some s'" by blast
  from newOperatorNode_keeps [OF n o, unfolded t] obtain keep w err where
    c: "grpc_Cleanup demo (''10.0.0.1'' @ '':'' @ itoa OperatorPort) keep w = (err, world s')"
    and k: "\<forall>i. i \<in> set keep \<longleftrightarrow> (\<exists>a x. IPAllocationObj a \<in> set (allocationStore demo (world ?s)) \<and>
       x \<in> set (alloc_addresses a) \<and> NodeName x = ''node1'' \<and>
       i = \<lparr>InfoAddress = Address x, InfoInterface = NetworkInterface x\<rparr>)" by blast
  have "\<lparr>InfoAddress = ''192.0.2.1'', InfoInterface = ''eth0''\<rparr> \<in> set keep"
    unfolding k [rule_format] by (simp add: demo_clusters)
  with n c show ?thesis by blast
qed



text \<open>
  Where the list of operators has no pod of the named node, ensuring an address on
  that node reports success though no operator was asked to add it: what happens is that
  connections are opened and that operators of other nodes are asked to remove the address.
\<close>

lemma EnsureIPAllocationOnNode_without_operator:
  assumes "EnsureIPAllocationOnNode E n i a s = Some (r, s')"
    and "\<forall>pod. PodObj pod \<in> set (operatorNodesStore E (world s)) \<longrightarrow> PodNodeName pod \<noteq> n"
  shows "r = None \<and> (\<lambda>w w'. \<exists>t. w' = snd (grpc_dial E t w) \<or>
    w' = snd (grpc_RemoveAddress E t \<lparr>InfoAddress = a, InfoInterface = i\<rparr> w))\<^sup>*\<^sup>* (world s) (world s')"
proof -
  let ?step = "\<lambda>w w'. \<exists>t. w' = snd (grpc_dial E t w) \<or>
    w' = snd (grpc_RemoveAddress E t \<lparr>InfoAddress = a, InfoInterface = i\<rparr> w)"
  have pod: "e = None \<and> ?step\<^sup>*\<^sup>* (world s) (world t)"
    if "EnsureIPAllocationOnNode_pod E n i a p s = Some (e, t)" and "PodNodeName p \<noteq> n" for p e s t
  proof -
    from that obtain w where d: "grpc_dial E (PodIP p @ '':'' @ itoa OperatorPort) (world s) = (None, w)"
      and "e = None" and "world t = w \<or> world t = snd (grpc_RemoveAddress E (PodIP p @ '':'' @ itoa OperatorPort)
        \<lparr>InfoAddress = a, InfoInterface = i\<rparr> w)"
      by (auto simp: EnsureIPAllocationOnNode_pod_def GetNodeFromOperatorPod_def GrpcClientForNode_def
          onw_eq Let_def elim!: bind_SomeE split: asm_splits)
    moreover from d have "?step (world s) w" by (metis snd_conv)
    then have "?step\<^sup>*\<^sup>* (world s) w" by (rule r_into_rtranclp)
    ultimately show ?thesis by (auto intro: rtranclp.rtrancl_into_rtrancl)
  qed
  have "r = None \<and> ?step\<^sup>*\<^sup>* (world s) (world s')"
    if "EnsureIPAllocationOnNode_loop E n i a objs s = Some (r, s')"
      and "\<forall>pod. PodObj pod \<in> set objs \<longrightarrow> PodNodeName pod \<noteq> n" for objs s
    using that
  proof (induction objs arbitrary: s)
    case Nil
    then show ?case by simp
  next
    case (Cons obj objs)
    show ?case
    proof (cases obj)
      case (PodObj p)
      with Cons.prems obtain e t where p: "EnsureIPAllocationOnNode_pod E n i a p s = Some (e, t)"
        by (auto split: option.split_asm)
      from pod [OF p] Cons.prems(2) PodObj have e: "e = None" and st: "?step\<^sup>*\<^sup>* (world s) (world t)" by auto
      from Cons.prems(1) PodObj p e have "EnsureIPAllocationOnNode_loop E n i a objs t = Some (r, s')" by simp
      from Cons.IH [OF this] Cons.prems(2) have "r = None" "?step\<^sup>*\<^sup>* (world t) (world s')" by auto
      with rtranclp_trans [OF st] show ?thesis by blast
    qed (use Cons in simp_all)
  qed
  with assms show ?thesis
    by (auto simp: EnsureIPAllocationOnNode_def GetOperatorsList_def elim!: bind_SomeE split: if_split_asm)
qed

text \<open>
  The random operator that is chosen is one of the cached pods, and it is ready.
\<close>

lemma GetRandomOperatorNode_is_ready:
  assumes "retry_ok (retry_pod E)" and "intn_ok E"
    and "GetRandomOperatorNode E s = Some ((Some op, err), s')"
  shows "err = None \<and> (\<exists>pod w. op = GetNodeFromOperatorPod pod \<and> IsPodReady pod \<and>
    PodObj pod \<in> set (operatorNodesStore E w))"
  using assms by (rule GetRandomOperatorNode_ready)





text \<open>
  Claim C30. An event of the operator pods is turned into the right notification, once: a pod
  that appears ready or becomes ready is announced as a new operator, one that disappears or
  ceases to be ready as lost, and nothing else is announced.
\<close>

theorem operator_nodes_notifications:
  assumes "operator_nodes_handler E ev s = Some s'" and "operator_inv s"
  shows "operator_inv s' \<and> bus s' = bus s @
    (case ev of
       AddEv (PodObj pod) \<Rightarrow> if IsPodReady pod then [NewOperatorNodeEv (PodNodeName pod)] else []
     | DeleteEv (PodObj pod) \<Rightarrow> [OperatorNodeLostEv (PodNodeName pod)]
     | UpdateEv (PodObj old) (PodObj new) \<Rightarrow>
         if IsPodReady new \<and> \<not> IsPodReady old then [NewOperatorNodeEv (PodNodeName new)]
         else if IsPodReady old \<and> \<not> IsPodReady new then [OperatorNodeLostEv (PodNodeName old)]
         else []
     | _ \<Rightarrow> [])"
  using operator_nodes_handler_bus [OF assms] operator_nodes_handler_inv [OF assms] by blast

theorem operator_nodes_notifications_witness:
  "\<exists>s'. operator_nodes_handler demo (DeleteEv (PodObj (ready_pod ''node1''))) (sys_of web_cluster []) = Some s' \<and>
     bus s' = [OperatorNodeLostEv ''node1'']"
proof -
  let ?ev = "DeleteEv (PodObj (ready_pod ''node1''))" and ?s = "sys_of web_cluster []"
  have "\<exists>s'. operator_nodes_handler demo ?ev ?s = Some s'"
    by (simp add: operatorNodeLost_pod_def checkIfOperatorIsStillRequiredOrDie_def GetOperatorsCount_def GetOperatorsList_def demo_clusters)
  then obtain s' where h: "operator_nodes_handler demo ?ev ?s = Some s'" by blast
  have i: "operator_inv ?s" by (simp add: operator_inv_def sys_of_def)
  from operator_nodes_notifications [OF h i] h show ?thesis by (auto simp: sys_of_def ready_pod_def)
qed

text \<open>
  Updating an outdated daemon set takes one update: the merged definition passes
  the check for being up to date, and keeps the resource version of the object it replaces
  so that the API can detect a conflicting write.
\<close>

lemma merged_operator_is_updated:
  assumes "mergeOperatorsDefinitions E old = Some ds"
  shows "checkIfOperatorIsUpdated E ds = Some True \<and>
    ResourceVersion (DSMeta ds) = ResourceVersion (DSMeta old)"
  using assms by (rule merge_updated)

text \<open>
  The health port survives the way to the operator: the number the controller
  writes into the container's environment is the container port of the probes, and reading
  the variable as the operator does gives the same number back.
\<close>

lemma health_port_roundtrip:
  assumes "getDaemonsetSetDefinition E = Some ds"
  shows "\<exists>c p. Containers ds = [c] \<and> HealthPort (getenv E) = Some p \<and>
    map PortNumber (Ports c) = [p, int OperatorPort] \<and>
    \<lparr>EnvName = ''HEALTH_PORT'', EnvVal = Literal (itoa_int p)\<rparr> \<in> set (EnvVars c) \<and>
    HealthPort (\<lambda>v. if v = ''HEALTH_PORT'' then itoa_int p else getenv E v) = Some p"
proof -
  obtain c p where "Containers ds = [c]" and p: "HealthPort (getenv E) = Some p"
    and "map PortNumber (Ports c) = [p, int OperatorPort]"
    and "\<lparr>EnvName = ''HEALTH_PORT'', EnvVal = Literal (itoa_int p)\<rparr> \<in> set (EnvVars c)"
    and rt: "ParseInt 32 (itoa_int p) = Some p"
    by (rule getDaemonset_ports [OF assms])
  moreover from rt have "itoa_int p \<noteq> []" by (auto simp: ParseInt_def parse_uint_def)
  with rt have "HealthPort (\<lambda>v. if v = ''HEALTH_PORT'' then itoa_int p else getenv E v) = Some p"
    by (simp add: HealthPort_def)
  ultimately show ?thesis by (intro exI conjI)
qed



section \<open>Custom resource definitions\<close>

text \<open>
  Deploying a custom resource definition returns nil only after the API has shown
  it established (or its names refused, which the condition takes for ready as well).
\<close>

lemma CreateOrUpdateCRD_waits:
  assumes "poll_ok E" and "CreateOrUpdateCRD E n crd w = (None, w')"
  shows "\<exists>w0 c m. crd_get E m w0 = (Inr c, w') \<and> (\<exists>cond \<in> set (CRDConditions c).
    (CRDCondType cond = ''Established'' \<and> CRDCondStatus cond = ''True'') \<or>
    (CRDCondType cond = ''NamesAccepted'' \<and> CRDCondStatus cond = ''False''))"
  using CreateOrUpdateCRD_ok [OF assms] by (simp add: crdReady_iff)


section \<open>Clouds\<close>

text \<open>
  When \<open>AssignIPToServer\<close> returns nil the floating IP with exactly that address
  has been assigned to the server with exactly that name: three API calls, in this order, and
  the last one answered 200 or 201.
\<close>

lemma AssignIPToServer_assigns:
  assumes "hetzner_AssignIPToServer E token address serverName s = Some (None, s')"
  shows "\<exists>ips servers ip server res w1 w2.
    hcloud_floating_ips E token (world s) = (Inr ips, w1) \<and> ip \<in> set ips \<and> HIPAddress ip = address \<and>
    hcloud_servers E token serverName w1 = (Inr servers, w2) \<and> server \<in> set servers \<and>
    HServerName server = serverName \<and>
    hcloud_assign E token ip server w2 = (Inr res, world s') \<and> (StatusCode res = 200 \<or> StatusCode res = 201)"
  using assms by (rule AssignIPToServer_ok)

text \<open>
  Claim C33. The report on the rate limit never warns: for every positive limit that does not
  overflow, however few requests remain, it is logged at the level of information, because
  the quota is computed from the limit and not from the remaining requests.
\<close>

theorem rate_limit_never_warns:
  assumes "0 < Atoi_value (HHeader res ''RateLimit-Limit'')"
    and "Atoi_value (HHeader res ''RateLimit-Limit'') * 100 < 2 ^ 63"
    and "printRateLimit res = Some (Some l)"
  shows "l \<le> LogInfo"
  using assms by (rule printRateLimit_never_warns)

theorem rate_limit_never_warns_witness:
  "\<exists>l. printRateLimit (demo_response\<lparr>HHeader := (\<lambda>h. if h = ''RateLimit-Remaining'' then ''0'' else ''3600'')\<rparr>) = Some (Some l) \<and>
     l \<le> LogInfo"
proof -
  let ?r = "demo_response\<lparr>HHeader := (\<lambda>h. if h = ''RateLimit-Remaining'' then ''0'' else ''3600'')\<rparr>"
  have n: "ParseInt 64 ''3600'' = Some 3600"
    by (simp add: ParseInt_def parse_uint_def is_digit_def dec_val_def digit_val_def)
  have v: "Atoi_value (HHeader ?r ''RateLimit-Limit'') = 3600"
    by (simp add: Atoi_value_def parse_uint_def is_digit_def dec_val_def digit_val_def)
  have lt: "Atoi_value (HHeader ?r ''RateLimit-Limit'') * 100 < 2 ^ 63" unfolding v by simp
  have pos: "0 < Atoi_value (HHeader ?r ''RateLimit-Limit'')" unfolding v by simp
  from printRateLimit_level [OF pos lt] obtain l where p: "printRateLimit ?r = Some (Some l)" by (auto simp: n)
  from rate_limit_never_warns [OF pos lt p] p show ?thesis by blast
qed

section \<open>The operator on a node\<close>

text \<open>
  Claim C34. A cleanup that succeeds leaves the node with the addresses it was told to keep
  as its list, each present on its interface, and takes from the interfaces only addresses
  that carry the program's label and are not to be kept: foreign addresses are safe.
\<close>

theorem observer_Cleanup_exact:
  assumes "netlink_ok NL view" and "observer_Cleanup NL keep n = (None, n')"
  shows "assignedAddressesList n' = keep \<and>
    (\<forall>info \<in> set keep. dotted_quad (InfoAddress info) \<longrightarrow> holds view (nworld n') info) \<and>
    (\<forall>i a. a \<in> set (view (nworld n) i) - set (view (nworld n') i) \<longrightarrow> ours_unkept keep i a)"
proof -
  from assms(2) obtain w where c: "network_Cleanup NL keep (nworld n) = (None, w)"
    and r: "restore_missing NL keep w = (None, nworld n')"
    by (auto simp: observer_Cleanup_def Let_def split: prod.split_asm if_split_asm)
  have "ours_unkept keep i a" if "a \<in> set (view (nworld n) i)" "a \<notin> set (view (nworld n') i)" for i a
    using network_Cleanup_only [OF assms(1) c that(1)] restore_missing_mono [OF assms(1) r] that(2) by blast
  with observer_Cleanup_holds [OF assms] show ?thesis by blast
qed

theorem observer_Cleanup_exact_witness:
  "\<exists>n'. observer_Cleanup (demo_netlink [''eth0'']) [info_on ''192.0.2.1'']
      \<lparr>nworld = eth0_with [\<lparr>AddrIP = ''192.0.2.7'', AddrLabel = ''eth0:pllb''\<rparr>, \<lparr>AddrIP = ''10.0.0.1'', AddrLabel = ''eth0''\<rparr>],
       assignedAddressesList = []\<rparr> = (None, n') \<and>
    assignedAddressesList n' = [info_on ''192.0.2.1''] \<and>
    holds (\<lambda>w. w) (nworld n') (info_on ''192.0.2.1'') \<and>
    \<lparr>AddrIP = ''10.0.0.1'', AddrLabel = ''eth0''\<rparr> \<in> set (nworld n' ''eth0'')"
proof -
  let ?NL = "demo_netlink [''eth0'']" and ?own = "\<lparr>AddrIP = ''10.0.0.1'', AddrLabel = ''eth0''\<rparr>"
  let ?n = "\<lparr>nworld = eth0_with [\<lparr>AddrIP = ''192.0.2.7'', AddrLabel = ''eth0:pllb''\<rparr>, ?own], assignedAddressesList = []\<rparr>"
  have up: "fst (network_AddAddress ?NL i x w) = None" for i x w
    using network_AddAddress_up [OF demo_netlink_up, of "[''eth0'']" i x w] by (metis prod.collapse)
  have "fst (observer_Cleanup ?NL [info_on ''192.0.2.1''] ?n) = None"
    using up by (simp add: observer_Cleanup_def network_Cleanup_def split_beta)
  then obtain n' where c: "observer_Cleanup ?NL [info_on ''192.0.2.1''] ?n = (None, n')" by (metis prod.collapse)
  have "?own \<in> set (nworld ?n ''eth0'')" and "\<not> ours_unkept [info_on ''192.0.2.1''] ''eth0'' ?own"
    by (simp_all add: eth0_with_def ours_unkept_def)
  with observer_Cleanup_exact [OF demo_netlink_ok c] c show ?thesis
    by (simp add: info_on_def) blast
qed

text \<open>
  After the node has handled a change of its addresses in time, every address of
  its list is on its interface, even where somebody had removed it, as long as netlink
  answers; no address is taken away.
\<close>

lemma processAddressUpdate_restores:
  assumes "netlink_ok NL view" and "netlink_up NL"
    and "processAddressUpdate NL timeout n = Some n'" and "info \<in> set (assignedAddressesList n)"
    and "dotted_quad (InfoAddress info)"
  shows "holds view (nworld n') info \<and> assignedAddressesList n' = assignedAddressesList n \<and>
    (\<forall>i. set (view (nworld n) i) \<subseteq> set (view (nworld n') i))"
  using assms(3) check_assigned_holds [OF assms(1,2,4,5)] check_assigned_mono [OF assms(1)]
  by (auto simp: processAddressUpdate_def subset_iff split: if_split_asm)





text \<open>
  Claim C37. An address can move to another pool (the pools are edited) while the pool it was
  given out from has no free address left. Releasing it under the old pool's name then makes
  a second availability entry with the name of the new pool, and the next use of it removes
  the first entry instead: every free address of the new pool is lost.
\<close>

theorem release_of_moved_address_loses_pool:
  assumes "availability_wf aps" and "searchAvailabilityPoolByName old aps = None"
    and "GetPoolOfAddress store ns a = Some b" and "i < length aps" and "PGetName (aps ! i) = PGetName b"
    and "\<forall>p \<in> set aps. a \<notin> set (pool_addresses p)"
  shows "\<exists>pool aps'. UseIP ns a (ReleaseIP store old ns a aps) = (Inr pool, aps') \<and>
    free_ips aps' = free_ips aps - pool_entries (aps ! i)"
proof -
  have "free_ips (aps[i := set_pool_addresses [] b]) = free_ips aps - pool_entries (aps ! i)"
    using free_ips_rest_other [OF assms(1,4)]
    by (auto simp: free_ips_update [OF assms(4)] free_ips_split [OF assms(4)] pool_entries_def)
  with release_moved [OF assms] show ?thesis by simp
qed

theorem release_of_moved_address_loses_pool_witness:
  "\<exists>pool aps'. UseIP ''web'' ''192.0.2.9'' (ReleaseIP [PersistentIPPoolObj (plain_pool ''p''
       [''192.0.2.1'', ''192.0.2.2'', ''192.0.2.9''])] ''old'' ''web'' ''192.0.2.9'' [two_ips]) = (Inr pool, aps') \<and>
     free_ips [two_ips] \<noteq> {} \<and> free_ips aps' = {}"
proof -
  let ?b = "plain_pool ''p'' [''192.0.2.1'', ''192.0.2.2'', ''192.0.2.9'']"
  have "\<exists>pool aps'. UseIP ''web'' ''192.0.2.9'' (ReleaseIP [PersistentIPPoolObj ?b] ''old'' ''web'' ''192.0.2.9'' [two_ips])
      = (Inr pool, aps') \<and> free_ips aps' = free_ips [two_ips] - pool_entries ([two_ips] ! 0)"
    by (rule release_of_moved_address_loses_pool [where b = ?b])
      (simp_all add: availability_wf_def eval_pools demo_clusters)
  then show ?thesis by (auto simp: pool_entries_def demo_clusters)
qed

section \<open>Copies and generated clients\<close>

text \<open>
  Claim C38. The deep copy of an allocation has the same value and shares no memory with it: a later write
  through either of them, such as the change of a node by the controller, leaves the other
  as it is. (Copies of metadata, which are apimachinery's, do the same.)
\<close>

theorem IPAllocation_DeepCopy_independent:
  assumes "metadata_copied mc" and "heap_ok h"
    and "view_ptr un_IPAllocation view_IPAllocation h (Some p) = Some (Some v, F)"
  shows "\<exists>q h' F'. IPAllocation_DeepCopy mc (Some p) h = Some (Some q, h') \<and> heap_ok h'
    \<and> view_ptr un_IPAllocation view_IPAllocation h' (Some q) = Some (Some v, F') \<and> F \<inter> F' = {}
    \<and> (\<forall>i nodeName netInterface g. set_address_node i nodeName netInterface (Some q) h' = Some g \<longrightarrow>
         view_ptr un_IPAllocation view_IPAllocation g (Some p) = Some (Some v, F))
    \<and> (\<forall>g. (\<forall>r. r \<notin> F' \<longrightarrow> Cells g r = Cells h' r) \<longrightarrow>
         view_ptr un_IPAllocation view_IPAllocation g (Some p) = Some (Some v, F))
    \<and> (\<forall>g. (\<forall>r. r \<notin> F \<longrightarrow> Cells g r = Cells h' r) \<longrightarrow>
         view_ptr un_IPAllocation view_IPAllocation g (Some q) = Some (Some v, F'))"
proof -
  obtain q' h' F' where c: "IPAllocation_DeepCopy mc (Some p) h = Some (q', h')" and h': "heap_ok h'"
    and v': "view_ptr un_IPAllocation view_IPAllocation h' q' = Some (Some v, F')" and "F \<inter> F' = {}"
    and o: "\<forall>g. (\<forall>r. r \<notin> F' \<longrightarrow> Cells g r = Cells h' r) \<longrightarrow>
         view_ptr un_IPAllocation view_IPAllocation g (Some p) = Some (Some v, F)"
    and "\<forall>g. (\<forall>r. r \<notin> F \<longrightarrow> Cells g r = Cells h' r) \<longrightarrow>
         view_ptr un_IPAllocation view_IPAllocation g q' = Some (Some v, F')"
    using deep_copy.independent [OF DeepCopy_copies(3) [OF assms(1)] assms(2,3)] by blast
  moreover obtain q where q: "q' = Some q"
    using c by (auto simp: IPAllocation_DeepCopy_def dest: copy_ptr_Some)
  moreover have "view_ptr un_IPAllocation view_IPAllocation g (Some p) = Some (Some v, F)"
    if "set_address_node i nodeName netInterface (Some q) h' = Some g" for i nodeName netInterface g
    using o set_address_node_frame [OF v' [unfolded q] that] by blast
  ultimately show ?thesis by blast
qed

theorem IPAllocation_DeepCopy_independent_witness:
  "\<exists>q h' F'. IPAllocation_DeepCopy demo_copiers (Some 3) demo_heap = Some (Some q, h') \<and>
     view_ptr un_IPAllocation view_IPAllocation h' (Some q) = Some (Some demo_allocation_val, F') \<and> 3 \<notin> F'"
proof -
  from IPAllocation_DeepCopy_independent [OF demo_copiers_ok demo_heap_ok demo_heap_view] show ?thesis by blast
qed



text \<open>
  The fake client of allocations, on which the controller is tested, asks its tracker for what the
  real client asks the API: each of its nine actions stands for the same request.
\<close>

lemma fake_clients_send_the_same:
  "action_request (FakeIPAllocations_Get_action ns name) = request_as FIPAllocation (IPAllocations_Get_request ns name) \<and>
   action_request (FakeIPAllocations_List_action ns opts) =
     request_as FIPAllocation (IPAllocations_List_request ns (TimeoutSeconds opts)) \<and>
   action_request (FakeIPAllocations_Watch_action ns opts) =
     request_as FIPAllocation (IPAllocations_Watch_request ns (TimeoutSeconds opts)) \<and>
   action_request (FakeIPAllocations_Create_action ns obj) = request_as FIPAllocation (IPAllocations_Create_request ns obj) \<and>
   action_request (FakeIPAllocations_Update_action ns obj) = request_as FIPAllocation (IPAllocations_Update_request ns obj) \<and>
   action_request (FakeIPAllocations_UpdateStatus_action ns obj) =
     request_as FIPAllocation (IPAllocations_UpdateStatus_request ns obj) \<and>
   action_request (FakeIPAllocations_Delete_action ns name) = request_as FIPAllocation (IPAllocations_Delete_request ns name) \<and>
   action_request (FakeIPAllocations_DeleteCollection_action ns opts) =
     request_as FIPAllocation (IPAllocations_DeleteCollection_request ns (TimeoutSeconds opts)) \<and>
   action_request (FakeIPAllocations_Patch_action ns name pt data subs) =
     request_as FIPAllocation (IPAllocations_Patch_request ns name pt data subs)"
  by (intro conjI FakeIPAllocations_requests)

text \<open>
  Claim C40. A call of an operator that succeeds has run the method of its name, once, on the message that
  was sent, and returns what it returned; the handlers and stubs do not cross. (The transport
  is supposed to deliver to the handler the table of the service has under the name.)
\<close>

theorem operator_calls_run_their_method:
  assumes "delivers Invoke PlenusLb_serviceDesc (operator_server NL me) peer"
  shows "(\<forall>x w r w'. plenusLbClient_AddAddress Invoke x w = Some (Inr r, w') \<longrightarrow>
      server_AddAddress NL me x (peer w) = (Inr r, peer w')) \<and>
    (\<forall>x w r w'. plenusLbClient_RemoveAddress Invoke x w = Some (Inr r, w') \<longrightarrow>
      server_RemoveAddress NL me x (peer w) = (Inr r, peer w')) \<and>
    (\<forall>x w r w'. plenusLbClient_Cleanup Invoke x w = Some (Inr r, w') \<longrightarrow>
      server_Cleanup NL x (peer w) = (Inr r, peer w')) \<and>
    (\<forall>x w r w'. plenusLbClient_HealthProbe Invoke x w = Some (Inr r, w') \<longrightarrow> r = ''PONG'' \<and> peer w' = peer w)"
proof (intro conjI allI impI)
  show "server_AddAddress NL me x (peer w) = (Inr r, peer w')" if "plenusLbClient_AddAddress Invoke x w = Some (Inr r, w')" for x w r w'
    using AddAddress_call [OF assms that] by (simp add: operator_server_def)
  show "server_RemoveAddress NL me x (peer w) = (Inr r, peer w')" if "plenusLbClient_RemoveAddress Invoke x w = Some (Inr r, w')" for x w r w'
    using RemoveAddress_call [OF assms that] by (simp add: operator_server_def)
  show "server_Cleanup NL x (peer w) = (Inr r, peer w')" if "plenusLbClient_Cleanup Invoke x w = Some (Inr r, w')" for x w r w'
    using Cleanup_call [OF assms that] by (simp add: operator_server_def)
  show "r = ''PONG''" "peer w' = peer w" if "plenusLbClient_HealthProbe Invoke x w = Some (Inr r, w')" for x w r w'
    using HealthProbe_call [OF assms that] by (simp_all add: operator_server_def HealthProbe_def)
qed

theorem operator_calls_run_their_method_witness:
  "\<exists>r n'. plenusLbClient_AddAddress (direct_Invoke (operator_server (demo_netlink [''eth0'']) ''node1'')) (info_on ''192.0.2.1'')
      \<lparr>nworld = eth0_with [], assignedAddressesList = []\<rparr> = Some (Inr r, n') \<and>
    server_AddAddress (demo_netlink [''eth0'']) ''node1'' (info_on ''192.0.2.1'')
      \<lparr>nworld = eth0_with [], assignedAddressesList = []\<rparr> = (Inr r, n')"
proof -
  let ?srv = "operator_server (demo_netlink [''eth0'']) ''node1''"
  let ?n = "\<lparr>nworld = eth0_with [], assignedAddressesList = []\<rparr>"
  obtain q n1 where "server_AddAddress (demo_netlink [''eth0'']) ''node1'' (info_on ''192.0.2.1'') ?n = (Inr q, n1)"
    using demo_server_up by blast
  then obtain r n' where c: "plenusLbClient_AddAddress (direct_Invoke ?srv) (info_on ''192.0.2.1'') ?n = Some (Inr r, n')"
    by (auto simp: plenusLbClient_AddAddress_def direct_Invoke_def PlenusLb_serviceDesc_def PlenusLb_AddAddress_Handler_def
        decoder_of_def operator_server_def Let_def)
  with operator_calls_run_their_method [OF direct_delivers [of ?srv]] show ?thesis by blast
qed

end
